(* ===== verification/Prelude.thy ===== *)
theory Prelude
  imports Main "HOL-Library.Word" "HOL-Library.Sublist" "HOL-Library.AList"
begin

text \<open>
  Shared vocabulary of the development: the machine integers of the eBPF programs, byte
  buffers with C-string conventions, the bounded \<open>for\<close> loop every in-kernel scan is written
  with, and the lemmas on them that the component theories use through the collections
  \<open>buf_simps\<close> and \<open>loop_simps\<close>.
\<close>

unbundle bit_operations_syntax

named_theorems buf_simps \<open>lengths and contents of fixed-size byte buffers\<close>
named_theorems loop_simps \<open>closed forms of bounded loops\<close>

type_synonym u8 = "8 word"
type_synonym u16 = "16 word"
type_synonym u32 = "32 word"
type_synonym u64 = "64 word"

text \<open>A block of memory, a C character array or a Go byte string.\<close>

type_synonym bytes = "u8 list"

text \<open>The byte of the path separator.\<close>

abbreviation SLASH :: u8 where
  "SLASH \<equiv> 0x2f"

lemma unat_and_mask8: "unat ((x :: u32) AND 0xff) = unat x mod 256"
proof -
  have "x AND 0xff = take_bit 8 x"
    by (simp add: take_bit_eq_mask mask_eq_exp_minus_1)
  then show ?thesis
    by (simp add: unsigned_take_bit_eq take_bit_eq_mod unat_mod)
qed

lemma unat_and_mask6: "unat ((x :: u32) AND 0x3f) = unat x mod 64"
proof -
  have "x AND 0x3f = take_bit 6 x"
    by (simp add: take_bit_eq_mask mask_eq_exp_minus_1)
  then show ?thesis
    by (simp add: unsigned_take_bit_eq take_bit_eq_mod unat_mod)
qed

section \<open>Bounded loops\<close>

text \<open>
  A C loop \<open>for (i = 0; i < n; i++) body\<close> over an unsigned 32-bit counter whose body may
  \<open>continue\<close>, \<open>break\<close> or \<open>return r\<close>. The result is \<open>Some r\<close> when the body returned and
  \<open>None\<close> when the loop ended by its bound or by \<open>break\<close>.
\<close>

datatype 'r ctl = Continue | Break | Return 'r

fun for_u32 :: "nat \<Rightarrow> u32 \<Rightarrow> (u32 \<Rightarrow> 'r ctl) \<Rightarrow> 'r option" where
  "for_u32 0 i body = None"
| "for_u32 (Suc n) i body =
     (case body i of
        Continue \<Rightarrow> for_u32 n (i + 1) body
      | Break \<Rightarrow> None
      | Return r \<Rightarrow> Some r)"

lemma for_u32_numeral:
  "for_u32 (numeral k) i body =
     (case body i of
        Continue \<Rightarrow> for_u32 (pred_numeral k) (i + 1) body
      | Break \<Rightarrow> None
      | Return r \<Rightarrow> Some r)"
  by (simp add: numeral_eq_Suc)

text \<open>A loop that checks one position per iteration and stops at position \<open>m\<close>.\<close>

lemma for_u32_check:
  assumes "m \<le> k + n" and "k + n < 2 ^ 32"
  shows "for_u32 n (of_nat k)
           (\<lambda>i. if of_nat m \<le> i then Break else if Q i then Return r else Continue) =
         (if \<exists>j. k \<le> j \<and> j < m \<and> Q (of_nat j) then Some r else None)"
  using assms
proof (induction n arbitrary: k)
  case 0
  then show ?case by auto
next
  case (Suc n)
  have k: "unat (of_nat k :: u32) = k" and le: "(of_nat m :: u32) \<le> of_nat k \<longleftrightarrow> m \<le> k"
    using Suc.prems by (auto simp: unat_of_nat word_le_nat_alt)
  have nxt: "(of_nat k :: u32) + 1 = of_nat (Suc k)" by simp
  have IH: "for_u32 n (of_nat (Suc k))
           (\<lambda>i. if of_nat m \<le> i then Break else if Q i then Return r else Continue) =
         (if \<exists>j. Suc k \<le> j \<and> j < m \<and> Q (of_nat j) then Some r else None)" if "\<not> m \<le> k"
    using Suc.IH [of "Suc k"] Suc.prems that by simp
  show ?case
  proof (cases "m \<le> k")
    case True
    with le show ?thesis by auto
  next
    case False
    have ex: "(\<exists>j. k \<le> j \<and> j < m \<and> Q (of_nat j)) \<longleftrightarrow> Q (of_nat k) \<or> (\<exists>j. Suc k \<le> j \<and> j < m \<and> Q (of_nat j))"
      using False by (metis le_eq_less_or_eq not_le Suc_leI Suc_le_lessD)
    show ?thesis
      using False IH [OF False] unfolding for_u32.simps nxt ex by (auto simp add: le k simp del: of_nat_Suc)
  qed
qed

lemma for_u32_all [loop_simps]:
  assumes "unat m \<le> n" and "n < 2 ^ 32"
    and "\<And>j. j < unat m \<Longrightarrow> Q (of_nat j) \<longleftrightarrow> R j"
  shows "for_u32 n 0 (\<lambda>i. if m \<le> i then Break else if Q i then Return r else Continue) =
         (if \<exists>j < unat m. R j then Some r else None)"
  using for_u32_check [of "unat m" 0 n Q r] assms by auto

text \<open>
  A scan over the slots of an array map: \<open>slot i\<close> is the looked-up entry (\<open>None\<close> for a null
  pointer), \<open>P\<close> selects the entries that end the scan.
\<close>

lemma for_u32_scan:
  assumes "k + n < 2 ^ 32"
  shows "for_u32 n (of_nat k)
           (\<lambda>i. case (if unat i < length xs then Some (xs ! unat i) else None) of
                  None \<Rightarrow> Continue
                | Some e \<Rightarrow> if P e then Return (g e) else Continue) =
         map_option g (find P (take n (drop k xs)))"
  using assms
proof (induction n arbitrary: k)
  case 0
  then show ?case by simp
next
  case (Suc n)
  have k: "unat (of_nat k :: u32) = k"
    using Suc.prems by (simp add: unat_of_nat)
  have nxt: "(of_nat k :: u32) + 1 = of_nat (Suc k)" by simp
  have IH: "for_u32 n (of_nat (Suc k))
           (\<lambda>i. case (if unat i < length xs then Some (xs ! unat i) else None) of
                  None \<Rightarrow> Continue
                | Some e \<Rightarrow> if P e then Return (g e) else Continue) =
         map_option g (find P (take n (drop (Suc k) xs)))"
    using Suc.IH [of "Suc k"] Suc.prems by simp
  show ?case
  proof (cases "k < length xs")
    case True
    then have "drop k xs = xs ! k # drop (Suc k) xs"
      by (rule Cons_nth_drop_Suc [symmetric])
    with True IH show ?thesis
      unfolding for_u32.simps nxt by (simp add: k del: of_nat_Suc)
  next
    case False
    with IH show ?thesis
      unfolding for_u32.simps nxt by (simp add: k del: of_nat_Suc)
  qed
qed

lemma for_u32_scan0:
  assumes "n < 2 ^ 32"
  shows "for_u32 n 0
           (\<lambda>i. case (if unat i < length xs then Some (xs ! unat i) else None) of
                  None \<Rightarrow> Continue
                | Some e \<Rightarrow> if P e then Return (g e) else Continue) =
         map_option g (find P (take n xs))"
  using for_u32_scan [where k = 0 and n = n and xs = xs and P = P and g = g] assms by simp

section \<open>Byte buffers\<close>

text \<open>\<open>__builtin_memset(p, 0, n)\<close> on a whole array of \<open>n\<close> bytes.\<close>

definition zeros :: "nat \<Rightarrow> bytes" where
  "zeros n = replicate n 0"

lemma length_zeros [buf_simps, simp]: "length (zeros n) = n"
  by (simp add: zeros_def)

text \<open>Storing a run of bytes at an offset of a buffer.\<close>

definition buf_write :: "nat \<Rightarrow> bytes \<Rightarrow> bytes \<Rightarrow> bytes" where
  "buf_write off bs buf = take off buf @ bs @ drop (off + length bs) buf"

lemma length_buf_write [buf_simps]:
  "off + length bs \<le> length buf \<Longrightarrow> length (buf_write off bs buf) = length buf"
  by (simp add: buf_write_def)

lemma take_buf_write_end:
  "off \<le> length buf \<Longrightarrow> take (off + length bs) (buf_write off bs buf) = take off buf @ bs"
  by (simp add: buf_write_def)

lemma drop_buf_write_end:
  "off \<le> length buf \<Longrightarrow> drop (off + length bs) (buf_write off bs buf) = drop (off + length bs) buf"
  by (simp add: buf_write_def)

lemma buf_write_0 [buf_simps]: "buf_write 0 bs buf = bs @ drop (length bs) buf"
  by (simp add: buf_write_def)

text \<open>The C string a buffer holds: the bytes before the first NUL.\<close>

definition cstr :: "bytes \<Rightarrow> bytes" where
  "cstr bs = takeWhile (\<lambda>b. b \<noteq> 0) bs"

lemma cstr_append_NUL [buf_simps]: "0 \<notin> set s \<Longrightarrow> cstr (s @ 0 # rest) = s"
  unfolding cstr_def by (auto simp: takeWhile_tail)

lemma cstr_no_NUL [buf_simps]: "0 \<notin> set (cstr bs)"
  unfolding cstr_def by (auto dest: set_takeWhileD)

lemma cstr_cstr [buf_simps]: "cstr (cstr bs) = cstr bs"
  unfolding cstr_def by (metis (mono_tags, lifting) set_takeWhileD takeWhile_eq_all_conv)

section \<open>Error returns\<close>

text \<open>The pattern \<open>x, err := m; if err != nil { return err }\<close> of Go, with errors as left values.\<close>

definition and_then :: "'e + 'a \<Rightarrow> ('a \<Rightarrow> 'e + 'b) \<Rightarrow> 'e + 'b" where
  "and_then m f = (case m of Inl e \<Rightarrow> Inl e | Inr x \<Rightarrow> f x)"

lemma and_then_simps [simp]: "and_then (Inl e) f = Inl e" "and_then (Inr x) f = f x"
  by (simp_all add: and_then_def)

lemma and_then_cong [fundef_cong]:
  "m = m' \<Longrightarrow> (\<And>x. m' = Inr x \<Longrightarrow> f x = f' x) \<Longrightarrow> and_then m f = and_then m' f'"
  by (auto simp: and_then_def split: sum.splits)

lemma and_then_Inr_iff: "and_then m f = Inr y \<longleftrightarrow> (\<exists>x. m = Inr x \<and> f x = Inr y)"
  by (auto simp: and_then_def split: sum.splits)

lemma find_append: "find P (xs @ ys) = (case find P xs of Some x \<Rightarrow> Some x | None \<Rightarrow> find P ys)"
  by (induction xs) auto

lemma find_const:
  "\<forall>x \<in> set xs. f x = c \<Longrightarrow> map_option f (find P xs) = (if \<exists>x \<in> set xs. P x then Some c else None)"
  by (induction xs) (auto split: if_splits)

end
