(* ===== verification/Bpf_Runtime.thy ===== *)
theory Bpf_Runtime
  imports Prelude
begin

text \<open>
  What the two eBPF programs use of their runtime: the map kinds declared with
  \<open>SEC(".maps")\<close> (hash maps with a bounded number of entries, arrays, ring buffers), the
  string-copy helpers, byte-order conversion on the little-endian targets, and the record of
  everything the running kernel supplies to a program (identity and name of the current task,
  clock, path resolution, room in the ring buffer). The last group is code outside the
  repository; it is an argument of every program and no theorem fixes its value.
\<close>

section \<open>Error numbers\<close>

definition EPERM :: int where "EPERM = 1"
definition E2BIG :: int where "E2BIG = 7"
definition EFAULT :: int where "EFAULT = 14"

section \<open>Maps\<close>

text \<open>
  \<open>BPF_MAP_TYPE_ARRAY\<close>: the slots as a list; a lookup outside the declared size is a null
  pointer. A per-CPU array is the array of the CPU the program runs on.
\<close>

definition array_lookup :: "'v list \<Rightarrow> u32 \<Rightarrow> 'v option" where
  "array_lookup m i = (if unat i < length m then Some (m ! unat i) else None)"

lemma array_lookup_in_set: "array_lookup m i = Some e \<Longrightarrow> e \<in> set m"
  by (auto simp: array_lookup_def split: if_splits)

text \<open>A loop over the slots that acts on the entries by a guard is a first-match search.\<close>

lemma for_u32_table [loop_simps]:
  assumes "n < 2 ^ 32"
    and body: "\<And>e. e \<in> set xs \<Longrightarrow> body e = (if P e then Return (g e) else Continue)"
  shows "for_u32 n 0 (\<lambda>i. case array_lookup xs i of None \<Rightarrow> Continue | Some e \<Rightarrow> body e) =
         map_option g (find P (take n xs))"
proof -
  have "(\<lambda>i. case array_lookup xs i of None \<Rightarrow> Continue | Some e \<Rightarrow> body e) =
        (\<lambda>i. case (if unat i < length xs then Some (xs ! unat i) else None) of
                  None \<Rightarrow> Continue
                | Some e \<Rightarrow> if P e then Return (g e) else Continue)"
    by (auto simp: fun_eq_iff array_lookup_def body)
  then show ?thesis
    using for_u32_scan0 [OF assms(1), where xs = xs and P = P and g = g] by simp
qed

text \<open>
  \<open>BPF_MAP_TYPE_HASH\<close>: an association list. \<open>bpf_map_update_elem\<close> with \<open>BPF_ANY\<close> replaces
  an existing key, inserts a new one while the map has fewer than \<open>max_entries\<close> keys, and
  fails with \<open>E2BIG\<close> otherwise.
\<close>

type_synonym ('k, 'v) hmap = "('k \<times> 'v) list"

definition hash_lookup :: "('k, 'v) hmap \<Rightarrow> 'k \<Rightarrow> 'v option" where
  "hash_lookup m k = map_of m k"

definition hash_update :: "nat \<Rightarrow> ('k, 'v) hmap \<Rightarrow> 'k \<Rightarrow> 'v \<Rightarrow> int \<times> ('k, 'v) hmap" where
  "hash_update max_entries m k v =
     (if hash_lookup m k = None \<and> max_entries \<le> length m then (- E2BIG, m)
      else (0, AList.update k v m))"

definition hash_delete :: "('k, 'v) hmap \<Rightarrow> 'k \<Rightarrow> ('k, 'v) hmap" where
  "hash_delete m k = AList.delete k m"

definition hash_wf :: "nat \<Rightarrow> ('k, 'v) hmap \<Rightarrow> bool" where
  "hash_wf max_entries m \<longleftrightarrow> distinct (map fst m) \<and> length m \<le> max_entries"

locale bpf_hash =
  fixes lookup :: "'m \<Rightarrow> 'k \<Rightarrow> 'v option"
    and update :: "'m \<Rightarrow> 'k \<Rightarrow> 'v \<Rightarrow> int \<times> 'm"
    and delete :: "'m \<Rightarrow> 'k \<Rightarrow> 'm"
    and full :: "'m \<Rightarrow> bool"
    and wf :: "'m \<Rightarrow> bool"
  assumes lookup_update:
      "lookup (snd (update m k v)) =
         (if lookup m k = None \<and> full m then lookup m else (lookup m)(k \<mapsto> v))"
    and update_ret: "fst (update m k v) = 0 \<longleftrightarrow> \<not> (lookup m k = None \<and> full m)"
    and lookup_delete: "lookup (delete m k) = (lookup m)(k := None)"
    and wf_update: "wf m \<Longrightarrow> wf (snd (update m k v))"
    and wf_delete: "wf m \<Longrightarrow> wf (delete m k)"
begin

lemma update_keeps: "lookup m k' = Some w \<Longrightarrow> \<exists>w'. lookup (snd (update m k v)) k' = Some w'"
  by (cases "k' = k") (auto simp: lookup_update)

lemma update_same: "\<not> full m \<Longrightarrow> lookup (snd (update m k v)) k = Some v"
  by (simp add: lookup_update)

lemma update_other: "k' \<noteq> k \<Longrightarrow> lookup (snd (update m k v)) k' = lookup m k'"
  by (simp add: lookup_update)

lemma delete_same: "lookup (delete m k) k = None"
  by (simp add: lookup_delete)

lemma delete_other: "k' \<noteq> k \<Longrightarrow> lookup (delete m k) k' = lookup m k'"
  by (simp add: lookup_delete)

lemmas hash_rules = update_keeps update_same update_other delete_same delete_other

end

lemma length_AList_update:
  "length (AList.update k v m) = (if map_of m k = None then Suc (length m) else length m)"
  by (induction m) auto

interpretation hm: bpf_hash hash_lookup "hash_update n" hash_delete "\<lambda>m. n \<le> length m" "hash_wf n"
  for n
proof unfold_locales
  fix m :: "('a \<times> 'b) list" and k v
  show "hash_lookup (snd (hash_update n m k v)) =
      (if hash_lookup m k = None \<and> n \<le> length m then hash_lookup m else (hash_lookup m)(k \<mapsto> v))"
    by (auto simp: hash_update_def hash_lookup_def update_conv' fun_eq_iff)
  show "fst (hash_update n m k v) = 0 \<longleftrightarrow> \<not> (hash_lookup m k = None \<and> n \<le> length m)"
    by (simp add: hash_update_def E2BIG_def)
  show "hash_lookup (hash_delete m k) = (hash_lookup m)(k := None)"
    by (simp add: hash_delete_def hash_lookup_def delete_conv' fun_eq_iff)
  show "hash_wf n m \<Longrightarrow> hash_wf n (snd (hash_update n m k v))"
    by (auto simp: hash_update_def hash_wf_def hash_lookup_def distinct_update length_AList_update)
  show "hash_wf n m \<Longrightarrow> hash_wf n (hash_delete m k)"
    using length_delete_le [of k m]
    by (auto simp: hash_wf_def hash_delete_def distinct_delete)
qed

section \<open>Byte order\<close>

text \<open>
  Both objects are loaded from their little-endian build on amd64 and arm64: \<open>bpf_ntohs\<close> and
  \<open>bpf_ntohl\<close> swap bytes, and the in-memory bytes of a word start with the lowest.
\<close>

definition byte_of :: "nat \<Rightarrow> 'a::len word \<Rightarrow> u8" where
  "byte_of i w = ucast (drop_bit (8 * i) w)"

definition le_bytes32 :: "u32 \<Rightarrow> bytes" where
  "le_bytes32 w = [byte_of 0 w, byte_of 1 w, byte_of 2 w, byte_of 3 w]"

definition bpf_ntohs :: "u16 \<Rightarrow> u16" where
  "bpf_ntohs w = push_bit 8 (ucast (byte_of 0 w)) OR ucast (byte_of 1 w)"

definition bpf_ntohl :: "u32 \<Rightarrow> u32" where
  "bpf_ntohl w =
     push_bit 24 (ucast (byte_of 0 w)) OR push_bit 16 (ucast (byte_of 1 w)) OR
     push_bit 8 (ucast (byte_of 2 w)) OR ucast (byte_of 3 w)"

lemma bit_byte_of: "bit (byte_of i w) n \<longleftrightarrow> n < 8 \<and> bit w (8 * i + n)"
  by (auto simp: byte_of_def bit_simps ac_simps)

lemma bit_bpf_ntohs: "bit (bpf_ntohs w) n \<longleftrightarrow>
   (if n < 8 then bit w (n + 8) else n < 16 \<and> bit w (n - 8))"
  unfolding bpf_ntohs_def
  by (simp only: bit_or_iff bit_push_bit_iff bit_ucast_iff bit_byte_of) (auto simp: ac_simps)

lemma bit_bpf_ntohl: "bit (bpf_ntohl w) n \<longleftrightarrow>
   (if n < 8 then bit w (n + 24) else if n < 16 then bit w (n + 8)
    else if n < 24 then bit w (n - 8) else n < 32 \<and> bit w (n - 24))"
  unfolding bpf_ntohl_def
  by (simp only: bit_or_iff bit_push_bit_iff bit_ucast_iff bit_byte_of)
    (auto simp: ac_simps not_less)

lemma bpf_ntohs_involutive [simp]: "bpf_ntohs (bpf_ntohs w) = w"
  by (rule bit_word_eqI) (auto simp: bit_bpf_ntohs)

lemma bpf_ntohl_involutive [simp]: "bpf_ntohl (bpf_ntohl w) = w"
  by (rule bit_word_eqI) (auto simp: bit_bpf_ntohl)

lemma bpf_ntohs_eq_iff: "bpf_ntohs a = b \<longleftrightarrow> a = bpf_ntohs b"
  by auto

lemma bpf_ntohl_eq_iff: "bpf_ntohl a = b \<longleftrightarrow> a = bpf_ntohl b"
  by auto

section \<open>Reading strings\<close>

text \<open>
  \<open>bpf_probe_read_kernel_str\<close> and \<open>bpf_probe_read_user_str\<close>: \<open>src\<close> holds the bytes that can
  be read from the source address on (a faulting address has none). The copy stops after a
  NUL or after \<open>sz\<close> bytes, in which case the last byte becomes NUL; the result is the number
  of bytes stored. A fault stores \<open>sz\<close> zero bytes and returns a negative error. The second
  component is what is stored at the destination.
\<close>

definition probe_read_str :: "nat \<Rightarrow> bytes \<Rightarrow> int \<times> bytes" where
  "probe_read_str sz src =
     (let s = cstr src in
      if length s < sz then
        if length s < length src then (int (length s) + 1, s @ [0])
        else (- EFAULT, zeros sz)
      else (int sz, take (sz - 1) s @ [0]))"

lemma length_probe_read_str [buf_simps]:
  "0 < sz \<Longrightarrow> length (snd (probe_read_str sz src)) \<le> sz"
  by (auto simp: probe_read_str_def Let_def)

lemma probe_read_str_ret_le [buf_simps]: "fst (probe_read_str sz src) \<le> int sz"
  by (auto simp: probe_read_str_def Let_def EFAULT_def)

lemma probe_read_str_ok:
  assumes "0 < sz" "0 \<notin> set s"
  shows "probe_read_str sz (s @ 0 # rest) =
    (int (length (take (sz - 1) s)) + 1, take (sz - 1) s @ [0])"
  using assms by (auto simp: probe_read_str_def Let_def cstr_append_NUL min_def)

text \<open>The string a copy leaves in a buffer of the copied size.\<close>

definition read_str_buf :: "nat \<Rightarrow> bytes \<Rightarrow> bytes \<Rightarrow> bytes" where
  "read_str_buf sz dst src = buf_write 0 (snd (probe_read_str sz src)) dst"

lemma length_read_str_buf [buf_simps]:
  assumes "0 < sz" "sz \<le> length dst"
  shows "length (read_str_buf sz dst src) = length dst"
proof -
  have "length (snd (probe_read_str sz src)) \<le> length dst"
    using length_probe_read_str [OF assms(1), of src] assms(2) by linarith
  then show ?thesis
    by (simp add: read_str_buf_def length_buf_write)
qed

lemma cstr_read_str_buf [buf_simps]:
  assumes "0 < sz" "0 \<notin> set s"
  shows "cstr (read_str_buf sz dst (s @ 0 # rest)) = take (sz - 1) s"
  using assms by (auto simp: read_str_buf_def probe_read_str_ok buf_write_0
      intro!: cstr_append_NUL dest: in_set_takeD)

section \<open>Formatting an address\<close>

text \<open>
  \<open>BPF_SNPRINTF\<close> with the format \<open>%pi4:%d\<close>: four decimal fields of three digits, in memory
  order, then the port.
\<close>

fun dec_digits :: "nat \<Rightarrow> bytes" where
  "dec_digits n =
     (if n < 10 then [of_nat (48 + n)] else dec_digits (n div 10) @ [of_nat (48 + n mod 10)])"

declare dec_digits.simps [simp del]

definition dec_pad3 :: "u8 \<Rightarrow> bytes" where
  "dec_pad3 b =
     [of_nat (48 + unat b div 100), of_nat (48 + unat b div 10 mod 10),
      of_nat (48 + unat b mod 10)]"

definition snprintf_pi4_port :: "u32 \<Rightarrow> u16 \<Rightarrow> bytes" where
  "snprintf_pi4_port addr port =
     (case le_bytes32 addr of
        [a, b, c, d] \<Rightarrow>
          dec_pad3 a @ [0x2e] @ dec_pad3 b @ [0x2e] @ dec_pad3 c @ [0x2e] @ dec_pad3 d @
          [0x3a] @ dec_digits (unat port)
      | _ \<Rightarrow> [])"

section \<open>Socket addresses\<close>

definition AF_INET :: u16 where "AF_INET = 2"

text \<open>
  The fields of a socket address the programs read: the family, and for IPv4 the port and the
  address as stored (network byte order).
\<close>

record sockaddr_in =
  sin_family :: u16
  sin_port :: u16
  s_addr :: u32

text \<open>What a failed read leaves in the destination.\<close>

definition zero_sin :: sockaddr_in where
  "zero_sin = \<lparr>sin_family = 0, sin_port = 0, s_addr = 0\<rparr>"

section \<open>What the kernel supplies\<close>

text \<open>
  \<open>ns_current_pid_tgid dev ino\<close> is \<open>bpf_get_ns_current_pid_tgid\<close>: the thread and process id
  of the current task in the PID namespace given by device and inode, or \<open>None\<close> for a non-zero
  return. \<open>d_path\<close> and \<open>path_d_path\<close> are \<open>bpf_d_path\<close> and \<open>bpf_path_d_path\<close>: from a kernel
  path object (type \<open>'p\<close>) and the buffer they return a status and the new buffer.
  \<open>ringbuf_has_room\<close> says whether \<open>bpf_ringbuf_reserve\<close> finds space.
\<close>

record 'p kernel =
  ns_current_pid_tgid :: "u64 \<Rightarrow> u64 \<Rightarrow> (u32 \<times> u32) option"
  ktime_get_ns :: u64
  current_comm :: bytes
  ringbuf_has_room :: bool
  d_path :: "'p \<Rightarrow> bytes \<Rightarrow> int \<times> bytes"
  path_d_path :: "'p \<Rightarrow> bytes \<Rightarrow> int \<times> bytes"

text \<open>
  The documented result of path resolution into a buffer of \<open>sz\<close> bytes: for a path whose name
  \<open>s\<close> (no NUL inside) fits with its terminator, the status is the length with the terminator
  and the buffer starts with the name and a NUL; the buffer keeps its size.
\<close>

definition d_path_resolves ::
  "('p \<Rightarrow> bytes \<Rightarrow> int \<times> bytes) \<Rightarrow> nat \<Rightarrow> 'p \<Rightarrow> bytes \<Rightarrow> bool" where
  "d_path_resolves dp sz p s \<longleftrightarrow>
     0 \<notin> set s \<and> length s < sz \<and>
     (\<forall>buf. length buf = sz \<longrightarrow>
        fst (dp p buf) = int (length s) + 1 \<and>
        length (snd (dp p buf)) = sz \<and>
        take (length s + 1) (snd (dp p buf)) = s @ [0])"

end
