(* ===== verification/Path_Match.thy ===== *)
theory Path_Match
  imports Bpf_Runtime
begin

text \<open>
  The path matchers of \<open>enforcer.bpf.c\<close>: \<open>path_ends_with\<close>, \<open>path_is_basename\<close>,
  \<open>path_starts_with_64\<close>, \<open>path_starts_with_256\<close> and the unused \<open>path_contains_128_3char\<close>,
  word for word with their guards and index masks; what each decides as a relation of byte
  strings; and the locale \<open>path_matcher\<close>, the interface the rule tables rely on.
\<close>

definition MAX_PATH_LEN :: u32 where "MAX_PATH_LEN = 256"
definition MAX_PATTERN_LEN :: u32 where "MAX_PATTERN_LEN = 64"

lemmas path_limits = MAX_PATH_LEN_def MAX_PATTERN_LEN_def

section \<open>The matchers\<close>

definition path_ends_with :: "bytes \<Rightarrow> u32 \<Rightarrow> bytes \<Rightarrow> u32 \<Rightarrow> bool" where
  "path_ends_with path path_len pat pat_len =
     (if pat_len = 0 \<or> MAX_PATTERN_LEN < pat_len then False
      else if MAX_PATH_LEN \<le> path_len \<or> path_len < pat_len then False
      else
        (case for_u32 (unat MAX_PATTERN_LEN) 0
           (\<lambda>i. if pat_len \<le> i then Break
                else if path ! unat ((path_len - pat_len + i) AND (MAX_PATH_LEN - 1))
                        \<noteq> pat ! unat (i AND (MAX_PATTERN_LEN - 1)) then Return False
                else Continue) of
           Some r \<Rightarrow> r
         | None \<Rightarrow> True))"

definition path_is_basename :: "bytes \<Rightarrow> u32 \<Rightarrow> bytes \<Rightarrow> u32 \<Rightarrow> bool" where
  "path_is_basename path path_len pat pat_len =
     (if pat_len < 2 \<or> pat ! 0 \<noteq> SLASH then False
      else if path_len + 1 \<noteq> pat_len then False
      else if MAX_PATH_LEN \<le> path_len \<or> MAX_PATTERN_LEN < path_len then False
      else
        (case for_u32 (unat MAX_PATTERN_LEN) 0
           (\<lambda>i. if path_len \<le> i then Break
                else if path ! unat (i AND (MAX_PATH_LEN - 1))
                        \<noteq> pat ! unat ((i + 1) AND (MAX_PATTERN_LEN - 1)) then Return False
                else Continue) of
           Some r \<Rightarrow> r
         | None \<Rightarrow> True))"

definition path_starts_with_64 :: "bytes \<Rightarrow> u32 \<Rightarrow> bytes \<Rightarrow> u32 \<Rightarrow> bool" where
  "path_starts_with_64 path path_len pat pat_len =
     (if pat_len = 0 \<or> MAX_PATTERN_LEN < pat_len then False
      else if MAX_PATH_LEN \<le> path_len \<or> path_len < pat_len then False
      else
        (case for_u32 (unat MAX_PATTERN_LEN) 0
           (\<lambda>i. if pat_len \<le> i then Break
                else if path ! unat (i AND (MAX_PATH_LEN - 1))
                        \<noteq> pat ! unat (i AND (MAX_PATTERN_LEN - 1)) then Return False
                else Continue) of
           Some r \<Rightarrow> r
         | None \<Rightarrow>
             if path_len = pat_len then True
             else path ! unat (pat_len AND (MAX_PATH_LEN - 1)) = SLASH))"

definition path_starts_with_256 :: "bytes \<Rightarrow> u32 \<Rightarrow> bytes \<Rightarrow> u32 \<Rightarrow> bool" where
  "path_starts_with_256 path path_len pat pat_len =
     (if pat_len = 0 \<or> MAX_PATH_LEN < pat_len then False
      else if MAX_PATH_LEN \<le> path_len \<or> path_len < pat_len then False
      else
        (case for_u32 (unat MAX_PATH_LEN) 0
           (\<lambda>i. if pat_len \<le> i then Break
                else if path ! unat (i AND (MAX_PATH_LEN - 1))
                        \<noteq> pat ! unat (i AND (MAX_PATH_LEN - 1)) then Return False
                else Continue) of
           Some r \<Rightarrow> r
         | None \<Rightarrow>
             if path_len = pat_len then True
             else path ! unat (pat_len AND (MAX_PATH_LEN - 1)) = SLASH))"

text \<open>
  \<open>path_contains_128_3char\<close> is declared in the source and called by no program: it scans the
  first 125 positions of a buffer for three bytes in a row, across NULs.
\<close>

definition path_contains_128_3char :: "bytes \<Rightarrow> u8 \<Rightarrow> u8 \<Rightarrow> u8 \<Rightarrow> bool" where
  "path_contains_128_3char buf p1 p2 p3 =
     (case for_u32 125 0
        (\<lambda>i. if buf ! unat i = p1 \<and> buf ! unat (i + 1) = p2 \<and> buf ! unat (i + 2) = p3
             then Return True else Continue) of
        Some r \<Rightarrow> r
      | None \<Rightarrow> False)"

section \<open>What they decide\<close>

text \<open>A path equal to a prefix or below it: the boundary is the end or a separator.\<close>

definition path_under :: "bytes \<Rightarrow> bytes \<Rightarrow> bool" where
  "path_under pre p \<longleftrightarrow> p = pre \<or> prefix (pre @ [SLASH]) p"

text \<open>Masked indices: what the mask does, and that it is the identity under the guards.\<close>

lemma mask_limits: "MAX_PATH_LEN - 1 = 255" "MAX_PATTERN_LEN - 1 = 63"
  by (simp_all add: path_limits)

lemma unat_ends_index:
  assumes "path_len < 256" "pat_len \<le> path_len" "i < pat_len"
  shows "unat ((path_len - pat_len + i :: u32) AND 255) =
           unat path_len - unat pat_len + unat i"
proof -
  have sub: "unat (path_len - pat_len) = unat path_len - unat pat_len"
    using assms(2) by (simp add: unat_sub)
  moreover have lt: "unat path_len < 256" "unat pat_len \<le> unat path_len" "unat i < unat pat_len"
    using assms by (auto simp: word_less_nat_alt word_le_nat_alt)
  ultimately have "unat (path_len - pat_len + i) = unat path_len - unat pat_len + unat i"
    by (subst unat_add_lem [THEN iffD1]) auto
  with lt show ?thesis
    by (simp add: unat_and_mask8)
qed

lemma nth_suffix_iff:
  "suffix ys xs \<longleftrightarrow> length ys \<le> length xs \<and>
     (\<forall>j < length ys. xs ! (length xs - length ys + j) = ys ! j)"
proof -
  have "suffix ys xs \<longleftrightarrow> length ys \<le> length xs \<and> drop (length xs - length ys) xs = ys"
    by (metis append_take_drop_id suffix_def suffix_drop suffix_length_le diff_diff_cancel
        append_eq_append_conv length_drop)
  then show ?thesis
    by (auto simp: list_eq_iff_nth_eq)
qed

lemma nth_prefix_iff:
  "prefix ys xs \<longleftrightarrow> length ys \<le> length xs \<and> (\<forall>j < length ys. xs ! j = ys ! j)"
proof -
  have "prefix ys xs \<longleftrightarrow> length ys \<le> length xs \<and> take (length ys) xs = ys"
    by (metis append_eq_conv_conj prefix_def prefix_length_le take_is_prefix)
  then show ?thesis
    by (auto simp: list_eq_iff_nth_eq)
qed

lemma path_under_nth:
  "path_under pre p \<longleftrightarrow> prefix pre p \<and> (length p = length pre \<or> p ! length pre = SLASH)"
proof (cases "prefix pre p")
  case True
  then obtain r where p: "p = pre @ r" by (auto simp: prefix_def)
  show ?thesis
    by (cases r) (auto simp: path_under_def p)
next
  case False
  then show ?thesis
    by (auto simp: path_under_def dest: append_prefixD)
qed

lemma path_ends_with_iff:
  assumes "length path = 256" "length pat = 64"
  shows "path_ends_with path l pat pl \<longleftrightarrow>
    0 < unat pl \<and> unat pl \<le> 64 \<and> unat l < 256 \<and> suffix (take (unat pl) pat) (take (unat l) path)"
proof (cases "pl = 0 \<or> MAX_PATTERN_LEN < pl \<or> MAX_PATH_LEN \<le> l \<or> l < pl")
  case True
  then show ?thesis
    using assms
    by (auto simp: path_ends_with_def path_limits word_less_nat_alt word_le_nat_alt
        dest: suffix_length_le)
next
  case False
  then have g: "0 < pl" "pl \<le> 64" "l < 256" "pl \<le> l"
    by (auto simp: path_limits word_gt_0)
  then have n: "0 < unat pl" "unat pl \<le> 64" "unat l < 256" "unat pl \<le> unat l"
    by (auto simp: word_less_nat_alt word_le_nat_alt)
  have ends: "unat ((l - pl + of_nat j) AND 255) = unat l - unat pl + j" if "j < unat pl" for j
    using unat_ends_index [OF g(3,4), of "of_nat j"] that n
    by (simp add: word_less_nat_alt unat_of_nat)
  have pats: "unat ((of_nat j :: u32) AND 63) = j" if "j < unat pl" for j
    using that n by (simp add: unat_and_mask6 unat_of_nat)
  have "path_ends_with path l pat pl \<longleftrightarrow>
          \<not> (\<exists>j < unat pl. path ! (unat l - unat pl + j) \<noteq> pat ! j)"
    using False n unfolding path_ends_with_def mask_limits
    by (subst for_u32_all [where R = "\<lambda>j. path ! (unat l - unat pl + j) \<noteq> pat ! j"])
      (auto simp: ends pats path_limits)
  also have "\<dots> \<longleftrightarrow> suffix (take (unat pl) pat) (take (unat l) path)"
    using n assms by (auto simp: nth_suffix_iff)
  finally show ?thesis using n by simp
qed

lemma succ_eq_iff: "pl \<noteq> 0 \<Longrightarrow> (l :: u32) + 1 = pl \<longleftrightarrow> unat pl = unat l + 1"
  using unsigned_less [where w = l and 'a = nat] unsigned_less [where w = pl and 'a = nat]
  by (auto simp: word_unat_eq_iff unat_word_ariths mod_Suc)

lemma path_is_basename_iff:
  assumes "length path = 256" "length pat = 64" "unat pl \<le> 64"
  shows "path_is_basename path l pat pl \<longleftrightarrow>
    2 \<le> unat pl \<and> unat l < 256 \<and> take (unat pl) pat = SLASH # take (unat l) path"
proof (cases "2 \<le> unat pl \<and> unat l < 256 \<and> unat pl = unat l + 1 \<and> pat ! 0 = SLASH")
  case False
  have "\<not> path_is_basename path l pat pl"
  proof
    assume a: "path_is_basename path l pat pl"
    then have g: "\<not> pl < 2" "pat ! 0 = SLASH" "l + 1 = pl" "l < 256"
      by (auto simp: path_is_basename_def path_limits split: if_splits)
    then have "2 \<le> unat pl" "unat l < 256" by (auto simp: word_less_nat_alt word_le_nat_alt)
    moreover from this g succ_eq_iff [of pl l] have "unat pl = unat l + 1"
      by (cases "pl = 0") auto
    ultimately show False using False g by simp
  qed
  moreover have "unat pl = unat l + 1 \<and> pat ! 0 = SLASH"
    if e: "take (unat pl) pat = SLASH # take (unat l) path" "unat l < 256"
  proof -
    from arg_cong [OF e(1), of length] assms e(2) have "unat pl = unat l + 1" by simp
    moreover from arg_cong [OF e(1), of "\<lambda>xs. xs ! 0"] this have "pat ! 0 = SLASH" by simp
    ultimately show ?thesis by simp
  qed
  ultimately show ?thesis using False by blast
next
  case True
  then have n: "2 \<le> unat pl" "unat l < 256" "unat pl = unat l + 1" "pat ! 0 = SLASH" by auto
  have idx: "unat ((of_nat j :: u32) AND 255) = j"
    and pidx: "unat (((of_nat j :: u32) + 1) AND 63) = j + 1" if "j < unat l" for j
  proof -
    have j: "unat (of_nat j :: u32) = j" "unat ((of_nat j :: u32) + 1) = j + 1"
      using that n assms(3) by (simp_all add: unat_of_nat unat_word_ariths)
    show "unat ((of_nat j :: u32) AND 255) = j" and "unat (((of_nat j :: u32) + 1) AND 63) = j + 1"
      using that n assms(3) by (simp_all only: unat_and_mask8 unat_and_mask6 j) simp_all
  qed
  have "pl \<noteq> 0" using n by auto
  then have l1: "l + 1 = pl" "\<not> pl < 2" "l < 256" "\<not> 64 < l"
    using n assms(3) succ_eq_iff [of pl l] by (auto simp: word_less_nat_alt word_le_nat_alt)
  have "path_is_basename path l pat pl \<longleftrightarrow> \<not> (\<exists>j < unat l. path ! j \<noteq> pat ! (j + 1))"
    using n l1 assms unfolding path_is_basename_def mask_limits
    by (subst for_u32_all [where R = "\<lambda>j. path ! j \<noteq> pat ! (j + 1)"])
      (auto simp: idx pidx path_limits)
  also have "\<dots> \<longleftrightarrow> take (unat pl) pat = SLASH # take (unat l) path"
    using n assms by (auto simp: list_eq_iff_nth_eq nth_Cons split: nat.splits)
  finally show ?thesis using n by simp
qed

text \<open>The two prefix matchers differ in the size of the pattern array only.\<close>

lemma prefix_loop:
  assumes "length path = 256" "unat pl \<le> length pat" "n = length pat" "length pat \<le> 256"
    and "unat pl \<le> unat l" "unat l < 256"
    and msk: "\<And>j. j < unat pl \<Longrightarrow> unat ((of_nat j :: u32) AND m) = j"
  shows "(case for_u32 n 0
           (\<lambda>i. if pl \<le> i then Break
                else if path ! unat (i AND 255) \<noteq> pat ! unat (i AND m) then Return False
                else Continue) of
           Some r \<Rightarrow> r
         | None \<Rightarrow> if l = pl then True else path ! unat (pl AND 255) = SLASH) \<longleftrightarrow>
         path_under (take (unat pl) pat) (take (unat l) path)"
proof -
  have idx: "unat ((of_nat j :: u32) AND 255) = j" if "j < unat pl" for j
    using that assms by (simp add: unat_and_mask8 unat_of_nat)
  have bnd: "unat l = unat pl \<or> unat (pl AND 255) = unat pl \<and> unat pl < unat l"
    using assms by (auto simp: unat_and_mask8)
  have "?thesis \<longleftrightarrow>
      ((\<forall>j < unat pl. path ! j = pat ! j) \<and> (unat l = unat pl \<or> path ! unat pl = SLASH) \<longleftrightarrow>
         path_under (take (unat pl) pat) (take (unat l) path))"
    using assms bnd by (subst for_u32_all [where R = "\<lambda>j. path ! j \<noteq> pat ! j"])
      (auto simp: idx msk word_unat_eq_iff)
  also have "\<dots>"
    using assms bnd by (auto simp: path_under_nth nth_prefix_iff)
  finally show ?thesis by simp
qed

lemma path_starts_with_64_iff:
  assumes "length path = 256" "length pat = 64"
  shows "path_starts_with_64 path l pat pl \<longleftrightarrow>
    0 < unat pl \<and> unat pl \<le> 64 \<and> unat l < 256 \<and>
    path_under (take (unat pl) pat) (take (unat l) path)"
proof (cases "pl = 0 \<or> MAX_PATTERN_LEN < pl \<or> MAX_PATH_LEN \<le> l \<or> l < pl")
  case True
  then show ?thesis
    using assms
    by (auto simp: path_starts_with_64_def path_limits word_less_nat_alt word_le_nat_alt
        path_under_nth dest: prefix_length_le)
next
  case False
  then have n: "0 < unat pl" "unat pl \<le> 64" "unat l < 256" "unat pl \<le> unat l"
    by (auto simp: path_limits word_less_nat_alt word_le_nat_alt unat_gt_0)
  have m: "unat ((of_nat j :: u32) AND 63) = j" if "j < unat pl" for j
    using that n by (simp add: unat_and_mask6 unat_of_nat)
  show ?thesis
    using False n assms unfolding path_starts_with_64_def mask_limits
    by (subst prefix_loop) (auto simp: m path_limits)
qed

lemma path_starts_with_256_iff:
  assumes "length path = 256" "length pat = 256"
  shows "path_starts_with_256 path l pat pl \<longleftrightarrow>
    0 < unat pl \<and> unat l < 256 \<and> path_under (take (unat pl) pat) (take (unat l) path)"
proof (cases "pl = 0 \<or> MAX_PATH_LEN < pl \<or> MAX_PATH_LEN \<le> l \<or> l < pl")
  case True
  then show ?thesis
    using assms
    by (auto simp: path_starts_with_256_def path_limits word_less_nat_alt word_le_nat_alt
        path_under_nth dest: prefix_length_le)
next
  case False
  then have n: "0 < unat pl" "unat pl \<le> 256" "unat l < 256" "unat pl \<le> unat l"
    by (auto simp: path_limits word_less_nat_alt word_le_nat_alt unat_gt_0)
  have m: "unat ((of_nat j :: u32) AND 255) = j" if "j < unat pl" for j
    using that n by (simp add: unat_and_mask8 unat_of_nat)
  show ?thesis
    using False n assms unfolding path_starts_with_256_def mask_limits
    by (subst prefix_loop) (auto simp: m path_limits)
qed

section \<open>The interface of the rule tables\<close>

text \<open>
  A rule table needs of a matcher that, on buffers of the declared sizes and lengths within
  them, it decides a relation between the pattern's and the path's byte strings, and that an
  empty pattern matches nothing.
\<close>

locale path_matcher =
  fixes matcher :: "bytes \<Rightarrow> u32 \<Rightarrow> bytes \<Rightarrow> u32 \<Rightarrow> bool"
    and decides :: "bytes \<Rightarrow> bytes \<Rightarrow> bool"
    and cap :: nat
  assumes matcher_iff:
      "\<lbrakk>length path = 256; length pat = cap; 0 < unat pl; unat pl \<le> cap; unat l < 256\<rbrakk>
       \<Longrightarrow> matcher path l pat pl \<longleftrightarrow> decides (take (unat pl) pat) (take (unat l) path)"
    and matcher_empty: "\<not> matcher path l pat 0"
    and cap_le: "cap \<le> 256"
begin

text \<open>The pattern \<open>s\<close> stored in a slot against the path \<open>p\<close> at the start of the scratch buffer.\<close>

lemma matcher_str:
  assumes "s \<noteq> []" "length s \<le> cap" "length pat = cap" "take (length s) pat = s"
    and "length p < 256" "length path = 256" "take (length p) path = p"
  shows "matcher path (of_nat (length p)) pat (of_nat (length s)) \<longleftrightarrow> decides s p"
proof -
  have "unat (of_nat (length p) :: u32) = length p" "unat (of_nat (length s) :: u32) = length s"
    using assms cap_le by (simp_all add: unat_of_nat)
  then show ?thesis
    using assms matcher_iff [of path pat "of_nat (length s)" "of_nat (length p)"] by simp
qed

end

text \<open>What the command rules decide: a path suffix, or the whole of a slash-less file name.\<close>

definition command_decides :: "bytes \<Rightarrow> bytes \<Rightarrow> bool" where
  "command_decides s p \<longleftrightarrow> suffix s p \<or> 2 \<le> length s \<and> s = SLASH # p"

lemma zero_len_no_match [simp]:
  "\<not> path_ends_with path l pat 0" "\<not> path_is_basename path l pat 0"
  "\<not> path_starts_with_64 path l pat 0" "\<not> path_starts_with_256 path l pat 0"
  by (simp_all add: path_ends_with_def path_is_basename_def path_starts_with_64_def
      path_starts_with_256_def)

interpretation ends: path_matcher path_ends_with suffix 64
  by unfold_locales (auto simp: path_ends_with_iff)

interpretation cmd: path_matcher
    "\<lambda>path l pat pl. path_ends_with path l pat pl \<or> path_is_basename path l pat pl"
    command_decides 64
  by unfold_locales (auto simp: path_ends_with_iff path_is_basename_iff command_decides_def)

interpretation starts64: path_matcher path_starts_with_64 path_under 64
  by unfold_locales (auto simp: path_starts_with_64_iff)

interpretation starts256: path_matcher path_starts_with_256 path_under 256
  by unfold_locales (auto simp: path_starts_with_256_iff)

section \<open>Properties\<close>

lemma unat_mask8_less: "unat ((x :: u32) AND 255) < 256"
  by (simp add: unat_and_mask8)

lemma unat_mask6_less: "unat ((x :: u32) AND 63) < 64"
  by (simp add: unat_and_mask6)

lemma nth_masked:
  "take 256 p = take 256 p' \<Longrightarrow> p ! unat ((x :: u32) AND 255) = p' ! unat (x AND 255)"
  "take 64 q = take 64 q' \<Longrightarrow> q ! unat ((x :: u32) AND 63) = q' ! unat (x AND 63)"
  by (metis nth_take unat_mask8_less) (metis nth_take unat_mask6_less)

lemma hd_masked: "take 64 q = take 64 q' \<Longrightarrow> (q :: bytes) ! 0 = q' ! 0"
  by (metis nth_take zero_less_numeral)

text \<open>
  Whatever the path and pattern lengths are, the four matchers read only the first 256
  bytes of the path buffer and the first 64 bytes (256 for the workspace root) of the pattern
  buffer: buffers that agree there give the same answer, so no matcher depends on memory behind
  the map values.
\<close>

theorem matchers_read_in_bounds:
  assumes "take 256 path = take 256 path'" "take 64 pat = take 64 pat'" "take 256 root = take 256 root'"
  shows "path_ends_with path l pat pl = path_ends_with path' l pat' pl \<and>
    path_is_basename path l pat pl = path_is_basename path' l pat' pl \<and>
    path_starts_with_64 path l pat pl = path_starts_with_64 path' l pat' pl \<and>
    path_starts_with_256 path l root pl = path_starts_with_256 path' l root' pl"
  using nth_masked(1) [OF assms(1)] nth_masked(2) [OF assms(2)] nth_masked(1) [OF assms(3)]
    hd_masked [OF assms(2)]
  by (simp only: path_ends_with_def path_is_basename_def path_starts_with_64_def
      path_starts_with_256_def mask_limits)

theorem matchers_read_in_bounds_witness:
  "path_ends_with (zeros 256 @ [1]) 70 (zeros 64 @ [2]) 200 = path_ends_with (zeros 256) 70 (zeros 64) 200 \<and>
   path_is_basename (zeros 256 @ [1]) 70 (zeros 64 @ [2]) 200 = path_is_basename (zeros 256) 70 (zeros 64) 200 \<and>
   path_starts_with_64 (zeros 256 @ [1]) 70 (zeros 64 @ [2]) 200 =
     path_starts_with_64 (zeros 256) 70 (zeros 64) 200 \<and>
   path_starts_with_256 (zeros 256 @ [1]) 70 (zeros 256 @ [2]) 200 =
     path_starts_with_256 (zeros 256) 70 (zeros 256) 200"
  by (rule matchers_read_in_bounds) simp_all

text \<open>
  C28 (equivalence): on the map's buffers the masked index loops decide relations of byte strings:
  \<open>path_ends_with\<close> the suffix relation, \<open>path_is_basename\<close> that the pattern is a slash and the
  whole path, and the two prefix matchers that the path is the prefix or lies below it.
\<close>

theorem matchers_decide:
  assumes "length path = 256" "length pat = 64" "length root = 256"
    and "unat l < 256" "0 < unat pl" "unat pl \<le> 64" "0 < unat rl"
  shows "(path_ends_with path l pat pl \<longleftrightarrow> suffix (take (unat pl) pat) (take (unat l) path)) \<and>
    (path_is_basename path l pat pl \<longleftrightarrow>
       2 \<le> unat pl \<and> take (unat pl) pat = SLASH # take (unat l) path) \<and>
    (path_starts_with_64 path l pat pl \<longleftrightarrow> path_under (take (unat pl) pat) (take (unat l) path)) \<and>
    (path_starts_with_256 path l root rl \<longleftrightarrow> path_under (take (unat rl) root) (take (unat l) path))"
  using assms
  by (simp add: path_ends_with_iff path_is_basename_iff path_starts_with_64_iff path_starts_with_256_iff)

theorem matchers_decide_witness:
  "path_ends_with ([SLASH, 7, SLASH, 9] @ zeros 252) 4 ([SLASH, 9] @ zeros 62) 2 \<and>
   \<not> path_is_basename ([SLASH, 7, SLASH, 9] @ zeros 252) 4 ([SLASH, 9] @ zeros 62) 2 \<and>
   \<not> path_starts_with_64 ([SLASH, 7, SLASH, 9] @ zeros 252) 4 ([SLASH, 9] @ zeros 62) 2 \<and>
   path_starts_with_256 ([SLASH, 7, SLASH, 9] @ zeros 252) 4 ([SLASH, 7] @ zeros 254) 2"
  using matchers_decide [of "[SLASH, 7, SLASH, 9] @ zeros 252" "[SLASH, 9] @ zeros 62"
      "[SLASH, 7] @ zeros 254" 4 2 2]
  by (simp add: suffix_def path_under_def take_Cons')

end
