(* ===== verification/Enforcer_State.thy ===== *)
theory Enforcer_State
  imports Path_Match
begin

text \<open>
  The data of \<open>enforcer.bpf.c\<close>: the structures stored in its maps, its global variables and
  maps as one record, the rule-table scans (\<open>match_blocked_commands\<close>, \<open>path_in_workspace\<close>,
  the credential loop of \<open>check_file_open\<close>) and \<open>deny_path\<close>, with the well-formedness invariant
  the loader establishes and every program keeps.
\<close>

section \<open>Structures and state\<close>

definition MAX_PATH_RULES :: u32 where "MAX_PATH_RULES = 16"
definition MAX_CMD_RULES :: u32 where "MAX_CMD_RULES = 16"
definition MAX_ALLOW_PREFIXES :: u32 where "MAX_ALLOW_PREFIXES = 25"

lemmas table_limits = MAX_PATH_RULES_def MAX_CMD_RULES_def MAX_ALLOW_PREFIXES_def

record path_pattern_entry =
  pattern :: bytes
  policy_id :: u32
  pattern_len :: u8

record prefix_entry =
  pfx_pattern :: bytes
  pfx_policy_id :: u32
  pfx_pattern_len :: u8

record workspace_root_entry =
  ws_prefix :: bytes
  ws_prefix_len :: u32
  ws_policy_id :: u32

record violation_event =
  timestamp_ns :: u64
  v_pid :: u32
  policy_type :: u32
  typed_comm :: bytes
  canonical_path :: bytes
  detail :: bytes

text \<open>
  Global variables (\<open>.rodata\<close> constants set before load, then the writable switches) and maps.
  \<open>violations\<close> is the ring buffer: the records submitted so far, oldest first. The per-CPU
  scratch arrays are those of the current CPU. The hash map \<open>blocked_paths_map\<close> is declared in
  the source and used by no program.
\<close>

record enforcer =
  proxy_addr_host :: u32
  proxy_port_host :: u16
  dns_addr_host :: u32
  network_policy_id :: u32
  pidns_dev :: u64
  pidns_ino :: u64
  enforce_network :: u8
  allow_local_dns :: u8
  enforce_workspace :: u8
  tracked_pids :: "(u32, u8) hmap"
  blocked_paths_map :: "(bytes, u32) hmap"
  blocked_path_patterns :: "path_pattern_entry list"
  allowed_path_prefixes :: "prefix_entry list"
  workspace_root :: "workspace_root_entry list"
  file_open_path :: "bytes list"
  blocked_command_patterns :: "path_pattern_entry list"
  exec_path :: "bytes list"
  violations :: "violation_event list"

definition current_nspids :: "'p kernel \<Rightarrow> enforcer \<Rightarrow> (u32 \<times> u32) option" where
  "current_nspids k s = ns_current_pid_tgid k (pidns_dev s) (pidns_ino s)"

section \<open>Rule tables\<close>

definition match_blocked_commands :: "enforcer \<Rightarrow> bytes \<Rightarrow> u32 \<Rightarrow> u32" where
  "match_blocked_commands s path path_len =
     (case for_u32 (unat MAX_CMD_RULES) 0
        (\<lambda>i. case array_lookup (blocked_command_patterns s) i of
               None \<Rightarrow> Continue
             | Some e \<Rightarrow>
                 if pattern_len e = 0 then Continue
                 else if path_ends_with path path_len (pattern e) (ucast (pattern_len e))
                 then Return (policy_id e)
                 else if path_is_basename path path_len (pattern e) (ucast (pattern_len e))
                 then Return (policy_id e)
                 else Continue) of
        Some r \<Rightarrow> r
      | None \<Rightarrow> 0)"

text \<open>The loop of \<open>check_file_open\<close>: the policy of the first matching slot, \<open>None\<close> for no hit.\<close>

definition match_blocked_paths :: "enforcer \<Rightarrow> bytes \<Rightarrow> u32 \<Rightarrow> u32 option" where
  "match_blocked_paths s path path_len =
     for_u32 (unat MAX_PATH_RULES) 0
       (\<lambda>i. case array_lookup (blocked_path_patterns s) i of
              None \<Rightarrow> Continue
            | Some e \<Rightarrow>
                if pattern_len e = 0 then Continue
                else if path_ends_with path path_len (pattern e) (ucast (pattern_len e))
                then Return (policy_id e)
                else Continue)"

definition path_in_workspace :: "enforcer \<Rightarrow> bytes \<Rightarrow> u32 \<Rightarrow> bool" where
  "path_in_workspace s path path_len =
     (if (case array_lookup (workspace_root s) 0 of
            None \<Rightarrow> False
          | Some w \<Rightarrow> ws_prefix_len w \<noteq> 0 \<and>
              path_starts_with_256 path path_len (ws_prefix w) (ws_prefix_len w))
      then True
      else
        (case for_u32 (unat MAX_ALLOW_PREFIXES) 0
           (\<lambda>i. case array_lookup (allowed_path_prefixes s) i of
                  None \<Rightarrow> Continue
                | Some e \<Rightarrow>
                    if pfx_pattern_len e = 0 then Continue
                    else if path_starts_with_64 path path_len (pfx_pattern e)
                              (ucast (pfx_pattern_len e))
                    then Return True
                    else Continue) of
           Some r \<Rightarrow> r
         | None \<Rightarrow> False))"

definition workspace_policy_id :: "enforcer \<Rightarrow> u32" where
  "workspace_policy_id s =
     (case array_lookup (workspace_root s) 0 of None \<Rightarrow> 0 | Some w \<Rightarrow> ws_policy_id w)"

section \<open>Reporting\<close>

text \<open>
  \<open>deny_path\<close>: reserve a record, fill it, submit it; \<open>-EPERM\<close> whether or not there was room.
  \<open>path\<close> is the scratch buffer, which is never a null pointer at the call sites.
\<close>

definition deny_path :: "'p kernel \<Rightarrow> u32 \<Rightarrow> u32 \<Rightarrow> bytes \<Rightarrow> enforcer \<Rightarrow> int \<times> enforcer" where
  "deny_path k pid pol path s =
     (if ringbuf_has_room k then
        let v = \<lparr>timestamp_ns = ktime_get_ns k, v_pid = pid, policy_type = pol,
                 typed_comm = current_comm k, canonical_path = zeros 256,
                 detail = read_str_buf 256 (zeros 256) path\<rparr>
        in (- EPERM, s\<lparr>violations := violations s @ [v]\<rparr>)
      else (- EPERM, s))"

section \<open>Well-formed states\<close>

definition entry_wf :: "path_pattern_entry \<Rightarrow> bool" where
  "entry_wf e \<longleftrightarrow> length (pattern e) = 64 \<and> unat (pattern_len e) \<le> 64"

definition prefix_wf :: "prefix_entry \<Rightarrow> bool" where
  "prefix_wf e \<longleftrightarrow> length (pfx_pattern e) = 64 \<and> unat (pfx_pattern_len e) \<le> 64"

definition root_wf :: "workspace_root_entry \<Rightarrow> bool" where
  "root_wf w \<longleftrightarrow> length (ws_prefix w) = 256 \<and> unat (ws_prefix_len w) \<le> 255"

definition violation_wf :: "violation_event \<Rightarrow> bool" where
  "violation_wf v \<longleftrightarrow> length (typed_comm v) = 16 \<and> length (canonical_path v) = 256 \<and>
     length (detail v) = 256"

definition enforcer_wf :: "enforcer \<Rightarrow> bool" where
  "enforcer_wf s \<longleftrightarrow>
     hash_wf 8192 (tracked_pids s) \<and>
     length (blocked_path_patterns s) = 16 \<and> list_all entry_wf (blocked_path_patterns s) \<and>
     length (blocked_command_patterns s) = 16 \<and> list_all entry_wf (blocked_command_patterns s) \<and>
     length (allowed_path_prefixes s) = 25 \<and> list_all prefix_wf (allowed_path_prefixes s) \<and>
     length (workspace_root s) = 1 \<and> list_all root_wf (workspace_root s) \<and>
     length (file_open_path s) = 1 \<and> list_all (\<lambda>b. length b = 256) (file_open_path s) \<and>
     length (exec_path s) = 1 \<and> list_all (\<lambda>b. length b = 256) (exec_path s) \<and>
     list_all violation_wf (violations s)"

text \<open>The strings a slot stands for.\<close>

definition entry_str :: "path_pattern_entry \<Rightarrow> bytes" where
  "entry_str e = take (unat (pattern_len e)) (pattern e)"

definition prefix_str :: "prefix_entry \<Rightarrow> bytes" where
  "prefix_str e = take (unat (pfx_pattern_len e)) (pfx_pattern e)"

definition root_str :: "workspace_root_entry \<Rightarrow> bytes" where
  "root_str w = take (unat (ws_prefix_len w)) (ws_prefix w)"

section \<open>The tables as first-match searches\<close>

definition credential_rule :: "enforcer \<Rightarrow> bytes \<Rightarrow> path_pattern_entry option" where
  "credential_rule s p =
     find (\<lambda>e. entry_str e \<noteq> [] \<and> suffix (entry_str e) p) (blocked_path_patterns s)"

definition command_rule :: "enforcer \<Rightarrow> bytes \<Rightarrow> path_pattern_entry option" where
  "command_rule s p =
     find (\<lambda>e. entry_str e \<noteq> [] \<and> command_decides (entry_str e) p) (blocked_command_patterns s)"

definition in_workspace :: "enforcer \<Rightarrow> bytes \<Rightarrow> bool" where
  "in_workspace s p \<longleftrightarrow>
     (\<exists>w \<in> set (workspace_root s). root_str w \<noteq> [] \<and> path_under (root_str w) p) \<or>
     (\<exists>e \<in> set (allowed_path_prefixes s). prefix_str e \<noteq> [] \<and> path_under (prefix_str e) p)"

lemma unat_ucast_u8_u32 [simp]: "unat (ucast (x :: u8) :: u32) = unat x"
  by (simp add: unsigned_ucast_eq take_bit_nat_eq_self unsigned_less [of x, THEN less_trans])

lemma entry_str_eq_Nil: "entry_wf e \<Longrightarrow> entry_str e = [] \<longleftrightarrow> pattern_len e = 0"
  by (auto simp: entry_str_def entry_wf_def unat_eq_0)

lemma prefix_str_eq_Nil: "prefix_wf e \<Longrightarrow> prefix_str e = [] \<longleftrightarrow> pfx_pattern_len e = 0"
  by (auto simp: prefix_str_def prefix_wf_def unat_eq_0)

lemma root_str_eq_Nil: "root_wf w \<Longrightarrow> root_str w = [] \<longleftrightarrow> ws_prefix_len w = 0"
  by (auto simp: root_str_def root_wf_def unat_eq_0)

lemma enforcer_wf_tables:
  assumes "enforcer_wf s"
  shows "e \<in> set (blocked_path_patterns s) \<Longrightarrow> entry_wf e"
    and "e \<in> set (blocked_command_patterns s) \<Longrightarrow> entry_wf e"
    and "q \<in> set (allowed_path_prefixes s) \<Longrightarrow> prefix_wf q"
    and "w \<in> set (workspace_root s) \<Longrightarrow> root_wf w"
  using assms by (auto simp: enforcer_wf_def list_all_iff)

lemma match_blocked_paths_eq:
  assumes wf: "enforcer_wf s" and path: "length path = 256" "unat l < 256"
  shows "match_blocked_paths s path l =
           map_option policy_id (credential_rule s (take (unat l) path))"
proof -
  have "match_blocked_paths s path l =
      map_option policy_id (find (\<lambda>e. entry_str e \<noteq> [] \<and> suffix (entry_str e) (take (unat l) path))
        (take (unat MAX_PATH_RULES) (blocked_path_patterns s)))"
    unfolding match_blocked_paths_def
  proof (rule for_u32_table)
    fix e assume "e \<in> set (blocked_path_patterns s)"
    then have e: "entry_wf e" using enforcer_wf_tables [OF wf] by blast
    then show "(if pattern_len e = 0 then Continue
         else if path_ends_with path l (pattern e) (ucast (pattern_len e))
              then Return (policy_id e) else Continue) =
        (if entry_str e \<noteq> [] \<and> suffix (entry_str e) (take (unat l) path)
         then Return (policy_id e) else Continue)"
      using path entry_str_eq_Nil [OF e]
      by (auto simp: path_ends_with_iff entry_wf_def entry_str_def unat_gt_0)
  qed (simp add: table_limits)
  then show ?thesis
    using wf by (simp add: credential_rule_def enforcer_wf_def table_limits)
qed

lemma match_blocked_commands_eq:
  assumes wf: "enforcer_wf s" and path: "length path = 256" "unat l < 256"
  shows "match_blocked_commands s path l =
           (case command_rule s (take (unat l) path) of None \<Rightarrow> 0 | Some e \<Rightarrow> policy_id e)"
proof -
  have "for_u32 (unat MAX_CMD_RULES) 0
        (\<lambda>i. case array_lookup (blocked_command_patterns s) i of
               None \<Rightarrow> Continue
             | Some e \<Rightarrow>
                 if pattern_len e = 0 then Continue
                 else if path_ends_with path l (pattern e) (ucast (pattern_len e))
                 then Return (policy_id e)
                 else if path_is_basename path l (pattern e) (ucast (pattern_len e))
                 then Return (policy_id e)
                 else Continue) =
      map_option policy_id (find (\<lambda>e. entry_str e \<noteq> [] \<and> command_decides (entry_str e) (take (unat l) path))
        (take (unat MAX_CMD_RULES) (blocked_command_patterns s)))"
  proof (rule for_u32_table)
    fix e assume "e \<in> set (blocked_command_patterns s)"
    then have e: "entry_wf e" using enforcer_wf_tables [OF wf] by blast
    then show "(if pattern_len e = 0 then Continue
         else if path_ends_with path l (pattern e) (ucast (pattern_len e))
              then Return (policy_id e)
         else if path_is_basename path l (pattern e) (ucast (pattern_len e))
              then Return (policy_id e) else Continue) =
        (if entry_str e \<noteq> [] \<and> command_decides (entry_str e) (take (unat l) path)
         then Return (policy_id e) else Continue)"
      using path entry_str_eq_Nil [OF e] cmd.matcher_iff [of path "pattern e" "ucast (pattern_len e)" l]
      by (auto simp: entry_wf_def entry_str_def unat_gt_0)
  qed (simp add: table_limits)
  then show ?thesis
    using wf by (auto simp: match_blocked_commands_def command_rule_def enforcer_wf_def table_limits
        split: option.splits)
qed

lemma path_in_workspace_iff:
  assumes wf: "enforcer_wf s" and path: "length path = 256" "unat l < 256"
  shows "path_in_workspace s path l \<longleftrightarrow> in_workspace s (take (unat l) path)"
proof -
  let ?p = "take (unat l) path"
  have "length (workspace_root s) = Suc 0"
    using wf by (simp add: enforcer_wf_def)
  then obtain w where w: "workspace_root s = [w]"
    by (auto simp: length_Suc_conv)
  then have rw: "root_wf w"
    using enforcer_wf_tables(4) [OF wf, of w] by simp
  have root: "(case array_lookup (workspace_root s) 0 of None \<Rightarrow> False
      | Some w \<Rightarrow> ws_prefix_len w \<noteq> 0 \<and> path_starts_with_256 path l (ws_prefix w) (ws_prefix_len w))
      \<longleftrightarrow> root_str w \<noteq> [] \<and> path_under (root_str w) ?p"
    using w rw path root_str_eq_Nil [OF rw]
    by (auto simp: array_lookup_def path_starts_with_256_iff root_wf_def root_str_def unat_gt_0)
  have loop: "for_u32 (unat MAX_ALLOW_PREFIXES) 0
           (\<lambda>i. case array_lookup (allowed_path_prefixes s) i of
                  None \<Rightarrow> Continue
                | Some e \<Rightarrow>
                    if pfx_pattern_len e = 0 then Continue
                    else if path_starts_with_64 path l (pfx_pattern e) (ucast (pfx_pattern_len e))
                    then Return True
                    else Continue) =
      map_option (\<lambda>_. True) (find (\<lambda>e. prefix_str e \<noteq> [] \<and> path_under (prefix_str e) ?p)
        (take (unat MAX_ALLOW_PREFIXES) (allowed_path_prefixes s)))"
  proof (rule for_u32_table)
    fix e assume "e \<in> set (allowed_path_prefixes s)"
    then have e: "prefix_wf e" using enforcer_wf_tables [OF wf] by blast
    then show "(if pfx_pattern_len e = 0 then Continue
         else if path_starts_with_64 path l (pfx_pattern e) (ucast (pfx_pattern_len e))
              then Return True else Continue) =
        (if prefix_str e \<noteq> [] \<and> path_under (prefix_str e) ?p then Return True else Continue)"
      using path prefix_str_eq_Nil [OF e]
      by (auto simp: path_starts_with_64_iff prefix_wf_def prefix_str_def unat_gt_0)
  qed (simp add: table_limits)
  have len: "take (unat MAX_ALLOW_PREFIXES) (allowed_path_prefixes s) = allowed_path_prefixes s"
    using wf by (simp add: enforcer_wf_def table_limits)
  have "path_in_workspace s path l \<longleftrightarrow> root_str w \<noteq> [] \<and> path_under (root_str w) ?p \<or>
      find (\<lambda>e. prefix_str e \<noteq> [] \<and> path_under (prefix_str e) ?p) (allowed_path_prefixes s) \<noteq> None"
    unfolding path_in_workspace_def root loop len by (auto split: option.splits)
  then show ?thesis
    unfolding in_workspace_def w
    by (auto simp: find_None_iff find_Some_iff split: option.splits)
qed

end
