(* ===== verification/Lsm_Contract.thy ===== *)
theory Lsm_Contract
  imports Enforcer_State
begin

text \<open>
  The contract every LSM program of \<open>enforcer.bpf.c\<close> keeps, as a locale: a verdict of 0 or
  \<open>-EPERM\<close>, no effect on tasks outside \<open>tracked_pids\<close>, no write to policy or tracking state,
  at most one report per call and one per denial while the ring buffer has room, and
  preservation of well-formedness. \<open>deny_path\<close> is shown to keep it here; the hooks are in the
  theories of their components.
\<close>

section \<open>Who is watched\<close>

definition tracked_caller :: "'p kernel \<Rightarrow> enforcer \<Rightarrow> u32 option" where
  "tracked_caller k s =
     (case current_nspids k s of
        None \<Rightarrow> None
      | Some (tid, pid) \<Rightarrow> if hash_lookup (tracked_pids s) pid = None then None else Some pid)"

text \<open>The part of the state no hook may write: everything but scratch buffers and reports.\<close>

definition config :: "enforcer \<Rightarrow> enforcer" where
  "config s = s\<lparr>file_open_path := [], exec_path := [], violations := []\<rparr>"

definition kernel_wf :: "'p kernel \<Rightarrow> bool" where
  "kernel_wf k \<longleftrightarrow> length (current_comm k) = 16 \<and>
     (\<forall>p buf. length buf = 256 \<longrightarrow>
        length (snd (d_path k p buf)) = 256 \<and> length (snd (path_d_path k p buf)) = 256)"

lemma tracked_caller_config: "tracked_caller k (config s) = tracked_caller k s"
  by (auto simp: tracked_caller_def current_nspids_def config_def split: option.splits)

locale lsm_hook =
  fixes k :: "'p kernel"
    and hook :: "enforcer \<Rightarrow> int \<times> enforcer"
  assumes verdict: "fst (hook s) = 0 \<or> fst (hook s) = - EPERM"
    and untracked: "tracked_caller k s = None \<Longrightarrow> hook s = (0, s)"
    and frame: "config (snd (hook s)) = config s"
    and reports: "\<exists>vs. violations (snd (hook s)) = violations s @ vs \<and> length vs \<le> 1 \<and>
          (\<forall>v \<in> set vs. tracked_caller k s = Some (v_pid v))"
    and denial_reported:
      "\<lbrakk>kernel_wf k; enforcer_wf s; ringbuf_has_room k; fst (hook s) = - EPERM\<rbrakk>
       \<Longrightarrow> violations (snd (hook s)) \<noteq> violations s"
    and keeps_wf: "\<lbrakk>kernel_wf k; enforcer_wf s\<rbrakk> \<Longrightarrow> enforcer_wf (snd (hook s))"
begin

lemma denied_is_tracked: "fst (hook s) = - EPERM \<Longrightarrow> \<exists>pid. tracked_caller k s = Some pid"
  by (cases "tracked_caller k s") (auto simp: untracked EPERM_def)

lemma denial_report:
  assumes "kernel_wf k" "enforcer_wf s" "ringbuf_has_room k" "fst (hook s) = - EPERM"
  shows "\<exists>v. violations (snd (hook s)) = violations s @ [v] \<and> tracked_caller k s = Some (v_pid v)"
proof -
  obtain vs where vs: "violations (snd (hook s)) = violations s @ vs" "length vs \<le> 1"
      "\<forall>v \<in> set vs. tracked_caller k s = Some (v_pid v)"
    using reports [of s] by blast
  moreover have "vs \<noteq> []"
    using denial_reported [OF assms] vs(1) by auto
  ultimately show ?thesis
    by (cases vs) auto
qed

lemma caller_unchanged: "tracked_caller k (snd (hook s)) = tracked_caller k s"
  by (metis frame tracked_caller_config)

lemma tracking_unchanged: "tracked_pids (snd (hook s)) = tracked_pids s"
  using arg_cong [OF frame [of s], of tracked_pids] by (simp add: config_def)

end

section \<open>Shared steps of the hooks\<close>

named_theorems hook_simps \<open>the steps hooks are made of\<close>

lemma deny_path_simps [hook_simps]:
  "fst (deny_path k pid pol path s) = - EPERM"
  "config (snd (deny_path k pid pol path s)) = config s"
  by (simp_all add: deny_path_def Let_def config_def)

lemma deny_path_violations [hook_simps]:
  "violations (snd (deny_path k pid pol path s)) =
     violations s @ (if ringbuf_has_room k then
        [\<lparr>timestamp_ns = ktime_get_ns k, v_pid = pid, policy_type = pol,
          typed_comm = current_comm k, canonical_path = zeros 256,
          detail = read_str_buf 256 (zeros 256) path\<rparr>] else [])"
  by (simp add: deny_path_def Let_def)

lemma config_updates [hook_simps]:
  "config (s\<lparr>file_open_path := x\<rparr>) = config s"
  "config (s\<lparr>exec_path := x\<rparr>) = config s"
  "config (s\<lparr>violations := vs\<rparr>) = config s"
  by (simp_all add: config_def)

lemma enforcer_wf_scratch [hook_simps]:
  assumes "enforcer_wf s"
  shows "length b = 256 \<Longrightarrow> enforcer_wf (s\<lparr>file_open_path := (file_open_path s)[0 := b]\<rparr>)"
    and "length b = 256 \<Longrightarrow> enforcer_wf (s\<lparr>exec_path := (exec_path s)[0 := b]\<rparr>)"
    and "violation_wf v \<Longrightarrow> enforcer_wf (s\<lparr>violations := violations s @ [v]\<rparr>)"
  using assms by (auto simp: enforcer_wf_def list_all_iff dest: set_update_subset_insert [THEN subsetD])

lemma violation_wf_report [hook_simps]:
  assumes "length comm = 16" "length c = 256" "length d = 256"
  shows "violation_wf \<lparr>timestamp_ns = t, v_pid = pid, policy_type = pol, typed_comm = comm,
           canonical_path = c, detail = d\<rparr>"
  using assms by (simp add: violation_wf_def)

lemma deny_path_wf [hook_simps]:
  assumes "kernel_wf k" "enforcer_wf s"
  shows "enforcer_wf (snd (deny_path k pid pol path s))"
  using assms
  by (auto simp: deny_path_def Let_def kernel_wf_def length_read_str_buf
      intro!: enforcer_wf_scratch violation_wf_report)

lemma scratch_present:
  assumes "enforcer_wf s"
  shows "array_lookup (file_open_path s) 0 \<noteq> None" "array_lookup (exec_path s) 0 \<noteq> None"
  using assms by (simp_all add: enforcer_wf_def array_lookup_def)

section \<open>Outcomes\<close>

lemma tracked_callerE:
  assumes "tracked_caller k s = Some pid"
  obtains tid w where "current_nspids k s = Some (tid, pid)" "hash_lookup (tracked_pids s) pid = Some w"
  using assms by (auto simp: tracked_caller_def split: option.splits if_splits)

text \<open>
  The outcome of a hook on a tracked task: the verdict and the reports it adds. A denial adds
  one report with the given policy and text while the ring buffer has room.
\<close>

definition hook_outcome ::
  "'p kernel \<Rightarrow> u32 \<Rightarrow> (u32 \<times> bytes) option \<Rightarrow> enforcer \<Rightarrow> int \<times> enforcer \<Rightarrow> bool" where
  "hook_outcome k pid denial s r \<longleftrightarrow>
     (case denial of
        None \<Rightarrow> fst r = 0 \<and> violations (snd r) = violations s
      | Some (pol, txt) \<Rightarrow> fst r = - EPERM \<and>
          (if ringbuf_has_room k then
             \<exists>v. violations (snd r) = violations s @ [v] \<and> v_pid v = pid \<and> policy_type v = pol \<and>
               timestamp_ns v = ktime_get_ns k \<and> typed_comm v = current_comm k \<and>
               cstr (detail v) = txt
           else violations (snd r) = violations s))"

lemma hook_outcome_deny_path:
  "cstr (read_str_buf 256 (zeros 256) path) = txt \<Longrightarrow> violations s1 = violations s \<Longrightarrow>
   hook_outcome k pid (Some (pol, txt)) s (deny_path k pid pol path s1)"
  by (simp add: hook_outcome_def hook_simps)

section \<open>A concrete machine\<close>

text \<open>
  A kernel in which a path object is its own name, for concrete runs: the current task has the
  given thread and process ids in the namespace (3, 4), and path resolution copies the name or
  fails with \<open>-ENAMETOOLONG\<close>.
\<close>

definition string_d_path :: "bytes \<Rightarrow> bytes \<Rightarrow> int \<times> bytes" where
  "string_d_path p buf =
     (if length p < length buf then (int (length p) + 1, p @ 0 # drop (length p + 1) buf)
      else (- 36, buf))"

definition string_kernel :: "u32 \<Rightarrow> u32 \<Rightarrow> bytes kernel" where
  "string_kernel tid pid =
     \<lparr>ns_current_pid_tgid = (\<lambda>dev ino. if dev = 3 \<and> ino = 4 then Some (tid, pid) else None),
      ktime_get_ns = 7, current_comm = zeros 16, ringbuf_has_room = True,
      d_path = string_d_path, path_d_path = string_d_path\<rparr>"

lemma string_d_path_resolves:
  "0 \<notin> set p \<Longrightarrow> length p < sz \<Longrightarrow> d_path_resolves string_d_path sz p p"
  by (auto simp: d_path_resolves_def string_d_path_def)

lemma string_kernel_wf: "kernel_wf (string_kernel tid pid)"
  by (auto simp: kernel_wf_def string_kernel_def string_d_path_def)

lemma string_kernel_simps [simp]:
  "d_path (string_kernel tid pid) = string_d_path"
  "path_d_path (string_kernel tid pid) = string_d_path"
  "ringbuf_has_room (string_kernel tid pid)"
  "ns_current_pid_tgid (string_kernel tid pid) 3 4 = Some (tid, pid)"
  by (simp_all add: string_kernel_def)

text \<open>
  A loaded state: process 42 is tracked; the credential suffix \<open>/.env\<close> has policy 1, the command
  \<open>/rm\<close> policy 2, the workspace root \<open>/ws\<close> policy 3 and the prefix \<open>/tmp\<close> is allowed; the proxy
  is 127.0.0.1 port 8080.
\<close>

definition sample_entry :: "bytes \<Rightarrow> u32 \<Rightarrow> path_pattern_entry" where
  "sample_entry s pid =
     \<lparr>pattern = s @ zeros (64 - length s), policy_id = pid, pattern_len = of_nat (length s)\<rparr>"

definition sample_prefix :: "bytes \<Rightarrow> u32 \<Rightarrow> prefix_entry" where
  "sample_prefix s pid =
     \<lparr>pfx_pattern = s @ zeros (64 - length s), pfx_policy_id = pid, pfx_pattern_len = of_nat (length s)\<rparr>"

definition sample_root :: "bytes \<Rightarrow> u32 \<Rightarrow> workspace_root_entry" where
  "sample_root s pid =
     \<lparr>ws_prefix = s @ zeros (256 - length s), ws_prefix_len = of_nat (length s), ws_policy_id = pid\<rparr>"

abbreviation str_env :: bytes where "str_env \<equiv> [SLASH, 0x2e, 0x65, 0x6e, 0x76]"
abbreviation str_rm :: bytes where "str_rm \<equiv> [SLASH, 0x72, 0x6d]"
abbreviation str_ws :: bytes where "str_ws \<equiv> [SLASH, 0x77, 0x73]"
abbreviation str_tmp :: bytes where "str_tmp \<equiv> [SLASH, 0x74, 0x6d, 0x70]"

definition sample :: enforcer where
  "sample =
     \<lparr>proxy_addr_host = 0x7f000001, proxy_port_host = 8080, dns_addr_host = 0x7f000035,
      network_policy_id = 4, pidns_dev = 3, pidns_ino = 4,
      enforce_network = 1, allow_local_dns = 0, enforce_workspace = 1,
      tracked_pids = [(42, 1)], blocked_paths_map = [],
      blocked_path_patterns = sample_entry str_env 1 # replicate 15 (sample_entry [] 0),
      allowed_path_prefixes = sample_prefix str_tmp 3 # replicate 24 (sample_prefix [] 0),
      workspace_root = [sample_root str_ws 3],
      file_open_path = [zeros 256],
      blocked_command_patterns = sample_entry str_rm 2 # replicate 15 (sample_entry [] 0),
      exec_path = [zeros 256], violations = []\<rparr>"

lemma sample_entry_wf: "length s \<le> 64 \<Longrightarrow> entry_wf (sample_entry s pid)"
  by (simp add: entry_wf_def sample_entry_def unat_of_nat)

lemma sample_entry_str: "length s \<le> 64 \<Longrightarrow> entry_str (sample_entry s pid) = s"
  by (simp add: entry_str_def sample_entry_def unat_of_nat)

lemma sample_prefix_str: "length s \<le> 64 \<Longrightarrow> prefix_str (sample_prefix s pid) = s"
  by (simp add: prefix_str_def sample_prefix_def unat_of_nat)

lemma sample_root_str: "length s \<le> 255 \<Longrightarrow> root_str (sample_root s pid) = s"
  by (simp add: root_str_def sample_root_def unat_of_nat)

lemma sample_policies [simp]:
  "ws_policy_id (sample_root s pid) = pid" "policy_id (sample_entry s pid) = pid"
  by (simp_all add: sample_root_def sample_entry_def)

lemma sample_wf: "enforcer_wf sample"
  by (simp add: enforcer_wf_def sample_def hash_wf_def sample_entry_wf list_all_iff
      prefix_wf_def sample_prefix_def root_wf_def sample_root_def)

lemma sample_caller: "tracked_caller (string_kernel tid 42) sample = Some 42"
  by (simp add: tracked_caller_def current_nspids_def sample_def hash_lookup_def)

lemma sample_rules:
  "credential_rule sample p = (if suffix str_env p then Some (sample_entry str_env 1) else None)"
  "command_rule sample p = (if command_decides str_rm p then Some (sample_entry str_rm 2) else None)"
  "in_workspace sample p \<longleftrightarrow> path_under str_ws p \<or> path_under str_tmp p"
  "workspace_policy_id sample = 3" "enforce_workspace sample = 1"
  by (simp_all add: credential_rule_def command_rule_def in_workspace_def sample_def sample_entry_str
      sample_prefix_str sample_root_str find_None_iff workspace_policy_id_def array_lookup_def)

end
