(* ===== verification/Enforcer_Files.thy ===== *)
theory Enforcer_Files
  imports Lsm_Contract
begin

text \<open>
  The file-system and exec hooks of \<open>enforcer.bpf.c\<close>: \<open>confine_path_struct\<close> with its seven
  callers, \<open>check_file_open\<close> and \<open>check_exec\<close>. Each is a function from the kernel's answers, the
  hook's arguments and the program state to the verdict (0 allows, \<open>-EPERM\<close> denies) and the
  new state.
\<close>

text \<open>The kernel objects the hooks take apart.\<close>

record 'p kfile =
  f_path :: 'p

text \<open>\<open>filename\<close> holds the bytes readable from the pointer \<open>bprm->filename\<close>.\<close>

record 'p linux_binprm =
  bprm_file :: "'p kfile"
  filename :: bytes

text \<open>The length passed to the matchers: \<open>(__u32)n - 1\<close>, clamped to the buffer.\<close>

definition path_len_of :: "int \<Rightarrow> u32" where
  "path_len_of n =
     (let path_len = (of_int n :: u32) - 1
      in if MAX_PATH_LEN \<le> path_len then MAX_PATH_LEN - 1 else path_len)"

definition confine_path_struct :: "'p kernel \<Rightarrow> 'p \<Rightarrow> enforcer \<Rightarrow> int \<times> enforcer" where
  "confine_path_struct k dirpath s =
     (case current_nspids k s of
        None \<Rightarrow> (0, s)
      | Some (tid, pid) \<Rightarrow>
          if hash_lookup (tracked_pids s) pid = None then (0, s)
          else if enforce_workspace s = 0 then (0, s)
          else
            (case array_lookup (file_open_path s) 0 of
               None \<Rightarrow> (- EPERM, s)
             | Some _ \<Rightarrow>
                 let (n, path) = d_path k dirpath (zeros 256);
                     s1 = s\<lparr>file_open_path := (file_open_path s)[0 := path]\<rparr>;
                     pol = workspace_policy_id s1
                 in if n \<le> 0 \<or> uint MAX_PATH_LEN \<le> n then deny_path k pid pol path s1
                    else if \<not> path_in_workspace s1 path (path_len_of n)
                    then deny_path k pid pol path s1
                    else (0, s1)))"

definition check_file_open :: "'p kernel \<Rightarrow> 'p kfile \<Rightarrow> enforcer \<Rightarrow> int \<times> enforcer" where
  "check_file_open k file s =
     (case current_nspids k s of
        None \<Rightarrow> (0, s)
      | Some (tid, pid) \<Rightarrow>
          if hash_lookup (tracked_pids s) pid = None then (0, s)
          else
            (case array_lookup (file_open_path s) 0 of
               None \<Rightarrow> if enforce_workspace s \<noteq> 0 then (- EPERM, s) else (0, s)
             | Some _ \<Rightarrow>
                 let (n, path) = d_path k (f_path file) (zeros 256);
                     s1 = s\<lparr>file_open_path := (file_open_path s)[0 := path]\<rparr>
                 in if n \<le> 0 \<or> uint MAX_PATH_LEN \<le> n then
                      if enforce_workspace s1 \<noteq> 0
                      then deny_path k pid (workspace_policy_id s1) path s1
                      else (0, s1)
                    else
                      let path_len = path_len_of n in
                      if enforce_workspace s1 \<noteq> 0 \<and> \<not> path_in_workspace s1 path path_len
                      then deny_path k pid (workspace_policy_id s1) path s1
                      else
                        (case match_blocked_paths s1 path path_len of
                           None \<Rightarrow> (0, s1)
                         | Some hit_policy \<Rightarrow>
                             if ringbuf_has_room k then
                               let v = \<lparr>timestamp_ns = ktime_get_ns k, v_pid = pid,
                                        policy_type = hit_policy,
                                        typed_comm = current_comm k,
                                        canonical_path = zeros 256,
                                        detail = read_str_buf 256 (zeros 256) path\<rparr>
                               in (- EPERM, s1\<lparr>violations := violations s1 @ [v]\<rparr>)
                             else (- EPERM, s1))))"

text \<open>
  The remaining path hooks. The directory entry and the other arguments the source casts to
  \<open>void\<close> are kept as unused parameters.
\<close>

definition check_path_unlink :: "'p kernel \<Rightarrow> 'p \<Rightarrow> 'd \<Rightarrow> enforcer \<Rightarrow> int \<times> enforcer" where
  "check_path_unlink k dir dentry s = confine_path_struct k dir s"

definition check_path_rename ::
  "'p kernel \<Rightarrow> 'p \<Rightarrow> 'd \<Rightarrow> 'p \<Rightarrow> 'd \<Rightarrow> u32 \<Rightarrow> enforcer \<Rightarrow> int \<times> enforcer" where
  "check_path_rename k old_dir old_dentry new_dir new_dentry flags s =
     (let (err, s1) = confine_path_struct k old_dir s
      in if err \<noteq> 0 then (err, s1) else confine_path_struct k new_dir s1)"

definition check_path_mknod :: "'p kernel \<Rightarrow> 'p \<Rightarrow> 'd \<Rightarrow> u16 \<Rightarrow> u32 \<Rightarrow> enforcer \<Rightarrow> int \<times> enforcer" where
  "check_path_mknod k dir dentry mode dev s =
     (case current_nspids k s of
        None \<Rightarrow> (0, s)
      | Some (tid, pid) \<Rightarrow>
          if hash_lookup (tracked_pids s) pid = None then (0, s)
          else if enforce_workspace s = 0 then (0, s)
          else
            (case array_lookup (file_open_path s) 0 of
               None \<Rightarrow> (- EPERM, s)
             | Some _ \<Rightarrow>
                 let (n, path) = path_d_path k dir (zeros 256);
                     s1 = s\<lparr>file_open_path := (file_open_path s)[0 := path]\<rparr>
                 in if n \<le> 0 \<or> uint MAX_PATH_LEN \<le> n
                    then deny_path k pid (workspace_policy_id s1) path s1
                    else if \<not> path_in_workspace s1 path (path_len_of n)
                    then deny_path k pid (workspace_policy_id s1) path s1
                    else (0, s1)))"

definition check_path_mkdir :: "'p kernel \<Rightarrow> 'p \<Rightarrow> 'd \<Rightarrow> u16 \<Rightarrow> enforcer \<Rightarrow> int \<times> enforcer" where
  "check_path_mkdir k dir dentry mode s = confine_path_struct k dir s"

definition check_path_symlink :: "'p kernel \<Rightarrow> 'p \<Rightarrow> 'd \<Rightarrow> bytes \<Rightarrow> enforcer \<Rightarrow> int \<times> enforcer" where
  "check_path_symlink k dir dentry old_name s = confine_path_struct k dir s"

definition check_path_link :: "'p kernel \<Rightarrow> 'd \<Rightarrow> 'p \<Rightarrow> 'd \<Rightarrow> enforcer \<Rightarrow> int \<times> enforcer" where
  "check_path_link k old_dentry new_dir new_dentry s = confine_path_struct k new_dir s"

definition check_path_rmdir :: "'p kernel \<Rightarrow> 'p \<Rightarrow> 'd \<Rightarrow> enforcer \<Rightarrow> int \<times> enforcer" where
  "check_path_rmdir k dir dentry s = confine_path_struct k dir s"

text \<open>
  \<open>check_exec\<close> looks at the resolved path of the executable first and at the name given to
  \<open>execve\<close> only when the first is no hit; the scratch buffer then holds the name.
\<close>

definition check_exec :: "'p kernel \<Rightarrow> 'p linux_binprm \<Rightarrow> enforcer \<Rightarrow> int \<times> enforcer" where
  "check_exec k bprm s =
     (case current_nspids k s of
        None \<Rightarrow> (0, s)
      | Some (tid, pid) \<Rightarrow>
          if hash_lookup (tracked_pids s) pid = None then (0, s)
          else
            (case array_lookup (exec_path s) 0 of
               None \<Rightarrow> (0, s)
             | Some _ \<Rightarrow>
                 let (n, path) = d_path k (f_path (bprm_file bprm)) (zeros 256);
                     s1 = s\<lparr>exec_path := (exec_path s)[0 := path]\<rparr>;
                     hit = (if 0 < n then match_blocked_commands s1 path (path_len_of n) else 0);
                     (hit_policy, path2) =
                       (if hit = 0 then
                          let (n2, bs) = probe_read_str 256 (filename bprm);
                              buf = buf_write 0 bs (zeros 256)
                          in (if 0 < n2 then match_blocked_commands s1 buf (path_len_of n2) else 0,
                              buf)
                        else (hit, path));
                     s2 = s1\<lparr>exec_path := (exec_path s1)[0 := path2]\<rparr>
                 in if hit_policy = 0 then (0, s2)
                    else if ringbuf_has_room k then
                      let v = \<lparr>timestamp_ns = ktime_get_ns k, v_pid = pid,
                               policy_type = hit_policy, typed_comm = current_comm k,
                               canonical_path = read_str_buf 256 (zeros 256) path2,
                               detail = read_str_buf 256 (zeros 256) path2\<rparr>
                      in (- EPERM, s2\<lparr>violations := violations s2 @ [v]\<rparr>)
                    else (- EPERM, s2)))"

section \<open>The contract\<close>

lemma unat_path_len_of: "unat (path_len_of n) < 256"
  by (auto simp: path_len_of_def Let_def path_limits word_le_nat_alt not_le)

lemma path_len_of_nat: "m < 256 \<Longrightarrow> path_len_of (int m + 1) = of_nat m"
  by (auto simp: path_len_of_def Let_def path_limits word_le_nat_alt unat_of_nat)

interpretation confine: lsm_hook k "confine_path_struct k dir" for k dir
proof unfold_locales
  fix s
  show "fst (confine_path_struct k dir s) = 0 \<or> fst (confine_path_struct k dir s) = - EPERM"
    by (auto simp: confine_path_struct_def Let_def hook_simps split: option.splits prod.splits)
  show "tracked_caller k s = None \<Longrightarrow> confine_path_struct k dir s = (0, s)"
    by (auto simp: confine_path_struct_def tracked_caller_def split: option.splits if_splits)
  show "config (snd (confine_path_struct k dir s)) = config s"
    by (auto simp: confine_path_struct_def Let_def hook_simps split: option.splits prod.splits)
  show "\<exists>vs. violations (snd (confine_path_struct k dir s)) = violations s @ vs \<and> length vs \<le> 1 \<and>
          (\<forall>v \<in> set vs. tracked_caller k s = Some (v_pid v))"
    by (auto simp: confine_path_struct_def Let_def hook_simps tracked_caller_def
        split: option.splits prod.splits)
  show "\<lbrakk>kernel_wf k; enforcer_wf s; ringbuf_has_room k; fst (confine_path_struct k dir s) = - EPERM\<rbrakk>
       \<Longrightarrow> violations (snd (confine_path_struct k dir s)) \<noteq> violations s"
    using scratch_present(1) [of s]
    by (auto simp: confine_path_struct_def Let_def hook_simps EPERM_def
        split: option.splits prod.splits if_splits)
  show "\<lbrakk>kernel_wf k; enforcer_wf s\<rbrakk> \<Longrightarrow> enforcer_wf (snd (confine_path_struct k dir s))"
  proof -
    assume wf: "kernel_wf k" "enforcer_wf s"
    then have "length (snd (d_path k dir (zeros 256))) = 256" by (simp add: kernel_wf_def)
    then show ?thesis
      using wf by (auto simp: confine_path_struct_def Let_def hook_simps split: option.splits prod.splits)
  qed
qed

text \<open>A directory check that allows leaves no report.\<close>

lemma confine_allow_silent:
  "fst (confine_path_struct k dir s) = 0 \<Longrightarrow> violations (snd (confine_path_struct k dir s)) = violations s"
  by (auto simp: confine_path_struct_def Let_def hook_simps EPERM_def
      split: option.splits prod.splits if_splits)

text \<open>\<open>check_path_mknod\<close> repeats the check with the other path helper.\<close>

lemma check_path_mknod_confine:
  "check_path_mknod k dir dentry mode dev = confine_path_struct (k\<lparr>d_path := path_d_path k\<rparr>) dir"
  by (auto simp: fun_eq_iff check_path_mknod_def confine_path_struct_def current_nspids_def Let_def
      deny_path_def split: option.splits prod.splits)

lemma mknod_kernel:
  "tracked_caller (k\<lparr>d_path := path_d_path k\<rparr>) s = tracked_caller k s"
  "kernel_wf k \<Longrightarrow> kernel_wf (k\<lparr>d_path := path_d_path k\<rparr>)"
  "hook_outcome (k\<lparr>d_path := path_d_path k\<rparr>) = hook_outcome k"
  by (auto simp: tracked_caller_def current_nspids_def kernel_wf_def hook_outcome_def fun_eq_iff
      split: option.splits)

interpretation mknod: lsm_hook k "check_path_mknod k dir dentry mode dev" for k dir dentry mode dev
proof unfold_locales
  fix s
  let ?k = "k\<lparr>d_path := path_d_path k\<rparr>"
  note hook = check_path_mknod_confine [of k dir dentry mode dev]
  show "fst (check_path_mknod k dir dentry mode dev s) = 0 \<or>
        fst (check_path_mknod k dir dentry mode dev s) = - EPERM"
    unfolding hook by (rule confine.verdict)
  show "tracked_caller k s = None \<Longrightarrow> check_path_mknod k dir dentry mode dev s = (0, s)"
    unfolding hook using confine.untracked [of ?k s] by (simp add: mknod_kernel)
  show "config (snd (check_path_mknod k dir dentry mode dev s)) = config s"
    unfolding hook by (rule confine.frame)
  show "\<exists>vs. violations (snd (check_path_mknod k dir dentry mode dev s)) = violations s @ vs \<and>
          length vs \<le> 1 \<and> (\<forall>v \<in> set vs. tracked_caller k s = Some (v_pid v))"
    unfolding hook using confine.reports [of ?k dir s] by (simp add: mknod_kernel)
  show "\<lbrakk>kernel_wf k; enforcer_wf s; ringbuf_has_room k; fst (check_path_mknod k dir dentry mode dev s) = - EPERM\<rbrakk>
       \<Longrightarrow> violations (snd (check_path_mknod k dir dentry mode dev s)) \<noteq> violations s"
    unfolding hook using confine.denial_reported [of ?k s dir] by (simp add: mknod_kernel)
  show "\<lbrakk>kernel_wf k; enforcer_wf s\<rbrakk> \<Longrightarrow> enforcer_wf (snd (check_path_mknod k dir dentry mode dev s))"
    unfolding hook using confine.keeps_wf [of ?k s dir] by (simp add: mknod_kernel)
qed

lemma confine_hooks:
  "check_path_unlink k dir dentry = confine_path_struct k dir"
  "check_path_mkdir k dir dentry mode = confine_path_struct k dir"
  "check_path_symlink k dir dentry old_name = confine_path_struct k dir"
  "check_path_link k old_dentry dir dentry = confine_path_struct k dir"
  "check_path_rmdir k dir dentry = confine_path_struct k dir"
  by (simp_all add: fun_eq_iff check_path_unlink_def check_path_mkdir_def check_path_symlink_def
      check_path_link_def check_path_rmdir_def)

interpretation rename: lsm_hook k "check_path_rename k old_dir old_dentry new_dir new_dentry flags"
  for k old_dir old_dentry new_dir new_dentry flags
proof unfold_locales
  fix s
  let ?s1 = "snd (confine_path_struct k old_dir s)"
  note defs = check_path_rename_def Let_def case_prod_beta
  note caller = confine.caller_unchanged [of k old_dir s]
  show "fst (check_path_rename k old_dir old_dentry new_dir new_dentry flags s) = 0 \<or>
      fst (check_path_rename k old_dir old_dentry new_dir new_dentry flags s) = - EPERM"
    using confine.verdict [of k old_dir s] confine.verdict [of k new_dir ?s1] by (auto simp: defs)
  show "tracked_caller k s = None \<Longrightarrow>
      check_path_rename k old_dir old_dentry new_dir new_dentry flags s = (0, s)"
    by (simp add: defs confine.untracked)
  show "config (snd (check_path_rename k old_dir old_dentry new_dir new_dentry flags s)) = config s"
    by (simp add: defs confine.frame)
  show "\<exists>vs. violations (snd (check_path_rename k old_dir old_dentry new_dir new_dentry flags s)) =
      violations s @ vs \<and> length vs \<le> 1 \<and> (\<forall>v \<in> set vs. tracked_caller k s = Some (v_pid v))"
    using confine.reports [of k old_dir s] confine.reports [of k new_dir ?s1]
      confine_allow_silent [of k old_dir s]
    by (auto simp: defs caller)
  show "\<lbrakk>kernel_wf k; enforcer_wf s; ringbuf_has_room k;
         fst (check_path_rename k old_dir old_dentry new_dir new_dentry flags s) = - EPERM\<rbrakk>
       \<Longrightarrow> violations (snd (check_path_rename k old_dir old_dentry new_dir new_dentry flags s)) \<noteq> violations s"
    using confine.denial_reported [of k s old_dir] confine.denial_reported [of k ?s1 new_dir]
      confine.keeps_wf [of k s old_dir] confine.verdict [of k old_dir s]
      confine_allow_silent [of k old_dir s]
    by (auto simp: defs split: if_splits)
  show "\<lbrakk>kernel_wf k; enforcer_wf s\<rbrakk> \<Longrightarrow>
      enforcer_wf (snd (check_path_rename k old_dir old_dentry new_dir new_dentry flags s))"
    by (simp add: defs confine.keeps_wf)
qed

interpretation file_open: lsm_hook k "check_file_open k fobj" for k fobj
proof unfold_locales
  fix s
  note defs = check_file_open_def Let_def hook_simps
  show "fst (check_file_open k fobj s) = 0 \<or> fst (check_file_open k fobj s) = - EPERM"
    by (auto simp: defs split: option.splits prod.splits)
  show "tracked_caller k s = None \<Longrightarrow> check_file_open k fobj s = (0, s)"
    by (auto simp: check_file_open_def tracked_caller_def split: option.splits if_splits)
  show "config (snd (check_file_open k fobj s)) = config s"
    by (auto simp: defs split: option.splits prod.splits)
  show "\<exists>vs. violations (snd (check_file_open k fobj s)) = violations s @ vs \<and> length vs \<le> 1 \<and>
          (\<forall>v \<in> set vs. tracked_caller k s = Some (v_pid v))"
    by (auto simp: defs tracked_caller_def split: option.splits prod.splits)
  show "\<lbrakk>kernel_wf k; enforcer_wf s; ringbuf_has_room k; fst (check_file_open k fobj s) = - EPERM\<rbrakk>
       \<Longrightarrow> violations (snd (check_file_open k fobj s)) \<noteq> violations s"
    using scratch_present(1) [of s]
    by (auto simp: defs EPERM_def split: option.splits prod.splits if_splits)
  show "\<lbrakk>kernel_wf k; enforcer_wf s\<rbrakk> \<Longrightarrow> enforcer_wf (snd (check_file_open k fobj s))"
  proof -
    assume wf: "kernel_wf k" "enforcer_wf s"
    define r where "r = d_path k (f_path fobj) (zeros 256)"
    define s1 where "s1 = s\<lparr>file_open_path := (file_open_path s)[0 := snd r]\<rparr>"
    have "length (snd r) = 256" "length (current_comm k) = 16"
      using wf by (simp_all add: kernel_wf_def r_def)
    then have "enforcer_wf s1" "violation_wf \<lparr>timestamp_ns = t, v_pid = pid, policy_type = pol,
        typed_comm = current_comm k, canonical_path = zeros 256,
        detail = read_str_buf 256 (zeros 256) (snd r)\<rparr>" for t pid pol
      using wf by (auto simp: s1_def length_read_str_buf intro!: hook_simps)
    then show ?thesis
      using wf unfolding check_file_open_def case_prod_beta Let_def
        r_def [symmetric] s1_def [symmetric]
      by (auto simp: hook_simps split: option.splits)
  qed
qed

text \<open>
  \<open>check_exec\<close> on a tracked task in stages: the policy that was hit and the string that the
  scratch buffer holds at the end.
\<close>

definition exec_hit :: "'p kernel \<Rightarrow> 'p linux_binprm \<Rightarrow> enforcer \<Rightarrow> u32 \<times> bytes" where
  "exec_hit k bprm s =
     (let (n, path) = d_path k (f_path (bprm_file bprm)) (zeros 256);
          hit = (if 0 < n then match_blocked_commands s path (path_len_of n) else 0);
          (n2, bs) = probe_read_str 256 (filename bprm);
          buf = buf_write 0 bs (zeros 256)
      in if hit \<noteq> 0 then (hit, path)
         else (if 0 < n2 then match_blocked_commands s buf (path_len_of n2) else 0, buf))"

lemma match_blocked_commands_scratch:
  "match_blocked_commands (s\<lparr>exec_path := x\<rparr>) = match_blocked_commands s"
  by (simp add: fun_eq_iff match_blocked_commands_def)

lemma check_exec_staged:
  assumes "tracked_caller k s = Some pid" "array_lookup (exec_path s) 0 \<noteq> None"
  shows "check_exec k bprm s =
    (let (hit, path) = exec_hit k bprm s;
         s2 = s\<lparr>exec_path := (exec_path s)[0 := path]\<rparr>
     in if hit = 0 then (0, s2)
        else (- EPERM,
              if ringbuf_has_room k then
                s2\<lparr>violations := violations s @
                  [\<lparr>timestamp_ns = ktime_get_ns k, v_pid = pid, policy_type = hit,
                    typed_comm = current_comm k,
                    canonical_path = read_str_buf 256 (zeros 256) path,
                    detail = read_str_buf 256 (zeros 256) path\<rparr>]\<rparr>
              else s2))"
proof -
  obtain tid where caller: "current_nspids k s = Some (tid, pid)" "hash_lookup (tracked_pids s) pid \<noteq> None"
    using assms(1) by (auto simp: tracked_caller_def split: option.splits if_splits)
  obtain b where b: "array_lookup (exec_path s) 0 = Some b" using assms(2) by blast
  obtain n path where dp: "d_path k (f_path (bprm_file bprm)) (zeros 256) = (n, path)" by fastforce
  obtain n2 bs where pr: "probe_read_str 256 (filename bprm) = (n2, bs)" by fastforce
  have scratch: "exec_path (s\<lparr>exec_path := x\<rparr>) = x" "violations (s\<lparr>exec_path := x\<rparr>) = violations s"
    "s\<lparr>exec_path := x, exec_path := y\<rparr> = s\<lparr>exec_path := y\<rparr>" for x y by simp_all
  define buf where "buf = buf_write 0 bs (zeros 256)"
  define h1 where "h1 = (if 0 < n then match_blocked_commands s path (path_len_of n) else 0)"
  define h2 where "h2 = (if 0 < n2 then match_blocked_commands s buf (path_len_of n2) else 0)"
  have "exec_hit k bprm s = (if h1 \<noteq> 0 then (h1, path) else (h2, buf))"
    unfolding exec_hit_def dp pr Let_def prod.case h1_def h2_def buf_def ..
  moreover have "check_exec k bprm s =
    (let (hit, path2) = (if h1 = 0 then (h2, buf) else (h1, path));
         s2 = s\<lparr>exec_path := (exec_path s)[0 := path2]\<rparr>
     in if hit = 0 then (0, s2)
        else if ringbuf_has_room k then
          (- EPERM, s2\<lparr>violations := violations s2 @
                  [\<lparr>timestamp_ns = ktime_get_ns k, v_pid = pid, policy_type = hit,
                    typed_comm = current_comm k,
                    canonical_path = read_str_buf 256 (zeros 256) path2,
                    detail = read_str_buf 256 (zeros 256) path2\<rparr>]\<rparr>)
        else (- EPERM, s2))"
    unfolding check_exec_def dp pr caller(1) option.case b prod.case h1_def h2_def buf_def
    by (simp only: Let_def prod.case match_blocked_commands_scratch caller(2) if_False
        scratch list_update_overwrite)
  ultimately show ?thesis
    by (cases "h1 = 0") (auto simp: Let_def)
qed

lemma check_exec_untracked: "tracked_caller k s = None \<Longrightarrow> check_exec k bprm s = (0, s)"
  by (auto simp: check_exec_def tracked_caller_def split: option.splits if_splits)

lemma check_exec_no_scratch: "array_lookup (exec_path s) 0 = None \<Longrightarrow> check_exec k bprm s = (0, s)"
  by (auto simp: check_exec_def split: option.splits)

lemma check_exec_cases:
  obtains "check_exec k bprm s = (0, s)"
  | pid hit path where "tracked_caller k s = Some pid" "exec_hit k bprm s = (hit, path)"
      "check_exec k bprm s =
        (if hit = 0 then 0 else - EPERM,
         s\<lparr>exec_path := (exec_path s)[0 := path],
           violations := violations s @
             (if hit \<noteq> 0 \<and> ringbuf_has_room k then
               [\<lparr>timestamp_ns = ktime_get_ns k, v_pid = pid, policy_type = hit,
                 typed_comm = current_comm k,
                 canonical_path = read_str_buf 256 (zeros 256) path,
                 detail = read_str_buf 256 (zeros 256) path\<rparr>] else [])\<rparr>)"
proof (cases "tracked_caller k s")
  case None
  then show ?thesis using that(1) check_exec_untracked by blast
next
  case (Some pid)
  show ?thesis
  proof (cases "array_lookup (exec_path s) 0 = None")
    case True
    then show ?thesis using that(1) check_exec_no_scratch by blast
  next
    case False
    obtain hit path where e: "exec_hit k bprm s = (hit, path)" by fastforce
    show ?thesis
      using Some e check_exec_staged [OF Some False, of bprm] by (intro that(2)) (auto simp: Let_def)
  qed
qed

lemma exec_hit_length:
  assumes "kernel_wf k" "exec_hit k bprm s = (hit, path)"
  shows "length path = 256"
proof -
  have "length (snd (d_path k (f_path (bprm_file bprm)) (zeros 256))) = 256"
    using assms(1) by (simp add: kernel_wf_def)
  moreover have "length (buf_write 0 (snd (probe_read_str 256 (filename bprm))) (zeros 256)) = 256"
    using length_read_str_buf [of 256 "zeros 256" "filename bprm"] by (simp add: read_str_buf_def)
  ultimately show ?thesis
    using assms(2) by (auto simp: exec_hit_def Let_def case_prod_beta split: if_splits)
qed

interpretation exec: lsm_hook k "check_exec k bprm" for k bprm
proof unfold_locales
  fix s
  show "fst (check_exec k bprm s) = 0 \<or> fst (check_exec k bprm s) = - EPERM"
    by (rule check_exec_cases [of k bprm s]) auto
  show "tracked_caller k s = None \<Longrightarrow> check_exec k bprm s = (0, s)"
    by (rule check_exec_untracked)
  show "config (snd (check_exec k bprm s)) = config s"
    by (rule check_exec_cases [of k bprm s]) (auto simp: config_def)
  show "\<exists>vs. violations (snd (check_exec k bprm s)) = violations s @ vs \<and> length vs \<le> 1 \<and>
          (\<forall>v \<in> set vs. tracked_caller k s = Some (v_pid v))"
    by (rule check_exec_cases [of k bprm s]) auto
  show "\<lbrakk>kernel_wf k; enforcer_wf s; ringbuf_has_room k; fst (check_exec k bprm s) = - EPERM\<rbrakk>
       \<Longrightarrow> violations (snd (check_exec k bprm s)) \<noteq> violations s"
    by (rule check_exec_cases [of k bprm s]) (auto simp: EPERM_def split: if_splits)
  show "\<lbrakk>kernel_wf k; enforcer_wf s\<rbrakk> \<Longrightarrow> enforcer_wf (snd (check_exec k bprm s))"
  proof (rule check_exec_cases [of k bprm s])
    fix pid hit path
    assume wf: "kernel_wf k" "enforcer_wf s" and hit: "exec_hit k bprm s = (hit, path)"
      and eq: "check_exec k bprm s =
        (if hit = 0 then 0 else - EPERM,
         s\<lparr>exec_path := (exec_path s)[0 := path],
           violations := violations s @
             (if hit \<noteq> 0 \<and> ringbuf_has_room k then
               [\<lparr>timestamp_ns = ktime_get_ns k, v_pid = pid, policy_type = hit,
                 typed_comm = current_comm k,
                 canonical_path = read_str_buf 256 (zeros 256) path,
                 detail = read_str_buf 256 (zeros 256) path\<rparr>] else [])\<rparr>)"
    from wf(1) hit have "length path = 256" by (rule exec_hit_length)
    with wf have "enforcer_wf (s\<lparr>exec_path := (exec_path s)[0 := path]\<rparr>)"
      by (intro enforcer_wf_scratch)
    from enforcer_wf_scratch(3) [OF this] this show ?thesis
      using wf(1) unfolding eq
      by (auto simp: kernel_wf_def violation_wf_report length_read_str_buf)
  qed simp
qed

section \<open>What the file hooks decide\<close>

text \<open>A resolved path in the scratch buffer: the length the program computes and the bytes.\<close>

lemma resolved_path:
  assumes "d_path_resolves dp 256 q p" "dp q (zeros 256) = (n, buf)"
  shows "n = int (length p) + 1" "length buf = 256" "take (length p) buf = p"
    "cstr buf = p" "unat (path_len_of n) = length p" "length p < 256" "0 \<notin> set p"
    "probe_read_str 256 buf = (int (length p) + 1, p @ [0])"
proof -
  from assms have r: "n = int (length p) + 1" "length buf = 256" "take (length p + 1) buf = p @ [0]"
    "length p < 256" "0 \<notin> set p"
    by (auto simp: d_path_resolves_def dest!: spec [of _ "zeros 256"])
  then have buf: "buf = p @ 0 # drop (length p + 1) buf"
    by (metis append_Cons append_Nil append_assoc append_take_drop_id)
  show "n = int (length p) + 1" "length buf = 256" "length p < 256" "0 \<notin> set p" by (fact r)+
  show "take (length p) buf = p" by (metis append_eq_conv_conj buf)
  show "cstr buf = p" by (metis buf cstr_append_NUL r(5))
  show "unat (path_len_of n) = length p"
    using r(1,4) path_len_of_nat [of "length p"] by (simp add: unat_of_nat)
  show "probe_read_str 256 buf = (int (length p) + 1, p @ [0])"
    using r(4,5) probe_read_str_ok [of 256 p "drop (length p + 1) buf"] buf by simp
qed

lemma detail_of_path:
  assumes "d_path_resolves dp 256 q p" "dp q (zeros 256) = (n, buf)"
  shows "cstr (read_str_buf 256 (zeros 256) buf) = p"
  using resolved_path [OF assms]
  by (simp add: read_str_buf_def buf_write_0 cstr_append_NUL)

lemma scratch_irrelevant:
  "match_blocked_paths (s\<lparr>file_open_path := x\<rparr>) = match_blocked_paths s"
  "path_in_workspace (s\<lparr>file_open_path := x\<rparr>) = path_in_workspace s"
  "workspace_policy_id (s\<lparr>file_open_path := x\<rparr>) = workspace_policy_id s"
  by (simp_all add: fun_eq_iff match_blocked_paths_def path_in_workspace_def workspace_policy_id_def)

definition file_open_denial :: "enforcer \<Rightarrow> bytes \<Rightarrow> u32 option" where
  "file_open_denial s p =
     (if enforce_workspace s \<noteq> 0 \<and> \<not> in_workspace s p then Some (workspace_policy_id s)
      else map_option policy_id (credential_rule s p))"

definition confine_denial :: "enforcer \<Rightarrow> bytes \<Rightarrow> u32 option" where
  "confine_denial s p =
     (if enforce_workspace s \<noteq> 0 \<and> \<not> in_workspace s p then Some (workspace_policy_id s) else None)"

lemma confine_outcome:
  assumes wf: "enforcer_wf s" and caller: "tracked_caller k s = Some pid"
    and path: "d_path_resolves (d_path k) 256 dir p" "length p < 255"
  shows "hook_outcome k pid (map_option (\<lambda>pol. (pol, p)) (confine_denial s p)) s
           (confine_path_struct k dir s)"
proof -
  obtain tid w where c: "current_nspids k s = Some (tid, pid)" "hash_lookup (tracked_pids s) pid = Some w"
    using caller by (rule tracked_callerE)
  obtain b where b: "array_lookup (file_open_path s) 0 = Some b"
    using scratch_present(1) [OF wf] by blast
  obtain n buf where dp: "d_path k dir (zeros 256) = (n, buf)" by fastforce
  note r = resolved_path [OF path(1) dp]
  have n: "\<not> n \<le> 0" "\<not> 256 \<le> n" using r(1) path(2) by auto
  let ?s1 = "s\<lparr>file_open_path := (file_open_path s)[0 := buf]\<rparr>"
  have ws: "path_in_workspace s buf (path_len_of n) \<longleftrightarrow> in_workspace s p"
    using path_in_workspace_iff [OF wf r(2), of "path_len_of n"] r by simp
  have "confine_path_struct k dir s =
     (if enforce_workspace s = 0 then (0, s)
      else if in_workspace s p then (0, ?s1)
      else deny_path k pid (workspace_policy_id s) buf ?s1)"
    using n by (simp add: confine_path_struct_def b c dp Let_def scratch_irrelevant ws path_limits)
  then show ?thesis
    using hook_outcome_deny_path [OF detail_of_path [OF path(1) dp], of ?s1 s k pid]
    by (auto simp: confine_denial_def hook_outcome_def)
qed

lemma file_open_outcome:
  assumes wf: "enforcer_wf s" and caller: "tracked_caller k s = Some pid"
    and path: "d_path_resolves (d_path k) 256 (f_path fobj) p" "length p < 255"
  shows "hook_outcome k pid (map_option (\<lambda>pol. (pol, p)) (file_open_denial s p)) s
           (check_file_open k fobj s)"
proof -
  obtain tid w where c: "current_nspids k s = Some (tid, pid)" "hash_lookup (tracked_pids s) pid = Some w"
    using caller by (rule tracked_callerE)
  obtain b where b: "array_lookup (file_open_path s) 0 = Some b"
    using scratch_present(1) [OF wf] by blast
  obtain n buf where dp: "d_path k (f_path fobj) (zeros 256) = (n, buf)" by fastforce
  note r = resolved_path [OF path(1) dp]
  have n: "\<not> n \<le> 0" "\<not> 256 \<le> n" using r(1) path(2) by auto
  let ?s1 = "s\<lparr>file_open_path := (file_open_path s)[0 := buf]\<rparr>"
  have ws: "path_in_workspace s buf (path_len_of n) \<longleftrightarrow> in_workspace s p"
    using path_in_workspace_iff [OF wf r(2), of "path_len_of n"] r by simp
  have cr: "match_blocked_paths s buf (path_len_of n) = map_option policy_id (credential_rule s p)"
    using match_blocked_paths_eq [OF wf r(2), of "path_len_of n"] r by simp
  have eq: "check_file_open k fobj s =
     (if enforce_workspace s \<noteq> 0 \<and> \<not> in_workspace s p
      then deny_path k pid (workspace_policy_id s) buf ?s1
      else case credential_rule s p of
        None \<Rightarrow> (0, ?s1)
      | Some e \<Rightarrow> deny_path k pid (policy_id e) buf ?s1)"
    using n unfolding check_file_open_def deny_path_def [symmetric]
    by (simp add: b c dp Let_def [of "(_, _)"] Let_def [of "path_len_of _"] Let_def [of ?s1]
        scratch_irrelevant ws cr path_limits split: option.splits)
  show ?thesis
    using hook_outcome_deny_path [OF detail_of_path [OF path(1) dp], of ?s1 s k pid]
    unfolding eq by (auto simp: file_open_denial_def hook_outcome_def split: option.splits)
qed

text \<open>
  The exec hook: the resolved path is judged first, then the name passed to \<open>execve\<close>, cut to
  255 bytes. A rule with policy number 0 counts as no hit.
\<close>

definition rule_policy :: "path_pattern_entry option \<Rightarrow> u32" where
  "rule_policy r = (case r of None \<Rightarrow> 0 | Some e \<Rightarrow> policy_id e)"

definition name_denial :: "enforcer \<Rightarrow> bytes \<Rightarrow> (u32 \<times> bytes) option" where
  "name_denial s name =
     (let pol = rule_policy (command_rule s (take 255 name))
      in if pol \<noteq> 0 then Some (pol, take 255 name) else None)"

definition exec_denial :: "enforcer \<Rightarrow> bytes \<Rightarrow> bytes \<Rightarrow> (u32 \<times> bytes) option" where
  "exec_denial s p name =
     (let pol = rule_policy (command_rule s p)
      in if pol \<noteq> 0 then Some (pol, p) else name_denial s name)"

lemma exec_name:
  assumes "0 \<notin> set name" "filename bprm = name @ 0 # rest"
  shows "probe_read_str 256 (filename bprm) =
           (int (length (take 255 name)) + 1, take 255 name @ [0])"
  using assms probe_read_str_ok [of 256 name rest] by simp

lemma exec_name_hit:
  assumes wf: "enforcer_wf s" and name: "0 \<notin> set name"
  shows "match_blocked_commands s (buf_write 0 (take 255 name @ [0]) (zeros 256))
           (path_len_of (int (length (take 255 name)) + 1)) =
         rule_policy (command_rule s (take 255 name))"
proof -
  let ?b = "buf_write 0 (take 255 name @ [0]) (zeros 256)"
  have len: "length ?b = 256" by (subst length_buf_write) auto
  have "path_len_of (int (length (take 255 name)) + 1) = of_nat (length (take 255 name))"
    by (rule path_len_of_nat) auto
  then have u: "unat (path_len_of (int (length (take 255 name)) + 1)) = length (take 255 name)"
    by (simp add: unat_of_nat min_def)
  have "take (length (take 255 name)) ?b = take 255 name" by (simp add: buf_write_0 min_def)
  then show ?thesis
    using match_blocked_commands_eq [OF wf len, of "path_len_of (int (length (take 255 name)) + 1)"] u
    by (simp add: rule_policy_def min_def)
qed

lemma exec_hit_name:
  assumes wf: "enforcer_wf s" and name: "0 \<notin> set name" "filename bprm = name @ 0 # rest"
    and first: "fst (d_path k (f_path (bprm_file bprm)) (zeros 256)) \<le> 0"
  shows "exec_hit k bprm s = (rule_policy (command_rule s (take 255 name)),
           buf_write 0 (take 255 name @ [0]) (zeros 256))"
proof -
  obtain n path where dp: "d_path k (f_path (bprm_file bprm)) (zeros 256) = (n, path)" by fastforce
  have n: "\<not> 0 < n" "0 < int (length (take 255 name)) + 1" using first dp by auto
  show ?thesis
    unfolding exec_hit_def dp exec_name [OF name] Let_def prod.case exec_name_hit [OF wf name(1)]
    using n by (simp only: if_True if_False simp_thms)
qed

lemma exec_hit_resolved:
  assumes wf: "enforcer_wf s" and name: "0 \<notin> set name" "filename bprm = name @ 0 # rest"
    and path: "d_path_resolves (d_path k) 256 (f_path (bprm_file bprm)) p"
    and dp: "d_path k (f_path (bprm_file bprm)) (zeros 256) = (n, buf)"
  shows "exec_hit k bprm s =
    (let pol = rule_policy (command_rule s p)
     in if pol \<noteq> 0 then (pol, buf)
        else (rule_policy (command_rule s (take 255 name)),
              buf_write 0 (take 255 name @ [0]) (zeros 256)))"
proof -
  note r = resolved_path [OF path dp]
  have n: "0 < n" "0 < int (length (take 255 name)) + 1" using r(1) by auto
  have pol: "match_blocked_commands s buf (path_len_of n) = rule_policy (command_rule s p)"
    using match_blocked_commands_eq [OF wf r(2), of "path_len_of n"] r by (simp add: rule_policy_def)
  show ?thesis
    unfolding exec_hit_def dp exec_name [OF name] Let_def prod.case exec_name_hit [OF wf name(1)] pol
    using n by (simp only: if_True simp_thms)
qed

lemma exec_hit_outcome:
  assumes wf: "enforcer_wf s" and caller: "tracked_caller k s = Some pid"
    and hit: "exec_hit k bprm s = (pol, path)" and str: "cstr (read_str_buf 256 (zeros 256) path) = txt"
  shows "hook_outcome k pid (if pol \<noteq> 0 then Some (pol, txt) else None) s (check_exec k bprm s)"
  using check_exec_staged [OF caller scratch_present(2) [OF wf], of bprm] hit str
  by (auto simp: hook_outcome_def)

lemma cstr_exec_name:
  assumes "0 \<notin> set name"
  shows "cstr (read_str_buf 256 (zeros 256) (buf_write 0 (take 255 name @ [0]) (zeros 256))) =
           take 255 name"
proof -
  have "0 \<notin> set (take 255 name)" using assms by (auto dest: in_set_takeD)
  from cstr_read_str_buf [OF _ this, of 256 "zeros 256"] show ?thesis
    by (simp add: buf_write_0)
qed

lemma exec_outcome:
  assumes wf: "enforcer_wf s" and caller: "tracked_caller k s = Some pid"
    and path: "d_path_resolves (d_path k) 256 (f_path (bprm_file bprm)) p"
    and name: "0 \<notin> set name" "filename bprm = name @ 0 # rest"
  shows "hook_outcome k pid (exec_denial s p name) s (check_exec k bprm s)"
proof -
  obtain n buf where dp: "d_path k (f_path (bprm_file bprm)) (zeros 256) = (n, buf)" by fastforce
  note hit = exec_hit_resolved [OF wf name path dp]
  show ?thesis
  proof (cases "rule_policy (command_rule s p) = 0")
    case True
    with hit have "exec_hit k bprm s = (rule_policy (command_rule s (take 255 name)),
        buf_write 0 (take 255 name @ [0]) (zeros 256))" by simp
    from exec_hit_outcome [OF wf caller this cstr_exec_name [OF name(1)]] True show ?thesis
      by (simp add: exec_denial_def name_denial_def Let_def)
  next
    case False
    with hit have "exec_hit k bprm s = (rule_policy (command_rule s p), buf)" by simp
    from exec_hit_outcome [OF wf caller this detail_of_path [OF path dp]] False show ?thesis
      by (simp add: exec_denial_def Let_def)
  qed
qed

lemma exec_outcome_unresolved:
  assumes wf: "enforcer_wf s" and caller: "tracked_caller k s = Some pid"
    and first: "fst (d_path k (f_path (bprm_file bprm)) (zeros 256)) \<le> 0"
    and name: "0 \<notin> set name" "filename bprm = name @ 0 # rest"
  shows "hook_outcome k pid (name_denial s name) s (check_exec k bprm s)"
  using exec_hit_outcome [OF wf caller exec_hit_name [OF wf name first] cstr_exec_name [OF name(1)]]
  by (simp add: name_denial_def Let_def)

section \<open>Properties\<close>

text \<open>
  C10 (functional): a tracked task opens a file whose resolved name fits the buffer: the open is
  denied with the workspace policy when confinement is on and the name is outside the workspace,
  else with the policy of the first credential rule whose suffix the name has, else allowed; a
  denial adds exactly one report with the task's process, that policy and the name.
\<close>

theorem file_open_decision:
  assumes "enforcer_wf s" "tracked_caller k s = Some pid"
    and "d_path_resolves (d_path k) 256 (f_path fobj) p" "length p < 255"
  shows "hook_outcome k pid (map_option (\<lambda>pol. (pol, p)) (file_open_denial s p)) s
           (check_file_open k fobj s)"
  using assms by (rule file_open_outcome)

theorem file_open_decision_witness:
  "hook_outcome (string_kernel 43 42) 42 (Some (1, str_ws @ str_env)) sample
     (check_file_open (string_kernel 43 42) \<lparr>f_path = str_ws @ str_env\<rparr> sample)"
  using file_open_decision [OF sample_wf sample_caller, of 43 "\<lparr>f_path = str_ws @ str_env\<rparr>" "str_ws @ str_env"]
  by (simp add: string_d_path_resolves file_open_denial_def sample_rules path_under_def suffix_def)

text \<open>
  C24 (functional): the directory hooks for unlink, mkdir, rmdir, symlink, link and mknod allow a
  tracked task exactly the directories inside the workspace while confinement is on, and
  everything while it is off; a denial carries the workspace policy and the directory's name. The
  link hook judges the directory of the new name only; the mknod hook resolves it with the other
  helper.
\<close>

theorem directory_hooks_decision:
  assumes "enforcer_wf s" "tracked_caller k s = Some pid"
    and "d_path_resolves (d_path k) 256 dir p" "d_path_resolves (path_d_path k) 256 dir p" "length p < 255"
    and "hook \<in> {check_path_unlink k dir dentry, check_path_mkdir k dir dentry mode,
       check_path_rmdir k dir dentry, check_path_symlink k dir dentry old_name,
       check_path_link k old_dentry dir dentry, check_path_mknod k dir dentry mode dev}"
  shows "hook_outcome k pid (map_option (\<lambda>pol. (pol, p)) (confine_denial s p)) s (hook s)"
proof -
  have "hook_outcome k pid (map_option (\<lambda>pol. (pol, p)) (confine_denial s p)) s
      (check_path_mknod k dir dentry mode dev s)"
    using confine_outcome [of s "k\<lparr>d_path := path_d_path k\<rparr>" pid dir p] assms(1,2,4,5)
    by (simp add: check_path_mknod_confine mknod_kernel)
  with confine_outcome [OF assms(1-3,5)] assms(6) show ?thesis by (auto simp: confine_hooks)
qed

theorem directory_hooks_decision_witness:
  "hook_outcome (string_kernel 42 42) 42 (Some (3, str_env)) sample
     (check_path_link (string_kernel 42 42) True str_env False sample)"
  using directory_hooks_decision [OF sample_wf sample_caller, of 42 str_env str_env
      "check_path_link (string_kernel 42 42) True str_env False" False 0 "[]" True 0]
  by (simp add: string_d_path_resolves confine_denial_def sample_rules path_under_def)

lemma confine_denial_frame:
  assumes "config s' = config s"
  shows "confine_denial s' p = confine_denial s p"
proof -
  have "confine_denial (config t) p = confine_denial t p" for t
    by (simp add: confine_denial_def in_workspace_def workspace_policy_id_def config_def)
  with assms show ?thesis by metis
qed

text \<open>
  A rename is allowed exactly when the directory checks allow both the old and
  the new directory; when the old one fails the new one is not looked at, and the single report
  names the first directory that failed.
\<close>

theorem rename_decision:
  assumes "kernel_wf k" "enforcer_wf s" "tracked_caller k s = Some pid"
    and "d_path_resolves (d_path k) 256 old_dir p" "length p < 255"
    and "d_path_resolves (d_path k) 256 new_dir q" "length q < 255"
  shows "hook_outcome k pid
     (case confine_denial s p of
        Some pol \<Rightarrow> Some (pol, p)
      | None \<Rightarrow> map_option (\<lambda>pol. (pol, q)) (confine_denial s q)) s
     (check_path_rename k old_dir old_dentry new_dir new_dentry flags s)"
proof -
  let ?s1 = "snd (confine_path_struct k old_dir s)"
  have old: "hook_outcome k pid (map_option (\<lambda>pol. (pol, p)) (confine_denial s p)) s
      (confine_path_struct k old_dir s)"
    using assms by (intro confine_outcome)
  have "enforcer_wf ?s1" using assms(1,2) by (rule confine.keeps_wf)
  moreover have "tracked_caller k ?s1 = Some pid"
    using assms(3) by (simp add: confine.caller_unchanged)
  ultimately have "hook_outcome k pid (map_option (\<lambda>pol. (pol, q)) (confine_denial ?s1 q)) ?s1
      (confine_path_struct k new_dir ?s1)"
    using assms(6,7) by (intro confine_outcome)
  then have new: "hook_outcome k pid (map_option (\<lambda>pol. (pol, q)) (confine_denial s q)) ?s1
      (confine_path_struct k new_dir ?s1)"
    by (simp add: confine_denial_frame [OF confine.frame])
  show ?thesis
    using old new
    by (cases "confine_denial s p"; cases "confine_denial s q")
      (auto simp: check_path_rename_def hook_outcome_def EPERM_def case_prod_beta Let_def)
qed

theorem rename_decision_witness:
  "hook_outcome (string_kernel 42 42) 42 (Some (3, str_env)) sample
     (check_path_rename (string_kernel 42 42) str_ws (0 :: nat) str_env 0 0 sample)"
  using rename_decision [OF string_kernel_wf sample_wf sample_caller, of 42 str_ws str_ws str_env str_env
      "0 :: nat" 0 0]
  by (simp add: string_d_path_resolves confine_denial_def sample_rules path_under_def)

definition denied_with :: "'p kernel \<Rightarrow> u32 \<Rightarrow> u32 \<Rightarrow> enforcer \<Rightarrow> int \<times> enforcer \<Rightarrow> bool" where
  "denied_with k pid pol s r \<longleftrightarrow>
     fst r = - EPERM \<and>
     (if ringbuf_has_room k then
        \<exists>v. violations (snd r) = violations s @ [v] \<and> v_pid v = pid \<and> policy_type v = pol
      else violations (snd r) = violations s)"

lemma denied_with_deny_path:
  "violations s1 = violations s \<Longrightarrow> denied_with k pid pol s (deny_path k pid pol path s1)"
  by (simp add: denied_with_def hook_simps)

lemma confine_unresolved:
  assumes "enforcer_wf s" "tracked_caller k s = Some pid" "enforce_workspace s \<noteq> 0"
    and "fst (d_path k dir (zeros 256)) \<le> 0 \<or> 256 \<le> fst (d_path k dir (zeros 256))"
  shows "denied_with k pid (workspace_policy_id s) s (confine_path_struct k dir s)"
proof -
  obtain tid w where c: "current_nspids k s = Some (tid, pid)" "hash_lookup (tracked_pids s) pid = Some w"
    using assms(2) by (rule tracked_callerE)
  obtain b where b: "array_lookup (file_open_path s) 0 = Some b"
    using scratch_present(1) [OF assms(1)] by blast
  obtain n buf where dp: "d_path k dir (zeros 256) = (n, buf)" by fastforce
  with assms(4) have "n \<le> 0 \<or> 256 \<le> n" by simp
  then have "confine_path_struct k dir s =
      deny_path k pid (workspace_policy_id s) buf (s\<lparr>file_open_path := (file_open_path s)[0 := buf]\<rparr>)"
    using assms(3) by (auto simp: confine_path_struct_def b c dp Let_def scratch_irrelevant path_limits)
  then show ?thesis by (simp add: denied_with_deny_path)
qed

lemma file_open_unresolved:
  assumes "enforcer_wf s" "tracked_caller k s = Some pid"
    and "fst (d_path k (f_path fobj) (zeros 256)) \<le> 0 \<or> 256 \<le> fst (d_path k (f_path fobj) (zeros 256))"
  shows "if enforce_workspace s \<noteq> 0
         then denied_with k pid (workspace_policy_id s) s (check_file_open k fobj s)
         else fst (check_file_open k fobj s) = 0 \<and> violations (snd (check_file_open k fobj s)) = violations s"
proof -
  obtain tid w where c: "current_nspids k s = Some (tid, pid)" "hash_lookup (tracked_pids s) pid = Some w"
    using assms(2) by (rule tracked_callerE)
  obtain b where b: "array_lookup (file_open_path s) 0 = Some b"
    using scratch_present(1) [OF assms(1)] by blast
  obtain n buf where dp: "d_path k (f_path fobj) (zeros 256) = (n, buf)" by fastforce
  let ?s1 = "s\<lparr>file_open_path := (file_open_path s)[0 := buf]\<rparr>"
  from dp assms(3) have "n \<le> 0 \<or> 256 \<le> n" by simp
  then have "check_file_open k fobj s =
      (if enforce_workspace s \<noteq> 0 then deny_path k pid (workspace_policy_id s) buf ?s1 else (0, ?s1))"
    by (auto simp: check_file_open_def b c dp Let_def [of "(_, _)"] Let_def [of ?s1]
        scratch_irrelevant path_limits)
  then show ?thesis by (simp add: denied_with_deny_path)
qed

text \<open>
  C25 (safety): while confinement is on, a tracked task whose path cannot be resolved into the
  buffer (an error, or a name of 255 bytes or more) is denied with the workspace policy by the
  file-open hook and by every directory hook.
\<close>

theorem unresolved_fails_closed:
  assumes "enforcer_wf s" "tracked_caller k s = Some pid" "enforce_workspace s \<noteq> 0"
    and "fst (d_path k dir (zeros 256)) \<le> 0 \<or> 256 \<le> fst (d_path k dir (zeros 256))"
  shows "denied_with k pid (workspace_policy_id s) s (check_file_open k \<lparr>f_path = dir\<rparr> s) \<and>
    denied_with k pid (workspace_policy_id s) s (check_path_unlink k dir dentry s) \<and>
    denied_with k pid (workspace_policy_id s) s (check_path_mkdir k dir dentry mode s) \<and>
    denied_with k pid (workspace_policy_id s) s (check_path_rmdir k dir dentry s) \<and>
    denied_with k pid (workspace_policy_id s) s (check_path_symlink k dir dentry old_name s) \<and>
    denied_with k pid (workspace_policy_id s) s (check_path_link k old_dentry dir dentry s) \<and>
    denied_with k pid (workspace_policy_id s) s (check_path_rename k dir dentry dir' dentry' flags s) \<and>
    (fst (path_d_path k dir (zeros 256)) \<le> 0 \<or> 256 \<le> fst (path_d_path k dir (zeros 256)) \<longrightarrow>
       denied_with k pid (workspace_policy_id s) s (check_path_mknod k dir dentry mode dev s))"
proof -
  let ?k = "k\<lparr>d_path := path_d_path k\<rparr>"
  have "denied_with ?k = denied_with k" by (simp add: denied_with_def fun_eq_iff)
  then have mknod: "denied_with k pid (workspace_policy_id s) s (check_path_mknod k dir dentry mode dev s)"
    if "fst (path_d_path k dir (zeros 256)) \<le> 0 \<or> 256 \<le> fst (path_d_path k dir (zeros 256))"
    using confine_unresolved [of s ?k pid dir] assms(1-3) that
    by (simp add: check_path_mknod_confine mknod_kernel)
  note c = confine_unresolved [OF assms]
  have "check_path_rename k dir dentry dir' dentry' flags s = confine_path_struct k dir s"
    using c by (cases "confine_path_struct k dir s")
      (auto simp: check_path_rename_def denied_with_def EPERM_def)
  then show ?thesis
    using c file_open_unresolved [OF assms(1,2), of "\<lparr>f_path = dir\<rparr>"] assms(3,4) mknod
    by (simp add: confine_hooks)
qed

theorem unresolved_fails_closed_witness:
  "denied_with (string_kernel 42 42) 42 3 sample
     (check_file_open (string_kernel 42 42) \<lparr>f_path = replicate 255 SLASH\<rparr> sample)"
  using unresolved_fails_closed [OF sample_wf sample_caller, of 42 "replicate 255 SLASH" True 0 "[]" True
      "[]" True 0 0]
  by (simp add: sample_rules string_d_path_def)

text \<open>
  With confinement off the same failure lets the open through without a report, whatever
  the credential rules say: a credential file behind a name of 255 bytes or more is not protected.
\<close>

theorem unresolved_open_allowed_without_confinement:
  assumes "enforcer_wf s" "tracked_caller k s = Some pid" "enforce_workspace s = 0"
    and "fst (d_path k (f_path fobj) (zeros 256)) \<le> 0 \<or> 256 \<le> fst (d_path k (f_path fobj) (zeros 256))"
  shows "fst (check_file_open k fobj s) = 0 \<and> violations (snd (check_file_open k fobj s)) = violations s"
  using file_open_unresolved [OF assms(1,2,4)] assms(3) by simp

lemma sample_unconfined:
  "enforcer_wf (sample\<lparr>enforce_workspace := 0\<rparr>)"
  "tracked_caller (string_kernel tid 42) (sample\<lparr>enforce_workspace := 0\<rparr>) = Some 42"
  using sample_wf sample_caller [of tid]
  by (auto simp: enforcer_wf_def tracked_caller_def current_nspids_def split: option.splits if_splits)

theorem unresolved_open_allowed_without_confinement_witness:
  "suffix str_env (replicate 250 SLASH @ str_env) \<and>
   fst (check_file_open (string_kernel 42 42) \<lparr>f_path = replicate 250 SLASH @ str_env\<rparr>
     (sample\<lparr>enforce_workspace := 0\<rparr>)) = 0"
  using unresolved_open_allowed_without_confinement [OF sample_unconfined, of 42
      "\<lparr>f_path = replicate 250 SLASH @ str_env\<rparr>"]
  by (simp add: string_d_path_def suffix_def)

text \<open>
  A tracked task executes a file: the exec is denied with the first command rule
  (with a policy number other than 0) that fits the resolved name, else with the one that fits the
  name passed to \<open>execve\<close> cut to 255 bytes, else allowed; the report carries the name that was hit.
\<close>

theorem exec_decision:
  assumes "enforcer_wf s" "tracked_caller k s = Some pid"
    and "d_path_resolves (d_path k) 256 (f_path (bprm_file bprm)) p"
    and "0 \<notin> set name" "filename bprm = name @ 0 # rest"
  shows "hook_outcome k pid (exec_denial s p name) s (check_exec k bprm s)"
  using assms by (rule exec_outcome)

theorem exec_decision_witness:
  "hook_outcome (string_kernel 42 42) 42 (Some (2, str_tmp @ str_rm)) sample
     (check_exec (string_kernel 42 42)
        \<lparr>bprm_file = \<lparr>f_path = str_tmp @ str_rm\<rparr>, filename = str_ws @ [0]\<rparr> sample)"
  using exec_decision [OF sample_wf sample_caller, of 42
      "\<lparr>bprm_file = \<lparr>f_path = str_tmp @ str_rm\<rparr>, filename = str_ws @ [0]\<rparr>" "str_tmp @ str_rm" str_ws "[]"]
  by (simp add: string_d_path_resolves exec_denial_def rule_policy_def sample_rules command_decides_def
      suffix_def Let_def)

lemma in_workspace_entry: "in_workspace s d \<Longrightarrow> in_workspace s (d @ SLASH # name)"
proof -
  have "path_under w d \<Longrightarrow> path_under w (d @ SLASH # name)" for w
    by (auto simp: path_under_def prefix_def)
  then show "in_workspace s d \<Longrightarrow> ?thesis" by (auto simp: in_workspace_def)
qed

lemma file_open_denial_frame: "config s' = config s \<Longrightarrow> file_open_denial s' p = file_open_denial s p"
proof -
  have "file_open_denial (config t) p = file_open_denial t p" for t
    by (auto simp: file_open_denial_def in_workspace_def workspace_policy_id_def credential_rule_def config_def)
  then show "config s' = config s \<Longrightarrow> ?thesis" by metis
qed

text \<open>
  C37 (error): credentials can be read under another name: a tracked task whose open of a
  credential file inside the workspace is denied may rename it within its directory, or link it
  there, and then open it under any name that has no credential suffix: the directory hooks look
  at the directory only.
\<close>

theorem renamed_credential_opens:
  assumes "kernel_wf k" "enforcer_wf s" "tracked_caller k s = Some pid" "in_workspace s d"
    and "d_path_resolves (d_path k) 256 dir d"
    and "d_path_resolves (d_path k) 256 (f_path secret) (d @ SLASH # old)" "length (d @ SLASH # old) < 255"
    and "credential_rule s (d @ SLASH # old) \<noteq> None"
    and "d_path_resolves (d_path k) 256 (f_path moved) (d @ SLASH # new)" "length (d @ SLASH # new) < 255"
    and "credential_rule s (d @ SLASH # new) = None"
    and "r = check_path_rename k dir old_dentry dir new_dentry flags s \<or> r = check_path_link k old_dentry dir new_dentry s"
  shows "fst (check_file_open k secret s) = - EPERM \<and> fst r = 0 \<and> fst (check_file_open k moved (snd r)) = 0 \<and>
    violations (snd (check_file_open k moved (snd r))) = violations s"
proof -
  note ws = in_workspace_entry [OF assms(4)]
  have len: "length d < 255" using assms(7) by simp
  have free: "confine_denial s d = None" using assms(4) by (simp add: confine_denial_def)
  have secret: "file_open_denial s (d @ SLASH # old) \<noteq> None" using assms(8) ws by (simp add: file_open_denial_def)
  have first: "fst (check_file_open k secret s) = - EPERM"
    using file_open_outcome [OF assms(2,3,6,7)] secret by (auto simp: hook_outcome_def)
  have r: "hook_outcome k pid None s r"
    using assms(12) rename_decision [OF assms(1-3,5) len assms(5) len, of old_dentry new_dentry flags]
      confine_outcome [OF assms(2,3,5) len] free by (auto simp: confine_hooks)
  have st: "enforcer_wf (snd r)" "config (snd r) = config s"
    using assms(12) rename.keeps_wf [OF assms(1,2)] rename.frame confine.keeps_wf [OF assms(1,2)] confine.frame
    by (auto simp: confine_hooks)
  have caller: "tracked_caller k (snd r) = Some pid"
    using assms(3) st(2) by (metis tracked_caller_config)
  have "file_open_denial (snd r) (d @ SLASH # new) = None"
    unfolding file_open_denial_frame [OF st(2)] using ws assms(11) by (simp add: file_open_denial_def)
  with file_open_outcome [OF st(1) caller assms(9,10)] r first show ?thesis
    by (auto simp: hook_outcome_def)
qed

theorem renamed_credential_opens_witness:
  "fst (check_file_open (string_kernel 42 42) \<lparr>f_path = str_ws @ str_env\<rparr> sample) = - EPERM \<and>
   fst (check_file_open (string_kernel 42 42) \<lparr>f_path = str_ws @ str_rm\<rparr>
     (snd (check_path_rename (string_kernel 42 42) str_ws (0 :: nat) str_ws 0 0 sample))) = 0"
  using renamed_credential_opens [OF string_kernel_wf sample_wf sample_caller, of str_ws 42 str_ws
      "\<lparr>f_path = str_ws @ str_env\<rparr>" "tl str_env" "\<lparr>f_path = str_ws @ str_rm\<rparr>" "tl str_rm"
      "check_path_rename (string_kernel 42 42) str_ws (0 :: nat) str_ws 0 0 sample" "0 :: nat" 0 0]
  by (simp add: string_d_path_resolves sample_rules path_under_def suffix_def Cons_eq_append_conv)

end
