(* ===== verification/Enforcer_Net.thy ===== *)
theory Enforcer_Net
  imports Lsm_Contract
begin

text \<open>
  The network hooks of \<open>enforcer.bpf.c\<close>: \<open>report_and_deny\<close>, \<open>check_socket_connect\<close>,
  \<open>check_socket_sendmsg\<close> and \<open>check_socket_create\<close>. A task on the list may reach the local
  proxy and, if the policy says so, the local resolver; everything else over IPv4 or IPv6 and
  every raw or packet socket is reported, and denied while \<open>enforce_network\<close> is set.
\<close>

definition AF_UNIX :: u16 where "AF_UNIX = 1"
definition AF_INET6 :: u16 where "AF_INET6 = 10"
definition SOCK_RAW :: u32 where "SOCK_RAW = 3"
definition AF_PACKET :: u32 where "AF_PACKET = 17"

lemmas families = AF_UNIX_def AF_INET_def AF_INET6_def SOCK_RAW_def AF_PACKET_def

text \<open>
  \<open>msg_name\<close> of a message header: \<open>None\<close> for a null pointer, \<open>Some None\<close> for an address that
  cannot be read; \<open>bpf_probe_read_kernel\<close> then leaves the destination zero.
\<close>

record msghdr =
  msg_name :: "sockaddr_in option option"

definition report_and_deny :: "'p kernel \<Rightarrow> u32 \<Rightarrow> u32 \<Rightarrow> u16 \<Rightarrow> enforcer \<Rightarrow> int \<times> enforcer" where
  "report_and_deny k pid daddr_host dport s =
     (let s1 =
        (if ringbuf_has_room k then
           let v = \<lparr>timestamp_ns = ktime_get_ns k, v_pid = pid,
                    policy_type = network_policy_id s, typed_comm = current_comm k,
                    canonical_path = zeros 256,
                    detail = buf_write 0 (snprintf_pi4_port daddr_host dport @ [0]) (zeros 256)\<rparr>
           in s\<lparr>violations := violations s @ [v]\<rparr>
         else s)
      in (if enforce_network s1 \<noteq> 0 then - EPERM else 0, s1))"

definition check_socket_connect :: "'p kernel \<Rightarrow> sockaddr_in \<Rightarrow> enforcer \<Rightarrow> int \<times> enforcer" where
  "check_socket_connect k address s =
     (case current_nspids k s of
        None \<Rightarrow> (0, s)
      | Some (tid, pid) \<Rightarrow>
          if hash_lookup (tracked_pids s) pid = None then (0, s)
          else
            let family = sin_family address in
            if family = AF_UNIX then (0, s)
            else if family = AF_INET6 then report_and_deny k pid 0 0 s
            else if family \<noteq> AF_INET then (0, s)
            else
              let daddr = bpf_ntohl (s_addr address); dport = bpf_ntohs (sin_port address) in
              if daddr = proxy_addr_host s \<and> dport = proxy_port_host s then (0, s)
              else if allow_local_dns s \<noteq> 0 \<and> dport = 53 \<and> daddr = dns_addr_host s then (0, s)
              else report_and_deny k pid (s_addr address) dport s)"

definition check_socket_sendmsg :: "'p kernel \<Rightarrow> msghdr \<Rightarrow> enforcer \<Rightarrow> int \<times> enforcer" where
  "check_socket_sendmsg k msg s =
     (case current_nspids k s of
        None \<Rightarrow> (0, s)
      | Some (tid, pid) \<Rightarrow>
          if hash_lookup (tracked_pids s) pid = None then (0, s)
          else
            (case msg_name msg of
               None \<Rightarrow> (0, s)
             | Some name \<Rightarrow>
                 let sin = (case name of Some a \<Rightarrow> a | None \<Rightarrow> zero_sin) in
                 if sin_family sin \<noteq> AF_INET then
                   if sin_family sin = AF_INET6 then report_and_deny k pid 0 0 s else (0, s)
                 else
                   let daddr = bpf_ntohl (s_addr sin); dport = bpf_ntohs (sin_port sin) in
                   if daddr = proxy_addr_host s \<and> dport = proxy_port_host s then (0, s)
                   else if allow_local_dns s \<noteq> 0 \<and> dport = 53 \<and> daddr = dns_addr_host s then (0, s)
                   else report_and_deny k pid (s_addr sin) dport s))"

definition check_socket_create :: "'p kernel \<Rightarrow> u32 \<Rightarrow> u32 \<Rightarrow> u32 \<Rightarrow> u32 \<Rightarrow> enforcer \<Rightarrow> int \<times> enforcer" where
  "check_socket_create k family socktype protocol kern s =
     (case current_nspids k s of
        None \<Rightarrow> (0, s)
      | Some (tid, pid) \<Rightarrow>
          if hash_lookup (tracked_pids s) pid = None then (0, s)
          else
            let sock_type = socktype AND 0xFF in
            if family = AF_PACKET \<or> sock_type = SOCK_RAW then report_and_deny k pid 0 0 s
            else (0, s))"

section \<open>The contract\<close>

lemma length_dec_digits: "n < 10 ^ Suc m \<Longrightarrow> length (dec_digits n) \<le> Suc m"
proof (induction m arbitrary: n)
  case 0
  then show ?case by (simp add: dec_digits.simps)
next
  case (Suc m)
  then have "n div 10 < 10 ^ Suc m" by simp
  from Suc.IH [OF this] show ?case by (simp add: dec_digits.simps [of n])
qed

lemma length_snprintf [buf_simps]: "length (snprintf_pi4_port addr port) \<le> 21"
proof -
  have "unat port < 10 ^ Suc 4"
    using unsigned_less [where w = port and 'a = nat] by simp
  from length_dec_digits [OF this] show ?thesis
    by (simp add: snprintf_pi4_port_def le_bytes32_def dec_pad3_def)
qed

lemma report_and_deny_simps [hook_simps]:
  "fst (report_and_deny k pid addr port s) = (if enforce_network s \<noteq> 0 then - EPERM else 0)"
  "config (snd (report_and_deny k pid addr port s)) = config s"
  by (simp_all add: report_and_deny_def Let_def config_def)

lemma report_and_deny_violations [hook_simps]:
  "violations (snd (report_and_deny k pid addr port s)) =
     violations s @ (if ringbuf_has_room k then
        [\<lparr>timestamp_ns = ktime_get_ns k, v_pid = pid, policy_type = network_policy_id s,
          typed_comm = current_comm k, canonical_path = zeros 256,
          detail = buf_write 0 (snprintf_pi4_port addr port @ [0]) (zeros 256)\<rparr>] else [])"
  by (simp add: report_and_deny_def Let_def)

lemma report_and_deny_wf [hook_simps]:
  assumes "kernel_wf k" "enforcer_wf s"
  shows "enforcer_wf (snd (report_and_deny k pid addr port s))"
proof -
  have "length (buf_write 0 (snprintf_pi4_port addr port @ [0]) (zeros 256)) = 256"
    using length_snprintf [of addr port] by (subst length_buf_write) auto
  then show ?thesis
    using assms by (auto simp: report_and_deny_def Let_def kernel_wf_def
        intro!: enforcer_wf_scratch violation_wf_report)
qed

text \<open>
  A network hook either lets the call pass in silence or hands it to \<open>report_and_deny\<close> with the
  tracked process; that alone gives the LSM contract.
\<close>

locale net_hook =
  fixes k :: "'p kernel"
    and hook :: "enforcer \<Rightarrow> int \<times> enforcer"
  assumes net_cases: "hook s = (0, s) \<or>
      (\<exists>pid addr port. tracked_caller k s = Some pid \<and> hook s = report_and_deny k pid addr port s)"
begin

lemma not_enforcing: "enforce_network s = 0 \<Longrightarrow> fst (hook s) = 0"
  using net_cases [of s] by (auto simp: hook_simps)

end

sublocale net_hook \<subseteq> lsm_hook k hook
proof unfold_locales
  fix s
  note cases = net_cases [of s]
  show "fst (hook s) = 0 \<or> fst (hook s) = - EPERM"
    using cases by (auto simp: hook_simps)
  show "tracked_caller k s = None \<Longrightarrow> hook s = (0, s)"
    using cases by auto
  show "config (snd (hook s)) = config s"
    using cases by (auto simp: hook_simps)
  show "\<exists>vs. violations (snd (hook s)) = violations s @ vs \<and> length vs \<le> 1 \<and>
          (\<forall>v \<in> set vs. tracked_caller k s = Some (v_pid v))"
    using cases by (auto simp: hook_simps)
  show "\<lbrakk>kernel_wf k; enforcer_wf s; ringbuf_has_room k; fst (hook s) = - EPERM\<rbrakk>
       \<Longrightarrow> violations (snd (hook s)) \<noteq> violations s"
    using cases by (auto simp: hook_simps EPERM_def)
  show "\<lbrakk>kernel_wf k; enforcer_wf s\<rbrakk> \<Longrightarrow> enforcer_wf (snd (hook s))"
    using cases by (auto simp: hook_simps)
qed

interpretation connect: net_hook k "check_socket_connect k address" for k address
  by unfold_locales
    (auto simp: check_socket_connect_def tracked_caller_def Let_def split: option.splits)

interpretation sendmsg: net_hook k "check_socket_sendmsg k msg" for k msg
  by unfold_locales
    (auto simp: check_socket_sendmsg_def tracked_caller_def Let_def split: option.splits)

interpretation create: net_hook k "check_socket_create k family socktype protocol kern"
  for k family socktype protocol kern
  by unfold_locales
    (auto simp: check_socket_create_def tracked_caller_def Let_def split: option.splits)

section \<open>What the network hooks decide\<close>

definition egress_allowed :: "enforcer \<Rightarrow> sockaddr_in \<Rightarrow> bool" where
  "egress_allowed s a \<longleftrightarrow>
     sin_family a \<noteq> AF_INET6 \<and>
     (sin_family a = AF_INET \<longrightarrow>
        bpf_ntohl (s_addr a) = proxy_addr_host s \<and> bpf_ntohs (sin_port a) = proxy_port_host s \<or>
        allow_local_dns s \<noteq> 0 \<and> bpf_ntohs (sin_port a) = 53 \<and>
          bpf_ntohl (s_addr a) = dns_addr_host s)"

text \<open>The text of a network report: the refused IPv4 address and port, zeros for IPv6.\<close>

definition egress_text :: "sockaddr_in \<Rightarrow> bytes" where
  "egress_text a =
     (if sin_family a = AF_INET then snprintf_pi4_port (s_addr a) (bpf_ntohs (sin_port a))
      else snprintf_pi4_port 0 0)"

lemma of_nat_ascii_nonzero: "n < 10 \<Longrightarrow> (of_nat (48 + n) :: u8) \<noteq> 0"
proof
  assume "n < 10" "(of_nat (48 + n) :: u8) = 0"
  then have "(48 + n) mod 256 = 0"
    by (simp only: word_unat_eq_iff unat_of_nat) simp
  with \<open>n < 10\<close> show False by simp
qed

lemma dec_digits_no_NUL: "0 \<notin> set (dec_digits n)"
proof (induction n rule: dec_digits.induct)
  case (1 n)
  then show ?case
    using of_nat_ascii_nonzero [of n] of_nat_ascii_nonzero [of "n mod 10"]
    by (auto simp: dec_digits.simps [of n])
qed

lemma dec_pad3_no_NUL: "0 \<notin> set (dec_pad3 b)"
proof -
  have "unat b div 100 < 10"
    using unsigned_less [where w = b and 'a = nat] by simp
  then show ?thesis
    using of_nat_ascii_nonzero [of "unat b div 100"] of_nat_ascii_nonzero [of "unat b div 10 mod 10"]
      of_nat_ascii_nonzero [of "unat b mod 10"]
    by (auto simp: dec_pad3_def)
qed

lemma snprintf_no_NUL: "0 \<notin> set (snprintf_pi4_port a p)"
  by (simp add: snprintf_pi4_port_def le_bytes32_def dec_pad3_no_NUL dec_digits_no_NUL)

lemma net_report_text:
  "cstr (buf_write 0 (snprintf_pi4_port a p @ [0]) (zeros 256)) = snprintf_pi4_port a p"
  by (simp add: buf_write_0 cstr_append_NUL snprintf_no_NUL)

lemma connect_cases:
  assumes "tracked_caller k s = Some pid"
  shows "check_socket_connect k a s =
    (if egress_allowed s a then (0, s)
     else if sin_family a = AF_INET
     then report_and_deny k pid (s_addr a) (bpf_ntohs (sin_port a)) s
     else report_and_deny k pid 0 0 s)"
  using assms
  by (auto simp: check_socket_connect_def egress_allowed_def Let_def families
      elim!: tracked_callerE)

lemma sendmsg_connect:
  "check_socket_sendmsg k \<lparr>msg_name = Some (Some a)\<rparr> s = check_socket_connect k a s"
  by (auto simp: check_socket_sendmsg_def check_socket_connect_def Let_def families
      split: option.splits)

section \<open>Properties\<close>

text \<open>
  The outcome of a network hook: allowed in silence, or reported with the network policy and a
  text, and denied exactly while the switch is on.
\<close>

definition net_outcome :: "'p kernel \<Rightarrow> u32 \<Rightarrow> bytes option \<Rightarrow> enforcer \<Rightarrow> int \<times> enforcer \<Rightarrow> bool" where
  "net_outcome k pid refused s r \<longleftrightarrow>
     (case refused of
        None \<Rightarrow> r = (0, s)
      | Some txt \<Rightarrow>
          fst r = (if enforce_network s \<noteq> 0 then - EPERM else 0) \<and>
          (if ringbuf_has_room k then
             \<exists>v. violations (snd r) = violations s @ [v] \<and> v_pid v = pid \<and>
               policy_type v = network_policy_id s \<and> cstr (detail v) = txt
           else violations (snd r) = violations s))"

lemma net_outcome_pass: "net_outcome k pid None s (0, s)"
  by (simp add: net_outcome_def)

lemma net_outcome_report:
  "net_outcome k pid (Some (snprintf_pi4_port a p)) s (report_and_deny k pid a p s)"
  by (simp add: net_outcome_def hook_simps net_report_text)

text \<open>
  A tracked task connects: Unix sockets and other local families pass, IPv4 passes
  to the proxy and (if enabled) to the local resolver only, IPv6 never; a refused destination is
  reported as the address and port it names, and denied while \<open>enforce_network\<close> is set.
\<close>

theorem connect_decision:
  assumes "tracked_caller k s = Some pid"
  shows "net_outcome k pid (if egress_allowed s a then None else Some (egress_text a)) s
           (check_socket_connect k a s)"
  by (simp add: connect_cases [OF assms] egress_text_def net_outcome_pass net_outcome_report)

theorem connect_decision_witness:
  "net_outcome (string_kernel 42 42) 42 (Some (egress_text \<lparr>sin_family = 2, sin_port = 0xbb01, s_addr = 0x08080808\<rparr>))
     sample
     (check_socket_connect (string_kernel 42 42)
        \<lparr>sin_family = 2, sin_port = 0xbb01, s_addr = 0x08080808\<rparr> sample)"
proof -
  have "\<not> egress_allowed sample \<lparr>sin_family = 2, sin_port = 0xbb01, s_addr = 0x08080808\<rparr>"
    by (simp add: egress_allowed_def families sample_def bpf_ntohl_def byte_of_def)
  with connect_decision [OF sample_caller, of 42 "\<lparr>sin_family = 2, sin_port = 0xbb01, s_addr = 0x08080808\<rparr>"]
  show ?thesis by simp
qed

text \<open>
  C26 (safety): with the switch on and the resolver exception off, the only IPv4 destination a
  tracked task can connect to is the address and port of the proxy, compared in network byte
  order, and no IPv6 destination at all.
\<close>

theorem only_proxy_reachable:
  assumes "tracked_caller k s = Some pid" "enforce_network s \<noteq> 0" "allow_local_dns s = 0"
    and "sin_family a = AF_INET \<or> sin_family a = AF_INET6"
    and "fst (check_socket_connect k a s) = 0"
  shows "sin_family a = AF_INET \<and> s_addr a = bpf_ntohl (proxy_addr_host s) \<and>
    sin_port a = bpf_ntohs (proxy_port_host s)"
  using assms(2-)
  by (auto simp: connect_cases [OF assms(1)] egress_allowed_def hook_simps EPERM_def families
      bpf_ntohl_eq_iff [symmetric] bpf_ntohs_eq_iff [symmetric] split: if_splits)

theorem only_proxy_reachable_witness:
  "s_addr \<lparr>sin_family = 2, sin_port = bpf_ntohs 8080, s_addr = bpf_ntohl 0x7f000001\<rparr> =
     bpf_ntohl (proxy_addr_host sample)"
  using only_proxy_reachable [OF sample_caller, of
      "\<lparr>sin_family = 2, sin_port = bpf_ntohs 8080, s_addr = bpf_ntohl 0x7f000001\<rparr>" 42]
  by (simp add: connect_cases [OF sample_caller] egress_allowed_def families) (simp add: sample_def)

text \<open>
  A datagram with an explicit destination is judged exactly as a connect to
  it; a message without destination, or with one that cannot be read, passes.
\<close>

theorem sendmsg_judged_as_connect:
  "check_socket_sendmsg k \<lparr>msg_name = Some (Some a)\<rparr> s = check_socket_connect k a s \<and>
   check_socket_sendmsg k \<lparr>msg_name = None\<rparr> s = (0, s) \<and>
   check_socket_sendmsg k \<lparr>msg_name = Some None\<rparr> s = (0, s)"
  unfolding sendmsg_connect
  by (auto simp: check_socket_sendmsg_def zero_sin_def families split: option.splits)

text \<open>
  A tracked task creates a socket: packet sockets and raw sockets (the type below
  the flag bits) are reported and denied while the switch is on, every other socket passes.
\<close>

theorem socket_create_decision:
  assumes "tracked_caller k s = Some pid"
  shows "net_outcome k pid
     (if family = AF_PACKET \<or> unat socktype mod 256 = 3 then Some (snprintf_pi4_port 0 0) else None) s
     (check_socket_create k family socktype protocol kern s)"
proof -
  have "socktype AND 0xFF = SOCK_RAW \<longleftrightarrow> unat socktype mod 256 = 3"
    by (simp add: word_unat_eq_iff unat_and_mask8 families)
  with assms show ?thesis
    by (auto simp: check_socket_create_def Let_def net_outcome_pass net_outcome_report
        elim!: tracked_callerE)
qed

theorem socket_create_decision_witness:
  "net_outcome (string_kernel 42 42) 42 (Some (snprintf_pi4_port 0 0)) sample
     (check_socket_create (string_kernel 42 42) 2 0x80003 0 0 sample)"
  using socket_create_decision [OF sample_caller [of 42], where family = 2 and socktype = "0x80003"
      and protocol = 0 and kern = 0]
  by (simp add: families)

lemma report_switch:
  "violations (snd (report_and_deny k pid a p (s\<lparr>enforce_network := e\<rparr>))) =
   violations (snd (report_and_deny k pid a p s))"
  by (simp add: report_and_deny_violations)

lemma switch_keeps_lookup:
  "current_nspids k (s\<lparr>enforce_network := e\<rparr>) = current_nspids k s"
  by (simp add: current_nspids_def)

text \<open>
  The kill switch: with \<open>enforce_network\<close> clear no network hook denies, and what it
  reports does not depend on the switch.
\<close>

theorem network_kill_switch:
  assumes "enforce_network s = 0"
    and "hook \<in> {check_socket_connect k a, check_socket_sendmsg k msg, check_socket_create k fam ty proto kern}"
  shows "fst (hook s) = 0 \<and>
    violations (snd (hook s)) = violations (snd (hook (s\<lparr>enforce_network := e\<rparr>)))"
proof
  show "fst (hook s) = 0"
    using assms connect.not_enforcing sendmsg.not_enforcing create.not_enforcing by auto
  show "violations (snd (hook s)) = violations (snd (hook (s\<lparr>enforce_network := e\<rparr>)))"
    using assms(2)
    by (auto simp: check_socket_connect_def check_socket_sendmsg_def check_socket_create_def Let_def
        switch_keeps_lookup report_switch split: option.splits)
qed

theorem network_kill_switch_witness:
  "fst (check_socket_create (string_kernel 42 42) 17 3 0 0 (sample\<lparr>enforce_network := 0\<rparr>)) = 0"
  using network_kill_switch [of "sample\<lparr>enforce_network := 0\<rparr>"
      "check_socket_create (string_kernel 42 42) 17 3 0 0" "string_kernel 42 42" zero_sin
      "\<lparr>msg_name = None\<rparr>" 17 3 0 0 1]
  by simp

end
