(* ===== verification/Enforcer.thy ===== *)
theory Enforcer
  imports Enforcer_Files Enforcer_Net
begin

text \<open>
  The twelve programs of \<open>enforcer.bpf.c\<close> as the kernel calls them: one constructor per attached
  hook, the dispatch, and runs of hooks on behalf of changing tasks. The LSM contract holds for
  the dispatch, so it holds along every run.
\<close>

datatype ('p, 'd) lsm_call =
  File_open "'p kfile"
| Path_unlink 'p 'd
| Path_rename 'p 'd 'p 'd u32
| Path_mknod 'p 'd u16 u32
| Path_mkdir 'p 'd u16
| Path_symlink 'p 'd bytes
| Path_link 'd 'p 'd
| Path_rmdir 'p 'd
| Socket_connect sockaddr_in
| Socket_sendmsg msghdr
| Socket_create u32 u32 u32 u32
| Bprm_check_security "'p linux_binprm"

fun lsm_dispatch :: "'p kernel \<Rightarrow> ('p, 'd) lsm_call \<Rightarrow> enforcer \<Rightarrow> int \<times> enforcer" where
  "lsm_dispatch k (File_open f) = check_file_open k f"
| "lsm_dispatch k (Path_unlink d e) = check_path_unlink k d e"
| "lsm_dispatch k (Path_rename d e d' e' fl) = check_path_rename k d e d' e' fl"
| "lsm_dispatch k (Path_mknod d e m dev) = check_path_mknod k d e m dev"
| "lsm_dispatch k (Path_mkdir d e m) = check_path_mkdir k d e m"
| "lsm_dispatch k (Path_symlink d e n) = check_path_symlink k d e n"
| "lsm_dispatch k (Path_link e d e') = check_path_link k e d e'"
| "lsm_dispatch k (Path_rmdir d e) = check_path_rmdir k d e"
| "lsm_dispatch k (Socket_connect a) = check_socket_connect k a"
| "lsm_dispatch k (Socket_sendmsg m) = check_socket_sendmsg k m"
| "lsm_dispatch k (Socket_create f t p kn) = check_socket_create k f t p kn"
| "lsm_dispatch k (Bprm_check_security b) = check_exec k b"

interpretation lsm: lsm_hook k "lsm_dispatch k c" for k c
  by (cases c)
    (simp_all add: confine_hooks confine.lsm_hook_axioms file_open.lsm_hook_axioms
      rename.lsm_hook_axioms mknod.lsm_hook_axioms exec.lsm_hook_axioms
      connect.lsm_hook_axioms sendmsg.lsm_hook_axioms create.lsm_hook_axioms)

text \<open>A run: each call comes with the kernel's answers for the task that makes it.\<close>

fun lsm_run :: "('p kernel \<times> ('p, 'd) lsm_call) list \<Rightarrow> enforcer \<Rightarrow> int list \<times> enforcer" where
  "lsm_run [] s = ([], s)"
| "lsm_run ((k, c) # calls) s =
     (let (r, s1) = lsm_dispatch k c s; (rs, s2) = lsm_run calls s1 in (r # rs, s2))"

lemma lsm_run_Cons:
  "snd (lsm_run ((k, c) # calls) s) = snd (lsm_run calls (snd (lsm_dispatch k c s)))"
  by (simp add: Let_def case_prod_beta)

lemma lsm_run_config: "config (snd (lsm_run calls s)) = config s"
  by (induction calls arbitrary: s) (auto simp: lsm_run_Cons lsm.frame simp del: lsm_run.simps(2))

lemma lsm_run_wf:
  "list_all (\<lambda>(k, c). kernel_wf k) calls \<Longrightarrow> enforcer_wf s \<Longrightarrow> enforcer_wf (snd (lsm_run calls s))"
  by (induction calls arbitrary: s) (auto simp: lsm_run_Cons lsm.keeps_wf simp del: lsm_run.simps(2))

lemma lsm_run_reports:
  "\<exists>vs. violations (snd (lsm_run calls s)) = violations s @ vs \<and> length vs \<le> length calls"
proof (induction calls arbitrary: s)
  case Nil
  show ?case by simp
next
  case (Cons a calls)
  obtain k c where a: "a = (k, c)" by fastforce
  let ?s1 = "snd (lsm_dispatch k c s)"
  obtain vs ws where
    "violations ?s1 = violations s @ vs" "length vs \<le> 1"
    "violations (snd (lsm_run calls ?s1)) = violations ?s1 @ ws" "length ws \<le> length calls"
    using lsm.reports [of k c s] Cons [of ?s1] by blast
  then show ?case by (auto simp: a lsm_run_Cons simp del: lsm_run.simps(2))
qed

section \<open>Properties\<close>

text \<open>
  Every hook answers 0 or \<open>-EPERM\<close>, and for a task that is not on the list (or whose
  ids in the agent's namespace cannot be found) it answers 0 and changes nothing.
\<close>

theorem untracked_tasks_unaffected:
  "(fst (lsm_dispatch k c s) = 0 \<or> fst (lsm_dispatch k c s) = - EPERM) \<and>
   (tracked_caller k s = None \<longrightarrow> lsm_dispatch k c s = (0, s))"
  using lsm.verdict lsm.untracked by blast

theorem untracked_tasks_unaffected_witness:
  "lsm_dispatch (string_kernel 8 7) (Path_unlink str_env True) sample = (0, sample)"
proof -
  have "tracked_caller (string_kernel 8 7) sample = None"
    by (simp add: tracked_caller_def current_nspids_def sample_def hash_lookup_def)
  then show ?thesis
    using untracked_tasks_unaffected [of "string_kernel 8 7" "Path_unlink str_env True" sample] by blast
qed

text \<open>
  C27 (safety): a denial by any hook, in a well-formed state and with room in the ring buffer, adds
  exactly one report, whose process is the tracked caller.
\<close>

theorem denial_reported_once:
  assumes "kernel_wf k" "enforcer_wf s" "ringbuf_has_room k" "fst (lsm_dispatch k c s) = - EPERM"
  shows "\<exists>v. violations (snd (lsm_dispatch k c s)) = violations s @ [v] \<and>
    tracked_caller k s = Some (v_pid v)"
  using assms by (rule lsm.denial_report)

theorem denial_reported_once_witness:
  "\<exists>v. violations (snd (lsm_dispatch (string_kernel 42 42) (Socket_create 17 3 0 0 :: (bytes, bool) lsm_call)
     sample)) = violations sample @ [v] \<and>
   tracked_caller (string_kernel 42 42) sample = Some (v_pid v)"
proof (rule denial_reported_once [OF string_kernel_wf sample_wf])
  have "check_socket_create (string_kernel 42 42) 17 3 0 0 sample =
      report_and_deny (string_kernel 42 42) 42 0 0 sample"
    using sample_caller [of 42] by (auto simp: check_socket_create_def families elim!: tracked_callerE)
  then show "fst (lsm_dispatch (string_kernel 42 42) (Socket_create 17 3 0 0 :: (bytes, bool) lsm_call) sample) = - EPERM"
    by (simp add: hook_simps) (simp add: sample_def)
qed simp

text \<open>
  C32 (type): The type invariant of the state: along every run of hooks, on behalf of any tasks, the tables, buffers
  and the list of processes keep their sizes, bounds and lengths (well-formedness), no policy, switch or tracking state changes, and the ring buffer only grows, by at most one record
  per call.
\<close>

theorem runs_keep_policy:
  assumes "list_all (\<lambda>(k, c). kernel_wf k) calls" "enforcer_wf s"
  shows "enforcer_wf (snd (lsm_run calls s)) \<and> config (snd (lsm_run calls s)) = config s \<and>
    (\<exists>vs. violations (snd (lsm_run calls s)) = violations s @ vs \<and> length vs \<le> length calls)"
  using assms lsm_run_wf lsm_run_config lsm_run_reports by blast

theorem runs_keep_policy_witness:
  "enforcer_wf (snd (lsm_run [(string_kernel 42 42, Path_unlink str_env True),
     (string_kernel 8 7, Socket_create 17 3 0 0)] sample))"
  using runs_keep_policy [of "[(string_kernel 42 42, Path_unlink str_env True),
      (string_kernel 8 7, Socket_create 17 3 0 0)]" sample]
  by (simp add: string_kernel_wf sample_wf del: lsm_run.simps)

end
