(* ===== verification/Go_Strings.thy ===== *)
theory Go_Strings
  imports Prelude
begin

text \<open>
  What the userspace program uses of Go's \<open>strings\<close> and \<open>strconv\<close> packages, on byte strings:
  trimming, the case mappings, \<open>Contains\<close>, \<open>Fields\<close>, \<open>SplitN\<close> at the first separator,
  \<open>Atoi\<close> and decimal printing. The case tables of Unicode beyond ASCII are the fields of
  \<open>unicode_tables\<close>, an argument of the functions that consult them.
\<close>

section \<open>Trimming\<close>

text \<open>The UTF-8 encodings of the characters \<open>unicode.IsSpace\<close> accepts.\<close>

definition space_encodings :: "bytes list" where
  "space_encodings =
     [[0x09], [0x0a], [0x0b], [0x0c], [0x0d], [0x20], [0xc2, 0x85], [0xc2, 0xa0],
      [0xe1, 0x9a, 0x80],
      [0xe2, 0x80, 0x80], [0xe2, 0x80, 0x81], [0xe2, 0x80, 0x82], [0xe2, 0x80, 0x83],
      [0xe2, 0x80, 0x84], [0xe2, 0x80, 0x85], [0xe2, 0x80, 0x86], [0xe2, 0x80, 0x87],
      [0xe2, 0x80, 0x88], [0xe2, 0x80, 0x89], [0xe2, 0x80, 0x8a], [0xe2, 0x80, 0xa8],
      [0xe2, 0x80, 0xa9], [0xe2, 0x80, 0xaf], [0xe2, 0x81, 0x9f], [0xe3, 0x80, 0x80]]"

lemma space_encodings_nonempty: "e \<in> set space_encodings \<Longrightarrow> e \<noteq> []"
  by (auto simp: space_encodings_def)

function trim_left :: "bytes \<Rightarrow> bytes" where
  "trim_left s =
     (case find (\<lambda>e. prefix e s) space_encodings of
        Some e \<Rightarrow> trim_left (drop (length e) s)
      | None \<Rightarrow> s)"
  by pat_completeness auto
termination
proof (relation "measure length")
  fix s e
  assume "find (\<lambda>e. prefix e s) space_encodings = Some e"
  then have "e \<in> set space_encodings" "prefix e s" by (auto simp: find_Some_iff)
  then have "e \<noteq> []" "length e \<le> length s"
    using space_encodings_nonempty prefix_length_le by auto
  then show "(drop (length e) s, s) \<in> measure length"
    by (cases e) auto
qed simp

function trim_right :: "bytes \<Rightarrow> bytes" where
  "trim_right s =
     (case find (\<lambda>e. suffix e s) space_encodings of
        Some e \<Rightarrow> trim_right (take (length s - length e) s)
      | None \<Rightarrow> s)"
  by pat_completeness auto
termination
proof (relation "measure length")
  fix s e
  assume "find (\<lambda>e. suffix e s) space_encodings = Some e"
  then have "e \<in> set space_encodings" "suffix e s" by (auto simp: find_Some_iff)
  then have "e \<noteq> []" "length e \<le> length s"
    using space_encodings_nonempty suffix_length_le by auto
  then show "(take (length s - length e) s, s) \<in> measure length"
    by (cases e; cases s) auto
qed simp

declare trim_left.simps [simp del] trim_right.simps [simp del]

definition TrimSpace :: "bytes \<Rightarrow> bytes" where
  "TrimSpace s = trim_right (trim_left s)"

lemma TrimSpace_Nil [simp]: "TrimSpace [] = []"
  by (simp add: TrimSpace_def trim_left.simps trim_right.simps space_encodings_def)

definition TrimPrefix :: "bytes \<Rightarrow> bytes \<Rightarrow> bytes" where
  "TrimPrefix s pre = (if prefix pre s then drop (length pre) s else s)"

definition TrimSuffix :: "bytes \<Rightarrow> bytes \<Rightarrow> bytes" where
  "TrimSuffix s suf = (if suffix suf s then take (length s - length suf) s else s)"

text \<open>The part after the last separator: \<open>strings.LastIndex\<close> and the slice behind it.\<close>

definition after_last_slash :: "bytes \<Rightarrow> bytes" where
  "after_last_slash s = rev (takeWhile (\<lambda>b. b \<noteq> SLASH) (rev s))"

section \<open>String literals\<close>

text \<open>The bytes of an ASCII literal of the source.\<close>

definition str :: "string \<Rightarrow> bytes" where
  "str s = map of_char s"

lemma str_simps [simp]:
  "str [] = []" "str (c # s) = of_char c # str s"
  by (simp_all add: str_def)

lemma length_str [simp]: "length (str s) = length s"
  by (simp add: str_def)

section \<open>Letter case\<close>

record unicode_tables =
  uni_lower :: "bytes \<Rightarrow> bytes"
  uni_equal_fold :: "bytes \<Rightarrow> bytes \<Rightarrow> bool"

text \<open>Tables that change nothing, for concrete runs on ASCII strings.\<close>

definition plain_tables :: unicode_tables where
  "plain_tables = \<lparr>uni_lower = id, uni_equal_fold = (=)\<rparr>"

definition ascii :: "bytes \<Rightarrow> bool" where
  "ascii s = list_all (\<lambda>b. b < 0x80) s"

definition lower_byte :: "u8 \<Rightarrow> u8" where
  "lower_byte b = (if 0x41 \<le> b \<and> b \<le> 0x5a then b + 0x20 else b)"

text \<open>\<open>strings.ToLower\<close>: bytewise on ASCII strings, through the tables otherwise.\<close>

definition ToLower :: "unicode_tables \<Rightarrow> bytes \<Rightarrow> bytes" where
  "ToLower U s = (if ascii s then map lower_byte s else uni_lower U s)"

text \<open>
  \<open>strings.EqualFold\<close>: position by position while both bytes are ASCII; the first other byte
  sends the two remainders to the tables.
\<close>

definition fold_byte :: "u8 \<Rightarrow> u8 \<Rightarrow> bool" where
  "fold_byte a b =
     (a = b \<or> (let sr = min a b; tr = max a b in 0x41 \<le> sr \<and> sr \<le> 0x5a \<and> tr = sr + 0x20))"

fun EqualFold :: "unicode_tables \<Rightarrow> bytes \<Rightarrow> bytes \<Rightarrow> bool" where
  "EqualFold U (a # s) (b # t) =
     (if 0x80 \<le> (a OR b) then uni_equal_fold U (a # s) (b # t)
      else if fold_byte a b then EqualFold U s t else False)"
| "EqualFold U s t = (s = [] \<and> t = [])"

section \<open>Searching and splitting\<close>

text \<open>\<open>strings.Contains\<close>.\<close>

definition Contains :: "bytes \<Rightarrow> bytes \<Rightarrow> bool" where
  "Contains s sub = list_ex (prefix sub) (suffixes s)"

text \<open>\<open>strings.SplitN(s, sep, 2)\<close> for a separator of one byte.\<close>

definition SplitN2 :: "bytes \<Rightarrow> u8 \<Rightarrow> bytes list" where
  "SplitN2 s sep =
     (if sep \<in> set s
      then [takeWhile (\<lambda>b. b \<noteq> sep) s, tl (dropWhile (\<lambda>b. b \<noteq> sep) s)]
      else [s])"

text \<open>\<open>strings.Fields\<close>: \<open>cur\<close> is the field being read.\<close>

function fields_from :: "bytes \<Rightarrow> bytes \<Rightarrow> bytes list" where
  "fields_from cur s =
     (case find (\<lambda>e. prefix e s) space_encodings of
        Some e \<Rightarrow> (if cur = [] then [] else [cur]) @ fields_from [] (drop (length e) s)
      | None \<Rightarrow>
          (case s of
             [] \<Rightarrow> (if cur = [] then [] else [cur])
           | b # s' \<Rightarrow> fields_from (cur @ [b]) s'))"
  by pat_completeness auto
termination
proof (relation "measure (\<lambda>(cur, s). length s)")
  fix cur s e :: bytes
  assume "find (\<lambda>e. prefix e s) space_encodings = Some e"
  then have "e \<in> set space_encodings" "prefix e s" by (auto simp: find_Some_iff)
  then have "e \<noteq> []" "length e \<le> length s"
    using space_encodings_nonempty prefix_length_le by auto
  then show "(([], drop (length e) s), cur, s) \<in> measure (\<lambda>(cur, s). length s)"
    by (cases e) auto
qed auto

declare fields_from.simps [simp del]

definition Fields :: "bytes \<Rightarrow> bytes list" where
  "Fields s = fields_from [] s"

section \<open>Numbers\<close>

definition is_digit :: "u8 \<Rightarrow> bool" where
  "is_digit b \<longleftrightarrow> 0x30 \<le> b \<and> b \<le> 0x39"

definition digit_val :: "u8 \<Rightarrow> nat" where
  "digit_val b = unat (b - 0x30)"

definition decimal :: "bytes \<Rightarrow> nat option" where
  "decimal s =
     (if s \<noteq> [] \<and> list_all is_digit s then Some (foldl (\<lambda>n b. n * 10 + digit_val b) 0 s) else None)"

text \<open>\<open>strconv.Atoi\<close>: an optional sign and decimal digits in the range of a 64-bit integer.\<close>

definition Atoi :: "bytes \<Rightarrow> int option" where
  "Atoi s =
     (let neg = prefix [0x2d] s;
          body = (if neg \<or> prefix [0x2b] s then tl s else s) in
      case decimal body of
        None \<Rightarrow> None
      | Some n \<Rightarrow>
          if neg then (if n \<le> 2 ^ 63 then Some (- int n) else None)
          else if n < 2 ^ 63 then Some (int n) else None)"

text \<open>\<open>strconv.ParseUint(s, 10, 32)\<close>.\<close>

definition ParseUint32 :: "bytes \<Rightarrow> u32 option" where
  "ParseUint32 s = (case decimal s of None \<Rightarrow> None | Some n \<Rightarrow> if n < 2 ^ 32 then Some (of_nat n) else None)"

text \<open>\<open>strconv.Itoa\<close> on a natural number.\<close>

definition digit_char :: "nat \<Rightarrow> u8" where
  "digit_char d = 0x30 + of_nat d"

fun Itoa :: "nat \<Rightarrow> bytes" where
  "Itoa n = (if n < 10 then [digit_char n] else Itoa (n div 10) @ [digit_char (n mod 10)])"

declare Itoa.simps [simp del]

section \<open>Lemmas\<close>

lemma set_trim_left: "set (trim_left s) \<subseteq> set s"
proof (induction s rule: trim_left.induct)
  case (1 s)
  then show ?case
    by (subst trim_left.simps) (auto split: option.splits dest: in_set_dropD)
qed

lemma set_trim_right: "set (trim_right s) \<subseteq> set s"
proof (induction s rule: trim_right.induct)
  case (1 s)
  then show ?case
    by (subst trim_right.simps) (auto split: option.splits dest: in_set_takeD)
qed

lemma trim_right_fixed: "find (\<lambda>e. suffix e (trim_right s)) space_encodings = None"
proof (induction s rule: trim_right.induct)
  case (1 s)
  then show ?case
    by (subst trim_right.simps) (auto split: option.splits)
qed

lemma trim_left_fixed: "find (\<lambda>e. prefix e (trim_left s)) space_encodings = None"
proof (induction s rule: trim_left.induct)
  case (1 s)
  then show ?case
    by (subst trim_left.simps) (auto split: option.splits)
qed

lemma prefix_trim_right: "prefix (trim_right s) s"
proof (induction s rule: trim_right.induct)
  case (1 s)
  then show ?case
    by (subst trim_right.simps) (auto split: option.splits dest: prefix_order.trans [OF _ take_is_prefix])
qed

lemma TrimSpace_idem [simp]: "TrimSpace (TrimSpace s) = TrimSpace s"
proof -
  let ?t = "trim_right (trim_left s)"
  have "find (\<lambda>e. prefix e ?t) space_encodings = None"
    using trim_left_fixed [of s] prefix_trim_right [of "trim_left s"]
    by (auto simp: find_None_iff dest: prefix_order.trans)
  then have "trim_left ?t = ?t" by (subst trim_left.simps) simp
  moreover have "trim_right ?t = ?t" by (subst trim_right.simps) (simp add: trim_right_fixed)
  ultimately show ?thesis by (simp add: TrimSpace_def)
qed

lemma TrimSpace_newline [simp]: "TrimSpace (TrimSpace s @ [0x0a]) = TrimSpace s"
proof -
  let ?k = "TrimSpace s"
  have no_pre: "\<not> prefix e ?k" if "e \<in> set space_encodings" for e
    using that trim_left_fixed [of s] prefix_trim_right [of "trim_left s"]
    by (auto simp: TrimSpace_def find_None_iff dest: prefix_order.trans)
  have no_suf: "find (\<lambda>e. suffix e ?k) space_encodings = None"
    by (simp add: TrimSpace_def trim_right_fixed)
  have last: "e = [0x0a]" if "e \<in> set space_encodings" "last e = 0x0a" for e
    using that by (auto simp: space_encodings_def)
  have "\<not> prefix e (?k @ [0x0a])" if "?k \<noteq> []" "e \<in> set space_encodings" for e
    using no_pre that last [OF that(2)] by (auto simp: prefix_snoc)
  then have left: "trim_left (?k @ [0x0a]) = ?k @ [0x0a]" if "?k \<noteq> []"
    using that by (subst trim_left.simps) (auto simp: find_Some_iff split: option.splits)
  obtain e where e: "find (\<lambda>e. suffix e (?k @ [0x0a])) space_encodings = Some e"
    by (cases "find (\<lambda>e. suffix e (?k @ [0x0a])) space_encodings")
      (auto simp: find_None_iff space_encodings_def suffix_def)
  then obtain i where i: "i < length space_encodings" "e = space_encodings ! i" and suf: "suffix e (?k @ [0x0a])"
    unfolding find_Some_iff by blast
  from i have mem: "e \<in> set space_encodings" by simp
  from suf space_encodings_nonempty [OF mem] have "last e = 0x0a"
    by (auto simp: suffix_def) (metis last_appendR last_snoc)
  with mem have "e = [0x0a]" by (rule last)
  then have right: "trim_right (?k @ [0x0a]) = ?k"
    using e no_suf by (subst trim_right.simps) (simp add: trim_right.simps [of ?k])
  show ?thesis
  proof (cases "?k = []")
    case True
    moreover have "TrimSpace [0x0a] = []"
      by (simp add: TrimSpace_def trim_left.simps trim_right.simps space_encodings_def)
    ultimately show ?thesis by simp
  next
    case False
    then show ?thesis by (simp add: TrimSpace_def [of "?k @ [0x0a]"] left right)
  qed
qed

lemma set_TrimSpace: "set (TrimSpace s) \<subseteq> set s"
  unfolding TrimSpace_def using set_trim_left set_trim_right by fast


text \<open>Letter case.\<close>

lemma unat_lower_byte:
  "unat (lower_byte b) = (if 65 \<le> unat b \<and> unat b \<le> 90 then unat b + 32 else unat b)"
  by (auto simp: lower_byte_def word_le_nat_alt unat_word_ariths)

lemma lower_byte_idem [simp]: "lower_byte (lower_byte b) = lower_byte b"
  by (simp add: word_unat_eq_iff unat_lower_byte)

lemma ascii_simps [simp]:
  "ascii []" "ascii (b # s) \<longleftrightarrow> b < 0x80 \<and> ascii s" "ascii (s @ t) \<longleftrightarrow> ascii s \<and> ascii t"
  by (auto simp: ascii_def)

lemma lower_byte_ascii [simp]: "lower_byte b < 0x80 \<longleftrightarrow> b < 0x80"
  by (simp add: word_less_nat_alt unat_lower_byte)

lemma ToLower_ascii: "ascii s \<Longrightarrow> ToLower U s = map lower_byte s"
  by (simp add: ToLower_def)

lemma ToLower_idem: "ascii s \<Longrightarrow> ToLower U (ToLower U s) = ToLower U s"
  by (simp add: ToLower_def ascii_def list_all_iff)

lemma or_ascii: "a < 0x80 \<Longrightarrow> b < 0x80 \<Longrightarrow> \<not> 0x80 \<le> (a OR b)" for a b :: u8
proof -
  assume "a < 0x80" "b < 0x80"
  then have "take_bit 7 (unat a) = unat a" "take_bit 7 (unat b) = unat b"
    by (simp_all add: take_bit_nat_eq_self_iff word_less_nat_alt)
  then have "take_bit 7 (unat (a OR b)) = unat (a OR b)"
    by (simp only: unsigned_or_eq take_bit_or)
  then show ?thesis by (simp add: take_bit_nat_eq_self_iff word_le_nat_alt)
qed

lemma fold_byte_lower: "a < 0x80 \<Longrightarrow> b < 0x80 \<Longrightarrow> fold_byte a b \<longleftrightarrow> lower_byte a = lower_byte b"
  by (auto simp: fold_byte_def Let_def min_def max_def word_unat_eq_iff unat_lower_byte
      word_le_nat_alt word_less_nat_alt unat_word_ariths)

text \<open>On ASCII strings \<open>EqualFold\<close> is equality of the lower-case forms.\<close>

lemma EqualFold_ascii:
  "ascii s \<Longrightarrow> ascii t \<Longrightarrow> EqualFold U s t \<longleftrightarrow> map lower_byte s = map lower_byte t"
  by (induction U s t rule: EqualFold.induct) (auto simp: or_ascii fold_byte_lower)

lemma Contains_iff: "Contains s sub \<longleftrightarrow> sublist sub s"
proof
  assume "Contains s sub"
  then obtain t where "suffix t s" "prefix sub t" by (auto simp: Contains_def list_ex_iff)
  then show "sublist sub s"
    by (meson prefix_imp_sublist sublist_order.order.trans suffix_imp_sublist)
next
  assume "sublist sub s"
  then obtain p q where "s = p @ sub @ q" by (auto simp: sublist_def)
  then have "suffix (sub @ q) s" "prefix sub (sub @ q)" by (auto simp: suffix_def)
  then show "Contains s sub" unfolding Contains_def list_ex_iff by (metis set_suffixes_eq mem_Collect_eq)
qed

lemma SplitN2_join: "sep \<notin> set u \<Longrightarrow> SplitN2 (u @ sep # v) sep = [u, v]"
  by (induction u) (auto simp: SplitN2_def split: if_splits)

lemma SplitN2_two: "SplitN2 s sep = [u, v] \<Longrightarrow> s = u @ sep # v \<and> sep \<notin> set u"
proof -
  assume eq: "SplitN2 s sep = [u, v]"
  then have "sep \<in> set s" by (auto simp: SplitN2_def split: if_splits)
  then have "s \<noteq> []" "dropWhile (\<lambda>b. b \<noteq> sep) s \<noteq> []"
    by auto
  moreover have "hd (dropWhile (\<lambda>b. b \<noteq> sep) s) = sep"
    using hd_dropWhile [OF calculation(2)] by simp
  ultimately have "dropWhile (\<lambda>b. b \<noteq> sep) s = sep # tl (dropWhile (\<lambda>b. b \<noteq> sep) s)"
    by (metis list.collapse)
  with eq \<open>sep \<in> set s\<close> show ?thesis
    by (auto simp: SplitN2_def dest: set_takeWhileD) (metis takeWhile_dropWhile_id)
qed

text \<open>Decimal notation.\<close>

lemma digit_of_nat:
  "n < 10 \<Longrightarrow> is_digit (digit_char n) \<and> digit_val (digit_char n) = n"
proof -
  assume n: "n < 10"
  then have "unat (of_nat n :: u8) = n" by (simp add: unat_of_nat)
  with n show ?thesis
    by (simp add: is_digit_def digit_val_def digit_char_def word_le_nat_alt unat_word_ariths)
qed

lemma Itoa_digits: "list_all is_digit (Itoa n) \<and> Itoa n \<noteq> []"
proof (induction n rule: Itoa.induct)
  case (1 n)
  then show ?case by (subst (1 2) Itoa.simps) (auto simp: digit_of_nat)
qed

lemma foldl_Itoa: "foldl (\<lambda>n b. n * 10 + digit_val b) 0 (Itoa n) = n"
proof (induction n rule: Itoa.induct)
  case (1 n)
  then show ?case by (subst Itoa.simps) (auto simp: digit_of_nat)
qed

lemma decimal_Itoa [simp]: "decimal (Itoa n) = Some n"
  by (simp add: decimal_def Itoa_digits foldl_Itoa)

lemma Itoa_unsigned: "\<not> prefix [0x2d] (Itoa n)" "\<not> prefix [0x2b] (Itoa n)"
  using Itoa_digits [of n] by (auto simp: prefix_def is_digit_def word_le_nat_alt)

lemma Atoi_Itoa: "n < 2 ^ 63 \<Longrightarrow> Atoi (Itoa n) = Some (int n)"
  by (simp add: Atoi_def Itoa_unsigned)

text \<open>Text whose first and last bytes are graphic ASCII has nothing to trim.\<close>

definition graphic :: "u8 \<Rightarrow> bool" where
  "graphic b \<longleftrightarrow> 0x20 < b \<and> b < 0x7f"

lemma space_edges: "e \<in> set space_encodings \<Longrightarrow> \<not> graphic (hd e) \<and> \<not> graphic (last e)"
  by (auto simp: space_encodings_def graphic_def)

lemma TrimSpace_graphic:
  assumes "s \<noteq> []" "graphic (hd s)" "graphic (last s)"
  shows "TrimSpace s = s"
proof -
  have "\<not> prefix e s" "\<not> suffix e s" if "e \<in> set space_encodings" for e
    using space_edges [OF that] space_encodings_nonempty [OF that] assms(2,3) by (auto simp: prefix_def suffix_def)
  then have "find (\<lambda>e. prefix e s) space_encodings = None" "find (\<lambda>e. suffix e s) space_encodings = None"
    by (auto simp: find_None_iff)
  then show ?thesis by (simp add: TrimSpace_def trim_left.simps [of s] trim_right.simps [of s])
qed

lemma fields_from_graphic:
  "list_all graphic s \<Longrightarrow> fields_from cur s = (if cur @ s = [] then [] else [cur @ s])"
proof (induction s arbitrary: cur)
  case Nil
  have "find (\<lambda>e. prefix e []) space_encodings = None"
    using space_encodings_nonempty by (auto simp: find_None_iff)
  then show ?case by (simp add: fields_from.simps)
next
  case (Cons b s)
  have "\<not> prefix e (b # s)" if "e \<in> set space_encodings" for e
    using space_edges [OF that] space_encodings_nonempty [OF that] Cons.prems by (auto simp: prefix_def Cons_eq_append_conv)
  then have "find (\<lambda>e. prefix e (b # s)) space_encodings = None"
    by (auto simp: find_None_iff)
  then show ?case using Cons by (subst fields_from.simps) simp
qed

lemma Fields_graphic: "list_all graphic s \<Longrightarrow> s \<noteq> [] \<Longrightarrow> Fields s = [s]"
  by (simp add: Fields_def fields_from_graphic)

end
