(* ===== verification/Loader.thy ===== *)
theory Loader
  imports Enforcer Go_Strings
begin

text \<open>
  The userspace side of the rule tables: \<open>normalizePathSuffix\<close>, \<open>normalizeCommandSuffix\<close>,
  \<open>applyPathPatterns\<close> and \<open>applyCommandPatterns\<close> of \<open>main.go\<close>, \<open>pathStartsWith\<close>,
  \<open>applyWorkspaceRoot\<close>, \<open>applyAllowPrefixes\<close> and
  \<open>applyWorkspacePolicy\<close> of \<open>workspace.go\<close>. Go strings are byte lists; an error return is \<open>Inl\<close>.
\<close>

section \<open>Map updates from userspace\<close>

datatype load_error =
  Too_many_patterns nat
| Empty_path_pattern
| Pattern_too_long bytes
| Empty_command_pattern
| Empty_command_basename
| Update_failed u32
| Invalid_root_length nat
| Prefix_too_long bytes

text \<open>\<open>Map.Update\<close> on an array map fails exactly outside its slots.\<close>

definition array_update :: "'v list \<Rightarrow> u32 \<Rightarrow> 'v \<Rightarrow> load_error + 'v list" where
  "array_update m i v = (if unat i < length m then Inr (m[unat i := v]) else Inl (Update_failed i))"

text \<open>The loops that store a list of values into consecutive slots from slot \<open>i\<close> on.\<close>

fun store_from :: "u32 \<Rightarrow> 'v list \<Rightarrow> 'v list \<Rightarrow> load_error + 'v list" where
  "store_from i [] m = Inr m"
| "store_from i (v # vs) m =
     (case array_update m i v of Inl e \<Rightarrow> Inl e | Inr m' \<Rightarrow> store_from (i + 1) vs m')"

section \<open>Rule tables\<close>

record NamedPattern =
  Pattern :: bytes
  PolicyID :: u32

definition maxPathPatternSlots :: nat where "maxPathPatternSlots = 16"
definition maxCommandPatternSlots :: nat where "maxCommandPatternSlots = 16"
definition bpfPatternKeySize :: nat where "bpfPatternKeySize = 64"

lemmas slot_limits =
  maxPathPatternSlots_def maxCommandPatternSlots_def bpfPatternKeySize_def

text \<open>\<open>copy(ent.Pattern[:], s)\<close> into a zeroed array, and the length byte.\<close>

definition copy_into :: "nat \<Rightarrow> bytes \<Rightarrow> bytes" where
  "copy_into n s = take n s @ zeros (n - length s)"

definition pattern_ent :: "bytes \<Rightarrow> u32 \<Rightarrow> path_pattern_entry" where
  "pattern_ent s pid = \<lparr>pattern = copy_into 64 s, policy_id = pid, pattern_len = of_nat (length s)\<rparr>"

definition empty_ent :: path_pattern_entry where
  "empty_ent = \<lparr>pattern = zeros 64, policy_id = 0, pattern_len = 0\<rparr>"

definition normalizePathSuffix :: "bytes \<Rightarrow> load_error + bytes" where
  "normalizePathSuffix pat =
     (let p = TrimSpace (TrimPrefix pat [0x2a, 0x2a, SLASH]) in
      if p = [] then Inl Empty_path_pattern
      else
        let p' = (if prefix [SLASH] p then p else SLASH # p) in
        if bpfPatternKeySize < length p' then Inl (Pattern_too_long p') else Inr p')"

definition normalizeCommandSuffix :: "bytes \<Rightarrow> load_error + bytes" where
  "normalizeCommandSuffix pat =
     (let p = TrimSuffix (TrimSpace pat) [SLASH] in
      if p = [] then Inl Empty_command_pattern
      else
        let b = (if SLASH \<in> set p then after_last_slash p else p) in
        if b = [] then Inl Empty_command_basename else normalizePathSuffix b)"

fun load_path_slots ::
  "u32 \<Rightarrow> NamedPattern list \<Rightarrow> path_pattern_entry list \<Rightarrow> load_error + path_pattern_entry list" where
  "load_path_slots i [] m = Inr m"
| "load_path_slots i (p # ps) m =
     (case normalizePathSuffix (Pattern p) of
        Inl e \<Rightarrow> Inl e
      | Inr suf \<Rightarrow>
          (case array_update m i (pattern_ent suf (PolicyID p)) of
             Inl e \<Rightarrow> Inl e
           | Inr m' \<Rightarrow> load_path_slots (i + 1) ps m'))"

definition applyPathPatterns ::
  "path_pattern_entry list \<Rightarrow> NamedPattern list \<Rightarrow> load_error + path_pattern_entry list" where
  "applyPathPatterns m patterns =
     (if maxPathPatternSlots < length patterns then Inl (Too_many_patterns (length patterns))
      else
        (case store_from 0 (replicate maxPathPatternSlots empty_ent) m of
           Inl e \<Rightarrow> Inl e
         | Inr m' \<Rightarrow> load_path_slots 0 patterns m'))"

fun command_suffixes ::
  "NamedPattern list \<Rightarrow> bytes list \<Rightarrow> NamedPattern list \<Rightarrow> load_error + NamedPattern list" where
  "command_suffixes [] seen out = Inr out"
| "command_suffixes (p # ps) seen out =
     (case normalizeCommandSuffix (Pattern p) of
        Inl e \<Rightarrow> Inl e
      | Inr suf \<Rightarrow>
          if suf \<in> set seen then command_suffixes ps seen out
          else command_suffixes ps (suf # seen)
                 (out @ [\<lparr>Pattern = suf, PolicyID = PolicyID p\<rparr>]))"

definition applyCommandPatterns ::
  "path_pattern_entry list \<Rightarrow> NamedPattern list \<Rightarrow> load_error + path_pattern_entry list" where
  "applyCommandPatterns m patterns =
     (case command_suffixes patterns [] [] of
        Inl e \<Rightarrow> Inl e
      | Inr sufs \<Rightarrow>
          if maxCommandPatternSlots < length sufs then Inl (Too_many_patterns (length sufs))
          else
            (case store_from 0 (replicate maxCommandPatternSlots empty_ent) m of
               Inl e \<Rightarrow> Inl e
             | Inr m' \<Rightarrow>
                 store_from 0 (map (\<lambda>p. pattern_ent (Pattern p) (PolicyID p)) sufs) m'))"

section \<open>Workspace\<close>

record WorkspacePolicy =
  wp_PolicyID :: u32
  wp_Feedback :: bytes
  wp_Root :: bytes
  wp_AllowPrefixes :: "bytes list"

definition maxAllowPrefixSlots :: nat where "maxAllowPrefixSlots = 25"
definition maxWorkspaceRootLen :: nat where "maxWorkspaceRootLen = 255"

definition pathStartsWith :: "bytes \<Rightarrow> bytes \<Rightarrow> bool" where
  "pathStartsWith path pre =
     (if pre = [] \<or> length path < length pre then False
      else if take (length pre) path \<noteq> pre then False
      else if length path = length pre then True
      else path ! length pre = SLASH)"

definition root_ent :: "bytes \<Rightarrow> u32 \<Rightarrow> workspace_root_entry" where
  "root_ent r pid = \<lparr>ws_prefix = copy_into 256 r, ws_prefix_len = of_nat (length r), ws_policy_id = pid\<rparr>"

definition empty_root :: workspace_root_entry where
  "empty_root = \<lparr>ws_prefix = zeros 256, ws_prefix_len = 0, ws_policy_id = 0\<rparr>"

definition prefix_ent :: "bytes \<Rightarrow> u32 \<Rightarrow> prefix_entry" where
  "prefix_ent s pid =
     \<lparr>pfx_pattern = copy_into 64 s, pfx_policy_id = pid, pfx_pattern_len = of_nat (length s)\<rparr>"

definition empty_prefix :: prefix_entry where
  "empty_prefix = \<lparr>pfx_pattern = zeros 64, pfx_policy_id = 0, pfx_pattern_len = 0\<rparr>"

definition applyWorkspaceRoot ::
  "workspace_root_entry list \<Rightarrow> WorkspacePolicy option \<Rightarrow> load_error + workspace_root_entry list" where
  "applyWorkspaceRoot m wp =
     (case wp of
        None \<Rightarrow> array_update m 0 empty_root
      | Some w \<Rightarrow>
          if length (wp_Root w) = 0 \<or> maxWorkspaceRootLen < length (wp_Root w)
          then Inl (Invalid_root_length (length (wp_Root w)))
          else array_update m 0 (root_ent (wp_Root w) (wp_PolicyID w)))"

fun load_prefix_slots :: "u32 \<Rightarrow> u32 \<Rightarrow> bytes list \<Rightarrow> prefix_entry list \<Rightarrow> load_error + prefix_entry list" where
  "load_prefix_slots pid i [] m = Inr m"
| "load_prefix_slots pid i (p # ps) m =
     (if bpfPatternKeySize < length p then Inl (Prefix_too_long p)
      else
        (case array_update m i (prefix_ent p pid) of
           Inl e \<Rightarrow> Inl e
         | Inr m' \<Rightarrow> load_prefix_slots pid (i + 1) ps m'))"

definition applyAllowPrefixes ::
  "prefix_entry list \<Rightarrow> WorkspacePolicy option \<Rightarrow> load_error + prefix_entry list" where
  "applyAllowPrefixes m wp =
     (case store_from 0 (replicate maxAllowPrefixSlots empty_prefix) m of
        Inl e \<Rightarrow> Inl e
      | Inr m' \<Rightarrow>
          (case wp of
             None \<Rightarrow> Inr m'
           | Some w \<Rightarrow> load_prefix_slots (wp_PolicyID w) 0 (wp_AllowPrefixes w) m'))"

definition boolToU8 :: "bool \<Rightarrow> u8" where
  "boolToU8 b = (if b then 1 else 0)"

definition applyWorkspacePolicy :: "enforcer \<Rightarrow> WorkspacePolicy option \<Rightarrow> load_error + enforcer" where
  "applyWorkspacePolicy s wp =
     (let s1 = s\<lparr>enforce_workspace := boolToU8 (wp \<noteq> None)\<rparr> in
      case applyWorkspaceRoot (workspace_root s1) wp of
        Inl e \<Rightarrow> Inl e
      | Inr r \<Rightarrow>
          (case applyAllowPrefixes (allowed_path_prefixes s1) wp of
             Inl e \<Rightarrow> Inl e
           | Inr a \<Rightarrow> Inr (s1\<lparr>workspace_root := r, allowed_path_prefixes := a\<rparr>)))"

section \<open>What loading leaves in the maps\<close>

lemma array_update_of_nat:
  "i < length m \<Longrightarrow> length m < 2 ^ 32 \<Longrightarrow> array_update m (of_nat i) v = Inr (m[i := v])"
  by (simp add: array_update_def unat_of_nat)

lemma store_from_ok:
  assumes "length m < 2 ^ 32" "i + length vs \<le> length m"
  shows "store_from (of_nat i) vs m = Inr (take i m @ vs @ drop (i + length vs) m)"
  using assms
proof (induction vs arbitrary: i m)
  case Nil
  then show ?case by simp
next
  case (Cons v vs)
  have nxt: "(of_nat i :: u32) + 1 = of_nat (Suc i)" by simp
  have up: "array_update m (of_nat i) v = Inr (m[i := v])"
    using Cons.prems by (intro array_update_of_nat) auto
  have "store_from (of_nat (Suc i)) vs (m[i := v]) =
      Inr (take (Suc i) (m[i := v]) @ vs @ drop (Suc i + length vs) (m[i := v]))"
    using Cons.prems by (intro Cons.IH) auto
  moreover have "take (Suc i) (m[i := v]) = take i m @ [v]"
    using Cons.prems by (simp add: take_Suc_conv_app_nth)
  ultimately show ?case
    unfolding store_from.simps nxt up by simp
qed

lemma store_from_0:
  "length m < 2 ^ 32 \<Longrightarrow> length vs \<le> length m \<Longrightarrow>
   store_from 0 vs m = Inr (vs @ drop (length vs) m)"
  using store_from_ok [of m 0 vs] by simp

text \<open>Storing more values than there are slots is an error.\<close>

lemma store_from_overflow:
  assumes "length m < 2 ^ 32" "i \<le> length m" "length m < i + length vs"
  shows "\<exists>e. store_from (of_nat i) vs m = Inl e"
  using assms
proof (induction vs arbitrary: i m)
  case Nil
  then show ?case by simp
next
  case (Cons v vs)
  have nxt: "(of_nat i :: u32) + 1 = of_nat (Suc i)" by simp
  show ?case
  proof (cases "i = length m")
    case True
    then show ?thesis using Cons.prems by (simp add: array_update_def unat_of_nat)
  next
    case False
    then have up: "array_update m (of_nat i) v = Inr (m[i := v])"
      using Cons.prems by (intro array_update_of_nat) auto
    have "\<exists>e. store_from (of_nat (Suc i)) vs (m[i := v]) = Inl e"
      using Cons.prems False by (intro Cons.IH) auto
    then show ?thesis unfolding store_from.simps nxt up by simp
  qed
qed

lemma load_path_slots_store:
  "load_path_slots i ps m = Inr m' \<Longrightarrow>
   \<exists>sufs. list_all2 (\<lambda>p suf. normalizePathSuffix (Pattern p) = Inr suf) ps sufs \<and>
     store_from i (map2 pattern_ent sufs (map PolicyID ps)) m = Inr m'"
proof (induction i ps m arbitrary: m' rule: load_path_slots.induct)
  case (1 i m)
  then show ?case by simp
next
  case (2 i p ps m)
  from "2.prems" obtain suf m1 where
    step: "normalizePathSuffix (Pattern p) = Inr suf"
      "array_update m i (pattern_ent suf (PolicyID p)) = Inr m1" "load_path_slots (i + 1) ps m1 = Inr m'"
    by (auto split: sum.splits)
  from "2.IH" [OF step] obtain sufs where
    "list_all2 (\<lambda>p suf. normalizePathSuffix (Pattern p) = Inr suf) ps sufs"
    "store_from (i + 1) (map2 pattern_ent sufs (map PolicyID ps)) m1 = Inr m'" by blast
  with step(1,2) show ?case by (intro exI [of _ "suf # sufs"]) simp
qed

lemma normalizePathSuffix_props:
  assumes "normalizePathSuffix pat = Inr suf"
  shows "length suf \<le> 64" "\<exists>r. suf = SLASH # r" "suf \<noteq> []"
proof -
  show "length suf \<le> 64"
    using assms by (auto simp: normalizePathSuffix_def Let_def slot_limits split: if_splits)
  show "\<exists>r. suf = SLASH # r"
    using assms by (auto simp: normalizePathSuffix_def Let_def prefix_def split: if_splits)
  then show "suf \<noteq> []" by auto
qed

lemma length_copy_into [buf_simps]: "length (copy_into n s) = n"
  by (simp add: copy_into_def)

lemma take_copy_into [buf_simps]: "length s \<le> n \<Longrightarrow> take (length s) (copy_into n s) = s"
  by (simp add: copy_into_def)

lemma unat_of_nat_u8: "n \<le> 64 \<Longrightarrow> unat (of_nat n :: u8) = n"
  by (simp add: unat_of_nat)

lemma pattern_ent_wf:
  assumes "length s \<le> 64"
  shows "entry_wf (pattern_ent s pid)" "entry_str (pattern_ent s pid) = s"
    "policy_id (pattern_ent s pid) = pid"
  using assms
  by (simp_all add: entry_wf_def entry_str_def pattern_ent_def buf_simps unat_of_nat_u8)

lemma empty_ent_wf: "entry_wf empty_ent" "entry_str empty_ent = []"
  by (simp_all add: entry_wf_def entry_str_def empty_ent_def)

lemma prefix_ent_wf:
  assumes "length s \<le> 64"
  shows "prefix_wf (prefix_ent s pid)" "prefix_str (prefix_ent s pid) = s"
  using assms
  by (simp_all add: prefix_wf_def prefix_str_def prefix_ent_def buf_simps unat_of_nat_u8)

lemma empty_prefix_wf: "prefix_wf empty_prefix" "prefix_str empty_prefix = []"
  by (simp_all add: prefix_wf_def prefix_str_def empty_prefix_def)

lemma root_ent_wf:
  assumes "length r \<le> 255"
  shows "root_wf (root_ent r pid)" "root_str (root_ent r pid) = r" "ws_policy_id (root_ent r pid) = pid"
proof -
  have "unat (of_nat (length r) :: u32) = length r" using assms by (simp add: unat_of_nat)
  then show "root_wf (root_ent r pid)" "root_str (root_ent r pid) = r"
    "ws_policy_id (root_ent r pid) = pid"
    using assms by (simp_all add: root_wf_def root_str_def root_ent_def buf_simps)
qed

lemma empty_root_wf: "root_wf empty_root" "root_str empty_root = []"
  by (simp_all add: root_wf_def root_str_def empty_root_def)

text \<open>The path table after a successful load.\<close>

lemma applyPathPatterns_table:
  assumes "length m = 16" "applyPathPatterns m ps = Inr m'"
  obtains sufs where
    "list_all2 (\<lambda>p suf. normalizePathSuffix (Pattern p) = Inr suf) ps sufs"
    "length ps \<le> 16"
    "m' = map2 pattern_ent sufs (map PolicyID ps) @ replicate (16 - length ps) empty_ent"
proof -
  from assms(2) have le: "length ps \<le> 16"
    by (auto simp: applyPathPatterns_def slot_limits split: if_splits)
  have clear: "store_from 0 (replicate 16 empty_ent) m = Inr (replicate 16 empty_ent)"
    using assms(1) store_from_0 [of m "replicate 16 empty_ent"] by simp
  with assms(2) le have "load_path_slots 0 ps (replicate 16 empty_ent) = Inr m'"
    by (simp add: applyPathPatterns_def slot_limits)
  from load_path_slots_store [OF this] obtain sufs where sufs:
    "list_all2 (\<lambda>p suf. normalizePathSuffix (Pattern p) = Inr suf) ps sufs"
    "store_from 0 (map2 pattern_ent sufs (map PolicyID ps)) (replicate 16 empty_ent) = Inr m'"
    by blast
  have "length sufs = length ps" using sufs(1) by (simp add: list_all2_lengthD)
  with sufs(2) le have "m' = map2 pattern_ent sufs (map PolicyID ps) @ replicate (16 - length ps) empty_ent"
    using store_from_0 [of "replicate 16 empty_ent" "map2 pattern_ent sufs (map PolicyID ps)"] by simp
  with sufs(1) le show thesis by (rule that)
qed

lemma find_append_none:
  "(\<And>y. y \<in> set ys \<Longrightarrow> \<not> P y) \<Longrightarrow> find P (xs @ ys) = find P xs"
  by (induction xs) (auto simp: find_None_iff)

lemma find_map2_ent:
  assumes "length sufs = length pids" "\<forall>s \<in> set sufs. s \<noteq> [] \<and> length s \<le> 64"
  shows "map_option policy_id
           (find (\<lambda>e. entry_str e \<noteq> [] \<and> D (entry_str e)) (map2 pattern_ent sufs pids)) =
         map_option snd (find (\<lambda>(s, pid). D s) (zip sufs pids))"
  using assms
  by (induction sufs pids rule: list_induct2) (auto simp: pattern_ent_wf)

text \<open>The first pattern of the policy whose normalised suffix the path has, with its policy number.\<close>

definition first_path_policy :: "NamedPattern list \<Rightarrow> bytes \<Rightarrow> u32 option" where
  "first_path_policy ps path =
     map_option PolicyID (find (\<lambda>p. case normalizePathSuffix (Pattern p) of
        Inl _ \<Rightarrow> False | Inr suf \<Rightarrow> suffix suf path) ps)"

lemma find_zip_normalized:
  assumes "list_all2 (\<lambda>p suf. normalizePathSuffix (Pattern p) = Inr suf) ps sufs"
  shows "map_option snd (find (\<lambda>(s, pid). suffix s path) (zip sufs (map PolicyID ps))) =
           first_path_policy ps path"
  using assms unfolding first_path_policy_def
  by (induction rule: list_all2_induct) auto

lemma loaded_credential_rule:
  assumes "length m = 16" "applyPathPatterns m ps = Inr (blocked_path_patterns s)"
  shows "map_option policy_id (credential_rule s path) = first_path_policy ps path"
    and "length (blocked_path_patterns s) = 16" "list_all entry_wf (blocked_path_patterns s)"
proof -
  obtain sufs where sufs:
    "list_all2 (\<lambda>p suf. normalizePathSuffix (Pattern p) = Inr suf) ps sufs" "length ps \<le> 16"
    "blocked_path_patterns s = map2 pattern_ent sufs (map PolicyID ps) @ replicate (16 - length ps) empty_ent"
    using assms by (rule applyPathPatterns_table)
  have len: "length sufs = length (map PolicyID ps)" using sufs(1) by (simp add: list_all2_lengthD)
  have ne: "\<forall>x \<in> set sufs. x \<noteq> [] \<and> length x \<le> 64"
  proof
    fix x assume "x \<in> set sufs"
    then obtain i where "i < length sufs" "x = sufs ! i" by (auto simp: in_set_conv_nth)
    then have "normalizePathSuffix (Pattern (ps ! i)) = Inr x"
      using sufs(1) by (simp add: list_all2_conv_all_nth)
    from normalizePathSuffix_props [OF this] show "x \<noteq> [] \<and> length x \<le> 64" by simp
  qed
  have "credential_rule s path = find (\<lambda>e. entry_str e \<noteq> [] \<and> suffix (entry_str e) path)
      (map2 pattern_ent sufs (map PolicyID ps))"
    unfolding credential_rule_def sufs(3)
    by (rule find_append_none) (auto simp: empty_ent_wf)
  then show "map_option policy_id (credential_rule s path) = first_path_policy ps path"
    using find_map2_ent [OF len ne, of "\<lambda>x. suffix x path"] find_zip_normalized [OF sufs(1)] by simp
  show "length (blocked_path_patterns s) = 16"
    using len sufs(2,3) by simp
  show "list_all entry_wf (blocked_path_patterns s)"
    using ne unfolding sufs(3)
    by (auto simp: list_all_iff empty_ent_wf intro!: pattern_ent_wf dest!: set_zip_leftD)
qed

section \<open>Commands\<close>

lemma after_last_slash_no_slash: "SLASH \<notin> set (after_last_slash s)"
  unfolding after_last_slash_def by (auto dest: set_takeWhileD)

lemma command_decides_basename:
  assumes "SLASH \<notin> set b" "b \<noteq> []"
  shows "command_decides (SLASH # b) p \<longleftrightarrow> after_last_slash p = b"
proof
  assume "command_decides (SLASH # b) p"
  then consider r where "p = r @ SLASH # b" | "p = b"
    by (auto simp: command_decides_def suffix_def)
  then show "after_last_slash p = b"
  proof cases
    case 1
    have "takeWhile (\<lambda>x. x \<noteq> SLASH) (rev b @ SLASH # rev r) = rev b"
      using assms(1) by (subst takeWhile_append2) auto
    then show ?thesis by (simp add: after_last_slash_def 1)
  next
    case 2
    have "takeWhile (\<lambda>x. x \<noteq> SLASH) (rev b) = rev b"
      using assms(1) by (auto simp: takeWhile_eq_all_conv)
    then show ?thesis by (simp only: after_last_slash_def 2 rev_rev_ident)
  qed
next
  assume b: "after_last_slash p = b"
  let ?t = "takeWhile (\<lambda>x. x \<noteq> SLASH) (rev p)" and ?d = "dropWhile (\<lambda>x. x \<noteq> SLASH) (rev p)"
  have "rev (?t @ ?d) = p" by (simp only: takeWhile_dropWhile_id rev_rev_ident)
  then have p: "p = rev ?d @ b"
    using b by (simp only: after_last_slash_def rev_append)
  show "command_decides (SLASH # b) p"
  proof (cases ?d)
    case Nil
    with p have "p = b" by simp
    then show ?thesis using assms(2) by (cases b) (auto simp: command_decides_def)
  next
    case (Cons x xs)
    then have "x = SLASH" using hd_dropWhile [of "\<lambda>x. x \<noteq> SLASH" "rev p"] by force
    with Cons p have "p = rev xs @ SLASH # b" by simp
    then show ?thesis by (auto simp: command_decides_def suffix_def)
  qed
qed

lemma command_suffixes_inv:
  assumes "command_suffixes ps seen out = Inr out'"
    and "set seen = Pattern ` set out" "distinct (map Pattern out)"
  shows "distinct (map Pattern out') \<and> set out \<subseteq> set out' \<and>
    (\<forall>p \<in> set ps. \<exists>q \<in> set out'. normalizeCommandSuffix (Pattern p) = Inr (Pattern q)) \<and>
    (\<forall>q \<in> set out'. q \<in> set out \<or>
       (\<exists>p \<in> set ps. normalizeCommandSuffix (Pattern p) = Inr (Pattern q) \<and> PolicyID q = PolicyID p))"
  using assms
proof (induction ps seen out rule: command_suffixes.induct)
  case (1 seen out)
  then show ?case by simp
next
  case (2 p ps seen out)
  then obtain suf where suf: "normalizeCommandSuffix (Pattern p) = Inr suf"
    by (auto split: sum.splits)
  show ?case
  proof (cases "suf \<in> set seen")
    case True
    with "2.IH"(1) [OF suf True] "2.prems" suf show ?thesis by auto
  next
    case False
    let ?q = "\<lparr>Pattern = suf, PolicyID = PolicyID p\<rparr>"
    have "command_suffixes ps (suf # seen) (out @ [?q]) = Inr out'"
      using "2.prems"(1) suf False by simp
    moreover have "set (suf # seen) = Pattern ` set (out @ [?q])" "distinct (map Pattern (out @ [?q]))"
      using "2.prems"(2,3) False by auto
    ultimately have IH: "distinct (map Pattern out')" "set (out @ [?q]) \<subseteq> set out'"
      "\<forall>p \<in> set ps. \<exists>q \<in> set out'. normalizeCommandSuffix (Pattern p) = Inr (Pattern q)"
      "\<forall>q \<in> set out'. q \<in> set (out @ [?q]) \<or>
         (\<exists>p \<in> set ps. normalizeCommandSuffix (Pattern p) = Inr (Pattern q) \<and> PolicyID q = PolicyID p)"
      using "2.IH"(2) [OF suf False] by blast+
    have "\<exists>q \<in> set out'. normalizeCommandSuffix (Pattern p) = Inr (Pattern q)"
      using IH(2) suf by (intro bexI [of _ ?q]) auto
    with IH suf show ?thesis by auto
  qed
qed

lemma normalizePathSuffix_basename:
  assumes "SLASH \<notin> set b" "normalizePathSuffix b = Inr suf"
  obtains c where "suf = SLASH # c" "c \<noteq> []" "SLASH \<notin> set c"
proof -
  have no: "\<not> prefix [0x2a, 0x2a, SLASH] b"
    using assms(1) by (auto simp: prefix_def)
  have c: "SLASH \<notin> set (TrimSpace b)" using set_TrimSpace assms(1) by fast
  then have "\<not> prefix [SLASH] (TrimSpace b)" by (auto simp: prefix_def)
  with assms(2) no have "suf = SLASH # TrimSpace b" "TrimSpace b \<noteq> []"
    by (auto simp: normalizePathSuffix_def TrimPrefix_def Let_def split: if_splits)
  with c show thesis using that by blast
qed

lemma normalizeCommandSuffix_props:
  assumes "normalizeCommandSuffix pat = Inr suf"
  obtains c where "suf = SLASH # c" "c \<noteq> []" "SLASH \<notin> set c" "length suf \<le> 64"
proof -
  let ?p = "TrimSuffix (TrimSpace pat) [SLASH]"
  let ?b = "if SLASH \<in> set ?p then after_last_slash ?p else ?p"
  have "normalizePathSuffix ?b = Inr suf"
    using assms by (auto simp: normalizeCommandSuffix_def Let_def split: if_splits)
  moreover have "SLASH \<notin> set ?b" by (simp add: after_last_slash_no_slash)
  ultimately show thesis
    using that normalizePathSuffix_basename normalizePathSuffix_props(1) by metis
qed

text \<open>The first pattern whose basename the path has, with its policy number.\<close>

definition first_command_policy :: "NamedPattern list \<Rightarrow> bytes \<Rightarrow> u32 option" where
  "first_command_policy ps path =
     map_option PolicyID
       (find (\<lambda>p. normalizeCommandSuffix (Pattern p) = Inr (SLASH # after_last_slash path)) ps)"

text \<open>Dropping repeated suffixes keeps the policy number of the first pattern of each suffix.\<close>

lemma command_suffixes_first:
  assumes "command_suffixes ps seen out = Inr out'" "set seen = Pattern ` set out"
  shows "map_option PolicyID (find (\<lambda>q. Pattern q = x) out') =
    (case find (\<lambda>q. Pattern q = x) out of
       Some q \<Rightarrow> Some (PolicyID q)
     | None \<Rightarrow> map_option PolicyID (find (\<lambda>p. normalizeCommandSuffix (Pattern p) = Inr x) ps))"
  using assms
proof (induction ps seen out rule: command_suffixes.induct)
  case (1 seen out)
  then show ?case by (auto split: option.splits)
next
  case (2 p ps seen out)
  then obtain suf where suf: "normalizeCommandSuffix (Pattern p) = Inr suf"
    by (auto split: sum.splits)
  show ?case
  proof (cases "suf \<in> set seen")
    case True
    then have "suf \<in> Pattern ` set out" using "2.prems"(2) by simp
    then have "suf = x \<Longrightarrow> find (\<lambda>q. Pattern q = x) out \<noteq> None"
      by (auto simp: find_None_iff)
    with "2.IH"(1) [OF suf True] "2.prems" suf True show ?thesis by (auto split: option.splits)
  next
    case False
    let ?q = "\<lparr>Pattern = suf, PolicyID = PolicyID p\<rparr>"
    have "command_suffixes ps (suf # seen) (out @ [?q]) = Inr out'"
      "set (suf # seen) = Pattern ` set (out @ [?q])"
      using "2.prems" suf False by auto
    from "2.IH"(2) [OF suf False this] suf show ?thesis
      by (induction out) auto
  qed
qed

lemma find_map_ent:
  assumes "\<forall>q \<in> set qs. Pattern q \<noteq> [] \<and> length (Pattern q) \<le> 64 \<and> (D (Pattern q) \<longleftrightarrow> Pattern q = x)"
  shows "map_option policy_id
           (find (\<lambda>e. entry_str e \<noteq> [] \<and> D (entry_str e))
             (map (\<lambda>p. pattern_ent (Pattern p) (PolicyID p)) qs)) =
         map_option PolicyID (find (\<lambda>q. Pattern q = x) qs)"
  using assms by (induction qs) (auto simp: pattern_ent_wf)

lemma applyCommandPatterns_table:
  assumes "length m = 16" "applyCommandPatterns m ps = Inr m'"
  obtains sufs where
    "command_suffixes ps [] [] = Inr sufs" "length sufs \<le> 16"
    "m' = map (\<lambda>p. pattern_ent (Pattern p) (PolicyID p)) sufs @ replicate (16 - length sufs) empty_ent"
proof -
  have clear: "store_from 0 (replicate 16 empty_ent) m = Inr (replicate 16 empty_ent)"
    using assms(1) store_from_0 [of m "replicate 16 empty_ent"] by simp
  from assms(2) clear obtain sufs where sufs: "command_suffixes ps [] [] = Inr sufs" "length sufs \<le> 16"
    "store_from 0 (map (\<lambda>p. pattern_ent (Pattern p) (PolicyID p)) sufs) (replicate 16 empty_ent) = Inr m'"
    by (auto simp: applyCommandPatterns_def slot_limits split: sum.splits if_splits)
  then show thesis
    using that store_from_0 [of "replicate 16 empty_ent"
        "map (\<lambda>p. pattern_ent (Pattern p) (PolicyID p)) sufs"] by simp
qed

lemma command_suffixes_total:
  "\<forall>p \<in> set ps. \<exists>suf. normalizeCommandSuffix (Pattern p) = Inr suf \<Longrightarrow>
   \<exists>out'. command_suffixes ps seen out = Inr out' \<and> length out' \<le> length out + length ps"
proof (induction ps seen out rule: command_suffixes.induct)
  case (2 p ps seen out)
  then obtain suf where suf: "normalizeCommandSuffix (Pattern p) = Inr suf" by auto
  with 2 show ?case by (cases "suf \<in> set seen") fastforce+
qed simp

lemma applyCommandPatterns_ok:
  assumes "length m = 16" "length ps \<le> 16" "\<forall>p \<in> set ps. \<exists>suf. normalizeCommandSuffix (Pattern p) = Inr suf"
  shows "\<exists>m'. applyCommandPatterns m ps = Inr m'"
proof -
  obtain sufs where sufs: "command_suffixes ps [] [] = Inr sufs" "length sufs \<le> 16"
    using command_suffixes_total [OF assms(3), of "[]" "[]"] assms(2) by auto
  have "store_from 0 (replicate 16 empty_ent) m = Inr (replicate 16 empty_ent)"
    using assms(1) store_from_0 [of m "replicate 16 empty_ent"] by simp
  with sufs store_from_0 [of "replicate 16 empty_ent" "map (\<lambda>p. pattern_ent (Pattern p) (PolicyID p)) sufs"]
  show ?thesis by (simp add: applyCommandPatterns_def slot_limits)
qed

lemma loaded_command_rule:
  assumes "length m = 16" "applyCommandPatterns m ps = Inr (blocked_command_patterns s)"
  shows "map_option policy_id (command_rule s path) = first_command_policy ps path"
    and "length (blocked_command_patterns s) = 16" "list_all entry_wf (blocked_command_patterns s)"
proof -
  obtain sufs where sufs: "command_suffixes ps [] [] = Inr sufs" "length sufs \<le> 16"
    "blocked_command_patterns s =
       map (\<lambda>p. pattern_ent (Pattern p) (PolicyID p)) sufs @ replicate (16 - length sufs) empty_ent"
    using assms by (rule applyCommandPatterns_table)
  have ok: "\<forall>q \<in> set sufs. Pattern q \<noteq> [] \<and> length (Pattern q) \<le> 64 \<and>
      (command_decides (Pattern q) path \<longleftrightarrow> Pattern q = SLASH # after_last_slash path)"
  proof
    fix q assume "q \<in> set sufs"
    then obtain p :: NamedPattern where "normalizeCommandSuffix (Pattern p) = Inr (Pattern q)"
      using command_suffixes_inv [OF sufs(1)] by auto
    then obtain c where c: "Pattern q = SLASH # c" "c \<noteq> []" "SLASH \<notin> set c" "length (Pattern q) \<le> 64"
      by (rule normalizeCommandSuffix_props)
    then show "Pattern q \<noteq> [] \<and> length (Pattern q) \<le> 64 \<and>
        (command_decides (Pattern q) path \<longleftrightarrow> Pattern q = SLASH # after_last_slash path)"
      using command_decides_basename [of c path] by auto
  qed
  have "command_rule s path =
      find (\<lambda>e. entry_str e \<noteq> [] \<and> command_decides (entry_str e) path)
        (map (\<lambda>p. pattern_ent (Pattern p) (PolicyID p)) sufs)"
    unfolding command_rule_def sufs(3)
    by (rule find_append_none) (auto simp: empty_ent_wf)
  then show "map_option policy_id (command_rule s path) = first_command_policy ps path"
    unfolding first_command_policy_def
    using find_map_ent [OF ok] command_suffixes_first [OF sufs(1)] by simp
  show "length (blocked_command_patterns s) = 16" using sufs(2,3) by simp
  show "list_all entry_wf (blocked_command_patterns s)"
    using ok unfolding sufs(3)
    by (auto simp: list_all_iff empty_ent_wf intro!: pattern_ent_wf)
qed

lemma enforcer_wf_path_table:
  "\<lbrakk>enforcer_wf s; length t = 16; list_all entry_wf t\<rbrakk> \<Longrightarrow> enforcer_wf (s\<lparr>blocked_path_patterns := t\<rparr>)"
  "\<lbrakk>enforcer_wf s; length t = 16; list_all entry_wf t\<rbrakk> \<Longrightarrow> enforcer_wf (s\<lparr>blocked_command_patterns := t\<rparr>)"
  by (simp_all add: enforcer_wf_def)

lemma loaded_paths:
  assumes "enforcer_wf s0" "applyPathPatterns (blocked_path_patterns s0) ps = Inr t"
  shows "enforcer_wf (s0\<lparr>blocked_path_patterns := t\<rparr>)"
    and "map_option policy_id (credential_rule (s0\<lparr>blocked_path_patterns := t\<rparr>) p) = first_path_policy ps p"
proof -
  have len: "length (blocked_path_patterns s0) = 16" using assms(1) by (simp add: enforcer_wf_def)
  have "applyPathPatterns (blocked_path_patterns s0) ps =
      Inr (blocked_path_patterns (s0\<lparr>blocked_path_patterns := t\<rparr>))" using assms(2) by simp
  note l = loaded_credential_rule [OF len this]
  show "enforcer_wf (s0\<lparr>blocked_path_patterns := t\<rparr>)"
    using assms(1) l(2,3) by (simp add: enforcer_wf_path_table)
  show "map_option policy_id (credential_rule (s0\<lparr>blocked_path_patterns := t\<rparr>) p) = first_path_policy ps p"
    by (rule l(1))
qed

lemma loaded_commands:
  assumes "enforcer_wf s0" "applyCommandPatterns (blocked_command_patterns s0) ps = Inr t"
  shows "enforcer_wf (s0\<lparr>blocked_command_patterns := t\<rparr>)"
    and "map_option policy_id (command_rule (s0\<lparr>blocked_command_patterns := t\<rparr>) p) = first_command_policy ps p"
proof -
  have len: "length (blocked_command_patterns s0) = 16" using assms(1) by (simp add: enforcer_wf_def)
  have "applyCommandPatterns (blocked_command_patterns s0) ps =
      Inr (blocked_command_patterns (s0\<lparr>blocked_command_patterns := t\<rparr>))" using assms(2) by simp
  note l = loaded_command_rule [OF len this]
  show "enforcer_wf (s0\<lparr>blocked_command_patterns := t\<rparr>)"
    using assms(1) l(2,3) by (simp add: enforcer_wf_path_table)
  show "map_option policy_id (command_rule (s0\<lparr>blocked_command_patterns := t\<rparr>) p) = first_command_policy ps p"
    by (rule l(1))
qed

section \<open>Workspace tables\<close>

lemma pathStartsWith_iff: "pathStartsWith p a \<longleftrightarrow> a \<noteq> [] \<and> path_under a p"
proof (cases "prefix a p")
  case True
  then obtain r where "p = a @ r" by (auto simp: prefix_def)
  then show ?thesis by (cases r) (auto simp: pathStartsWith_def path_under_def)
next
  case False
  then have "take (length a) p \<noteq> a" by (metis take_is_prefix)
  with False show ?thesis by (auto simp: pathStartsWith_def path_under_nth)
qed

lemma applyWorkspaceRoot_table:
  assumes "length m = 1"
  shows "applyWorkspaceRoot m None = Inr [empty_root]"
    and "applyWorkspaceRoot m (Some w) = Inr m' \<longleftrightarrow>
      wp_Root w \<noteq> [] \<and> length (wp_Root w) \<le> 255 \<and> m' = [root_ent (wp_Root w) (wp_PolicyID w)]"
proof -
  from assms obtain e where m: "m = [e]" by (auto simp: length_Suc_conv)
  show "applyWorkspaceRoot m None = Inr [empty_root]"
    by (simp add: applyWorkspaceRoot_def array_update_def m)
  show "applyWorkspaceRoot m (Some w) = Inr m' \<longleftrightarrow>
      wp_Root w \<noteq> [] \<and> length (wp_Root w) \<le> 255 \<and> m' = [root_ent (wp_Root w) (wp_PolicyID w)]"
    by (auto simp: applyWorkspaceRoot_def array_update_def maxWorkspaceRootLen_def m)
qed

lemma load_prefix_slots_store:
  "\<forall>p \<in> set ps. length p \<le> 64 \<Longrightarrow>
   load_prefix_slots pid i ps m = store_from i (map (\<lambda>p. prefix_ent p pid) ps) m"
  by (induction pid i ps m rule: load_prefix_slots.induct) (auto simp: slot_limits split: sum.splits)

lemma load_prefix_slots_bounds:
  "load_prefix_slots pid i ps m = Inr m' \<Longrightarrow> \<forall>p \<in> set ps. length p \<le> 64"
  by (induction pid i ps m rule: load_prefix_slots.induct)
    (auto simp: slot_limits split: sum.splits if_splits)

lemma applyAllowPrefixes_table:
  assumes m: "length m = 25"
  shows "applyAllowPrefixes m None = Inr (replicate 25 empty_prefix)"
    and "applyAllowPrefixes m (Some w) = Inr m' \<Longrightarrow>
      length (wp_AllowPrefixes w) \<le> 25 \<and> (\<forall>p \<in> set (wp_AllowPrefixes w). length p \<le> 64) \<and>
      m' = map (\<lambda>p. prefix_ent p (wp_PolicyID w)) (wp_AllowPrefixes w) @
             replicate (25 - length (wp_AllowPrefixes w)) empty_prefix"
proof -
  have clear: "store_from 0 (replicate 25 empty_prefix) m = Inr (replicate 25 empty_prefix)"
    using m store_from_0 [of m "replicate 25 empty_prefix"] by simp
  then show "applyAllowPrefixes m None = Inr (replicate 25 empty_prefix)"
    by (simp add: applyAllowPrefixes_def maxAllowPrefixSlots_def)
  let ?ps = "wp_AllowPrefixes w" and ?z = "replicate 25 empty_prefix"
  let ?vs = "map (\<lambda>p. prefix_ent p (wp_PolicyID w)) ?ps"
  assume "applyAllowPrefixes m (Some w) = Inr m'"
  with clear have load: "load_prefix_slots (wp_PolicyID w) 0 ?ps ?z = Inr m'"
    by (simp add: applyAllowPrefixes_def maxAllowPrefixSlots_def)
  then have short: "\<forall>p \<in> set ?ps. length p \<le> 64" by (rule load_prefix_slots_bounds)
  with load have st: "store_from 0 ?vs ?z = Inr m'"
    by (simp add: load_prefix_slots_store)
  have le: "length ?ps \<le> 25"
  proof (rule ccontr)
    assume "\<not> length ?ps \<le> 25"
    then have "\<exists>e. store_from (of_nat 0) ?vs ?z = Inl e"
      by (intro store_from_overflow) simp_all
    with st show False by simp
  qed
  with st have "m' = ?vs @ replicate (25 - length ?ps) empty_prefix"
    using store_from_0 [of ?z ?vs] by simp
  with le short show "length ?ps \<le> 25 \<and> (\<forall>p \<in> set ?ps. length p \<le> 64) \<and>
      m' = ?vs @ replicate (25 - length ?ps) empty_prefix" by simp
qed

lemma loaded_workspace:
  assumes "enforcer_wf s" "applyWorkspacePolicy s (Some w) = Inr s'"
  shows "in_workspace s' p \<longleftrightarrow>
      pathStartsWith p (wp_Root w) \<or> (\<exists>a \<in> set (wp_AllowPrefixes w). pathStartsWith p a)"
    and "enforce_workspace s' = 1" "workspace_policy_id s' = wp_PolicyID w" "enforcer_wf s'"
proof -
  let ?s1 = "s\<lparr>enforce_workspace := 1\<rparr>"
  have lens: "length (workspace_root s) = 1" "length (allowed_path_prefixes s) = 25"
    using assms(1) by (simp_all add: enforcer_wf_def)
  from assms(2) obtain r a where
    ra: "applyWorkspaceRoot (workspace_root s) (Some w) = Inr r"
      "applyAllowPrefixes (allowed_path_prefixes s) (Some w) = Inr a" and
    s': "s' = ?s1\<lparr>workspace_root := r, allowed_path_prefixes := a\<rparr>"
    by (auto simp: applyWorkspacePolicy_def Let_def boolToU8_def split: sum.splits)
  have root: "length (wp_Root w) \<le> 255" "r = [root_ent (wp_Root w) (wp_PolicyID w)]"
    using applyWorkspaceRoot_table(2) [OF lens(1), of w r] ra(1) by simp_all
  note pfx = applyAllowPrefixes_table(2) [OF lens(2) ra(2)]
  then have pe: "\<And>q. q \<in> set (wp_AllowPrefixes w) \<Longrightarrow>
      prefix_wf (prefix_ent q (wp_PolicyID w)) \<and> prefix_str (prefix_ent q (wp_PolicyID w)) = q"
    by (auto simp: prefix_ent_wf)
  have "(\<exists>e \<in> set a. prefix_str e \<noteq> [] \<and> path_under (prefix_str e) p) \<longleftrightarrow>
      (\<exists>q \<in> set (wp_AllowPrefixes w). pathStartsWith p q)"
    using pfx by (auto simp: pathStartsWith_iff prefix_ent_wf empty_prefix_wf bex_Un)
  then show "in_workspace s' p \<longleftrightarrow>
      pathStartsWith p (wp_Root w) \<or> (\<exists>a \<in> set (wp_AllowPrefixes w). pathStartsWith p a)"
    using root by (simp add: s' in_workspace_def pathStartsWith_iff root_ent_wf)
  show "enforce_workspace s' = 1" by (simp add: s')
  show "workspace_policy_id s' = wp_PolicyID w"
    using root by (simp add: s' workspace_policy_id_def array_lookup_def root_ent_wf)
  have "length a = 25" "list_all prefix_wf a"
    using pfx pe by (auto simp: list_all_iff empty_prefix_wf)
  with assms(1) root show "enforcer_wf s'"
    by (simp add: enforcer_wf_def s' root_ent_wf)
qed

lemma unloaded_workspace:
  assumes "enforcer_wf s"
  shows "\<exists>s'. applyWorkspacePolicy s None = Inr s' \<and> enforce_workspace s' = 0 \<and>
    (\<forall>p. \<not> in_workspace s' p) \<and> enforcer_wf s'"
proof -
  let ?s' = "s\<lparr>enforce_workspace := 0, workspace_root := [empty_root],
     allowed_path_prefixes := replicate 25 empty_prefix\<rparr>"
  have lens: "length (workspace_root s) = 1" "length (allowed_path_prefixes s) = 25"
    using assms by (simp_all add: enforcer_wf_def)
  have "applyWorkspacePolicy s None = Inr ?s'"
    using applyWorkspaceRoot_table(1) [OF lens(1)] applyAllowPrefixes_table(1) [OF lens(2)]
    by (simp add: applyWorkspacePolicy_def boolToU8_def)
  moreover have "\<And>p. \<not> in_workspace ?s' p"
    by (simp add: in_workspace_def empty_root_wf empty_prefix_wf)
  moreover have "enforcer_wf ?s'"
    using assms by (simp add: enforcer_wf_def empty_root_wf empty_prefix_wf list_all_iff)
  ultimately show ?thesis by (intro exI [of _ ?s']) simp
qed

lemma applyWorkspacePolicy_ok:
  assumes "enforcer_wf s" "wp_Root w \<noteq> []" "length (wp_Root w) \<le> 255"
    and "length (wp_AllowPrefixes w) \<le> 25" "\<forall>p \<in> set (wp_AllowPrefixes w). length p \<le> 64"
  shows "\<exists>s'. applyWorkspacePolicy s (Some w) = Inr s'"
proof -
  have lens: "length (workspace_root s) = 1" "length (allowed_path_prefixes s) = 25"
    using assms(1) by (simp_all add: enforcer_wf_def)
  have root: "\<exists>r. applyWorkspaceRoot (workspace_root s) (Some w) = Inr r"
    using applyWorkspaceRoot_table(2) [OF lens(1)] assms(2,3) by auto
  have clear: "store_from 0 (replicate 25 empty_prefix) (allowed_path_prefixes s) = Inr (replicate 25 empty_prefix)"
    using lens(2) store_from_0 [of "allowed_path_prefixes s" "replicate 25 empty_prefix"] by simp
  have "\<exists>a. applyAllowPrefixes (allowed_path_prefixes s) (Some w) = Inr a"
    using assms(4) clear store_from_0 [of "replicate 25 empty_prefix"
        "map (\<lambda>p. prefix_ent p (wp_PolicyID w)) (wp_AllowPrefixes w)"]
    by (simp add: applyAllowPrefixes_def maxAllowPrefixSlots_def load_prefix_slots_store [OF assms(5)])
  with root show ?thesis by (auto simp: applyWorkspacePolicy_def Let_def)
qed

lemma applyWorkspacePolicy_bounds:
  assumes "enforcer_wf s" "applyWorkspacePolicy s (Some w) = Inr s'"
  shows "wp_Root w \<noteq> [] \<and> length (wp_Root w) \<le> 255 \<and> length (wp_AllowPrefixes w) \<le> 25 \<and>
    (\<forall>p \<in> set (wp_AllowPrefixes w). length p \<le> 64)"
proof -
  have lens: "length (workspace_root s) = 1" "length (allowed_path_prefixes s) = 25"
    using assms(1) by (simp_all add: enforcer_wf_def)
  from assms(2) obtain r a where
    "applyWorkspaceRoot (workspace_root s) (Some w) = Inr r"
    "applyAllowPrefixes (allowed_path_prefixes s) (Some w) = Inr a"
    by (auto simp: applyWorkspacePolicy_def Let_def split: sum.splits)
  then show ?thesis
    using applyWorkspaceRoot_table(2) [OF lens(1)] applyAllowPrefixes_table(2) [OF lens(2)] by blast
qed

lemma applyWorkspacePolicy_caller:
  assumes "applyWorkspacePolicy s wp = Inr s'"
  shows "tracked_caller k s' = tracked_caller k s"
  using assms
  by (auto simp: applyWorkspacePolicy_def Let_def tracked_caller_def current_nspids_def
      split: sum.splits option.splits)

section \<open>Concrete loads\<close>

lemma no_space_ends:
  "find (\<lambda>e. prefix e [0x2e, 0x65, 0x6e, 0x76]) space_encodings = None"
  "find (\<lambda>e. suffix e [0x2e, 0x65, 0x6e, 0x76]) space_encodings = None"
  "find (\<lambda>e. prefix e [0x72, 0x6d]) space_encodings = None"
  "find (\<lambda>e. suffix e [0x72, 0x6d]) space_encodings = None"
  by (simp_all add: space_encodings_def suffix_def append_eq_Cons_conv)

lemma normalize_env: "normalizePathSuffix [0x2e, 0x65, 0x6e, 0x76] = Inr str_env"
  using no_space_ends(1,2)
  by (simp add: normalizePathSuffix_def TrimPrefix_def TrimSpace_def trim_left.simps trim_right.simps
      slot_limits)

lemma normalize_rm: "normalizeCommandSuffix [0x72, 0x6d] = Inr str_rm"
  using no_space_ends(3,4)
  by (simp add: normalizeCommandSuffix_def normalizePathSuffix_def TrimPrefix_def TrimSuffix_def
      TrimSpace_def trim_left.simps trim_right.simps slot_limits suffix_def append_eq_Cons_conv)

lemma first_slot: "(replicate 16 x)[0 := y] = y # replicate 15 x"
proof -
  have "replicate 16 x = x # replicate 15 x" by (subst replicate_Suc [symmetric]) simp
  then show ?thesis by simp
qed

lemma sample_path_load:
  assumes "length m = 16"
  shows "applyPathPatterns m [\<lparr>Pattern = [0x2e, 0x65, 0x6e, 0x76], PolicyID = 1\<rparr>] =
    Inr (pattern_ent str_env 1 # replicate 15 empty_ent)"
  using store_from_0 [of m "replicate 16 empty_ent"] assms
  by (simp add: applyPathPatterns_def slot_limits normalize_env array_update_def first_slot)

lemma sample_command_load:
  assumes "length m = 16"
  shows "applyCommandPatterns m [\<lparr>Pattern = [0x72, 0x6d], PolicyID = 2\<rparr>] =
    Inr (pattern_ent str_rm 2 # replicate 15 empty_ent)"
  using store_from_0 [of m "replicate 16 empty_ent"] assms
  by (simp add: applyCommandPatterns_def slot_limits normalize_rm array_update_def first_slot)

section \<open>Properties\<close>

lemma load_path_slots_ok:
  assumes "\<forall>p \<in> set ps. \<exists>suf. normalizePathSuffix (Pattern p) = Inr suf"
    and "i + length ps \<le> length m" "length m < 2 ^ 32"
  shows "\<exists>m'. load_path_slots (of_nat i) ps m = Inr m'"
  using assms
proof (induction ps arbitrary: i m)
  case Nil
  then show ?case by simp
next
  case (Cons p ps)
  then obtain suf where suf: "normalizePathSuffix (Pattern p) = Inr suf" by auto
  have nxt: "(of_nat i :: u32) + 1 = of_nat (Suc i)" by simp
  have up: "array_update m (of_nat i) (pattern_ent suf (PolicyID p)) = Inr (m[i := pattern_ent suf (PolicyID p)])"
    using Cons.prems by (intro array_update_of_nat) auto
  have "\<exists>m'. load_path_slots (of_nat (Suc i)) ps (m[i := pattern_ent suf (PolicyID p)]) = Inr m'"
    using Cons.prems by (intro Cons.IH) auto
  then show ?case unfolding load_path_slots.simps suf sum.case up nxt by simp
qed

text \<open>
  Loading the credential rules succeeds exactly when there are at most 16 patterns
  and each has a normal form; what the table held before does not matter.
\<close>

theorem path_patterns_load_iff:
  assumes "length m = 16" "length m0 = 16"
  shows "((\<exists>m'. applyPathPatterns m ps = Inr m') \<longleftrightarrow>
      length ps \<le> 16 \<and> (\<forall>p \<in> set ps. \<exists>suf. normalizePathSuffix (Pattern p) = Inr suf)) \<and>
    applyPathPatterns m ps = applyPathPatterns m0 ps"
proof -
  have clear: "store_from 0 (replicate 16 empty_ent) t = Inr (replicate 16 empty_ent)"
    if "length t = 16" for t
    using that store_from_0 [of t "replicate 16 empty_ent"] by simp
  have "\<exists>m'. applyPathPatterns m ps = Inr m'"
    if "length ps \<le> 16" "\<forall>p \<in> set ps. \<exists>suf. normalizePathSuffix (Pattern p) = Inr suf"
    using load_path_slots_ok [of ps 0 "replicate 16 empty_ent"] that clear [OF assms(1)]
    by (simp add: applyPathPatterns_def slot_limits)
  moreover have "length ps \<le> 16 \<and> (\<forall>p \<in> set ps. \<exists>suf. normalizePathSuffix (Pattern p) = Inr suf)"
    if loaded: "applyPathPatterns m ps = Inr m'" for m'
  proof -
    obtain sufs where "list_all2 (\<lambda>p suf. normalizePathSuffix (Pattern p) = Inr suf) ps sufs" "length ps \<le> 16"
      using assms(1) loaded by (rule applyPathPatterns_table)
    then show ?thesis by (auto simp: list_all2_conv_all_nth in_set_conv_nth)
  qed
  ultimately show ?thesis
    using clear [OF assms(1)] clear [OF assms(2)] by (auto simp: applyPathPatterns_def slot_limits)
qed

theorem path_patterns_load_iff_witness:
  "applyPathPatterns (replicate 16 empty_ent) [] = applyPathPatterns (replicate 16 (pattern_ent [SLASH] 1)) []"
  using path_patterns_load_iff [of "replicate 16 empty_ent" "replicate 16 (pattern_ent [SLASH] 1)" "[]"]
  by simp

lemma space_no_slash: "e \<in> set space_encodings \<Longrightarrow> SLASH \<notin> set e"
  by (auto simp: space_encodings_def)

lemma suffix_Cons_no_slash: "SLASH \<notin> set e \<Longrightarrow> suffix e (SLASH # x) \<longleftrightarrow> suffix e x"
  by (auto simp: suffix_Cons)

lemma TrimSpace_slash:
  assumes "find (\<lambda>e. suffix e (SLASH # x)) space_encodings = None"
  shows "TrimSpace (SLASH # x) = SLASH # x"
proof -
  have "find (\<lambda>e. prefix e (SLASH # x)) space_encodings = None"
    using space_no_slash space_encodings_nonempty
    by (fastforce simp: find_None_iff prefix_Cons)
  then show ?thesis
    using assms by (simp add: TrimSpace_def trim_left.simps [of "SLASH # x"] trim_right.simps [of "SLASH # x"])
qed

text \<open>
  Normalisation of a path pattern is idempotent: a normal form is an absolute
  suffix of at most 64 bytes and normalises to itself.
\<close>

theorem normalizePathSuffix_idempotent:
  assumes "normalizePathSuffix pat = Inr suf"
  shows "normalizePathSuffix suf = Inr suf \<and> prefix [SLASH] suf \<and> length suf \<le> 64"
proof -
  let ?p = "TrimSpace (TrimPrefix pat [0x2a, 0x2a, SLASH])"
  obtain x where x: "suf = SLASH # x" and len: "length suf \<le> 64"
    using normalizePathSuffix_props [OF assms] by blast
  have fixed: "find (\<lambda>e. suffix e ?p) space_encodings = None"
    unfolding TrimSpace_def by (rule trim_right_fixed)
  have "suf = ?p \<or> suf = SLASH # ?p"
    using assms by (auto simp: normalizePathSuffix_def Let_def split: if_splits)
  then have "find (\<lambda>e. suffix e suf) space_encodings = None"
    using fixed suffix_Cons_no_slash space_no_slash by (auto simp: find_None_iff)
  then have "TrimSpace suf = suf" using TrimSpace_slash unfolding x by blast
  then show ?thesis
    using len by (simp add: normalizePathSuffix_def TrimPrefix_def x slot_limits)
qed

theorem normalizePathSuffix_idempotent_witness:
  "normalizePathSuffix str_env = Inr str_env"
  using normalizePathSuffix_idempotent [OF normalize_env] by simp

text \<open>
  C29 (equivalence): the prefix test of the Go program and the two of the kernel program are the
  same: on a path in the scratch buffer and a prefix as the loader stores it, \<open>pathStartsWith\<close>,
  \<open>path_starts_with_64\<close> and \<open>path_starts_with_256\<close> agree.
\<close>

theorem pathStartsWith_twins:
  assumes "length path = 256" "length p < 256" "take (length p) path = p"
  shows "(length a \<le> 64 \<longrightarrow>
      path_starts_with_64 path (of_nat (length p)) (copy_into 64 a) (of_nat (length a)) = pathStartsWith p a) \<and>
    (length a \<le> 255 \<longrightarrow>
      path_starts_with_256 path (of_nat (length p)) (copy_into 256 a) (of_nat (length a)) = pathStartsWith p a)"
proof (cases "a = []")
  case True
  then show ?thesis by (simp add: pathStartsWith_def)
next
  case False
  then show ?thesis
    using assms starts64.matcher_str [OF False _ _ _ assms(2,1,3), of "copy_into 64 a"]
      starts256.matcher_str [OF False _ _ _ assms(2,1,3), of "copy_into 256 a"]
    by (auto simp: pathStartsWith_iff buf_simps)
qed

theorem pathStartsWith_twins_witness:
  "path_starts_with_64 (str_ws @ zeros 253) 3 (copy_into 64 str_ws) 3 = pathStartsWith str_ws str_ws"
  using pathStartsWith_twins [of "str_ws @ zeros 253" str_ws str_ws] by simp

text \<open>
  Loading a workspace policy succeeds exactly when the root is not empty and has at
  most 255 bytes, and there are at most 25 prefixes of at most 64 bytes; switching confinement
  off always succeeds, and leaves no path inside the workspace.
\<close>

theorem workspace_load_iff:
  assumes "enforcer_wf s"
  shows "((\<exists>s'. applyWorkspacePolicy s (Some w) = Inr s') \<longleftrightarrow>
      wp_Root w \<noteq> [] \<and> length (wp_Root w) \<le> 255 \<and> length (wp_AllowPrefixes w) \<le> 25 \<and>
      (\<forall>p \<in> set (wp_AllowPrefixes w). length p \<le> 64)) \<and>
    (\<exists>s'. applyWorkspacePolicy s None = Inr s' \<and> enforce_workspace s' = 0 \<and>
      (\<forall>p. \<not> in_workspace s' p) \<and> enforcer_wf s')"
  using applyWorkspacePolicy_ok [OF assms] applyWorkspacePolicy_bounds [OF assms]
    unloaded_workspace [OF assms]
  by blast

theorem workspace_load_iff_witness:
  "\<not> (\<exists>s'. applyWorkspacePolicy sample
     (Some \<lparr>wp_PolicyID = 3, wp_Feedback = [], wp_Root = [], wp_AllowPrefixes = []\<rparr>) = Inr s')"
  using workspace_load_iff [OF sample_wf, of "\<lparr>wp_PolicyID = 3, wp_Feedback = [], wp_Root = [], wp_AllowPrefixes = []\<rparr>"]
  by simp

end
