(* ===== verification/Go_Net.thy ===== *)
theory Go_Net
  imports Go_Strings
begin

text \<open>
  What the proxy uses of Go's \<open>net\<close> and \<open>encoding/base64\<close> packages: \<open>SplitHostPort\<close> and
  \<open>JoinHostPort\<close>, \<open>ParseIP\<close> for IPv4 and IPv6 literals, \<open>ParseCIDR\<close> and
  \<open>IPNet.Contains\<close>, and the standard base64 decoder. An address is the list of its 4 or 16
  bytes, an error return is \<open>None\<close>.
\<close>

section \<open>Host and port\<close>

abbreviation COLON :: u8 where "COLON \<equiv> 0x3a"
abbreviation DOT :: u8 where "DOT \<equiv> 0x2e"
abbreviation LBRACKET :: u8 where "LBRACKET \<equiv> 0x5b"
abbreviation RBRACKET :: u8 where "RBRACKET \<equiv> 0x5d"

text \<open>The parts before and after the last colon.\<close>

definition before_last :: "u8 \<Rightarrow> bytes \<Rightarrow> bytes" where
  "before_last c s = rev (tl (dropWhile (\<lambda>b. b \<noteq> c) (rev s)))"

definition after_last :: "u8 \<Rightarrow> bytes \<Rightarrow> bytes" where
  "after_last c s = rev (takeWhile (\<lambda>b. b \<noteq> c) (rev s))"

definition before_first :: "u8 \<Rightarrow> bytes \<Rightarrow> bytes" where
  "before_first c s = takeWhile (\<lambda>b. b \<noteq> c) s"

text \<open>
  \<open>net.SplitHostPort\<close>: in the bracketed form the first closing bracket stands just before the
  last colon; elsewhere a second colon or a bracket is an error.
\<close>

definition SplitHostPort :: "bytes \<Rightarrow> (bytes \<times> bytes) option" where
  "SplitHostPort hostport =
     (if COLON \<notin> set hostport then None
      else if hd hostport = LBRACKET then
        (if RBRACKET \<notin> set hostport then None
         else
           let inside = before_first RBRACKET hostport; i = length (before_last COLON hostport) in
           if length inside + 1 \<noteq> i then None
           else if LBRACKET \<in> set (tl hostport) then None
           else if RBRACKET \<in> set (drop (length inside + 1) hostport) then None
           else Some (tl inside, after_last COLON hostport))
      else
        let host = before_last COLON hostport in
        if COLON \<in> set host then None
        else if LBRACKET \<in> set hostport \<or> RBRACKET \<in> set hostport then None
        else Some (host, after_last COLON hostport))"

definition JoinHostPort :: "bytes \<Rightarrow> bytes \<Rightarrow> bytes" where
  "JoinHostPort host port =
     (if COLON \<in> set host then [LBRACKET] @ host @ [RBRACKET, COLON] @ port
      else host @ [COLON] @ port)"

section \<open>IP literals\<close>

text \<open>\<open>netip.parseIPv4Fields\<close>: \<open>prev\<close> is the byte before the current one.\<close>

fun parseIPv4Fields :: "u8 option \<Rightarrow> nat \<Rightarrow> nat \<Rightarrow> bytes \<Rightarrow> bytes \<Rightarrow> bytes option" where
  "parseIPv4Fields prev val digLen fs [] =
     (if length fs < 3 then None else Some (fs @ [of_nat val]))"
| "parseIPv4Fields prev val digLen fs (c # s) =
     (if is_digit c then
        if digLen = 1 \<and> val = 0 then None
        else
          let val' = val * 10 + digit_val c in
          if 255 < val' then None else parseIPv4Fields (Some c) val' (digLen + 1) fs s
      else if c = DOT then
        if prev = None \<or> s = [] \<or> prev = Some DOT then None
        else if length fs = 3 then None
        else parseIPv4Fields (Some c) 0 0 (fs @ [of_nat val]) s
      else None)"

definition parseIPv4 :: "bytes \<Rightarrow> bytes option" where
  "parseIPv4 s = (if s = [] then None else parseIPv4Fields None 0 0 [] s)"

definition hex_val :: "u8 \<Rightarrow> nat option" where
  "hex_val c =
     (if 0x30 \<le> c \<and> c \<le> 0x39 then Some (unat (c - 0x30))
      else if 0x61 \<le> c \<and> c \<le> 0x66 then Some (unat (c - 0x61) + 10)
      else if 0x41 \<le> c \<and> c \<le> 0x46 then Some (unat (c - 0x41) + 10)
      else None)"

definition hex_acc :: "bytes \<Rightarrow> nat" where
  "hex_acc ds = foldl (\<lambda>n c. n * 16 + the (hex_val c)) 0 ds"

text \<open>
  The loop of \<open>netip.parseIPv6\<close>: \<open>ip\<close> holds the bytes written so far, \<open>ellipsis\<close> the position
  of the double colon. A group of hexadecimal digits is followed by the end, by a colon, or
  belongs to a trailing IPv4 address.
\<close>

function parseIPv6_groups ::
  "nat option \<Rightarrow> bytes \<Rightarrow> bytes \<Rightarrow> (nat option \<times> bytes \<times> bytes) option" where
  "parseIPv6_groups ellipsis ip s =
     (if length ip < 16 then
        let ds = takeWhile (\<lambda>c. hex_val c \<noteq> None) s; off = length ds in
        if off = 0 \<or> 4 < off then None
        else if off < length s \<and> s ! off = DOT then
          if (ellipsis = None \<and> length ip \<noteq> 12) \<or> 16 < length ip + 4 then None
          else (case parseIPv4Fields None 0 0 [] s of
                  None \<Rightarrow> None
                | Some f \<Rightarrow> Some (ellipsis, ip @ f, []))
        else
          let ip' = ip @ [of_nat (hex_acc ds div 256), of_nat (hex_acc ds)]; s' = drop off s in
          if s' = [] then Some (ellipsis, ip', [])
          else if hd s' \<noteq> COLON \<or> length s' = 1 then None
          else if s' ! 1 = COLON then
            if ellipsis \<noteq> None then None
            else if drop 2 s' = [] then Some (Some (length ip'), ip', [])
            else parseIPv6_groups (Some (length ip')) ip' (drop 2 s')
          else parseIPv6_groups ellipsis ip' (drop 1 s')
      else Some (ellipsis, ip, s))"
  by pat_completeness auto
termination
  by (relation "measure (\<lambda>(e, ip, s). 16 - length ip)") (auto simp: Let_def)

declare parseIPv6_groups.simps [simp del]

definition parseIPv6 :: "bytes \<Rightarrow> bytes option" where
  "parseIPv6 s =
     (let lead = prefix [COLON, COLON] s; s0 = (if lead then drop 2 s else s) in
      if lead \<and> s0 = [] then Some (zeros 16)
      else
        (case parseIPv6_groups (if lead then Some 0 else None) [] s0 of
           None \<Rightarrow> None
         | Some (ellipsis, ip, rest) \<Rightarrow>
             if rest \<noteq> [] then None
             else if length ip < 16 then
               (case ellipsis of
                  None \<Rightarrow> None
                | Some e \<Rightarrow> Some (take e ip @ zeros (16 - length ip) @ drop e ip))
             else if ellipsis \<noteq> None then None
             else Some ip))"

definition v4InV6Prefix :: bytes where
  "v4InV6Prefix = zeros 10 @ [0xff, 0xff]"

text \<open>
  \<open>net.ParseIP\<close>: the first dot or colon selects the notation, and a zone, which begins with a
  percent sign, is refused. The result always has 16 bytes.
\<close>

definition ParseIP :: "bytes \<Rightarrow> bytes option" where
  "ParseIP s =
     (if 0x25 \<in> set s then None
      else
        (case find (\<lambda>c. c = DOT \<or> c = COLON) s of
           None \<Rightarrow> None
         | Some c \<Rightarrow>
             if c = DOT then map_option (\<lambda>f. v4InV6Prefix @ f) (parseIPv4 s) else parseIPv6 s))"

definition To4 :: "bytes \<Rightarrow> bytes option" where
  "To4 ip =
     (if length ip = 4 then Some ip
      else if length ip = 16 \<and> take 12 ip = v4InV6Prefix then Some (drop 12 ip)
      else None)"

section \<open>Networks\<close>

record IPNet =
  net_IP :: bytes
  net_Mask :: bytes

definition CIDRMask :: "nat \<Rightarrow> nat \<Rightarrow> bytes" where
  "CIDRMask ones len =
     map (\<lambda>i. if 8 * (i + 1) \<le> ones then 0xff
              else if ones \<le> 8 * i then 0
              else push_bit (8 - (ones - 8 * i)) 0xff) [0..<len]"

text \<open>\<open>net.ParseCIDR\<close>, the network it returns.\<close>

definition ParseCIDR :: "bytes \<Rightarrow> IPNet option" where
  "ParseCIDR s =
     (case SplitN2 s SLASH of
        [addr, m] \<Rightarrow>
          (case (ParseIP addr, decimal m) of
             (Some ip, Some n) \<Rightarrow>
               let ip' = (if DOT \<in> set addr \<and> COLON \<notin> set addr then drop 12 ip else ip);
                   mask = CIDRMask n (length ip') in
               if 8 * length ip' < n then None
               else Some \<lparr>net_IP = map2 (AND) ip' mask, net_Mask = mask\<rparr>
           | _ \<Rightarrow> None)
      | _ \<Rightarrow> None)"

definition Contains_IP :: "IPNet \<Rightarrow> bytes \<Rightarrow> bool" where
  "Contains_IP n ip =
     (let ip' = (case To4 ip of Some x \<Rightarrow> x | None \<Rightarrow> ip) in
      length ip' = length (net_IP n) \<and>
      map2 (AND) (net_IP n) (net_Mask n) = map2 (AND) ip' (net_Mask n))"

section \<open>Base64\<close>

definition b64_val :: "u8 \<Rightarrow> nat option" where
  "b64_val c =
     (if 0x41 \<le> c \<and> c \<le> 0x5a then Some (unat (c - 0x41))
      else if 0x61 \<le> c \<and> c \<le> 0x7a then Some (unat (c - 0x61) + 26)
      else if 0x30 \<le> c \<and> c \<le> 0x39 then Some (unat (c - 0x30) + 52)
      else if c = 0x2b then Some 62
      else if c = 0x2f then Some 63
      else None)"

abbreviation PAD :: u8 where "PAD \<equiv> 0x3d"

fun b64_quanta :: "bytes \<Rightarrow> bytes option" where
  "b64_quanta [] = Some []"
| "b64_quanta (a # b # c # d # rest) =
     (case (b64_val a, b64_val b) of
        (Some x, Some y) \<Rightarrow>
          if c = PAD then
            (if d = PAD \<and> rest = [] then Some [of_nat ((x * 64 + y) div 16)] else None)
          else
            (case b64_val c of
               None \<Rightarrow> None
             | Some z \<Rightarrow>
                 if d = PAD then
                   (if rest = []
                    then Some [of_nat ((x * 4096 + y * 64 + z) div 1024),
                               of_nat ((x * 4096 + y * 64 + z) div 4)]
                    else None)
                 else
                   (case (b64_val d, b64_quanta rest) of
                      (Some w, Some out) \<Rightarrow>
                        let v = x * 262144 + y * 4096 + z * 64 + w in
                        Some (of_nat (v div 65536) # of_nat (v div 256) # of_nat v # out)
                    | _ \<Rightarrow> None))
      | _ \<Rightarrow> None)"
| "b64_quanta _ = None"

text \<open>\<open>base64.StdEncoding.DecodeString\<close>: line breaks are skipped, the padding is required.\<close>

definition b64_decode :: "bytes \<Rightarrow> bytes option" where
  "b64_decode s = b64_quanta (filter (\<lambda>c. c \<noteq> 0x0a \<and> c \<noteq> 0x0d) s)"

text \<open>The encoder of RFC 4648, which clients use for their credentials.\<close>

definition b64_char :: "nat \<Rightarrow> u8" where
  "b64_char n =
     (if n < 26 then 0x41 + of_nat n
      else if n < 52 then 0x61 + of_nat (n - 26)
      else if n < 62 then 0x30 + of_nat (n - 52)
      else if n = 62 then 0x2b else 0x2f)"

fun b64_encode :: "bytes \<Rightarrow> bytes" where
  "b64_encode [] = []"
| "b64_encode [a] =
     (let v = unat a * 16 in [b64_char (v div 64), b64_char (v mod 64), PAD, PAD])"
| "b64_encode [a, b] =
     (let v = (unat a * 256 + unat b) * 4 in
      [b64_char (v div 4096), b64_char (v div 64 mod 64), b64_char (v mod 64), PAD])"
| "b64_encode (a # b # c # rest) =
     (let v = unat a * 65536 + unat b * 256 + unat c in
      b64_char (v div 262144) # b64_char (v div 4096 mod 64) # b64_char (v div 64 mod 64) #
      b64_char (v mod 64) # b64_encode rest)"

text \<open>\<open>base64.RawURLEncoding\<close>: the same quanta with \<open>-\<close> and \<open>_\<close> for \<open>+\<close> and \<open>/\<close>, without padding.\<close>

definition url_char :: "u8 \<Rightarrow> u8" where
  "url_char c = (if c = 0x2b then 0x2d else if c = 0x2f then 0x5f else c)"

definition RawURLEncode :: "bytes \<Rightarrow> bytes" where
  "RawURLEncode s = map url_char (filter (\<lambda>c. c \<noteq> PAD) (b64_encode s))"

section \<open>Printing and parsing addresses\<close>

text \<open>The dotted-decimal notation of an IPv4 address.\<close>

fun dotted :: "bytes \<Rightarrow> bytes" where
  "dotted [] = []"
| "dotted [a] = Itoa (unat a)"
| "dotted (a # b # ip) = Itoa (unat a) @ [DOT] @ dotted (b # ip)"

lemma Itoa_short:
  "n < 10 \<Longrightarrow> Itoa n = [digit_char n]"
  "10 \<le> n \<Longrightarrow> n < 100 \<Longrightarrow> Itoa n = [digit_char (n div 10), digit_char (n mod 10)]"
  "100 \<le> n \<Longrightarrow> n < 1000 \<Longrightarrow>
     Itoa n = [digit_char (n div 100), digit_char (n div 10 mod 10), digit_char (n mod 10)]"
proof -
  show "n < 10 \<Longrightarrow> Itoa n = [digit_char n]" by (simp add: Itoa.simps)
  show two: "10 \<le> n \<Longrightarrow> n < 100 \<Longrightarrow> Itoa n = [digit_char (n div 10), digit_char (n mod 10)]" for n
    by (simp add: Itoa.simps less_mult_imp_div_less)
  assume n: "100 \<le> n" "n < 1000"
  then have "10 \<le> n div 10" "n div 10 < 100" by auto
  from two [OF this] n show
    "Itoa n = [digit_char (n div 100), digit_char (n div 10 mod 10), digit_char (n mod 10)]"
    by (subst Itoa.simps) (simp add: div_mult2_eq [symmetric])
qed

lemma parse_digit:
  assumes "d < 10" "digLen \<noteq> 1 \<or> val \<noteq> 0" "val * 10 + d \<le> 255"
  shows "parseIPv4Fields prev val digLen fs ((digit_char d) # s) =
    parseIPv4Fields (Some (digit_char d)) (val * 10 + d) (digLen + 1) fs s"
  using assms digit_of_nat [OF assms(1)] by (auto simp: Let_def)

lemma digit_not_dot: "d < 10 \<Longrightarrow> digit_char d \<noteq> DOT"
  using digit_of_nat [of d] by (auto simp: is_digit_def)

lemma parse_octet:
  assumes "n \<le> 255"
  shows "\<exists>c k. c \<noteq> DOT \<and>
    parseIPv4Fields prev 0 0 fs (Itoa n @ rest) = parseIPv4Fields (Some c) n k fs rest"
proof -
  consider "n < 10" | "10 \<le> n" "n < 100" | "100 \<le> n" "n < 1000" using assms by linarith
  then show ?thesis
  proof cases
    case 1
    then show ?thesis
      using parse_digit [of n 0 0 prev fs rest] digit_not_dot [of n] assms
      by (auto simp: Itoa_short simp del: parseIPv4Fields.simps
          intro!: exI [of _ "digit_char n"] exI [of _ "1 :: nat"])
  next
    case 2
    then have d: "n div 10 < 10" "n mod 10 < 10" "n div 10 \<noteq> 0" "n div 10 * 10 + n mod 10 = n"
      by auto
    have "parseIPv4Fields prev 0 0 fs (Itoa n @ rest) =
        parseIPv4Fields (Some (digit_char (n mod 10))) n (Suc (Suc 0)) fs rest"
      using d 2 assms parse_digit [of "n div 10" 0 0] parse_digit [of "n mod 10" 1 "n div 10"]
      by (simp add: Itoa_short del: parseIPv4Fields.simps)
    then show ?thesis using digit_not_dot [OF d(2)] by blast
  next
    case 3
    then have d: "n div 100 < 10" "n div 10 mod 10 < 10" "n mod 10 < 10" "n div 100 \<noteq> 0" by auto
    have e: "n div 100 * 10 + n div 10 mod 10 = n div 10" "n div 10 * 10 + n mod 10 = n"
      by (simp_all add: div_mult2_eq [of n 10 10, simplified])
    have le: "n div 100 \<le> 255" "n div 10 \<le> 255" using assms by auto
    have "parseIPv4Fields prev 0 0 fs (Itoa n @ rest) =
        parseIPv4Fields (Some (digit_char (n mod 10))) n (Suc (Suc (Suc 0))) fs rest"
      using d le 3 assms e parse_digit [of "n div 100" 0 0]
        parse_digit [of "n div 10 mod 10" 1 "n div 100"] parse_digit [of "n mod 10" "Suc (Suc 0)" "n div 10"]
      by (simp add: Itoa_short del: parseIPv4Fields.simps)
    then show ?thesis using digit_not_dot [OF d(3)] by blast
  qed
qed

lemma parse_octet_dot:
  assumes "n \<le> 255" "rest \<noteq> []" "length fs < 3"
  shows "parseIPv4Fields prev 0 0 fs (Itoa n @ DOT # rest) =
    parseIPv4Fields (Some DOT) 0 0 (fs @ [of_nat n]) rest"
proof -
  obtain c k where "c \<noteq> DOT"
    "parseIPv4Fields prev 0 0 fs (Itoa n @ DOT # rest) = parseIPv4Fields (Some c) n k fs (DOT # rest)"
    using parse_octet [OF assms(1)] by metis
  then show ?thesis using assms by (simp add: is_digit_def)
qed

lemma unat_u8_le: "unat (a :: u8) \<le> 255"
  using unsigned_less [where w = a and 'a = nat] by simp

lemma Itoa_nonempty: "Itoa n \<noteq> []" "Itoa n @ x \<noteq> []"
  using Itoa_digits [of n] by auto

lemma parseIPv4_dotted: "parseIPv4 (dotted [a, b, c, d]) = Some [a, b, c, d]"
proof -
  obtain x k where "parseIPv4Fields (Some DOT) 0 0 [a, b, c] (Itoa (unat d) @ []) =
      parseIPv4Fields (Some x) (unat d) k [a, b, c] []"
    using parse_octet [OF unat_u8_le] by metis
  then show ?thesis
    by (simp add: parseIPv4_def Itoa_nonempty parse_octet_dot unat_u8_le)
qed

lemma Itoa_no_punctuation [simp]:
  "DOT \<notin> set (Itoa n)" "COLON \<notin> set (Itoa n)" "0x25 \<notin> set (Itoa n)"
  "LBRACKET \<notin> set (Itoa n)" "RBRACKET \<notin> set (Itoa n)"
  using Itoa_digits [of n] by (auto simp: list_all_iff is_digit_def)

lemma find_skip: "(\<And>x. x \<in> set xs \<Longrightarrow> \<not> P x) \<Longrightarrow> find P (xs @ ys) = find P ys"
  by (induction xs) auto

text \<open>Parsing what was printed gives the address back, in its 16-byte form.\<close>

lemma ParseIP_dotted: "ParseIP (dotted [a, b, c, d]) = Some (v4InV6Prefix @ [a, b, c, d])"
proof -
  have "\<not> (x = DOT \<or> x = COLON)" if "x \<in> set (Itoa n)" for x n
    using that Itoa_no_punctuation [of n] by metis
  then have "find (\<lambda>x. x = DOT \<or> x = COLON) (dotted [a, b, c, d]) = Some DOT"
    by (simp add: find_skip)
  moreover have "0x25 \<notin> set (dotted [a, b, c, d])" by simp
  ultimately show ?thesis
    by (simp add: ParseIP_def parseIPv4_dotted del: dotted.simps)
qed

lemma before_last_append: "c \<notin> set q \<Longrightarrow> before_last c (p @ c # q) = p"
  by (induction q rule: rev_induct) (auto simp: before_last_def)

lemma after_last_append: "c \<notin> set q \<Longrightarrow> after_last c (p @ c # q) = q"
  by (induction q rule: rev_induct) (auto simp: after_last_def)

lemma SplitHostPort_plain:
  assumes "set host \<inter> {COLON, LBRACKET, RBRACKET} = {}" "set port \<inter> {COLON, LBRACKET, RBRACKET} = {}"
  shows "SplitHostPort (host @ COLON # port) = Some (host, port)"
proof -
  have "hd (host @ COLON # port) \<noteq> LBRACKET"
    using assms(1) by (cases host) auto
  then show ?thesis
    using assms by (auto simp: SplitHostPort_def before_last_append after_last_append Let_def)
qed

text \<open>The address the dialer shows to its \<open>Control\<close> function.\<close>

lemma SplitHostPort_dotted:
  "SplitHostPort (dotted [a, b, c, d] @ COLON # Itoa p) = Some (dotted [a, b, c, d], Itoa p)"
  by (rule SplitHostPort_plain) auto

text \<open>A base64 text decodes to the bytes it encodes.\<close>

lemma b64_char_val: "n < 64 \<Longrightarrow> b64_val (b64_char n) = Some n"
proof -
  have "list_all (\<lambda>n. b64_val (b64_char n) = Some n) [0..<64]" by code_simp
  then show "n < 64 \<Longrightarrow> ?thesis" by (auto simp: list_all_iff)
qed

lemma b64_char_special: "n < 64 \<Longrightarrow> b64_char n \<notin> {PAD, 0x0a, 0x0d}"
  using b64_char_val [of n] by (auto simp: b64_val_def split: if_splits)

lemma b64_char_mod: "b64_char (n mod 64) \<noteq> PAD" "b64_char (n mod 64) \<noteq> 0x0a" "b64_char (n mod 64) \<noteq> 0x0d"
  using b64_char_special [of "n mod 64"] by simp_all

lemma recombine24: "v div 262144 * 262144 + v div 4096 mod 64 * 4096 + v div 64 mod 64 * 64 + v mod 64 = v"
  for v :: nat
proof -
  have "v div 262144 * 64 + v div 4096 mod 64 = v div 4096"
    using div_mult_mod_eq [of "v div 4096" 64] by (simp add: div_mult2_eq [symmetric])
  moreover have "v div 4096 * 64 + v div 64 mod 64 = v div 64"
    using div_mult_mod_eq [of "v div 64" 64] by (simp add: div_mult2_eq [symmetric])
  moreover have "v div 64 * 64 + v mod 64 = v" by simp
  ultimately show ?thesis by linarith
qed

lemma b64_quad:
  assumes "x < 64" "y < 64" "z < 64" "w < 64"
  shows "b64_quanta (b64_char x # b64_char y # b64_char z # b64_char w # rest) =
    (let v = x * 262144 + y * 4096 + z * 64 + w in
     map_option (\<lambda>out. of_nat (v div 65536) # of_nat (v div 256) # of_nat v # out) (b64_quanta rest))"
  using assms b64_char_special [OF assms(3)] b64_char_special [OF assms(4)]
  by (auto simp: b64_char_val split: option.splits)

lemma b64_triple:
  assumes "x < 64" "y < 64" "z < 64"
  shows "b64_quanta [b64_char x, b64_char y, b64_char z, PAD] =
    (let v = x * 4096 + y * 64 + z in Some [of_nat (v div 1024), of_nat (v div 4)])"
  using assms b64_char_special [OF assms(3)] by (auto simp: b64_char_val Let_def)

lemma of_nat_u8_add: "(of_nat (n * 256 + unat b) :: u8) = b"
proof -
  have "(of_nat (n * 256 + unat b) :: u8) = of_nat n * 256 + b" by simp
  also have "(256 :: u8) = 0" by simp
  finally show ?thesis by simp
qed

lemma b64_quanta_encode: "b64_quanta (b64_encode s) = Some s"
proof (induction s rule: b64_encode.induct)
  case (2 a)
  have "unat a * 16 mod 64 = unat a mod 4 * 16" "unat a * 16 div 64 = unat a div 4"
    using mod_mult_mult2 [of "unat a" 16 4] by simp_all
  moreover have "unat a div 4 < 64" "unat a mod 4 * 16 < 64" using unat_u8_le [of a] by auto
  moreover have "unat a div 4 * 64 + unat a mod 4 * 16 = unat a * 16"
    using div_mult_mod_eq [of "unat a" 4] by linarith
  ultimately show ?case by (simp add: Let_def b64_char_val)
next
  case (3 a b)
  define n where "n = unat a * 256 + unat b"
  define v where "v = n * 4"
  have "n < 65536" unfolding n_def using unat_u8_le [of a] unat_u8_le [of b] by linarith
  then have "v < 262144" unfolding v_def by simp
  then have lt: "v div 4096 < 64" "v div 64 mod 64 < 64" "v mod 64 < 64"
    by (auto simp: less_mult_imp_div_less)
  have v: "v div 4096 * 4096 + v div 64 mod 64 * 64 + v mod 64 = v"
    using recombine24 [of v] \<open>v < 262144\<close> by simp
  have "b64_quanta (b64_encode [a, b]) = Some [of_nat (v div 1024), of_nat (v div 4)]"
    using b64_triple [OF lt] by (simp only: b64_encode.simps Let_def v flip: v_def n_def)
  moreover have "v div 4 = n" "v div 1024 = n div 256" unfolding v_def by auto
  moreover have "n div 256 = unat a" unfolding n_def using unat_u8_le [of b] by simp
  moreover have "(of_nat n :: u8) = b" unfolding n_def by (rule of_nat_u8_add)
  ultimately show ?case by simp
next
  case (4 a b c rest)
  define v where "v = unat a * 65536 + unat b * 256 + unat c"
  have "v < 16777216" unfolding v_def
    using unat_u8_le [of a] unat_u8_le [of b] unat_u8_le [of c] by linarith
  then have lt: "v div 262144 < 64" "v div 4096 mod 64 < 64" "v div 64 mod 64 < 64" "v mod 64 < 64"
    by (auto simp: less_mult_imp_div_less)
  have "b64_quanta (b64_encode (a # b # c # rest)) =
      map_option (\<lambda>out. of_nat (v div 65536) # of_nat (v div 256) # of_nat v # out)
        (b64_quanta (b64_encode rest))"
    using b64_quad [OF lt, of "b64_encode rest"]
    by (simp only: b64_encode.simps Let_def recombine24 flip: v_def)
  moreover have v: "v = (unat a * 256 + unat b) * 256 + unat c" unfolding v_def by simp
  have "v div 256 = unat a * 256 + unat b" unfolding v using unat_u8_le [of c] by simp
  moreover from this have "v div 65536 = unat a"
    using unat_u8_le [of b] div_mult2_eq [of v 256 256] by simp
  moreover have "(of_nat v :: u8) = c" unfolding v by (rule of_nat_u8_add)
  moreover have "(of_nat (unat a * 256 + unat b) :: u8) = b" by (rule of_nat_u8_add)
  ultimately show ?case using 4 by simp
qed simp

lemma b64_encode_no_break: "c \<in> set (b64_encode s) \<Longrightarrow> c \<noteq> 0x0a \<and> c \<noteq> 0x0d"
proof (induction s rule: b64_encode.induct)
  case (2 a)
  have "unat a * 16 div 64 < 64" using unat_u8_le [of a] by simp
  then show ?case using 2 by (auto simp: Let_def b64_char_mod dest: b64_char_special)
next
  case (3 a b)
  have "(unat a * 256 + unat b) * 4 div 4096 < 64"
    using unat_u8_le [of a] unat_u8_le [of b] by (simp add: less_mult_imp_div_less)
  then show ?case using 3 by (auto simp: Let_def b64_char_mod dest: b64_char_special)
next
  case (4 a b c rest)
  have "unat a * 65536 + unat b * 256 + unat c < 64 * 262144"
    using unat_u8_le [of a] unat_u8_le [of b] unat_u8_le [of c] by linarith
  then have "(unat a * 65536 + unat b * 256 + unat c) div 262144 < 64"
    by (rule less_mult_imp_div_less)
  then show ?case using 4 by (auto simp: Let_def b64_char_mod dest: b64_char_special)
qed simp

lemma b64_decode_encode: "b64_decode (b64_encode s) = Some s"
proof -
  have "filter (\<lambda>c. c \<noteq> 0x0a \<and> c \<noteq> 0x0d) (b64_encode s) = b64_encode s"
    using b64_encode_no_break by (auto simp: filter_id_conv)
  then show ?thesis by (simp add: b64_decode_def b64_quanta_encode)
qed

text \<open>An encoded text is a run of alphabet characters and the padding its length calls for.\<close>

definition b64_alphabet :: "u8 set" where
  "b64_alphabet = b64_char ` {..<64}"

lemma b64_alphabet_char: "n < 64 \<Longrightarrow> b64_char n \<in> b64_alphabet" "b64_char (n mod 64) \<in> b64_alphabet"
  by (auto simp: b64_alphabet_def)

lemma PAD_not_alphabet: "PAD \<notin> b64_alphabet"
  using b64_char_special by (force simp: b64_alphabet_def)

lemma b64_encode_shape:
  "\<exists>body. b64_encode s = body @ replicate (2 * length s mod 3) PAD \<and> set body \<subseteq> b64_alphabet \<and>
     length body = (4 * length s + 2) div 3"
proof (induction s rule: b64_encode.induct)
  case (2 a)
  have "unat a * 16 div 64 < 64" using unat_u8_le [of a] by simp
  then show ?case
    by (intro exI [of _ "[b64_char (unat a * 16 div 64), b64_char (unat a * 16 mod 64)]"])
      (simp add: Let_def b64_alphabet_char numeral_2_eq_2)
next
  case (3 a b)
  let ?v = "(unat a * 256 + unat b) * 4"
  have "?v div 4096 < 64"
    using unat_u8_le [of a] unat_u8_le [of b] by (simp add: less_mult_imp_div_less)
  then show ?case
    by (intro exI [of _ "[b64_char (?v div 4096), b64_char (?v div 64 mod 64), b64_char (?v mod 64)]"])
      (simp add: Let_def b64_alphabet_char)
next
  case (4 a b c rest)
  let ?v = "unat a * 65536 + unat b * 256 + unat c"
  have "?v < 64 * 262144"
    using unat_u8_le [of a] unat_u8_le [of b] unat_u8_le [of c] by linarith
  then have "?v div 262144 < 64" by (rule less_mult_imp_div_less)
  with 4 obtain body where "b64_encode rest = body @ replicate (2 * length rest mod 3) PAD"
    "set body \<subseteq> b64_alphabet" "length body = (4 * length rest + 2) div 3" by blast
  moreover have "2 * (length rest + 3) mod 3 = 2 * length rest mod 3" by presburger
  moreover have "(4 * (length rest + 3) + 2) div 3 = (4 * length rest + 2) div 3 + 4" by presburger
  ultimately show ?case using \<open>?v div 262144 < 64\<close>
    by (intro exI [of _ "b64_char (?v div 262144) # b64_char (?v div 4096 mod 64) # b64_char (?v div 64 mod 64) #
        b64_char (?v mod 64) # body"])
      (simp add: Let_def b64_alphabet_char add.commute)
qed simp

lemma url_char_alphabet:
  "inj_on url_char b64_alphabet" "c \<in> b64_alphabet \<Longrightarrow> url_char c \<notin> {COLON, 0x40, 0x2f, 0x25}"
proof -
  have "distinct (map (\<lambda>n. url_char (b64_char n)) [0..<64])" by code_simp
  then have "inj_on (\<lambda>n. url_char (b64_char n)) {..<64}" by (simp add: distinct_map atLeast0LessThan)
  then show "inj_on url_char b64_alphabet" by (auto simp: b64_alphabet_def inj_on_def)
  have "list_all (\<lambda>n. url_char (b64_char n) \<notin> {COLON, 0x40, 0x2f, 0x25}) [0..<64]" by code_simp
  then show "c \<in> b64_alphabet \<Longrightarrow> url_char c \<notin> {COLON, 0x40, 0x2f, 0x25}"
    by (auto simp: b64_alphabet_def list_all_iff)
qed

lemma RawURLEncode_body:
  assumes "b64_encode s = body @ replicate n PAD" "set body \<subseteq> b64_alphabet"
  shows "RawURLEncode s = map url_char body"
proof -
  have "filter (\<lambda>c. c \<noteq> PAD) body = body" using assms(2) PAD_not_alphabet by (auto simp: filter_id_conv)
  then show ?thesis by (simp add: RawURLEncode_def assms(1))
qed

lemma RawURLEncode_length: "length (RawURLEncode s) = (4 * length s + 2) div 3"
proof -
  obtain body where "b64_encode s = body @ replicate (2 * length s mod 3) PAD" "set body \<subseteq> b64_alphabet"
    "length body = (4 * length s + 2) div 3"
    using b64_encode_shape by blast
  then show ?thesis using RawURLEncode_body by simp
qed

lemma RawURLEncode_chars: "c \<in> set (RawURLEncode s) \<Longrightarrow> c \<notin> {COLON, 0x40, 0x2f, 0x25}"
proof -
  obtain body where b: "b64_encode s = body @ replicate (2 * length s mod 3) PAD" "set body \<subseteq> b64_alphabet"
    using b64_encode_shape by blast
  assume "c \<in> set (RawURLEncode s)"
  then have "c \<in> url_char ` set body" by (simp add: RawURLEncode_body [OF b])
  then obtain d where d: "c = url_char d" "d \<in> b64_alphabet" using b(2) by (elim imageE) (simp add: subset_iff)
  show ?thesis unfolding d(1) by (rule url_char_alphabet(2) [OF d(2)])
qed

lemma RawURLEncode_inj:
  assumes "RawURLEncode s = RawURLEncode t" "length s = length t"
  shows "s = t"
proof -
  obtain b c where b: "b64_encode s = b @ replicate (2 * length s mod 3) PAD" "set b \<subseteq> b64_alphabet"
    and c: "b64_encode t = c @ replicate (2 * length t mod 3) PAD" "set c \<subseteq> b64_alphabet"
    using b64_encode_shape [of s] b64_encode_shape [of t] by blast
  have "map url_char b = map url_char c"
    using assms(1) by (simp add: RawURLEncode_body [OF b] RawURLEncode_body [OF c])
  moreover have "inj_on url_char (set b \<union> set c)"
    using url_char_alphabet(1) b(2) c(2) by (meson inj_on_subset sup.boundedI)
  ultimately have "b = c" by (rule map_inj_on)
  then have "b64_encode s = b64_encode t" using b(1) c(1) assms(2) by simp
  then show ?thesis by (metis b64_quanta_encode option.inject)
qed

end
