(* ===== verification/Proxy_Policy.thy ===== *)
theory Proxy_Policy
  imports Go_Net
begin

text \<open>
  The decisions of the egress proxy (\<open>proxy.go\<close>): \<open>hostMatches\<close>, \<open>permit\<close>, the blocked networks
  with \<open>isBlockedIP\<close>, and the upstream dialer with its \<open>Control\<close> function. The resolver and the
  network are arguments of the dialer.
\<close>

section \<open>Allowed destinations\<close>

record ProxyPolicy =
  pp_PolicyID :: u32
  pp_Feedback :: bytes
  AllowedHosts :: "bytes list"
  AllowedPorts :: "int \<rightharpoonup> bool"
  AllowIPLiteral :: bool

definition hostMatches :: "unicode_tables \<Rightarrow> bytes \<Rightarrow> bytes \<Rightarrow> bool" where
  "hostMatches U pat host =
     (let host' = ToLower U (TrimSuffix host [DOT]); pat' = ToLower U pat in
      if prefix [0x2a, DOT] pat' then
        let suf = drop 1 pat' in suffix suf host' \<and> length suf < length host'
      else host' = pat')"

datatype permit_error =
  Port_not_permitted int
| IP_literal_not_permitted bytes
| Host_not_in_allowlist bytes

definition permit :: "unicode_tables \<Rightarrow> ProxyPolicy \<Rightarrow> bytes \<Rightarrow> int \<Rightarrow> permit_error option" where
  "permit U p host port =
     (if AllowedPorts p port \<noteq> Some True then Some (Port_not_permitted port)
      else if ParseIP host \<noteq> None \<and> \<not> AllowIPLiteral p
      then Some (IP_literal_not_permitted (the (ParseIP host)))
      else if list_ex (\<lambda>pat. hostMatches U pat host) (AllowedHosts p) then None
      else Some (Host_not_in_allowlist host))"

section \<open>Blocked networks\<close>

definition blocked_cidrs :: "bytes list" where
  "blocked_cidrs = map str
     [''127.0.0.0/8'', ''10.0.0.0/8'', ''172.16.0.0/12'', ''192.168.0.0/16'',
      ''169.254.0.0/16'', ''100.64.0.0/10'', ''0.0.0.0/8'', ''224.0.0.0/4'',
      ''::1/128'', ''fc00::/7'', ''fe80::/10'']"

text \<open>The network is nil where \<open>ParseCIDR\<close> fails, which happens for none of the entries.\<close>

definition blockedNets :: "IPNet option list" where
  "blockedNets = map ParseCIDR blocked_cidrs"

definition isBlockedIP :: "bytes \<Rightarrow> bool" where
  "isBlockedIP ip = list_ex (\<lambda>n. case n of Some n' \<Rightarrow> Contains_IP n' ip | None \<Rightarrow> False) blockedNets"

section \<open>The upstream dialer\<close>

text \<open>\<open>upstreamDialer.Control\<close>: \<open>False\<close> stands for the error return.\<close>

definition dial_control :: "bytes \<Rightarrow> bool" where
  "dial_control address =
     (case SplitHostPort address of
        None \<Rightarrow> False
      | Some (host, _) \<Rightarrow>
          (case ParseIP host of None \<Rightarrow> False | Some ip \<Rightarrow> \<not> isBlockedIP ip))"

text \<open>The resolver gives the IPv4 addresses of a name; \<open>connects\<close> says whether a connection succeeds.\<close>

record net_env =
  lookup_ip :: "bytes \<Rightarrow> bytes list"
  connects :: "bytes \<Rightarrow> nat \<Rightarrow> bool"

text \<open>
  \<open>net.Dialer.Dial\<close> for \<open>tcp4\<close>: the addresses are tried in order and \<open>Control\<close> sees each
  numeric address before the connection is made.
\<close>

fun dial_serial :: "net_env \<Rightarrow> nat \<Rightarrow> bytes list \<Rightarrow> bytes option" where
  "dial_serial N port [] = None"
| "dial_serial N port (ip # ips) =
     (if dial_control (JoinHostPort (dotted ip) (Itoa port)) \<and> connects N ip port then Some ip
      else dial_serial N port ips)"

definition Dial :: "net_env \<Rightarrow> bytes \<Rightarrow> int \<Rightarrow> bytes option" where
  "Dial N host port =
     (if port < 0 \<or> 65535 < port then None else dial_serial N (nat port) (lookup_ip N host))"

section \<open>Host names\<close>

text \<open>
  On ASCII names a pattern without wildcard matches exactly the name itself, up to case and one
  trailing dot; a wildcard pattern matches the names with at least one byte before its suffix.
\<close>

lemma ascii_TrimSuffix: "ascii s \<Longrightarrow> ascii (TrimSuffix s t)"
  by (auto simp: TrimSuffix_def ascii_def list_all_iff dest: in_set_takeD)

lemma lower_star_dot:
  "prefix [0x2a, DOT] (map lower_byte s) \<longleftrightarrow> prefix [0x2a, DOT] s"
proof -
  have "lower_byte x = 0x2a \<longleftrightarrow> x = 0x2a" "lower_byte x = DOT \<longleftrightarrow> x = DOT" for x
    by (auto simp: word_unat_eq_iff unat_lower_byte)
  then show ?thesis by (cases s; cases "tl s") auto
qed

lemma hostMatches_ascii:
  assumes "ascii pat" "ascii host"
  shows "hostMatches U pat host \<longleftrightarrow>
    (if prefix [0x2a, DOT] pat
     then \<exists>pre. pre \<noteq> [] \<and> map lower_byte (TrimSuffix host [DOT]) = pre @ map lower_byte (drop 1 pat)
     else map lower_byte (TrimSuffix host [DOT]) = map lower_byte pat)"
proof -
  have *: "suffix s t \<and> length s < length t \<longleftrightarrow> (\<exists>pre. pre \<noteq> [] \<and> t = pre @ s)" for s t :: bytes
    by (auto simp: suffix_def)
  show ?thesis
    using assms
    by (simp only: hostMatches_def Let_def ToLower_ascii ascii_TrimSuffix lower_star_dot drop_map *)
qed

section \<open>Private addresses\<close>

text \<open>The IPv4 addresses outside the blocked networks, read off their dotted notation.\<close>

fun public_v4 :: "bytes \<Rightarrow> bool" where
  "public_v4 [a, b, c, d] \<longleftrightarrow>
     a \<notin> {0, 10, 127} \<and> \<not> (a = 172 \<and> 16 \<le> b \<and> b \<le> 31) \<and> \<not> (a = 192 \<and> b = 168) \<and>
     \<not> (a = 169 \<and> b = 254) \<and> \<not> (a = 100 \<and> 64 \<le> b \<and> b \<le> 127) \<and> \<not> (224 \<le> a \<and> a \<le> 239)"
| "public_v4 _ \<longleftrightarrow> False"

lemmas cidr_eval =
  ParseCIDR_def SplitN2_def ParseIP_def parseIPv4_def is_digit_def digit_val_def v4InV6Prefix_def
  decimal_def CIDRMask_def upt_rec zeros_def parseIPv6_def parseIPv6_groups.simps hex_val_def
  hex_acc_def

lemma replicate_numeral: "replicate (numeral k) x = x # replicate (pred_numeral k) x"
  by (simp add: numeral_eq_Suc)

lemma blockedNets_eq:
  "blockedNets =
     map (\<lambda>(a, m). Some \<lparr>net_IP = a, net_Mask = m\<rparr>)
       [([127, 0, 0, 0], [255, 0, 0, 0]), ([10, 0, 0, 0], [255, 0, 0, 0]),
        ([172, 16, 0, 0], [255, 240, 0, 0]), ([192, 168, 0, 0], [255, 255, 0, 0]),
        ([169, 254, 0, 0], [255, 255, 0, 0]), ([100, 64, 0, 0], [255, 192, 0, 0]),
        ([0, 0, 0, 0], [255, 0, 0, 0]), ([224, 0, 0, 0], [240, 0, 0, 0]),
        (replicate 15 0 @ [1], replicate 16 255),
        (252 # replicate 15 0, 254 # replicate 15 0),
        ([254, 128] @ replicate 14 0, [255, 192] @ replicate 14 0)]"
  by (simp add: blockedNets_def blocked_cidrs_def cidr_eval replicate_numeral)

text \<open>The masks of eight-bit fields, by evaluation on every byte.\<close>

lemma byte_masks:
  "b AND 0xf0 = 0x10 \<longleftrightarrow> 16 \<le> b \<and> b \<le> 31" "b AND 0xc0 = 0x40 \<longleftrightarrow> 64 \<le> b \<and> b \<le> 127"
  "b AND 0xf0 = 0xe0 \<longleftrightarrow> 224 \<le> b \<and> b \<le> 239" for b :: u8
proof -
  have "list_all (\<lambda>n. ((of_nat n :: u8) AND 0xf0 = 0x10) = (16 \<le> n \<and> n \<le> 31) \<and>
      ((of_nat n :: u8) AND 0xc0 = 0x40) = (64 \<le> n \<and> n \<le> 127) \<and>
      ((of_nat n :: u8) AND 0xf0 = 0xe0) = (224 \<le> n \<and> n \<le> 239)) [0..<256]"
    by code_simp
  moreover have "unat b < 256" using unsigned_less [where w = b and 'a = nat] by simp
  ultimately have "(((of_nat (unat b) :: u8) AND 0xf0 = 0x10) = (16 \<le> unat b \<and> unat b \<le> 31)) \<and>
      ((of_nat (unat b) :: u8) AND 0xc0 = 0x40) = (64 \<le> unat b \<and> unat b \<le> 127) \<and>
      ((of_nat (unat b) :: u8) AND 0xf0 = 0xe0) = (224 \<le> unat b \<and> unat b \<le> 239)"
    by (auto simp only: list_all_iff set_upt atLeastLessThan_iff)
  then show "b AND 0xf0 = 0x10 \<longleftrightarrow> 16 \<le> b \<and> b \<le> 31" "b AND 0xc0 = 0x40 \<longleftrightarrow> 64 \<le> b \<and> b \<le> 127"
    "b AND 0xf0 = 0xe0 \<longleftrightarrow> 224 \<le> b \<and> b \<le> 239"
    by (simp_all add: word_le_nat_alt)
qed

lemma and_ff: "x AND 0xff = x" for x :: u8
proof -
  have "(0xff :: u8) = - 1" by simp
  then show ?thesis by (metis and.right_neutral)
qed

lemma To4_mapped: "To4 (v4InV6Prefix @ [a, b, c, d]) = Some [a, b, c, d]"
  by (simp add: To4_def v4InV6Prefix_def)

lemma isBlockedIP_v4: "isBlockedIP (v4InV6Prefix @ [a, b, c, d]) \<longleftrightarrow> \<not> public_v4 [a, b, c, d]"
  by (simp add: isBlockedIP_def blockedNets_eq Contains_IP_def To4_mapped byte_masks and_ff) blast

text \<open>Every address the dialer connects to is one the resolver gave, and public.\<close>

lemma dial_control_v4: "dial_control (JoinHostPort (dotted [a, b, c, d]) (Itoa p)) \<longleftrightarrow> public_v4 [a, b, c, d]"
proof -
  have "JoinHostPort (dotted [a, b, c, d]) (Itoa p) = dotted [a, b, c, d] @ COLON # Itoa p"
    by (simp add: JoinHostPort_def)
  then show ?thesis
    by (simp add: dial_control_def SplitHostPort_dotted ParseIP_dotted isBlockedIP_v4 del: dotted.simps public_v4.simps)
qed

lemma length_4: "length ip = 4 \<longleftrightarrow> (\<exists>a b c d. ip = [a, b, c, d])"
  by (auto simp: numeral_eq_Suc length_Suc_conv)

lemma dial_serial_public:
  assumes "list_all (\<lambda>ip. length ip = 4) ips" "dial_serial N port ips = Some ip"
  shows "ip \<in> set ips \<and> connects N ip port \<and> public_v4 ip"
  using assms
proof (induction ips)
  case (Cons x ips)
  then obtain a b c d where "x = [a, b, c, d]" by (auto simp: length_4)
  with Cons show ?case
    by (auto simp: dial_control_v4 simp del: dotted.simps split: if_splits)
qed simp

section \<open>Properties\<close>

text \<open>
  What the allowlist admits, for ASCII names: a destination is permitted exactly
  when its port is allowed, it is no IP literal (unless those are allowed), and some pattern
  matches it, where a plain pattern matches the name itself up to letter case and one trailing
  dot, and a pattern \<open>*.d\<close> matches the names with at least one byte before \<open>.d\<close>, never \<open>d\<close> itself.
\<close>

theorem permit_decision:
  assumes "list_all ascii (AllowedHosts p)" "ascii host"
  shows "permit U p host port = None \<longleftrightarrow>
    AllowedPorts p port = Some True \<and> (ParseIP host = None \<or> AllowIPLiteral p) \<and>
    (\<exists>pat \<in> set (AllowedHosts p).
       if prefix [0x2a, DOT] pat
       then \<exists>pre. pre \<noteq> [] \<and> map lower_byte (TrimSuffix host [DOT]) = pre @ map lower_byte (drop 1 pat)
       else map lower_byte (TrimSuffix host [DOT]) = map lower_byte pat)"
proof -
  have "(\<exists>pat \<in> set (AllowedHosts p). hostMatches U pat host) \<longleftrightarrow>
    (\<exists>pat \<in> set (AllowedHosts p).
       if prefix [0x2a, DOT] pat
       then \<exists>pre. pre \<noteq> [] \<and> map lower_byte (TrimSuffix host [DOT]) = pre @ map lower_byte (drop 1 pat)
       else map lower_byte (TrimSuffix host [DOT]) = map lower_byte pat)"
    using assms by (intro bex_cong refl hostMatches_ascii) (auto simp: list_all_iff)
  then show ?thesis by (auto simp: permit_def list_ex_iff)
qed

definition sample_proxy_policy :: ProxyPolicy where
  "sample_proxy_policy =
     \<lparr>pp_PolicyID = 2, pp_Feedback = str ''no'', AllowedHosts = [str ''api.example.com'', str ''*.example.org''],
      AllowedPorts = [443 \<mapsto> True], AllowIPLiteral = False\<rparr>"

theorem permit_decision_witness:
  "permit plain_tables sample_proxy_policy (str ''A.Example.org.'') 443 = None \<and>
   permit plain_tables sample_proxy_policy (str ''example.org'') 443 \<noteq> None"
proof
  have p: "list_all ascii (AllowedHosts sample_proxy_policy)" by (simp add: sample_proxy_policy_def)
  have "ParseIP (str ''A.Example.org.'') = None"
    by (simp add: ParseIP_def parseIPv4_def is_digit_def)
  moreover have "map lower_byte (TrimSuffix (str ''A.Example.org.'') [DOT]) =
      str ''a'' @ map lower_byte (drop 1 (str ''*.example.org''))"
    by (simp add: TrimSuffix_def suffix_def append_eq_Cons_conv lower_byte_def)
  ultimately show "permit plain_tables sample_proxy_policy (str ''A.Example.org.'') 443 = None"
    using permit_decision [OF p, of "str ''A.Example.org.''" plain_tables 443]
    by (auto simp: sample_proxy_policy_def)
  have "map lower_byte (TrimSuffix (str ''example.org'') [DOT]) = str ''example.org''"
    by (simp add: TrimSuffix_def suffix_def append_eq_Cons_conv lower_byte_def)
  then show "permit plain_tables sample_proxy_policy (str ''example.org'') 443 \<noteq> None"
    using permit_decision [OF p, of "str ''example.org''" plain_tables 443]
    by (auto simp: sample_proxy_policy_def lower_byte_def append_eq_Cons_conv)
qed

text \<open>
  IP literals do not pass a policy that forbids them: the dotted notation of every
  IPv4 address is refused on every port.
\<close>

theorem ip_literals_refused:
  assumes "\<not> AllowIPLiteral p"
  shows "permit U p (dotted [a, b, c, d]) port \<noteq> None"
  using assms by (simp add: permit_def ParseIP_dotted del: dotted.simps)

theorem ip_literals_refused_witness:
  "permit plain_tables sample_proxy_policy (dotted [93, 184, 216, 34]) 443 \<noteq> None"
  by (rule ip_literals_refused) (simp add: sample_proxy_policy_def)

end
