(* ===== verification/Go_Path.thy ===== *)
theory Go_Path
  imports Go_Strings
begin

text \<open>
  The lexical operations of Go's \<open>path/filepath\<close> package on Unix: \<open>Clean\<close>, \<open>Join\<close>, \<open>Dir\<close>,
  \<open>IsAbs\<close> and \<open>Abs\<close>. A path is cut at its separators and cleaned element by element.
\<close>

section \<open>Operations\<close>

fun split_on :: "u8 \<Rightarrow> bytes \<Rightarrow> bytes list" where
  "split_on c [] = [[]]"
| "split_on c (b # s) =
     (if b = c then [] # split_on c s
      else (case split_on c s of [] \<Rightarrow> [[b]] | x # xs \<Rightarrow> (b # x) # xs))"

fun join_with :: "u8 \<Rightarrow> bytes list \<Rightarrow> bytes" where
  "join_with c [] = []"
| "join_with c [x] = x"
| "join_with c (x # y # xs) = x @ c # join_with c (y # xs)"

abbreviation dot_elem :: bytes where "dot_elem \<equiv> [0x2e]"
abbreviation dotdot_elem :: bytes where "dotdot_elem \<equiv> [0x2e, 0x2e]"

text \<open>The elements kept so far are a stack with the last element first.\<close>

fun clean_elems :: "bool \<Rightarrow> bytes list \<Rightarrow> bytes list \<Rightarrow> bytes list" where
  "clean_elems rooted out [] = rev out"
| "clean_elems rooted out (e # es) =
     (if e = [] \<or> e = dot_elem then clean_elems rooted out es
      else if e = dotdot_elem then
        (case out of
           [] \<Rightarrow> clean_elems rooted (if rooted then [] else [dotdot_elem]) es
         | t # ts \<Rightarrow>
             if t = dotdot_elem then clean_elems rooted (dotdot_elem # out) es
             else clean_elems rooted ts es)
      else clean_elems rooted (e # out) es)"

definition IsAbs :: "bytes \<Rightarrow> bool" where
  "IsAbs p = prefix [SLASH] p"

definition render :: "bool \<Rightarrow> bytes list \<Rightarrow> bytes" where
  "render rooted es =
     (let s = (if rooted then [SLASH] else []) @ join_with SLASH es in
      if s = [] then dot_elem else s)"

definition Clean :: "bytes \<Rightarrow> bytes" where
  "Clean p = render (IsAbs p) (clean_elems (IsAbs p) [] (split_on SLASH p))"

text \<open>\<open>filepath.Join\<close> of two elements.\<close>

definition Join2 :: "bytes \<Rightarrow> bytes \<Rightarrow> bytes" where
  "Join2 a b =
     (if a = [] \<and> b = [] then []
      else if a = [] then Clean b
      else Clean (a @ SLASH # b))"

text \<open>\<open>filepath.Dir\<close>: the cleaned part up to the last separator.\<close>

definition Dir :: "bytes \<Rightarrow> bytes" where
  "Dir p = Clean (rev (dropWhile (\<lambda>b. b \<noteq> SLASH) (rev p)))"

definition Abs_path :: "bytes \<Rightarrow> bytes \<Rightarrow> bytes" where
  "Abs_path cwd p = (if IsAbs p then Clean p else Join2 cwd p)"

section \<open>Clean absolute paths\<close>

text \<open>An element a clean absolute path consists of.\<close>

definition plain :: "bytes \<Rightarrow> bool" where
  "plain e \<longleftrightarrow> e \<noteq> [] \<and> SLASH \<notin> set e \<and> e \<noteq> dot_elem \<and> e \<noteq> dotdot_elem"

definition abs_of :: "bytes list \<Rightarrow> bytes" where
  "abs_of es = SLASH # join_with SLASH es"

lemma split_on_nonempty [simp]: "split_on c s \<noteq> []"
  by (induction s) (auto split: list.splits)

lemma split_on_no_sep: "e \<in> set (split_on c s) \<Longrightarrow> c \<notin> set e"
  by (induction s arbitrary: e) (auto split: list.splits if_splits)

lemma split_on_single: "c \<notin> set e \<Longrightarrow> split_on c e = [e]"
  by (induction e) auto

lemma split_on_append: "c \<notin> set e \<Longrightarrow> split_on c (e @ c # s) = e # split_on c s"
  by (induction e) auto

lemma split_join: "es \<noteq> [] \<Longrightarrow> list_all (\<lambda>e. c \<notin> set e) es \<Longrightarrow> split_on c (join_with c es) = es"
  by (induction es rule: join_with.induct) (auto simp: split_on_single split_on_append)

lemma split_join_sep:
  "es \<noteq> [] \<Longrightarrow> list_all (\<lambda>e. c \<notin> set e) es \<Longrightarrow> split_on c (join_with c es @ [c]) = es @ [[]]"
  by (induction es rule: join_with.induct) (auto simp: split_on_append)

lemma clean_elems_plain: "list_all plain es \<Longrightarrow> clean_elems rooted out es = rev out @ es"
  by (induction es arbitrary: out) (auto simp: plain_def)

lemma clean_elems_append_plain:
  "list_all plain es \<Longrightarrow> clean_elems rooted out (es @ fs) = clean_elems rooted (rev es @ out) fs"
  by (induction es arbitrary: out) (auto simp: plain_def)

lemma clean_elems_plain_Cons: "plain e \<Longrightarrow> clean_elems rooted out (e # es) = clean_elems rooted (e # out) es"
  by (simp add: plain_def)

lemma clean_elems_rooted:
  "list_all plain out \<Longrightarrow> list_all (\<lambda>e. SLASH \<notin> set e) es \<Longrightarrow> list_all plain (clean_elems True out es)"
proof (induction es arbitrary: out)
  case (Cons e es)
  then show ?case by (cases out) (auto simp: plain_def)
qed simp

lemma IsAbs_iff: "IsAbs p \<longleftrightarrow> (\<exists>q. p = SLASH # q)"
  by (cases p) (auto simp: IsAbs_def)

lemma split_on_abs: "split_on SLASH (SLASH # q) = [] # split_on SLASH q"
  by simp

text \<open>Cleaning an absolute path gives an absolute path of plain elements, and nothing changes a second time.\<close>

lemma Clean_abs:
  assumes "IsAbs p"
  obtains es where "list_all plain es" "Clean p = abs_of es"
proof
  let ?es = "clean_elems True [] (split_on SLASH p)"
  show "list_all plain ?es"
    by (rule clean_elems_rooted) (auto simp: list_all_iff dest: split_on_no_sep)
  show "Clean p = abs_of ?es"
    using assms by (simp add: Clean_def render_def abs_of_def)
qed

lemma IsAbs_abs_of [simp]: "IsAbs (abs_of es)"
  by (simp add: abs_of_def IsAbs_iff)

lemma split_abs_of:
  assumes "list_all plain es"
  shows "split_on SLASH (abs_of es) = [] # (if es = [] then [[]] else es)"
  using assms split_join [of es SLASH] by (auto simp: abs_of_def plain_def list_all_iff)

lemma render_rooted: "render True es = abs_of es"
  by (simp add: render_def abs_of_def)

lemma Clean_rooted: "IsAbs p \<Longrightarrow> Clean p = abs_of (clean_elems True [] (split_on SLASH p))"
  by (simp add: Clean_def render_rooted)

lemma Clean_abs_of: "list_all plain es \<Longrightarrow> Clean (abs_of es) = abs_of es"
  by (simp add: Clean_rooted split_abs_of clean_elems_plain)

lemma Clean_idem_abs: "IsAbs p \<Longrightarrow> Clean (Clean p) = Clean p"
  by (metis Clean_abs Clean_abs_of)

lemma IsAbs_Clean: "IsAbs p \<Longrightarrow> IsAbs (Clean p)"
  by (metis Clean_abs IsAbs_abs_of)

text \<open>The parent of a clean absolute path drops its last element.\<close>

lemma join_with_snoc:
  "es \<noteq> [] \<Longrightarrow> join_with c (es @ [e]) = join_with c es @ c # e"
  by (induction es rule: join_with.induct) auto

lemma Dir_abs_of:
  assumes "list_all plain es"
  shows "Dir (abs_of es) = abs_of (butlast es)"
proof (cases es rule: rev_cases)
  case Nil
  have "Clean [SLASH] = abs_of []" using Clean_abs_of [of "[]"] by (simp add: abs_of_def)
  then show ?thesis by (simp add: Dir_def Nil abs_of_def)
next
  case (snoc fs e)
  have e: "SLASH \<notin> set e" and fs: "list_all plain fs" using assms snoc by (auto simp: plain_def)
  let ?q = "if fs = [] then [SLASH] else abs_of fs @ [SLASH]"
  have "abs_of es = ?q @ e"
    using snoc by (auto simp: abs_of_def join_with_snoc)
  moreover have "dropWhile (\<lambda>b. b \<noteq> SLASH) (rev e @ rev ?q) = rev ?q"
    using e by (subst dropWhile_append2) auto
  ultimately have "Dir (abs_of es) = Clean ?q" by (simp add: Dir_def)
  also have "\<dots> = abs_of fs"
  proof (cases "fs = []")
    case True
    then show ?thesis using Clean_abs_of [of "[]"] by (simp add: abs_of_def)
  next
    case False
    have "split_on SLASH (join_with SLASH fs @ [SLASH]) = fs @ [[]]"
      using False fs by (intro split_join_sep) (auto simp: plain_def list_all_iff)
    then have "split_on SLASH (abs_of fs @ [SLASH]) = [] # fs @ [[]]" by (simp add: abs_of_def)
    moreover have "IsAbs (abs_of fs @ [SLASH])" by (simp add: IsAbs_iff abs_of_def)
    ultimately show ?thesis
      using False fs by (simp add: Clean_rooted clean_elems_append_plain)
  qed
  finally show ?thesis by (simp add: snoc)
qed

lemma abs_of_inj:
  assumes "list_all plain es" "list_all plain fs" "abs_of es = abs_of fs"
  shows "es = fs"
proof -
  have "(if es = [] then [[]] else es) = (if fs = [] then [[]] else fs)"
    using split_abs_of [OF assms(1)] split_abs_of [OF assms(2)] assms(3) by simp
  then show ?thesis
    using assms(1,2) by (cases es; cases fs) (auto simp: plain_def)
qed

lemma Join2_abs_of:
  assumes "list_all plain es" "plain x"
  shows "Join2 (abs_of es) x = abs_of (es @ [x])"
proof -
  have x: "x \<noteq> []" "SLASH \<notin> set x" using assms(2) by (auto simp: plain_def)
  have "Join2 (abs_of es) x = Clean (abs_of es @ SLASH # x)" by (simp add: Join2_def abs_of_def)
  also have "\<dots> = abs_of (es @ [x])"
  proof (cases "es = []")
    case True
    have "split_on SLASH (abs_of es @ SLASH # x) = [[], [], x]"
      using True x by (simp add: abs_of_def split_on_single)
    moreover have "IsAbs (abs_of es @ SLASH # x)" by (simp add: IsAbs_iff abs_of_def)
    ultimately show ?thesis using True assms(2) by (simp add: Clean_rooted plain_def)
  next
    case False
    then have "abs_of es @ SLASH # x = abs_of (es @ [x])" by (simp add: abs_of_def join_with_snoc)
    then show ?thesis using assms by (simp add: Clean_abs_of)
  qed
  finally show ?thesis .
qed

lemma join_with_append: "es \<noteq> [] \<Longrightarrow> fs \<noteq> [] \<Longrightarrow> join_with c (es @ fs) = join_with c es @ c # join_with c fs"
proof (induction es rule: join_with.induct)
  case (2 c x)
  then show ?case by (cases fs) auto
qed auto

lemma Join2_abs_of_rel:
  assumes "list_all plain es" "list_all plain xs" "xs \<noteq> []"
  shows "Join2 (abs_of es) (join_with SLASH xs) = abs_of (es @ xs)"
proof -
  have ne: "join_with SLASH xs \<noteq> []" using assms(2,3) by (cases "(SLASH, xs)" rule: join_with.cases) (auto simp: plain_def)
  then have "Join2 (abs_of es) (join_with SLASH xs) = Clean (abs_of es @ SLASH # join_with SLASH xs)"
    by (simp add: Join2_def abs_of_def)
  also have "\<dots> = abs_of (es @ xs)"
  proof (cases "es = []")
    case True
    have "split_on SLASH (join_with SLASH xs) = xs"
      using assms(2,3) by (intro split_join) (auto simp: plain_def list_all_iff)
    moreover have "IsAbs (abs_of es @ SLASH # join_with SLASH xs)" by (simp add: IsAbs_iff abs_of_def)
    ultimately show ?thesis using True clean_elems_plain [OF assms(2), of True "[]"]
      by (simp add: Clean_rooted abs_of_def)
  next
    case False
    then have "abs_of es @ SLASH # join_with SLASH xs = abs_of (es @ xs)"
      using assms(3) by (simp add: abs_of_def join_with_append)
    then show ?thesis using assms by (simp add: Clean_abs_of)
  qed
  finally show ?thesis .
qed

text \<open>Relative elements behind an absolute path, parent references included.\<close>

lemma Join2_abs_of_elems:
  assumes "list_all plain es" "es \<noteq> []" "xs \<noteq> []" "list_all (\<lambda>x. SLASH \<notin> set x) xs"
  shows "Join2 (abs_of es) (join_with SLASH xs) = abs_of (clean_elems True (rev es) xs)"
proof -
  have "abs_of es @ SLASH # join_with SLASH xs = SLASH # join_with SLASH (es @ xs)"
    using assms(2,3) by (simp add: abs_of_def join_with_append)
  moreover have "split_on SLASH (join_with SLASH (es @ xs)) = es @ xs"
    using assms by (intro split_join) (auto simp: plain_def list_all_iff)
  ultimately show ?thesis
    using clean_elems_append_plain [OF assms(1), of True "[]" xs]
    by (simp add: Join2_def Clean_rooted IsAbs_iff abs_of_def)
qed

lemma clean_elems_parents:
  "list_all plain out \<Longrightarrow> length out \<le> n \<Longrightarrow>
   clean_elems True out (replicate n dotdot_elem @ es) = clean_elems True [] es"
proof (induction n arbitrary: out)
  case (Suc n)
  then show ?case by (cases out) (auto simp: plain_def)
qed simp

lemma join_with_extend: "join_with c (xs @ [x]) @ y = join_with c (xs @ [x @ y])"
  by (cases "xs = []") (simp_all add: join_with_snoc)

lemma set_join_with: "set (join_with c xs) \<subseteq> insert c (\<Union> (set ` set xs))"
  by (induction c xs rule: join_with.induct) auto

end
