(* ===== verification/Identity.thy ===== *)
theory Identity
  imports Go_Path
begin

text \<open>
  The identity and the environment of the launched agent (\<open>launch.go\<close>). The user database and the
  environment of the daemon are arguments.
\<close>

section \<open>Environment\<close>

abbreviation EQUALS :: u8 where "EQUALS \<equiv> 0x3d"

text \<open>The key of an entry: what \<open>strings.Cut(e, "=")\<close> returns first.\<close>

definition env_key :: "bytes \<Rightarrow> bytes" where
  "env_key e = takeWhile (\<lambda>b. b \<noteq> EQUALS) e"

definition filterEnv :: "bytes list \<Rightarrow> bytes list \<Rightarrow> bytes list" where
  "filterEnv inp dropKeys = filter (\<lambda>e. env_key e \<notin> set dropKeys) inp"

fun rewritePATH :: "bytes list \<Rightarrow> bytes \<Rightarrow> bytes list" where
  "rewritePATH [] pre = [str ''PATH='' @ pre @ str '':'' @ str ''/usr/local/bin:/usr/bin:/bin'']"
| "rewritePATH (e # env) pre =
     (if prefix (str ''PATH='') e
      then (str ''PATH='' @ pre @ str '':'' @ TrimPrefix e (str ''PATH='')) # env
      else e # rewritePATH env pre)"

record launchIdentity =
  li_User :: bytes
  li_Home :: bytes
  li_Uid :: u32
  li_Gid :: u32
  li_Groups :: "u32 list"
  li_PathPre :: bytes

definition dropped_keys :: "bytes list" where
  "dropped_keys = map str
     [''HOME'', ''USER'', ''LOGNAME'', ''USERNAME'', ''MAIL'', ''XDG_RUNTIME_DIR'', ''XDG_CACHE_HOME'',
      ''XDG_CONFIG_HOME'', ''XDG_DATA_HOME'', ''SUDO_USER'', ''SUDO_UID'', ''SUDO_GID'', ''SUDO_COMMAND'']"

text \<open>The environment of the child; its credentials are those of the identity, if there is one.\<close>

definition applyLaunchIdentity :: "bytes list \<Rightarrow> launchIdentity option \<Rightarrow> bytes list \<Rightarrow> bytes list" where
  "applyLaunchIdentity environ ident extraEnv =
     (case ident of
        None \<Rightarrow> environ @ extraEnv
      | Some i \<Rightarrow>
          rewritePATH
            (filterEnv environ dropped_keys @
             [str ''HOME='' @ li_Home i, str ''USER='' @ li_User i, str ''LOGNAME='' @ li_User i,
              str ''USERNAME='' @ li_User i,
              str ''XDG_RUNTIME_DIR=/run/user/'' @ Itoa (unat (li_Uid i))])
            (li_PathPre i) @
          extraEnv)"

text \<open>\<open>executable\<close>: a file that is no directory and has an execute bit.\<close>

definition resolveAgentPath :: "(bytes \<Rightarrow> bool) \<Rightarrow> bytes \<Rightarrow> launchIdentity option \<Rightarrow> bytes" where
  "resolveAgentPath executable bin ident =
     (case ident of
        None \<Rightarrow> bin
      | Some i \<Rightarrow>
          if IsAbs bin then bin
          else let cand = Join2 (li_PathPre i) bin in if executable cand then cand else bin)"

section \<open>Identity\<close>

record user_entry =
  us_Username :: bytes
  us_Uid :: bytes
  us_Gid :: bytes
  us_HomeDir :: bytes
  us_GroupIds :: "bytes list option"

record user_db =
  user_Lookup :: "bytes \<Rightarrow> user_entry option"
  user_LookupId :: "bytes \<Rightarrow> user_entry option"

datatype launch_error = Sudo_user_unknown bytes | Sudo_ids_invalid bytes bytes

text \<open>The supplementary groups: the primary one first, the others once each.\<close>

fun add_groups :: "u32 list \<Rightarrow> bytes list \<Rightarrow> u32 list" where
  "add_groups gs [] = gs"
| "add_groups gs (s # ss) =
     (case ParseUint32 s of
        None \<Rightarrow> add_groups gs ss
      | Some g \<Rightarrow> if g \<in> set gs then add_groups gs ss else add_groups (gs @ [g]) ss)"

definition sudoLaunchIdentity ::
  "user_db \<Rightarrow> bool \<Rightarrow> (bytes \<Rightarrow> bytes) \<Rightarrow> launch_error + launchIdentity option" where
  "sudoLaunchIdentity U is_root getenv =
     (if \<not> is_root then Inr None
      else
        let name = TrimSpace (getenv (str ''SUDO_USER'')) in
        if name = [] \<or> name = str ''root'' then Inr None
        else
          let uid = getenv (str ''SUDO_UID''); gid = getenv (str ''SUDO_GID'') in
          and_then
            (if uid = [] \<or> gid = [] then
               (case user_Lookup U name of
                  None \<Rightarrow> Inl (Sudo_user_unknown name)
                | Some u \<Rightarrow> Inr (us_Uid u, us_Gid u))
             else Inr (uid, gid)) (\<lambda>(uid, gid).
          case (ParseUint32 uid, ParseUint32 gid) of
            (Some uidN, Some gidN) \<Rightarrow>
              (let found = user_LookupId U (Itoa (unat uidN));
                   home = (case found of None \<Rightarrow> [] | Some u \<Rightarrow> us_HomeDir u);
                   name = (case found of None \<Rightarrow> name | Some u \<Rightarrow> if us_Username u \<noteq> [] then us_Username u else name);
                   home = (if home = [] then str ''/home/'' @ name else home);
                   groups = (case user_Lookup U name of
                       None \<Rightarrow> [gidN]
                     | Some u \<Rightarrow> (case us_GroupIds u of None \<Rightarrow> [gidN] | Some ids \<Rightarrow> add_groups [gidN] ids)) in
               Inr (Some \<lparr>li_User = name, li_Home = home, li_Uid = uidN, li_Gid = gidN, li_Groups = groups,
                          li_PathPre = Join2 (Join2 home (str ''.local'')) (str ''bin'')\<rparr>))
          | _ \<Rightarrow> Inl (Sudo_ids_invalid uid gid)))"

section \<open>What the child inherits\<close>

lemma rewritePATH_keeps:
  "e \<in> set (rewritePATH env pre) \<Longrightarrow> e \<in> set env \<or> env_key e = str ''PATH''"
proof (induction env)
  case Nil
  have "env_key (str ''PATH='' @ v) = str ''PATH''" for v by (simp add: env_key_def)
  then show ?case using Nil by auto
next
  case (Cons x env)
  have "env_key (str ''PATH='' @ v) = str ''PATH''" for v by (simp add: env_key_def)
  then show ?case using Cons by (auto split: if_splits simp del: str_simps)
qed

text \<open>
  Nothing of the invoking root session reaches the agent: for a launch under an
  identity, every entry of the child's environment whose variable is one of the session
  variables, and that is not passed explicitly, is the one of the identity.
\<close>

theorem child_environment:
  assumes "e \<in> set (applyLaunchIdentity environ (Some i) extraEnv)" "e \<notin> set extraEnv"
    and "env_key e \<in> set dropped_keys"
  shows "e \<in> {str ''HOME='' @ li_Home i, str ''USER='' @ li_User i, str ''LOGNAME='' @ li_User i,
    str ''USERNAME='' @ li_User i, str ''XDG_RUNTIME_DIR=/run/user/'' @ Itoa (unat (li_Uid i))}"
proof -
  have "str ''PATH'' \<notin> set dropped_keys" by (simp add: dropped_keys_def)
  then have "env_key e \<noteq> str ''PATH''" using assms(3) by auto
  then show ?thesis
    using assms rewritePATH_keeps by (fastforce simp: applyLaunchIdentity_def filterEnv_def simp del: str_simps)
qed

definition sample_identity :: launchIdentity where
  "sample_identity = \<lparr>li_User = str ''ada'', li_Home = str ''/home/ada'', li_Uid = 1000, li_Gid = 1000,
     li_Groups = [1000], li_PathPre = str ''/home/ada/.local/bin''\<rparr>"

theorem child_environment_witness:
  "\<exists>e \<in> set (applyLaunchIdentity [str ''HOME=/root'', str ''PATH=/bin''] (Some sample_identity) []).
     env_key e \<in> set dropped_keys \<and> e \<noteq> str ''HOME=/root''"
proof -
  let ?e = "str ''HOME=/home/ada''"
  have "?e \<in> set (applyLaunchIdentity [str ''HOME=/root'', str ''PATH=/bin''] (Some sample_identity) [])"
    by (simp add: applyLaunchIdentity_def sample_identity_def filterEnv_def dropped_keys_def env_key_def)
  moreover have "env_key ?e \<in> set dropped_keys" by (simp add: dropped_keys_def env_key_def)
  ultimately show ?thesis using child_environment [of ?e] by (intro bexI [of _ ?e]) (auto simp: sample_identity_def)
qed

end
