(* ===== verification/Policy_File.thy ===== *)
theory Policy_File
  imports Loader Proxy_Policy Identity "HOL-Library.List_Lexorder" "HOL-Library.Multiset"
begin

text \<open>
  From the parsed policy file to the rule lists: \<open>loadAllPolicies\<close> and \<open>coarseReduceCommand\<close> of
  \<open>main.go\<close>, \<open>resolveWorkspaceRoot\<close>, \<open>resolveOnePrefix\<close>, \<open>resolveAllowPrefixes\<close> and
  \<open>isDangerousAllowPrefix\<close> of \<open>workspace.go\<close>. The working directory, the home directory, the users,
  the environment and \<open>EvalSymlinks\<close> belong to the operating system and are the fields of \<open>os_env\<close>; a call of
  \<open>log.Fatalf\<close> is an error value.
\<close>

section \<open>Policies\<close>

record AgentPolicy =
  ap_Description :: bytes
  ap_PathPatterns :: "bytes list"
  ap_CommandPatterns :: "bytes list"
  ap_AllowedHosts :: "bytes list"
  ap_AllowedPorts :: "bytes list"
  ap_Egress :: bytes
  ap_AllowLocalDNS :: bool
  ap_Listen :: bytes
  ap_RequireSNIMatch :: bool
  ap_AllowIPLiterals :: bool
  ap_Confine :: bool
  ap_Workspace :: bytes
  ap_AllowPrefixes :: "bytes list"
  ap_AllowHomeSuffixes :: "bytes list"
  ap_Feedback :: bytes

text \<open>The map of a policy file, as a list of its entries in no particular order.\<close>

type_synonym PolicyFile = "(bytes \<times> AgentPolicy) list"

datatype PolicyKind = KindPath | KindNetwork | KindCommand | KindWorkspace

record ResolvedPolicy =
  rp_Name :: bytes
  rp_Kind :: PolicyKind
  rp_ID :: u32
  rp_Feedback :: bytes

datatype policy_error =
  Cwd_unavailable
| Workspace_too_long bytes
| Workspace_is_root
| Home_unavailable
| Empty_allow_prefix
| Allow_prefix_too_long bytes
| Dangerous_allow_prefix bytes
| Empty_home_suffix
| Home_suffix_absolute bytes
| Too_many_allow_prefixes nat
| Multiple_confine u32
| Load_failed load_error

section \<open>Workspace paths\<close>

record os_env =
  Getwd :: "bytes option"
  EvalSymlinks :: "bytes \<Rightarrow> bytes option"
  UserHomeDir :: "bytes option"
  Geteuid_root :: bool
  Getenv :: "bytes \<Rightarrow> bytes"
  users :: user_db

definition agentHomeDir :: "os_env \<Rightarrow> bytes option" where
  "agentHomeDir E =
     (case sudoLaunchIdentity (users E) (Geteuid_root E) (Getenv E) of
        Inl _ \<Rightarrow> None
      | Inr None \<Rightarrow> UserHomeDir E
      | Inr (Some i) \<Rightarrow> if li_Home i \<noteq> [] then Some (li_Home i) else UserHomeDir E)"

text \<open>\<open>filepath.Abs\<close> needs the working directory for relative paths only.\<close>

definition abs_in :: "os_env \<Rightarrow> bytes \<Rightarrow> policy_error + bytes" where
  "abs_in E p =
     (if IsAbs p then Inr (Clean p)
      else (case Getwd E of None \<Rightarrow> Inl Cwd_unavailable | Some d \<Rightarrow> Inr (Join2 d p)))"

definition real_path :: "os_env \<Rightarrow> bytes \<Rightarrow> bytes" where
  "real_path E p = Clean (case EvalSymlinks E p of None \<Rightarrow> p | Some r \<Rightarrow> r)"

definition resolveWorkspaceRoot :: "os_env \<Rightarrow> bytes \<Rightarrow> policy_error + bytes" where
  "resolveWorkspaceRoot E explicit =
     (let p = TrimSpace explicit in
      and_then (if p = [] \<or> p = [0x2e]
                then (case Getwd E of None \<Rightarrow> Inl Cwd_unavailable | Some d \<Rightarrow> Inr d)
                else Inr p) (\<lambda>p.
      and_then (abs_in E p) (\<lambda>a.
        let out = real_path E a in
        if maxWorkspaceRootLen < length out then Inl (Workspace_too_long out)
        else if out = [SLASH] then Inl Workspace_is_root
        else Inr out)))"

definition isDangerousAllowPrefix :: "bytes \<Rightarrow> bytes \<Rightarrow> bool" where
  "isDangerousAllowPrefix p home =
     (if p = [SLASH] \<or> p = str ''/home'' then True
      else if home \<noteq> [] \<and> p = Clean home then True
      else False)"

definition resolveOnePrefix :: "os_env \<Rightarrow> bytes \<Rightarrow> policy_error + bytes" where
  "resolveOnePrefix E raw =
     (let p = TrimSpace raw in
      if p = [] then Inl Empty_allow_prefix
      else
        and_then (abs_in E p) (\<lambda>a.
          let out = real_path E a in
          if bpfPatternKeySize < length out then Inl (Allow_prefix_too_long out) else Inr out))"

text \<open>The closure \<open>add\<close>: \<open>out\<close> is also the set of prefixes seen.\<close>

definition add_prefix :: "bytes \<Rightarrow> bytes \<Rightarrow> bytes list \<Rightarrow> policy_error + bytes list" where
  "add_prefix home p out =
     (if isDangerousAllowPrefix p home then Inl (Dangerous_allow_prefix p)
      else if p \<in> set out then Inr out
      else Inr (out @ [p]))"

fun add_prefixes :: "os_env \<Rightarrow> bytes \<Rightarrow> bytes list \<Rightarrow> bytes list \<Rightarrow> policy_error + bytes list" where
  "add_prefixes E home [] out = Inr out"
| "add_prefixes E home (raw # raws) out =
     and_then (resolveOnePrefix E raw) (\<lambda>p.
     and_then (add_prefix home p out) (\<lambda>out'. add_prefixes E home raws out'))"

fun add_home_suffixes :: "os_env \<Rightarrow> bytes \<Rightarrow> bytes list \<Rightarrow> bytes list \<Rightarrow> policy_error + bytes list" where
  "add_home_suffixes E home [] out = Inr out"
| "add_home_suffixes E home (suf # sufs) out =
     (let s = TrimPrefix (TrimSpace suf) [SLASH] in
      if s = [] then Inl Empty_home_suffix
      else if IsAbs (TrimSpace suf) then Inl (Home_suffix_absolute suf)
      else
        and_then (resolveOnePrefix E (Join2 home s)) (\<lambda>p.
        and_then (add_prefix home p out) (\<lambda>out'. add_home_suffixes E home sufs out')))"

definition resolveAllowPrefixes :: "os_env \<Rightarrow> bytes list \<Rightarrow> bytes list \<Rightarrow> policy_error + bytes list" where
  "resolveAllowPrefixes E pfxs homeSuffixes =
     (case agentHomeDir E of
        None \<Rightarrow> Inl Home_unavailable
      | Some home \<Rightarrow>
          and_then (add_prefixes E home pfxs []) (\<lambda>out.
          and_then (add_home_suffixes E home homeSuffixes out) (\<lambda>out'.
            if maxAllowPrefixSlots < length out' then Inl (Too_many_allow_prefixes (length out'))
            else Inr out')))"

section \<open>Loading\<close>

record loaded_policies =
  pathPatterns :: "NamedPattern list"
  commandPatterns :: "NamedPattern list"
  proxyPolicy :: "ProxyPolicy option"
  workspacePolicy :: "WorkspacePolicy option"
  enforceNetwork :: bool
  allowLocalDNS :: bool
  policyByID :: "u32 \<rightharpoonup> ResolvedPolicy"

definition no_policies :: loaded_policies where
  "no_policies =
     \<lparr>pathPatterns = [], commandPatterns = [], proxyPolicy = None, workspacePolicy = None,
      enforceNetwork = False, allowLocalDNS = False, policyByID = Map.empty\<rparr>"

definition coarseReduceCommand :: "bytes \<Rightarrow> bytes" where
  "coarseReduceCommand pat = (case Fields pat of [] \<Rightarrow> pat | first # _ \<Rightarrow> first)"

text \<open>The valid ports of a policy; the others are ignored.\<close>

fun port_map :: "bytes list \<Rightarrow> (int \<rightharpoonup> bool)" where
  "port_map [] = Map.empty"
| "port_map (s # ss) = (case Atoi s of None \<Rightarrow> port_map ss | Some n \<Rightarrow> (port_map ss)(n \<mapsto> True))"

definition load_policy ::
  "os_env \<Rightarrow> bytes \<Rightarrow> AgentPolicy \<Rightarrow> u32 \<Rightarrow> loaded_policies \<Rightarrow> policy_error + loaded_policies" where
  "load_policy E name p pid l =
     (let named = (\<lambda>kind. (policyByID l)(pid \<mapsto>
            \<lparr>rp_Name = name, rp_Kind = kind, rp_ID = pid, rp_Feedback = ap_Feedback p\<rparr>)) in
      if ap_Confine p then
        (case workspacePolicy l of
           Some w \<Rightarrow> Inl (Multiple_confine (wp_PolicyID w))
         | None \<Rightarrow>
             and_then (resolveWorkspaceRoot E (ap_Workspace p)) (\<lambda>root.
             and_then (resolveAllowPrefixes E (ap_AllowPrefixes p) (ap_AllowHomeSuffixes p)) (\<lambda>pfxs.
               Inr (l\<lparr>policyByID := named KindWorkspace,
                      workspacePolicy := Some \<lparr>wp_PolicyID = pid, wp_Feedback = ap_Feedback p,
                        wp_Root = root, wp_AllowPrefixes = pfxs\<rparr>\<rparr>))))
      else if 0 < length (ap_PathPatterns p) then
        Inr (l\<lparr>policyByID := named KindPath,
               pathPatterns := pathPatterns l @
                 map (\<lambda>pat. \<lparr>Pattern = TrimPrefix pat [0x2a, 0x2a, SLASH], PolicyID = pid\<rparr>) (ap_PathPatterns p)\<rparr>)
      else if 0 < length (ap_AllowedHosts p) then
        Inr (l\<lparr>policyByID := named KindNetwork,
               proxyPolicy := Some \<lparr>pp_PolicyID = pid, pp_Feedback = ap_Feedback p,
                 AllowedHosts = ap_AllowedHosts p, AllowedPorts = port_map (ap_AllowedPorts p),
                 AllowIPLiteral = ap_AllowIPLiterals p\<rparr>,
               enforceNetwork := (ap_Egress p = str ''proxy_only''),
               allowLocalDNS := ap_AllowLocalDNS p\<rparr>)
      else if 0 < length (ap_CommandPatterns p) then
        Inr (l\<lparr>policyByID := named KindCommand,
               commandPatterns := commandPatterns l @
                 map (\<lambda>pat. \<lparr>Pattern = coarseReduceCommand pat, PolicyID = pid\<rparr>) (ap_CommandPatterns p)\<rparr>)
      else Inr l)"

fun load_named ::
  "os_env \<Rightarrow> u32 \<Rightarrow> (bytes \<times> AgentPolicy) list \<Rightarrow> loaded_policies \<Rightarrow> policy_error + loaded_policies" where
  "load_named E nextID [] l = Inr l"
| "load_named E nextID ((name, p) # ps) l =
     and_then (load_policy E name p nextID l) (\<lambda>l'. load_named E (nextID + 1) ps l')"

text \<open>The names are sorted, so the numbering does not depend on the order of the map.\<close>

definition by_name :: "PolicyFile \<Rightarrow> (bytes \<times> AgentPolicy) list" where
  "by_name pf = map (\<lambda>name. (name, the (map_of pf name))) (sort (map fst pf))"

definition loadAllPolicies :: "os_env \<Rightarrow> PolicyFile \<Rightarrow> policy_error + loaded_policies" where
  "loadAllPolicies E pf = load_named E 1 (by_name pf) no_policies"

section \<open>What a policy file loads\<close>

text \<open>The rules of a list of policies numbered from \<open>n\<close> on.\<close>

fun path_rules :: "u32 \<Rightarrow> (bytes \<times> AgentPolicy) list \<Rightarrow> NamedPattern list" where
  "path_rules n [] = []"
| "path_rules n ((name, p) # ps) =
     (if ap_Confine p then []
      else map (\<lambda>pat. \<lparr>Pattern = TrimPrefix pat [0x2a, 0x2a, SLASH], PolicyID = n\<rparr>) (ap_PathPatterns p)) @
     path_rules (n + 1) ps"

fun command_rules :: "u32 \<Rightarrow> (bytes \<times> AgentPolicy) list \<Rightarrow> NamedPattern list" where
  "command_rules n [] = []"
| "command_rules n ((name, p) # ps) =
     (if ap_Confine p \<or> ap_PathPatterns p \<noteq> [] \<or> ap_AllowedHosts p \<noteq> [] then []
      else map (\<lambda>pat. \<lparr>Pattern = coarseReduceCommand pat, PolicyID = n\<rparr>) (ap_CommandPatterns p)) @
     command_rules (n + 1) ps"

lemma load_named_rules:
  "load_named E n ps l = Inr l' \<Longrightarrow>
   pathPatterns l' = pathPatterns l @ path_rules n ps \<and>
   commandPatterns l' = commandPatterns l @ command_rules n ps"
proof (induction E n ps l arbitrary: l' rule: load_named.induct)
  case (2 E n name p ps l)
  from "2.prems" obtain l1 where l1: "load_policy E name p n l = Inr l1" "load_named E (n + 1) ps l1 = Inr l'"
    by (auto simp: and_then_Inr_iff)
  have "pathPatterns l1 = pathPatterns l @ path_rules n [(name, p)] \<and>
      commandPatterns l1 = commandPatterns l @ command_rules n [(name, p)]"
    using l1(1) by (auto simp: load_policy_def Let_def and_then_Inr_iff split: if_splits option.splits)
  with "2.IH" [OF l1] show ?case by simp
qed simp

text \<open>The numbers a report can carry resolve to a policy of the right kind.\<close>

definition resolves_to :: "loaded_policies \<Rightarrow> u32 \<Rightarrow> PolicyKind \<Rightarrow> bool" where
  "resolves_to l pid kind \<longleftrightarrow> (\<exists>r. policyByID l pid = Some r \<and> rp_Kind r = kind \<and> rp_ID r = pid)"

definition loaded_wf :: "u32 \<Rightarrow> loaded_policies \<Rightarrow> bool" where
  "loaded_wf n l \<longleftrightarrow>
     (\<forall>pid \<in> dom (policyByID l). 0 < pid \<and> pid < n) \<and>
     (\<forall>q \<in> set (pathPatterns l). resolves_to l (PolicyID q) KindPath) \<and>
     (\<forall>q \<in> set (commandPatterns l). resolves_to l (PolicyID q) KindCommand) \<and>
     (\<forall>w. workspacePolicy l = Some w \<longrightarrow> resolves_to l (wp_PolicyID w) KindWorkspace) \<and>
     (\<forall>p. proxyPolicy l = Some p \<longrightarrow> resolves_to l (pp_PolicyID p) KindNetwork)"

lemma no_policies_wf: "loaded_wf 1 no_policies"
  by (simp add: loaded_wf_def no_policies_def)

lemma resolves_to_upd:
  "policyByID l' = (policyByID l)(n \<mapsto> r) \<Longrightarrow> resolves_to l pid k \<Longrightarrow> pid \<noteq> n \<Longrightarrow> resolves_to l' pid k"
  by (simp add: resolves_to_def)

text \<open>The kind under which a policy is loaded: the first of its sections in the order of the switch.\<close>

definition policy_kind :: "AgentPolicy \<Rightarrow> PolicyKind option" where
  "policy_kind p =
     (if ap_Confine p then Some KindWorkspace
      else if ap_PathPatterns p \<noteq> [] then Some KindPath
      else if ap_AllowedHosts p \<noteq> [] then Some KindNetwork
      else if ap_CommandPatterns p \<noteq> [] then Some KindCommand
      else None)"

definition resolved :: "bytes \<Rightarrow> AgentPolicy \<Rightarrow> u32 \<Rightarrow> PolicyKind \<Rightarrow> ResolvedPolicy" where
  "resolved name p n k = \<lparr>rp_Name = name, rp_Kind = k, rp_ID = n, rp_Feedback = ap_Feedback p\<rparr>"

text \<open>One policy adds at most one number, and whatever it adds carries that number.\<close>

lemma load_policy_adds:
  assumes "load_policy E name p n l = Inr l'"
  shows "policyByID l' = (case policy_kind p of
      None \<Rightarrow> policyByID l | Some k \<Rightarrow> (policyByID l)(n \<mapsto> resolved name p n k))"
    and "\<forall>q \<in> set (pathPatterns l'). q \<in> set (pathPatterns l) \<or> PolicyID q = n \<and> policy_kind p = Some KindPath"
    and "\<forall>q \<in> set (commandPatterns l').
      q \<in> set (commandPatterns l) \<or> PolicyID q = n \<and> policy_kind p = Some KindCommand"
    and "\<forall>w. workspacePolicy l' = Some w \<longrightarrow>
      workspacePolicy l = Some w \<or> wp_PolicyID w = n \<and> policy_kind p = Some KindWorkspace"
    and "\<forall>q. proxyPolicy l' = Some q \<longrightarrow>
      proxyPolicy l = Some q \<or> pp_PolicyID q = n \<and> policy_kind p = Some KindNetwork"
  using assms
  by (auto simp: load_policy_def policy_kind_def resolved_def Let_def and_then_Inr_iff
      split: if_splits option.splits)

text \<open>
  The network settings: those of the last policy, in the order of the names, that is loaded as a
  network policy; an earlier one leaves nothing but its number in the registry.
\<close>

definition last_network :: "(bytes \<times> AgentPolicy) list \<Rightarrow> AgentPolicy option" where
  "last_network ps = map_option snd (find (\<lambda>(name, p). policy_kind p = Some KindNetwork) (rev ps))"

definition network_of :: "loaded_policies \<Rightarrow> AgentPolicy \<Rightarrow> bool" where
  "network_of l p \<longleftrightarrow> enforceNetwork l = (ap_Egress p = str ''proxy_only'') \<and> allowLocalDNS l = ap_AllowLocalDNS p \<and>
     (\<exists>pid. proxyPolicy l = Some \<lparr>pp_PolicyID = pid, pp_Feedback = ap_Feedback p, AllowedHosts = ap_AllowedHosts p,
        AllowedPorts = port_map (ap_AllowedPorts p), AllowIPLiteral = ap_AllowIPLiterals p\<rparr>)"

lemma load_policy_network:
  assumes "load_policy E name p n l = Inr l'"
  shows "policy_kind p = Some KindNetwork \<Longrightarrow> network_of l' p"
    and "policy_kind p \<noteq> Some KindNetwork \<Longrightarrow> proxyPolicy l' = proxyPolicy l \<and>
      enforceNetwork l' = enforceNetwork l \<and> allowLocalDNS l' = allowLocalDNS l"
  using assms
  by (auto simp: load_policy_def policy_kind_def network_of_def Let_def and_then_Inr_iff
      split: if_splits option.splits simp del: str_simps)

lemma load_named_network:
  "load_named E n ps l = Inr l' \<Longrightarrow>
   (case last_network ps of
      None \<Rightarrow> proxyPolicy l' = proxyPolicy l \<and> enforceNetwork l' = enforceNetwork l \<and>
        allowLocalDNS l' = allowLocalDNS l
    | Some p \<Rightarrow> network_of l' p)"
proof (induction E n ps l arbitrary: l' rule: load_named.induct)
  case (1 E n l)
  then show ?case by (simp add: last_network_def)
next
  case (2 E n name p ps l)
  from "2.prems" obtain l1 where l1: "load_policy E name p n l = Inr l1" "load_named E (n + 1) ps l1 = Inr l'"
    by (auto simp: and_then_Inr_iff)
  have last: "last_network ((name, p) # ps) =
      (case last_network ps of Some q \<Rightarrow> Some q | None \<Rightarrow> if policy_kind p = Some KindNetwork then Some p else None)"
    by (auto simp: last_network_def find_append split: option.splits)
  have keep: "network_of l1 q \<Longrightarrow> proxyPolicy l' = proxyPolicy l1 \<Longrightarrow> enforceNetwork l' = enforceNetwork l1 \<Longrightarrow>
      allowLocalDNS l' = allowLocalDNS l1 \<Longrightarrow> network_of l' q" for q
    by (simp add: network_of_def)
  from "2.IH" [OF l1] load_policy_network [OF l1(1)] keep show ?case
    unfolding last by (auto split: option.splits)
qed

lemma load_policy_wf:
  assumes "loaded_wf n l" "load_policy E name p n l = Inr l'" "0 < n" "n < n + 1"
  shows "loaded_wf (n + 1) l'"
proof -
  note adds = load_policy_adds [OF assms(2)]
  have "resolves_to l pid k \<Longrightarrow> pid \<noteq> n" for pid k
    using assms(1) by (auto simp: loaded_wf_def resolves_to_def)
  then have keep: "resolves_to l pid k \<Longrightarrow> resolves_to l' pid k" for pid k
    by (auto simp: resolves_to_def adds(1) split: option.splits)
  have new: "policy_kind p = Some k \<Longrightarrow> resolves_to l' n k" for k
    by (simp add: resolves_to_def adds(1) resolved_def)
  have "\<forall>pid \<in> dom (policyByID l). 0 < pid \<and> pid < n + 1"
    using assms(1,4) by (auto simp: loaded_wf_def) (meson domI order.strict_trans)
  then have "\<forall>pid \<in> dom (policyByID l'). 0 < pid \<and> pid < n + 1"
    using assms(3,4) by (auto simp: adds(1) split: option.splits if_splits)
  moreover have "\<forall>q \<in> set (pathPatterns l'). resolves_to l' (PolicyID q) KindPath"
    using adds(2) keep new assms(1) unfolding loaded_wf_def by metis
  moreover have "\<forall>q \<in> set (commandPatterns l'). resolves_to l' (PolicyID q) KindCommand"
    using adds(3) keep new assms(1) unfolding loaded_wf_def by metis
  moreover have "\<forall>w. workspacePolicy l' = Some w \<longrightarrow> resolves_to l' (wp_PolicyID w) KindWorkspace"
    using adds(4) keep new assms(1) unfolding loaded_wf_def by metis
  moreover have "\<forall>q. proxyPolicy l' = Some q \<longrightarrow> resolves_to l' (pp_PolicyID q) KindNetwork"
    using adds(5) keep new assms(1) unfolding loaded_wf_def by metis
  ultimately show ?thesis unfolding loaded_wf_def by blast
qed

lemma u32_succ: "unat n + 1 < 2 ^ 32 \<Longrightarrow> unat (n + 1 :: u32) = unat n + 1 \<and> n < n + 1 \<and> 0 < n + 1"
  by (simp add: word_less_nat_alt unat_word_ariths)

lemma load_named_wf:
  assumes "load_named E n ps l = Inr l'" "loaded_wf n l" "0 < n" "unat n + length ps < 2 ^ 32"
  shows "\<exists>m. loaded_wf m l'"
  using assms
proof (induction E n ps l rule: load_named.induct)
  case (2 E n name p ps l)
  from "2.prems"(1) obtain l1 where
    l1: "load_policy E name p n l = Inr l1" "load_named E (n + 1) ps l1 = Inr l'"
    by (auto simp: and_then_Inr_iff)
  have n: "unat (n + 1) = unat n + 1" "n < n + 1" "0 < n + 1" using u32_succ [of n] "2.prems"(4) by auto
  show ?case
    using "2.IH" [OF l1 load_policy_wf [OF "2.prems"(2) l1(1) "2.prems"(3) n(2)] n(3)] n(1) "2.prems"(4)
    by simp
qed auto

lemma loadAllPolicies_wf:
  assumes "loadAllPolicies E pf = Inr l" "length pf < 2 ^ 32 - 1"
  obtains m where "loaded_wf m l"
proof -
  have "unat (1 :: u32) + length (by_name pf) < 2 ^ 32" using assms(2) by (simp add: by_name_def)
  from load_named_wf [OF _ no_policies_wf _ this] assms(1) that show thesis
    by (auto simp: loadAllPolicies_def)
qed

lemma loadAllPolicies_rules:
  "loadAllPolicies E pf = Inr l \<Longrightarrow>
   pathPatterns l = path_rules 1 (by_name pf) \<and> commandPatterns l = command_rules 1 (by_name pf)"
  using load_named_rules [of E 1 "by_name pf" no_policies l]
  by (simp add: loadAllPolicies_def no_policies_def)

section \<open>Numbers and names\<close>

lemma load_named_ids:
  assumes "load_named E n ps l = Inr l'" "unat n + length ps < 2 ^ 32"
  shows "policyByID l' i =
    (if unat n \<le> unat i \<and> unat i < unat n + length ps
     then let (name, p) = ps ! (unat i - unat n) in
       (case policy_kind p of None \<Rightarrow> policyByID l i | Some k \<Rightarrow> Some (resolved name p i k))
     else policyByID l i)"
  using assms
proof (induction E n ps l rule: load_named.induct)
  case (2 E n name p ps l)
  from "2.prems"(1) obtain l1 where
    l1: "load_policy E name p n l = Inr l1" "load_named E (n + 1) ps l1 = Inr l'"
    by (auto simp: and_then_Inr_iff)
  have n: "unat (n + 1) = unat n + 1" using u32_succ [of n] "2.prems"(2) by simp
  have step: "policyByID l1 i =
      (if i = n then (case policy_kind p of None \<Rightarrow> policyByID l i | Some k \<Rightarrow> Some (resolved name p i k))
       else policyByID l i)"
    by (simp add: load_policy_adds(1) [OF l1(1)] split: option.splits)
  have IH: "policyByID l' i =
    (if unat n + 1 \<le> unat i \<and> unat i < unat n + 1 + length ps
     then let (name, p) = ps ! (unat i - (unat n + 1)) in
       (case policy_kind p of None \<Rightarrow> policyByID l1 i | Some k \<Rightarrow> Some (resolved name p i k))
     else policyByID l1 i)"
    using "2.IH" [OF l1] "2.prems"(2) by (simp only: n) simp
  consider "i = n" | "unat n + 1 \<le> unat i" | "unat i < unat n"
    by (metis Suc_eq_plus1 linorder_neqE_nat not_less_eq_eq word_unat_eq_iff not_less)
  then show ?case
  proof cases
    case 2
    then have "(((name, p) # ps) ! (unat i - unat n)) = ps ! (unat i - (unat n + 1))" "i \<noteq> n"
      by (auto simp: nth_Cons')
    with 2 IH step show ?thesis by (simp split: option.splits prod.splits)
  qed (use IH step in auto)
qed auto

lemma path_rules_iff:
  "q \<in> set (path_rules n ps) \<longleftrightarrow>
   (\<exists>j < length ps. \<not> ap_Confine (snd (ps ! j)) \<and> PolicyID q = n + of_nat j \<and>
      (\<exists>pat \<in> set (ap_PathPatterns (snd (ps ! j))). Pattern q = TrimPrefix pat [0x2a, 0x2a, SLASH]))"
proof (induction n ps rule: path_rules.induct)
  case (2 n name p ps)
  have "(\<exists>j < length ((name, p) # ps). Q j) \<longleftrightarrow> Q 0 \<or> (\<exists>j < length ps. Q (Suc j))" for Q
    by (auto simp: less_Suc_eq_0_disj)
  with 2 show ?case by (cases q) (auto simp: add.assoc)
qed simp

lemma by_name_set:
  assumes "distinct (map fst pf)"
  shows "set (by_name pf) = set pf"
proof -
  have "set (by_name pf) = (\<lambda>name. (name, the (map_of pf name))) ` fst ` set pf"
    by (simp add: by_name_def)
  also have "\<dots> = (\<lambda>e. (fst e, the (map_of pf (fst e)))) ` set pf"
    by (simp add: image_image)
  also have "\<dots> = (\<lambda>e. e) ` set pf"
    using assms by (intro image_cong) (auto simp: map_of_is_SomeI)
  finally show ?thesis by simp
qed

lemma length_by_name [simp]: "length (by_name pf) = length pf"
  by (simp add: by_name_def)

text \<open>The order of the entries does not matter.\<close>

lemma by_name_perm:
  assumes "distinct (map fst pf)" "mset pf = mset pf'"
  shows "by_name pf' = by_name pf"
proof -
  have d: "distinct (map fst pf')"
    using assms by (metis mset_eq_imp_distinct_iff mset_map)
  have "set pf = set pf'" using assms(2) by (rule mset_eq_setD)
  then have "map_of pf = map_of pf'"
    using assms(1) d by (metis map_of_inject_set)
  moreover have "sort (map fst pf) = sort (map fst pf')"
    using assms(2) by (metis mset_map sorted_list_of_multiset_mset)
  ultimately show ?thesis by (simp add: by_name_def)
qed

lemma by_name_distinct: "distinct (map fst pf) \<Longrightarrow> distinct (map fst (by_name pf))"
  by (simp add: by_name_def comp_def)

text \<open>The registry, entry by entry: the policy at position \<open>j\<close> of the sorted names has number \<open>j + 1\<close>.\<close>

lemma registry_iff:
  assumes "loadAllPolicies E pf = Inr l" "length pf < 2 ^ 32 - 1"
  shows "policyByID l i = Some r \<longleftrightarrow>
    (\<exists>j name p k. j < length pf \<and> unat i = j + 1 \<and> by_name pf ! j = (name, p) \<and> policy_kind p = Some k \<and>
       r = resolved name p i k)"
proof -
  have none: "policyByID no_policies i = None" by (simp add: no_policies_def)
  have ids: "policyByID l i =
    (if 1 \<le> unat i \<and> unat i < 1 + length pf
     then let (name, p) = by_name pf ! (unat i - 1) in
       (case policy_kind p of None \<Rightarrow> None | Some k \<Rightarrow> Some (resolved name p i k))
     else None)"
    using load_named_ids [of E 1 "by_name pf" no_policies l i, folded loadAllPolicies_def, OF assms(1)] assms(2)
    unfolding none by (simp add: case_prod_beta)
  show ?thesis
  proof (cases "1 \<le> unat i \<and> unat i < 1 + length pf")
    case True
    obtain name p where np: "by_name pf ! (unat i - 1) = (name, p)" by fastforce
    have "policyByID l i = Some r \<longleftrightarrow> (\<exists>k. policy_kind p = Some k \<and> r = resolved name p i k)"
      using True np by (simp add: ids split: option.splits) auto
    also have "\<dots> \<longleftrightarrow> (\<exists>j name p k. j < length pf \<and> unat i = j + 1 \<and> by_name pf ! j = (name, p) \<and>
        policy_kind p = Some k \<and> r = resolved name p i k)" (is "_ \<longleftrightarrow> ?r")
    proof
      assume "\<exists>k. policy_kind p = Some k \<and> r = resolved name p i k"
      moreover have "unat i - 1 < length pf" "unat i = unat i - 1 + 1" using True by auto
      ultimately show ?r using np by blast
    next
      assume ?r
      then show "\<exists>k. policy_kind p = Some k \<and> r = resolved name p i k" using np by auto
    qed
    finally show ?thesis .
  next
    case False
    then show ?thesis unfolding ids by auto
  qed
qed

text \<open>The registry holds policies of the file only, each under its own number, and all of them.\<close>

lemma registry_from_file:
  assumes "loadAllPolicies E pf = Inr l" "distinct (map fst pf)" "length pf < 2 ^ 32 - 1"
    and "policyByID l i = Some r"
  shows "\<exists>p. (rp_Name r, p) \<in> set pf \<and> rp_Feedback r = ap_Feedback p \<and> rp_ID r = i \<and>
    policy_kind p = Some (rp_Kind r) \<and> r = resolved (rp_Name r) p i (rp_Kind r)"
proof -
  obtain j name p k where r: "j < length pf" "by_name pf ! j = (name, p)" "policy_kind p = Some k"
      "r = resolved name p i k"
    using assms(4) registry_iff [OF assms(1,3)] by blast
  then have "(name, p) \<in> set pf"
    using by_name_set [OF assms(2)] nth_mem [of j "by_name pf"] by simp
  then show ?thesis using r(3,4) by (intro exI [of _ p]) (simp add: resolved_def)
qed

lemma registry_complete:
  assumes "loadAllPolicies E pf = Inr l" "distinct (map fst pf)" "length pf < 2 ^ 32 - 1"
    and "(name, p) \<in> set pf" "policy_kind p = Some k"
  shows "\<exists>i. policyByID l i = Some (resolved name p i k)"
proof -
  obtain j where j: "j < length pf" "by_name pf ! j = (name, p)"
    using assms(4) by_name_set [OF assms(2)] by (metis in_set_conv_nth length_by_name)
  have "unat (of_nat (j + 1) :: u32) = j + 1" using j(1) assms(3) by (simp only: unat_of_nat) simp
  then show ?thesis using j assms(5) registry_iff [OF assms(1,3)] by blast
qed

lemma registry_name_inj:
  assumes "loadAllPolicies E pf = Inr l" "distinct (map fst pf)" "length pf < 2 ^ 32 - 1"
    and "policyByID l i = Some r" "policyByID l i' = Some r'" "rp_Name r = rp_Name r'"
  shows "r = r'"
proof -
  note ex = registry_iff [OF assms(1,3)]
  obtain j p where j: "j < length pf" "unat i = j + 1" "by_name pf ! j = (rp_Name r, p)"
    using assms(4) ex by (fastforce simp: resolved_def)
  obtain j' p' where j': "j' < length pf" "unat i' = j' + 1" "by_name pf ! j' = (rp_Name r', p')"
    using assms(5) ex by (fastforce simp: resolved_def)
  have "map fst (by_name pf) ! j = map fst (by_name pf) ! j'" using j j' assms(6) by simp
  then have "j = j'" using by_name_distinct [OF assms(2)] j(1) j'(1) by (subst (asm) nth_eq_iff_index_eq) simp_all
  then have "i = i'" using j(2) j'(2) by (simp add: word_unat_eq_iff)
  then show ?thesis using assms(4,5) by simp
qed

text \<open>Every rule carries the number of the policy it comes from, and every pattern becomes a rule.\<close>

lemma loaded_path_rule:
  assumes "loadAllPolicies E pf = Inr l" "distinct (map fst pf)" "length pf < 2 ^ 32 - 1"
  shows "q \<in> set (pathPatterns l) \<Longrightarrow>
      \<exists>(name, p) \<in> set pf. \<not> ap_Confine p \<and> policyByID l (PolicyID q) = Some (resolved name p (PolicyID q) KindPath) \<and>
        (\<exists>pat \<in> set (ap_PathPatterns p). Pattern q = TrimPrefix pat [0x2a, 0x2a, SLASH])"
    and "(name, p) \<in> set pf \<Longrightarrow> \<not> ap_Confine p \<Longrightarrow> pat \<in> set (ap_PathPatterns p) \<Longrightarrow>
      \<exists>q \<in> set (pathPatterns l). Pattern q = TrimPrefix pat [0x2a, 0x2a, SLASH] \<and>
        policyByID l (PolicyID q) = Some (resolved name p (PolicyID q) KindPath)"
proof -
  have ids: "policyByID l (1 + of_nat j) = Some (resolved name p (1 + of_nat j) KindPath)"
    if "j < length pf" "by_name pf ! j = (name, p)" "\<not> ap_Confine p" "ap_PathPatterns p \<noteq> []" for j name p
  proof -
    have "unat (1 + of_nat j :: u32) = 1 + j"
      using that(1) assms(3) by (simp add: unat_word_ariths unat_of_nat)
    then show ?thesis
      using load_named_ids [of E 1 "by_name pf" no_policies l "1 + of_nat j"] assms that
      by (simp add: loadAllPolicies_def policy_kind_def)
  qed
  have rules: "pathPatterns l = path_rules 1 (by_name pf)"
    using loadAllPolicies_rules [OF assms(1)] by simp
  show "q \<in> set (pathPatterns l) \<Longrightarrow>
      \<exists>(name, p) \<in> set pf. \<not> ap_Confine p \<and> policyByID l (PolicyID q) = Some (resolved name p (PolicyID q) KindPath) \<and>
        (\<exists>pat \<in> set (ap_PathPatterns p). Pattern q = TrimPrefix pat [0x2a, 0x2a, SLASH])"
  proof -
    assume "q \<in> set (pathPatterns l)"
    then obtain j pat where j: "j < length pf" "\<not> ap_Confine (snd (by_name pf ! j))"
      "PolicyID q = 1 + of_nat j" "pat \<in> set (ap_PathPatterns (snd (by_name pf ! j)))"
      "Pattern q = TrimPrefix pat [0x2a, 0x2a, SLASH]"
      unfolding rules path_rules_iff by auto
    have "by_name pf ! j \<in> set pf" using j(1) by_name_set [OF assms(2)] nth_mem [of j "by_name pf"] by simp
    moreover have "ap_PathPatterns (snd (by_name pf ! j)) \<noteq> []" using j(4) by auto
    then have "policyByID l (PolicyID q) =
        Some (resolved (fst (by_name pf ! j)) (snd (by_name pf ! j)) (PolicyID q) KindPath)"
      using ids [OF j(1), of "fst (by_name pf ! j)" "snd (by_name pf ! j)"] j by auto
    ultimately show ?thesis
      using j by (intro bexI [of _ "by_name pf ! j"]) (auto simp: case_prod_beta)
  qed
  show "\<exists>q \<in> set (pathPatterns l). Pattern q = TrimPrefix pat [0x2a, 0x2a, SLASH] \<and>
      policyByID l (PolicyID q) = Some (resolved name p (PolicyID q) KindPath)"
    if p: "(name, p) \<in> set pf" "\<not> ap_Confine p" "pat \<in> set (ap_PathPatterns p)"
  proof -
    obtain j where j: "j < length pf" "by_name pf ! j = (name, p)"
      using p(1) by_name_set [OF assms(2)] by (metis in_set_conv_nth length_by_name)
    let ?q = "\<lparr>Pattern = TrimPrefix pat [0x2a, 0x2a, SLASH], PolicyID = 1 + of_nat j\<rparr>"
    have "?q \<in> set (pathPatterns l)" unfolding rules path_rules_iff using j p by force
    moreover have "ap_PathPatterns p \<noteq> []" using p(3) by auto
    ultimately show ?thesis using ids [OF j p(2)] by (intro bexI [of _ ?q]) simp_all
  qed
qed

section \<open>Resolved paths\<close>

lemma Clean_nonempty: "Clean p \<noteq> []"
  by (auto simp: Clean_def render_def Let_def)

lemma real_path_nonempty: "real_path E p \<noteq> []"
  by (simp add: real_path_def Clean_nonempty)

lemma resolveWorkspaceRoot_props:
  "resolveWorkspaceRoot E w = Inr r \<Longrightarrow> r \<noteq> [] \<and> length r \<le> 255 \<and> r \<noteq> [SLASH]"
  by (auto simp: resolveWorkspaceRoot_def Let_def and_then_Inr_iff maxWorkspaceRootLen_def real_path_nonempty
      split: if_splits)

lemma resolveOnePrefix_props: "resolveOnePrefix E w = Inr r \<Longrightarrow> r \<noteq> [] \<and> length r \<le> 64"
  by (auto simp: resolveOnePrefix_def Let_def and_then_Inr_iff slot_limits real_path_nonempty
      split: if_splits)

definition prefixes_ok :: "bytes \<Rightarrow> bytes list \<Rightarrow> bool" where
  "prefixes_ok home out \<longleftrightarrow>
     distinct out \<and> (\<forall>p \<in> set out. p \<noteq> [] \<and> length p \<le> 64 \<and> \<not> isDangerousAllowPrefix p home)"

lemma add_prefix_ok:
  "\<lbrakk>prefixes_ok home out; p \<noteq> []; length p \<le> 64; add_prefix home p out = Inr out'\<rbrakk> \<Longrightarrow> prefixes_ok home out'"
  by (auto simp: add_prefix_def prefixes_ok_def split: if_splits)

lemma add_prefixes_ok:
  "\<lbrakk>prefixes_ok home out; add_prefixes E home raws out = Inr out'\<rbrakk> \<Longrightarrow> prefixes_ok home out'"
  by (induction raws arbitrary: out)
     (auto simp: and_then_Inr_iff dest!: resolveOnePrefix_props intro: add_prefix_ok)

lemma add_home_suffixes_ok:
  "\<lbrakk>prefixes_ok home out; add_home_suffixes E home sufs out = Inr out'\<rbrakk> \<Longrightarrow> prefixes_ok home out'"
  by (induction sufs arbitrary: out)
     (auto simp: and_then_Inr_iff Let_def dest!: resolveOnePrefix_props intro: add_prefix_ok split: if_splits)

lemma resolveAllowPrefixes_ok:
  assumes "resolveAllowPrefixes E pfxs sufs = Inr out"
  obtains home where "agentHomeDir E = Some home" "prefixes_ok home out" "length out \<le> 25"
proof -
  from assms obtain home o1 where home: "agentHomeDir E = Some home"
    "add_prefixes E home pfxs [] = Inr o1" "add_home_suffixes E home sufs o1 = Inr out" "length out \<le> 25"
    by (auto simp: resolveAllowPrefixes_def and_then_Inr_iff maxAllowPrefixSlots_def
        split: option.splits if_splits)
  have "prefixes_ok home []" by (simp add: prefixes_ok_def)
  with home that show thesis using add_prefixes_ok add_home_suffixes_ok by blast
qed

text \<open>A workspace policy that was resolved fits the tables.\<close>

definition workspace_fits :: "os_env \<Rightarrow> WorkspacePolicy \<Rightarrow> bool" where
  "workspace_fits E w \<longleftrightarrow>
     wp_Root w \<noteq> [] \<and> wp_Root w \<noteq> [SLASH] \<and> length (wp_Root w) \<le> 255 \<and>
     length (wp_AllowPrefixes w) \<le> 25 \<and>
     (\<exists>home. agentHomeDir E = Some home \<and> prefixes_ok home (wp_AllowPrefixes w))"

lemma load_policy_workspace:
  assumes "load_policy E name p n l = Inr l'" "\<forall>w. workspacePolicy l = Some w \<longrightarrow> workspace_fits E w"
  shows "\<forall>w. workspacePolicy l' = Some w \<longrightarrow> workspace_fits E w"
proof (intro allI impI)
  fix w assume w: "workspacePolicy l' = Some w"
  show "workspace_fits E w"
  proof (cases "workspacePolicy l = Some w")
    case True
    then show ?thesis using assms(2) by blast
  next
    case False
    with assms(1) w obtain root pfxs where
      "resolveWorkspaceRoot E (ap_Workspace p) = Inr root"
      "resolveAllowPrefixes E (ap_AllowPrefixes p) (ap_AllowHomeSuffixes p) = Inr pfxs"
      "wp_Root w = root" "wp_AllowPrefixes w = pfxs"
      by (auto simp: load_policy_def Let_def and_then_Inr_iff split: if_splits option.splits)
    then show ?thesis
      using resolveWorkspaceRoot_props resolveAllowPrefixes_ok unfolding workspace_fits_def by metis
  qed
qed

lemma load_named_workspace:
  "load_named E n ps l = Inr l' \<Longrightarrow> \<forall>w. workspacePolicy l = Some w \<longrightarrow> workspace_fits E w \<Longrightarrow>
   \<forall>w. workspacePolicy l' = Some w \<longrightarrow> workspace_fits E w"
proof (induction E n ps l rule: load_named.induct)
  case (2 E n name p ps l)
  then obtain l1 where "load_policy E name p n l = Inr l1" "load_named E (n + 1) ps l1 = Inr l'"
    by (auto simp: and_then_Inr_iff)
  with "2.IH" load_policy_workspace "2.prems"(2) show ?case by blast
qed auto

lemma loadAllPolicies_workspace:
  "loadAllPolicies E pf = Inr l \<Longrightarrow> workspacePolicy l = Some w \<Longrightarrow> workspace_fits E w"
  using load_named_workspace [of E 1 "by_name pf" no_policies l]
  by (auto simp: loadAllPolicies_def no_policies_def)

section \<open>Properties\<close>

text \<open>A machine whose working directory is \<open>/ws\<close> and that has no symbolic links.\<close>

definition sample_os :: os_env where
  "sample_os = \<lparr>Getwd = Some (str ''/ws''), EvalSymlinks = Some, UserHomeDir = Some (str ''/home/a''),
     Geteuid_root = False, Getenv = (\<lambda>_. []), users = \<lparr>user_Lookup = (\<lambda>_. None), user_LookupId = (\<lambda>_. None)\<rparr>\<rparr>"

lemma sample_home: "agentHomeDir sample_os = Some (str ''/home/a'')"
  by (simp add: agentHomeDir_def sudoLaunchIdentity_def sample_os_def)

definition empty_policy :: AgentPolicy where
  "empty_policy =
     \<lparr>ap_Description = [], ap_PathPatterns = [], ap_CommandPatterns = [], ap_AllowedHosts = [], ap_AllowedPorts = [],
      ap_Egress = [], ap_AllowLocalDNS = False, ap_Listen = [], ap_RequireSNIMatch = False,
      ap_AllowIPLiterals = False, ap_Confine = False, ap_Workspace = [], ap_AllowPrefixes = [],
      ap_AllowHomeSuffixes = [], ap_Feedback = []\<rparr>"

definition sample_path_policy :: AgentPolicy where
  "sample_path_policy = empty_policy\<lparr>ap_PathPatterns := [str ''**/.env''], ap_Feedback := str ''no %s''\<rparr>"

definition sample_confine_policy :: AgentPolicy where
  "sample_confine_policy = empty_policy\<lparr>ap_Confine := True, ap_AllowPrefixes := [str ''/usr'']\<rparr>"

lemma sample_file_loads:
  "\<exists>l. loadAllPolicies E [(str ''creds'', sample_path_policy)] = Inr l"
  by (simp add: loadAllPolicies_def by_name_def load_policy_def sample_path_policy_def empty_policy_def no_policies_def)

text \<open>
  C15 (invariant): rules and policies agree: after loading, every path rule carries the number
  under which the registry holds the name and the feedback of the policy it comes from, and every
  path pattern of every policy that does not confine has become a rule.
\<close>

theorem rules_carry_their_policy:
  assumes "loadAllPolicies E pf = Inr l" "distinct (map fst pf)" "length pf < 2 ^ 32 - 1"
  shows "(\<forall>q \<in> set (pathPatterns l). \<exists>(name, p) \<in> set pf. \<not> ap_Confine p \<and>
      policyByID l (PolicyID q) =
        Some \<lparr>rp_Name = name, rp_Kind = KindPath, rp_ID = PolicyID q, rp_Feedback = ap_Feedback p\<rparr> \<and>
      (\<exists>pat \<in> set (ap_PathPatterns p). Pattern q = TrimPrefix pat (str ''**/''))) \<and>
    (\<forall>(name, p) \<in> set pf. \<forall>pat \<in> set (ap_PathPatterns p). \<not> ap_Confine p \<longrightarrow>
      (\<exists>q \<in> set (pathPatterns l). Pattern q = TrimPrefix pat (str ''**/'') \<and>
         map_option rp_Name (policyByID l (PolicyID q)) = Some name))"
proof (intro conjI ballI)
  have s: "str ''**/'' = [0x2a, 0x2a, SLASH]" by simp
  note r = loaded_path_rule [OF assms]
  show "\<exists>(name, p) \<in> set pf. \<not> ap_Confine p \<and> policyByID l (PolicyID q) =
        Some \<lparr>rp_Name = name, rp_Kind = KindPath, rp_ID = PolicyID q, rp_Feedback = ap_Feedback p\<rparr> \<and>
      (\<exists>pat \<in> set (ap_PathPatterns p). Pattern q = TrimPrefix pat (str ''**/''))"
    if "q \<in> set (pathPatterns l)" for q
    using r(1) [OF that] unfolding s resolved_def by blast
  show "case e of (name, p) \<Rightarrow> \<forall>pat \<in> set (ap_PathPatterns p). \<not> ap_Confine p \<longrightarrow>
      (\<exists>q \<in> set (pathPatterns l). Pattern q = TrimPrefix pat (str ''**/'') \<and>
         map_option rp_Name (policyByID l (PolicyID q)) = Some name)" if "e \<in> set pf" for e
  proof -
    obtain name p where e: "e = (name, p)" by (cases e)
    with that have "(name, p) \<in> set pf" by simp
    from r(2) [OF this] show ?thesis unfolding e s resolved_def by fastforce
  qed
qed

theorem rules_carry_their_policy_witness:
  "\<exists>l. loadAllPolicies sample_os [(str ''creds'', sample_path_policy)] = Inr l \<and>
     (\<exists>q \<in> set (pathPatterns l). Pattern q = str ''.env'')"
proof -
  obtain l where l: "loadAllPolicies sample_os [(str ''creds'', sample_path_policy)] = Inr l"
    using sample_file_loads by blast
  have "TrimPrefix (str ''**/.env'') (str ''**/'') = str ''.env''" by (simp add: TrimPrefix_def)
  then show ?thesis
    using rules_carry_their_policy [OF l] l
    by (auto simp: sample_path_policy_def empty_policy_def simp del: str_simps)
qed

text \<open>
  Numbering is deterministic: the entries of the policy map may come in any
  order, the loaded rules, numbers and errors are the same.
\<close>

theorem policy_order_irrelevant:
  assumes "distinct (map fst pf)" "mset pf = mset pf'"
  shows "loadAllPolicies E pf' = loadAllPolicies E pf"
  by (simp add: loadAllPolicies_def by_name_perm [OF assms])

theorem policy_order_irrelevant_witness:
  "loadAllPolicies sample_os [(str ''b'', sample_path_policy), (str ''a'', sample_confine_policy)] =
   loadAllPolicies sample_os [(str ''a'', sample_confine_policy), (str ''b'', sample_path_policy)]"
  by (rule policy_order_irrelevant) simp_all

text \<open>
  C16 (bounds): a workspace policy that resolves also loads: its root is not \<open>/\<close>, its prefixes are
  distinct, none of them is \<open>/\<close>, \<open>/home\<close> or the agent's home directory, and root and prefixes fit
  the kernel's tables, so \<open>applyWorkspacePolicy\<close> succeeds on every well-formed state.
\<close>

theorem resolved_workspace_loads:
  assumes "loadAllPolicies E pf = Inr l" "workspacePolicy l = Some w" "enforcer_wf s"
  shows "(\<exists>s'. applyWorkspacePolicy s (Some w) = Inr s') \<and> wp_Root w \<noteq> [SLASH] \<and>
    distinct (wp_AllowPrefixes w) \<and> [SLASH] \<notin> set (wp_AllowPrefixes w) \<and>
    str ''/home'' \<notin> set (wp_AllowPrefixes w) \<and>
    (\<exists>home. agentHomeDir E = Some home \<and> (home \<noteq> [] \<longrightarrow> Clean home \<notin> set (wp_AllowPrefixes w)))"
proof -
  have fits: "workspace_fits E w" using loadAllPolicies_workspace [OF assms(1,2)] .
  then obtain home where home: "agentHomeDir E = Some home" "prefixes_ok home (wp_AllowPrefixes w)"
    by (auto simp: workspace_fits_def)
  have "\<exists>s'. applyWorkspacePolicy s (Some w) = Inr s'"
    using fits by (intro applyWorkspacePolicy_ok assms(3)) (auto simp: workspace_fits_def prefixes_ok_def)
  moreover have "\<forall>p \<in> set (wp_AllowPrefixes w).
      p \<noteq> [SLASH] \<and> p \<noteq> str ''/home'' \<and> (home \<noteq> [] \<longrightarrow> p \<noteq> Clean home)"
    using home(2) by (auto simp: prefixes_ok_def isDangerousAllowPrefix_def split: if_splits)
  ultimately show ?thesis
    using fits home by (auto simp: workspace_fits_def prefixes_ok_def)
qed

lemma sample_confine_loads:
  "\<exists>l w. loadAllPolicies sample_os [(str ''ws'', sample_confine_policy)] = Inr l \<and> workspacePolicy l = Some w \<and>
     wp_Root w = str ''/ws'' \<and> wp_AllowPrefixes w = [str ''/usr'']"
proof -
  have t: "TrimSpace (str ''/usr'') = str ''/usr''"
    by (simp add: TrimSpace_def trim_left.simps trim_right.simps space_encodings_def suffix_def
        append_eq_Cons_conv)
  have c: "Clean (str ''/usr'') = str ''/usr''" "Clean (str ''/ws'') = str ''/ws''" "Clean (str ''/home/a'') = str ''/home/a''"
    by (simp_all add: Clean_def IsAbs_def render_def)
  have a: "IsAbs (str ''/usr'')" "IsAbs (str ''/ws'')" by (simp_all add: IsAbs_def)
  have r: "resolveWorkspaceRoot sample_os [] = Inr (str ''/ws'')"
    using c a t by (simp add: resolveWorkspaceRoot_def sample_os_def abs_in_def real_path_def
        maxWorkspaceRootLen_def)
  have "resolveOnePrefix sample_os (str ''/usr'') = Inr (str ''/usr'')"
    using c a t by (simp add: resolveOnePrefix_def sample_os_def abs_in_def real_path_def slot_limits)
  then have "resolveAllowPrefixes sample_os [str ''/usr''] [] = Inr [str ''/usr'']"
    using c by (simp add: resolveAllowPrefixes_def sample_home add_prefix_def isDangerousAllowPrefix_def
        maxAllowPrefixSlots_def)
  with r show ?thesis
    by (simp add: loadAllPolicies_def by_name_def load_policy_def sample_confine_policy_def empty_policy_def
        no_policies_def del: str_simps)
qed

theorem resolved_workspace_loads_witness:
  "\<exists>w s'. applyWorkspacePolicy sample (Some w) = Inr s' \<and> wp_Root w = str ''/ws''"
proof -
  obtain l w where "loadAllPolicies sample_os [(str ''ws'', sample_confine_policy)] = Inr l"
    "workspacePolicy l = Some w" "wp_Root w = str ''/ws''"
    using sample_confine_loads by blast
  with resolved_workspace_loads [OF this(1,2) sample_wf] show ?thesis by blast
qed

text \<open>
  Only the first section of a policy is loaded: the command patterns of a policy that
  also has path patterns, allowed hosts or confinement are dropped without an error.
\<close>

theorem first_section_only:
  assumes "ap_Confine p \<or> ap_PathPatterns p \<noteq> [] \<or> ap_AllowedHosts p \<noteq> []"
    and "loadAllPolicies E [(name, p)] = Inr l"
  shows "commandPatterns l = []"
  using loadAllPolicies_rules [OF assms(2)] assms(1) by (auto simp: by_name_def)

theorem first_section_only_witness:
  "\<exists>l. loadAllPolicies sample_os [(str ''both'', sample_path_policy\<lparr>ap_CommandPatterns := [str ''rm'']\<rparr>)] = Inr l \<and>
     commandPatterns l = []"
proof -
  let ?p = "sample_path_policy\<lparr>ap_CommandPatterns := [str ''rm'']\<rparr>"
  obtain l where l: "loadAllPolicies sample_os [(str ''both'', ?p)] = Inr l"
    by (auto simp: loadAllPolicies_def by_name_def load_policy_def sample_path_policy_def empty_policy_def
        no_policies_def)
  with first_section_only [OF _ l] show ?thesis by (auto simp: sample_path_policy_def)
qed

end
