(* ===== verification/Audit_Log.thy ===== *)
theory Audit_Log
  imports Policy_File
begin

text \<open>
  What the daemon says about a violation: \<open>formatFeedbackReason\<close> and \<open>policyNameForID\<close> of
  \<open>main.go\<close> and the audit table of \<open>db.go\<close> with \<open>recordViolation\<close>, \<open>insertEvent\<close>, \<open>queryEvents\<close> and
  \<open>lastBlockedEvent\<close>. The table is the list of its rows, the row id counting from 1; whether a
  statement succeeds is an argument. A time written in RFC 3339 is the number of its second, and
  the JSON payload of a row is the value it encodes. The verbs of \<open>fmt.Sprintf\<close> other than \<open>%s\<close>,
  \<open>%v\<close> and \<open>%%\<close> are an argument.
\<close>

section \<open>Feedback text\<close>

abbreviation PERCENT :: u8 where "PERCENT \<equiv> 0x25"

text \<open>
  \<open>fmt.Sprintf(format, arg)\<close> for one string argument: \<open>used\<close> says whether it was printed. Too
  few and too many arguments are reported in the text, as documented for the package.
\<close>

type_synonym other_verbs = "bool \<Rightarrow> bytes \<Rightarrow> bytes \<Rightarrow> bytes"

definition extra_arg :: "bool \<Rightarrow> bytes \<Rightarrow> bytes" where
  "extra_arg used arg = (if used then [] else str ''%!(EXTRA string='' @ arg @ str '')'')"

fun sprintf_from :: "other_verbs \<Rightarrow> bool \<Rightarrow> bytes \<Rightarrow> bytes \<Rightarrow> bytes" where
  "sprintf_from V used arg [] = extra_arg used arg"
| "sprintf_from V used arg [b] =
     (if b = PERCENT then str ''%!(NOVERB)'' @ extra_arg used arg else b # extra_arg used arg)"
| "sprintf_from V used arg (b # c # s) =
     (if b \<noteq> PERCENT then b # sprintf_from V used arg (c # s)
      else if c = PERCENT then PERCENT # sprintf_from V used arg s
      else if c = 0x73 \<or> c = 0x76 then
        (if used then str ''%!'' @ [c] @ str ''(MISSING)'' else arg) @ sprintf_from V True arg s
      else V used arg (b # c # s))"

definition Sprintf1 :: "other_verbs \<Rightarrow> bytes \<Rightarrow> bytes \<Rightarrow> bytes" where
  "Sprintf1 V fmt arg = sprintf_from V False arg fmt"

definition formatFeedbackReason ::
  "other_verbs \<Rightarrow> (u32 \<rightharpoonup> ResolvedPolicy) \<Rightarrow> u32 \<Rightarrow> bytes \<Rightarrow> bytes" where
  "formatFeedbackReason V policies policyType path =
     (case policies policyType of
        None \<Rightarrow> str ''Action blocked by security policy.''
      | Some p \<Rightarrow>
          if Contains (rp_Feedback p) [PERCENT, 0x73] then Sprintf1 V (rp_Feedback p) path
          else rp_Feedback p)"

definition policyNameForID :: "(u32 \<rightharpoonup> ResolvedPolicy) \<Rightarrow> u32 \<Rightarrow> bytes" where
  "policyNameForID policies pid =
     (case policies pid of Some p \<Rightarrow> rp_Name p | None \<Rightarrow> str ''unknown_policy'')"

definition eventTypeForPolicy :: "(u32 \<rightharpoonup> ResolvedPolicy) \<Rightarrow> u32 \<Rightarrow> bytes" where
  "eventTypeForPolicy policies pid =
     (case policies pid of
        None \<Rightarrow> str ''violation''
      | Some p \<Rightarrow>
          (case rp_Kind p of
             KindPath \<Rightarrow> str ''file_open''
           | KindNetwork \<Rightarrow> str ''connect''
           | KindCommand \<Rightarrow> str ''exec''
           | KindWorkspace \<Rightarrow> str ''violation''))"

section \<open>Time\<close>

text \<open>
  \<open>ktimeToWallClock\<close>: nanoseconds of the wall clock. The difference is taken on 64-bit
  integers and read as signed.
\<close>

record time_anchor =
  bootTimeAnchor :: int
  ktimeAnchorNs :: u64

definition ktimeToWallClock :: "time_anchor \<Rightarrow> u64 \<Rightarrow> int" where
  "ktimeToWallClock A ktimeNs = bootTimeAnchor A + sint (ktimeNs - ktimeAnchorNs A)"

text \<open>The second that \<open>Format(time.RFC3339)\<close> writes.\<close>

definition rfc3339 :: "int \<Rightarrow> int" where
  "rfc3339 t = t div 1000000000"

section \<open>The audit table\<close>

record auditPayload =
  pl_Timestamp :: int
  pl_Pid :: u32
  pl_Comm :: bytes
  pl_EventType :: bytes
  pl_Action :: bytes
  pl_Policy :: bytes
  pl_PolicyID :: u32
  pl_Path :: "bytes option"
  pl_Destination :: "bytes option"
  pl_Command :: "bytes option"
  pl_Reason :: bytes
  pl_FeedbackSent :: bool
  pl_SessionID :: bytes
  pl_Source :: bytes

record DBEvent =
  db_Timestamp :: int
  db_AgentPid :: u32
  db_AgentName :: bytes
  db_EventType :: bytes
  db_Path :: "bytes option"
  db_Destination :: "bytes option"
  db_Command :: "bytes option"
  db_Action :: bytes
  db_PolicyViolated :: "bytes option"
  db_FeedbackSent :: bool
  db_Payload :: auditPayload

record EventRow =
  er_ID :: nat
  er_Timestamp :: int
  er_AgentPid :: u32
  er_AgentName :: bytes
  er_EventType :: bytes
  er_Path :: "bytes option"
  er_Destination :: "bytes option"
  er_Command :: "bytes option"
  er_Action :: bytes
  er_PolicyViolated :: "bytes option"
  er_FeedbackSent :: bool
  er_Payload :: auditPayload

type_synonym db_table = "EventRow list"

datatype db_error = Db_not_initialized | Statement_failed

definition strPtr :: "bytes \<Rightarrow> bytes option" where
  "strPtr s = (if s = [] then None else Some s)"

definition table_row :: "nat \<Rightarrow> DBEvent \<Rightarrow> EventRow" where
  "table_row i e =
     \<lparr>er_ID = i, er_Timestamp = rfc3339 (db_Timestamp e), er_AgentPid = db_AgentPid e,
      er_AgentName = db_AgentName e, er_EventType = db_EventType e, er_Path = db_Path e,
      er_Destination = db_Destination e, er_Command = db_Command e, er_Action = db_Action e,
      er_PolicyViolated = db_PolicyViolated e, er_FeedbackSent = db_FeedbackSent e, er_Payload = db_Payload e\<rparr>"

text \<open>An open table, or \<open>None\<close> for the nil handle; \<open>ok\<close> says whether the statement succeeds.\<close>

definition insertEvent :: "bool \<Rightarrow> DBEvent \<Rightarrow> db_table option \<Rightarrow> db_table option \<times> (db_error + nat)" where
  "insertEvent ok e db =
     (case db of
        None \<Rightarrow> (None, Inl Db_not_initialized)
      | Some t \<Rightarrow>
          if ok then (Some (t @ [table_row (length t + 1) e]), Inr (length t + 1))
          else (db, Inl Statement_failed))"

definition violation_row ::
  "(u32 \<rightharpoonup> ResolvedPolicy) \<Rightarrow> time_anchor \<Rightarrow> u32 \<Rightarrow> u32 \<Rightarrow> bytes \<Rightarrow> bytes \<Rightarrow> bytes \<Rightarrow> bytes \<Rightarrow> bytes \<Rightarrow>
   u64 \<Rightarrow> bool \<Rightarrow> DBEvent" where
  "violation_row policies A pid policyID comm target reason sessionID source tsNs feedbackSent =
     (let policyName = policyNameForID policies policyID;
          eventType = eventTypeForPolicy policies policyID;
          ts = ktimeToWallClock A tsNs;
          pathPtr = (if eventType = str ''connect'' then None else strPtr target);
          destPtr = (if eventType = str ''connect'' then strPtr target else None);
          cmdPtr = (if eventType = str ''exec'' then strPtr target else None) in
      \<lparr>db_Timestamp = ts, db_AgentPid = pid, db_AgentName = str ''claude-code'', db_EventType = eventType,
       db_Path = pathPtr, db_Destination = destPtr, db_Command = cmdPtr, db_Action = str ''blocked'',
       db_PolicyViolated = Some policyName, db_FeedbackSent = feedbackSent,
       db_Payload = \<lparr>pl_Timestamp = rfc3339 ts, pl_Pid = pid, pl_Comm = comm, pl_EventType = eventType,
         pl_Action = str ''blocked'', pl_Policy = policyName, pl_PolicyID = policyID, pl_Path = pathPtr,
         pl_Destination = destPtr, pl_Command = cmdPtr, pl_Reason = reason, pl_FeedbackSent = feedbackSent,
         pl_SessionID = sessionID, pl_Source = source\<rparr>\<rparr>)"

definition recordViolation ::
  "(u32 \<rightharpoonup> ResolvedPolicy) \<Rightarrow> time_anchor \<Rightarrow> bool \<Rightarrow> u32 \<Rightarrow> u32 \<Rightarrow> bytes \<Rightarrow> bytes \<Rightarrow> bytes \<Rightarrow> bytes \<Rightarrow> bytes \<Rightarrow>
   u64 \<Rightarrow> bool \<Rightarrow> db_table option \<Rightarrow> db_table option" where
  "recordViolation policies A ok pid policyID comm target reason sessionID source tsNs feedbackSent db =
     (if db = None then None
      else fst (insertEvent ok
        (violation_row policies A pid policyID comm target reason sessionID source tsNs feedbackSent) db))"

text \<open>The selection: an optional process, optionally blocked rows only, newest first.\<close>

definition selects :: "u32 option \<Rightarrow> bool \<Rightarrow> EventRow \<Rightarrow> bool" where
  "selects filterPid blockedOnly e \<longleftrightarrow>
     (case filterPid of None \<Rightarrow> True | Some p \<Rightarrow> er_AgentPid e = p) \<and>
     (blockedOnly \<longrightarrow> er_Action e = str ''blocked'')"

definition queryEvents ::
  "bool \<Rightarrow> u32 option \<Rightarrow> bool \<Rightarrow> int \<Rightarrow> db_table option \<Rightarrow> db_error + EventRow list" where
  "queryEvents ok filterPid blockedOnly limit db =
     (case db of
        None \<Rightarrow> Inl Db_not_initialized
      | Some t \<Rightarrow>
          let n = (if limit \<le> 0 then 50 else limit) in
          if ok then Inr (take (nat n) (filter (selects filterPid blockedOnly) (rev t)))
          else Inl Statement_failed)"

definition lastBlockedEvent :: "bool \<Rightarrow> db_table option \<Rightarrow> db_error + EventRow option" where
  "lastBlockedEvent ok db =
     (case queryEvents ok None True 1 db of
        Inl e \<Rightarrow> Inl e
      | Inr [] \<Rightarrow> Inr None
      | Inr (r # _) \<Rightarrow> Inr (Some r))"

section \<open>Lemmas\<close>

lemma sprintf_literal: "PERCENT \<notin> set s \<Longrightarrow> sprintf_from V used arg s = s @ extra_arg used arg"
  by (induction V used arg s rule: sprintf_from.induct) auto

lemma sprintf_skip: "PERCENT \<notin> set a \<Longrightarrow> s \<noteq> [] \<Longrightarrow> sprintf_from V used arg (a @ s) = a @ sprintf_from V used arg s"
proof (induction a)
  case (Cons b a)
  then obtain c t where "a @ s = c # t" by (cases "a @ s") auto
  with Cons show ?case by simp
qed simp

text \<open>A feedback text with one placeholder gets the path in its place.\<close>

lemma Sprintf1_placeholder:
  assumes "PERCENT \<notin> set a" "PERCENT \<notin> set b"
  shows "Sprintf1 V (a @ [PERCENT, 0x73] @ b) x = a @ x @ b"
  using assms sprintf_skip [of a "[PERCENT, 0x73] @ b" V False x]
  by (simp add: Sprintf1_def sprintf_literal extra_arg_def)

lemma inserted_last:
  "insertEvent True e (Some t) = (Some (t @ [table_row (length t + 1) e]), Inr (length t + 1))"
  by (simp add: insertEvent_def)

text \<open>The last recorded violation is what the status page shows.\<close>

lemma recorded_is_last:
  "lastBlockedEvent True (recordViolation P A True pid pol comm target reason sid src ts sent (Some t)) =
   Inr (Some (table_row (length t + 1) (violation_row P A pid pol comm target reason sid src ts sent)))"
  by (simp add: lastBlockedEvent_def recordViolation_def inserted_last queryEvents_def violation_row_def
      table_row_def selects_def Let_def)

text \<open>The ids of the rows count from 1, whatever is inserted.\<close>

definition table_wf :: "db_table \<Rightarrow> bool" where
  "table_wf t \<longleftrightarrow> map er_ID t = [1..<length t + 1]"

lemma insertEvent_wf: "table_wf t \<Longrightarrow> insertEvent ok e (Some t) = (Some t', r) \<Longrightarrow> table_wf t'"
  by (auto simp: table_wf_def insertEvent_def table_row_def split: if_splits)

lemma recordViolation_wf:
  "table_wf t \<Longrightarrow> recordViolation P A ok pid pol comm target reason sid src ts sent (Some t) = Some t' \<Longrightarrow> table_wf t'"
  by (auto simp: recordViolation_def intro: insertEvent_wf [OF _ prod_eqI])

lemma table_wf_sorted: "table_wf t \<Longrightarrow> sorted_wrt (\<lambda>a b. er_ID b < er_ID a) (rev t)"
proof -
  assume "table_wf t"
  then have "sorted_wrt (<) (map er_ID t)" unfolding table_wf_def by (simp only: sorted_wrt_upt)
  then show ?thesis by (simp add: sorted_wrt_map sorted_wrt_rev)
qed

text \<open>A bounded prefix of an ordered list holds the first elements.\<close>

lemma take_filter_newest:
  assumes "sorted_wrt R xs" "ys = take n (filter P xs)"
  shows "sorted_wrt R ys" "length ys \<le> n" "\<forall>y \<in> set ys. y \<in> set xs \<and> P y"
    "\<forall>x \<in> set xs. P x \<and> x \<notin> set ys \<longrightarrow> length ys = n \<and> (\<forall>y \<in> set ys. R y x)"
proof -
  let ?zs = "filter P xs"
  have sorted: "sorted_wrt R (take n ?zs @ drop n ?zs)" using assms(1) by (simp add: sorted_wrt_filter)
  then show "sorted_wrt R ys" using assms(2) by (simp add: sorted_wrt_append)
  show "length ys \<le> n" "\<forall>y \<in> set ys. y \<in> set xs \<and> P y" using assms(2) by (auto dest: in_set_takeD)
  show "\<forall>x \<in> set xs. P x \<and> x \<notin> set ys \<longrightarrow> length ys = n \<and> (\<forall>y \<in> set ys. R y x)"
  proof (intro ballI impI)
    fix x assume "x \<in> set xs" "P x \<and> x \<notin> set ys"
    then have "x \<in> set (take n ?zs @ drop n ?zs)" "x \<notin> set (take n ?zs)" using assms(2) by auto
    then have "x \<in> set (drop n ?zs)" by (auto simp del: append_take_drop_id)
    moreover from this have "n \<le> length ?zs" by (metis drop_all empty_iff list.set(1) linear)
    ultimately show "length ys = n \<and> (\<forall>y \<in> set ys. R y x)"
      using sorted assms(2) by (auto simp: sorted_wrt_append simp del: append_take_drop_id)
  qed
qed

end
