(* ===== verification/Session.thy ===== *)
theory Session
  imports Go_Path
begin

text \<open>
  The exchange of feedback between the daemon and the hook process: the state directory of
  \<open>state.go\<close>, \<open>isHookSessionID\<close>, \<open>resolveSessionID\<close> and \<open>writePendingViolation\<close> of \<open>main.go\<close>, and
  \<open>runHook\<close> of \<open>hook.go\<close>. The file system is a map from paths to contents; whether an operation
  on it succeeds is decided by the fields of \<open>fs_env\<close>. The JSON codec is an argument.
\<close>

section \<open>State directory\<close>

definition defaultStateDir :: bytes where
  "defaultStateDir = str ''/tmp/agentguard''"

definition state_root :: "bytes \<Rightarrow> bytes" where
  "state_root env = Clean (if env = [] then defaultStateDir else env)"

definition violationStoreDir :: "bytes \<Rightarrow> bytes" where
  "violationStoreDir root = Join2 root (str ''violations'')"

definition activeSessionPath :: "bytes \<Rightarrow> bytes" where
  "activeSessionPath root = Join2 root (str ''active_session'')"

definition violation_file :: "bytes \<Rightarrow> bytes \<Rightarrow> bytes" where
  "violation_file root sid = Join2 (violationStoreDir root) (sid @ str ''.json'')"

definition latest_file :: "bytes \<Rightarrow> bytes" where
  "latest_file root = Join2 (violationStoreDir root) (str ''latest.json'')"

type_synonym files = "bytes \<rightharpoonup> bytes"

record fs_env =
  mkdir_ok :: "bytes \<Rightarrow> bool"
  write_ok :: "bytes \<Rightarrow> bool"
  remove_ok :: "bytes \<Rightarrow> bool"

section \<open>Session ids\<close>

definition id_char :: "u8 \<Rightarrow> bool" where
  "id_char c \<longleftrightarrow>
     0x61 \<le> c \<and> c \<le> 0x7a \<or> 0x41 \<le> c \<and> c \<le> 0x5a \<or> 0x30 \<le> c \<and> c \<le> 0x39 \<or> c = 0x5f \<or> c = 0x2d"

definition isHookSessionID :: "bytes \<Rightarrow> bool" where
  "isHookSessionID s0 =
     (let s = TrimSpace s0 in
      if s = [] \<or> list_ex (\<lambda>c. c \<in> {0x20, 0x09, 0x0a}) s then False
      else if 36 \<le> length s \<and> s ! 8 = 0x2d \<and> s ! 13 = 0x2d \<and> s ! 18 = 0x2d \<and> s ! 23 = 0x2d then True
      else if length s < 8 \<or> 128 < length s then False
      else list_all id_char s)"

text \<open>
  The attempts to read the active session: each entry is the content of the file at one attempt,
  \<open>None\<close> when the read failed.
\<close>

fun first_hook_id :: "bytes option list \<Rightarrow> bytes option" where
  "first_hook_id [] = None"
| "first_hook_id (r # rs) =
     (case r of
        None \<Rightarrow> first_hook_id rs
      | Some b \<Rightarrow> if isHookSessionID (TrimSpace b) then Some (TrimSpace b) else first_hook_id rs)"

definition getSessionIDForPID :: "(u32 \<rightharpoonup> bytes) \<Rightarrow> u32 \<Rightarrow> bytes" where
  "getSessionIDForPID m pid = (case m pid of None \<Rightarrow> [] | Some s \<Rightarrow> s)"

definition resolveSessionID :: "bytes option list \<Rightarrow> (u32 \<rightharpoonup> bytes) \<Rightarrow> u32 \<Rightarrow> u32 \<Rightarrow> bytes" where
  "resolveSessionID reads sessionIDByPid rootPID pid =
     (case first_hook_id (take 3 reads) of
        Some s \<Rightarrow> s
      | None \<Rightarrow>
          if getSessionIDForPID sessionIDByPid pid \<noteq> [] then getSessionIDForPID sessionIDByPid pid
          else if rootPID \<noteq> 0 then getSessionIDForPID sessionIDByPid rootPID
          else [])"

section \<open>Pending violations\<close>

record PendingViolation =
  pv_Reason :: bytes
  pv_PolicyType :: u8
  pv_Path :: bytes
  pv_TimestampNs :: u64

text \<open>What \<open>runHook\<close> decodes: the reason is the only field it uses.\<close>

record json_codec =
  marshal_pending :: "PendingViolation \<Rightarrow> bytes"
  unmarshal_reason :: "bytes \<Rightarrow> bytes option"

text \<open>The new files and whether the function returned no error.\<close>

definition writePendingViolation ::
  "json_codec \<Rightarrow> fs_env \<Rightarrow> bytes \<Rightarrow> bytes \<Rightarrow> PendingViolation \<Rightarrow> files \<Rightarrow> files \<times> bool" where
  "writePendingViolation J F root sid v fs =
     (if sid = [] then (fs, False)
      else if \<not> mkdir_ok F (violationStoreDir root) then (fs, False)
      else
        let data = marshal_pending J v; path = violation_file root sid; latest = latest_file root in
        if \<not> write_ok F path then (fs, False)
        else
          let fs1 = fs(path \<mapsto> data) in
          if \<not> write_ok F latest then (fs1, False) else (fs1(latest \<mapsto> data), True))"

section \<open>The hook process\<close>

record hookInput =
  hi_SessionID :: bytes
  hi_ToolName :: bytes
  hi_HookEventName :: bytes

record hookOutput =
  ho_HookEventName :: bytes
  ho_Message :: bytes

definition isCursorHook :: "bytes \<Rightarrow> bytes \<Rightarrow> bool" where
  "isCursorHook event tool =
     (tool = str ''Shell'' \<or> event = str ''postToolUse'' \<or> event = str ''postToolUseFailure'')"

definition isPreToolUseEvent :: "bytes \<Rightarrow> bool" where
  "isPreToolUseEvent event = (TrimSpace event = str ''PreToolUse'')"

definition normalizeHookEvent :: "bytes \<Rightarrow> bytes" where
  "normalizeHookEvent event =
     (let e = TrimSpace event in
      if e = str ''PostToolUse'' then str ''PostToolUse''
      else if e = str ''PostToolUseFailure'' then str ''PostToolUseFailure''
      else if e = [] then str ''PostToolUseFailure''
      else [])"

definition write_active :: "fs_env \<Rightarrow> bytes \<Rightarrow> bytes \<Rightarrow> files \<Rightarrow> files" where
  "write_active F root sid fs =
     (if sid \<noteq> [] \<and> write_ok F (activeSessionPath root) then fs(activeSessionPath root \<mapsto> sid) else fs)"

definition remove_file :: "fs_env \<Rightarrow> bytes \<Rightarrow> files \<Rightarrow> files" where
  "remove_file F path fs = (if remove_ok F path then fs(path := None) else fs)"

text \<open>
  The input is \<open>None\<close> when standard input could not be read or decoded; the message is both the
  \<open>systemMessage\<close> and the \<open>additionalContext\<close> of the output.
\<close>

definition runHook ::
  "json_codec \<Rightarrow> fs_env \<Rightarrow> bytes \<Rightarrow> hookInput option \<Rightarrow> files \<Rightarrow> files \<times> hookOutput option" where
  "runHook J F root inp fs =
     (case inp of
        None \<Rightarrow> (fs, None)
      | Some i \<Rightarrow>
          let sessionID = TrimSpace (hi_SessionID i); hookEvent = TrimSpace (hi_HookEventName i) in
          if isCursorHook hookEvent (hi_ToolName i) then (fs, None)
          else if isPreToolUseEvent hookEvent then (write_active F root sessionID fs, None)
          else
            let fs1 = write_active F root sessionID fs; event = normalizeHookEvent hookEvent in
            if event = [] then (fs1, None)
            else
              let own = violation_file root sessionID; latest = latest_file root in
              (case (case fs1 own of Some d \<Rightarrow> Some (own, d)
                     | None \<Rightarrow> map_option (\<lambda>d. (latest, d)) (fs1 latest)) of
                 None \<Rightarrow> (fs1, None)
               | Some (path, data) \<Rightarrow>
                   (case unmarshal_reason J data of
                      None \<Rightarrow> (fs1, None)
                    | Some r \<Rightarrow>
                        let reason = TrimSpace r in
                        if reason = [] then (fs1, None)
                        else
                          let fs2 = remove_file F path fs1;
                              fs3 = (if sessionID \<noteq> [] then remove_file F own fs2 else fs2);
                              fs4 = remove_file F latest fs3 in
                          (fs4, Some \<lparr>ho_HookEventName = event,
                                      ho_Message = str ''[SECURITY SYSTEM]: '' @ reason\<rparr>))))"

section \<open>Paths of the store\<close>

lemma clean_elems_snoc:
  assumes "e \<noteq> []" "e \<noteq> dot_elem" "e \<noteq> dotdot_elem"
  shows "\<exists>fs. clean_elems r out (es @ [e]) = fs @ [e]"
  using assms
proof (induction es arbitrary: out)
  case (Cons x es)
  then show ?case by (cases out) auto
qed simp

lemma split_on_last:
  "c \<notin> set e \<Longrightarrow> split_on c (p @ e) = butlast (split_on c p) @ [last (split_on c p) @ e]"
proof (induction p)
  case (Cons b p)
  then show ?case
    using split_on_nonempty [of c p] by (cases "split_on c p") auto
qed (simp add: split_on_single)

lemma suffix_render: "e \<noteq> [] \<Longrightarrow> suffix e (render r (fs @ [e]))"
proof -
  have "suffix e (join_with SLASH (fs @ [e]))"
    by (cases "fs = []") (auto simp: join_with_snoc suffix_def)
  then show "e \<noteq> [] \<Longrightarrow> ?thesis"
    by (auto simp: render_def Let_def suffix_def)
qed

text \<open>A cleaned path ends as the path does, when its last element is an ordinary name.\<close>

lemma Clean_suffix:
  assumes "SLASH \<notin> set e" "2 < length e"
  shows "suffix e (Clean (p @ e))"
proof -
  obtain es where es: "split_on SLASH (p @ e) = es @ [last (split_on SLASH p) @ e]"
    using split_on_last [OF assms(1)] by blast
  let ?l = "last (split_on SLASH p) @ e"
  have "?l \<noteq> []" "?l \<noteq> dot_elem" "?l \<noteq> dotdot_elem" using assms(2) by (auto dest: arg_cong [where f = length])
  from clean_elems_snoc [OF this] obtain fs where
    "clean_elems (IsAbs (p @ e)) [] (split_on SLASH (p @ e)) = fs @ [?l]" unfolding es by blast
  then have "suffix ?l (Clean (p @ e))"
    using suffix_render [of ?l "IsAbs (p @ e)" fs] \<open>?l \<noteq> []\<close> by (simp add: Clean_def)
  then show ?thesis by (auto simp: suffix_def)
qed

lemma violation_file_suffix: "suffix (str ''.json'') (violation_file root sid)"
proof -
  have "Join2 d (sid @ str ''.json'') = Clean ((if d = [] then sid else d @ SLASH # sid) @ str ''.json'')" for d
    by (simp add: Join2_def)
  then show ?thesis
    unfolding violation_file_def by (simp only:) (rule Clean_suffix; simp)
qed

lemma active_suffix: "suffix (str ''active_session'') (activeSessionPath root)"
proof -
  have "activeSessionPath root = Clean ((if root = [] then [] else root @ [SLASH]) @ str ''active_session'')"
    by (simp add: Join2_def activeSessionPath_def)
  then show ?thesis by (simp only:) (rule Clean_suffix; simp)
qed

lemma active_not_violation: "violation_file root sid \<noteq> activeSessionPath root"
proof
  assume "violation_file root sid = activeSessionPath root"
  then have "suffix (str ''.json'') (activeSessionPath root)" using violation_file_suffix [of root sid] by simp
  with active_suffix [of root] show False by (auto simp: suffix_def append_eq_append_conv2)
qed

section \<open>Delivery\<close>

lemma TrimSpace_events:
  "TrimSpace (str ''PostToolUse'') = str ''PostToolUse''"
  "TrimSpace (str ''PostToolUseFailure'') = str ''PostToolUseFailure''"
  by (simp_all add: TrimSpace_def trim_left.simps trim_right.simps space_encodings_def suffix_def
      append_eq_Cons_conv)

lemma written_files:
  assumes "writePendingViolation J F root sid v fs = (fs1, True)"
  shows "fs1 (violation_file root sid) = Some (marshal_pending J v)"
    "fs1 (latest_file root) = Some (marshal_pending J v)" "sid \<noteq> []"
  using assms by (auto simp: writePendingViolation_def Let_def split: if_splits)

lemma write_active_keeps: "write_active F root sid fs (violation_file root x) = fs (violation_file root x)"
  using active_not_violation [of root x] by (simp add: write_active_def)

lemma latest_is_violation_file: "latest_file root = violation_file root (str ''latest'')"
  by (simp add: latest_file_def violation_file_def)

text \<open>A post-tool event of another tool than \<open>Shell\<close>.\<close>

definition post_event :: "hookInput \<Rightarrow> bytes \<Rightarrow> bool" where
  "post_event i sid \<longleftrightarrow>
     TrimSpace (hi_SessionID i) = sid \<and> hi_ToolName i \<noteq> str ''Shell'' \<and>
     (TrimSpace (hi_HookEventName i) = str ''PostToolUse'' \<or>
      TrimSpace (hi_HookEventName i) = str ''PostToolUseFailure'')"

lemma post_event_simps:
  assumes "post_event i sid"
  shows "\<not> isCursorHook (TrimSpace (hi_HookEventName i)) (hi_ToolName i)"
    "\<not> isPreToolUseEvent (TrimSpace (hi_HookEventName i))"
    "normalizeHookEvent (TrimSpace (hi_HookEventName i)) = TrimSpace (hi_HookEventName i)"
    "TrimSpace (hi_HookEventName i) \<noteq> []"
  using assms
  by (auto simp: post_event_def isCursorHook_def isPreToolUseEvent_def normalizeHookEvent_def
      TrimSpace_events [simplified])

lemma runHook_delivers:
  assumes "post_event i sid" "sid \<noteq> []" "\<forall>p. remove_ok F p"
    and "fs (violation_file root sid) = Some d" "unmarshal_reason J d = Some r" "TrimSpace r \<noteq> []"
  shows "snd (runHook J F root (Some i) fs) =
      Some \<lparr>ho_HookEventName = TrimSpace (hi_HookEventName i),
            ho_Message = str ''[SECURITY SYSTEM]: '' @ TrimSpace r\<rparr>"
    and "fst (runHook J F root (Some i) fs) =
      (write_active F root sid fs)(violation_file root sid := None, latest_file root := None)"
proof -
  have sid: "TrimSpace (hi_SessionID i) = sid" using assms(1) by (simp add: post_event_def)
  show "snd (runHook J F root (Some i) fs) =
      Some \<lparr>ho_HookEventName = TrimSpace (hi_HookEventName i),
            ho_Message = str ''[SECURITY SYSTEM]: '' @ TrimSpace r\<rparr>"
    "fst (runHook J F root (Some i) fs) =
      (write_active F root sid fs)(violation_file root sid := None, latest_file root := None)"
    using assms sid
    by (simp_all add: runHook_def Let_def post_event_simps [OF assms(1)] write_active_keeps remove_file_def
        del: str_simps)
qed

lemma runHook_silent:
  assumes "post_event i sid" "fs (violation_file root sid) = None" "fs (latest_file root) = None"
  shows "runHook J F root (Some i) fs = (write_active F root sid fs, None)"
proof -
  have "TrimSpace (hi_SessionID i) = sid" using assms(1) by (simp add: post_event_def)
  then show ?thesis
    using assms(2,3)
    by (simp add: runHook_def Let_def post_event_simps [OF assms(1)] write_active_keeps latest_is_violation_file
        del: str_simps)
qed

text \<open>
  C17 (liveness): feedback is delivered once: a violation written for a session is printed by
  the session's next post-tool hook, with the stored reason, both files of it are gone
  afterwards, and the hook after that prints nothing.
\<close>

theorem feedback_delivered_once:
  assumes "writePendingViolation J F root sid v fs = (fs1, True)"
    and "unmarshal_reason J (marshal_pending J v) = Some (pv_Reason v)" "TrimSpace (pv_Reason v) \<noteq> []"
    and "post_event i sid" "post_event i' sid" "\<forall>p. remove_ok F p"
  shows "\<exists>fs2. runHook J F root (Some i) fs1 =
      (fs2, Some \<lparr>ho_HookEventName = TrimSpace (hi_HookEventName i),
                  ho_Message = str ''[SECURITY SYSTEM]: '' @ TrimSpace (pv_Reason v)\<rparr>) \<and>
    fs2 (violation_file root sid) = None \<and> fs2 (latest_file root) = None \<and>
    snd (runHook J F root (Some i') fs2) = None"
proof -
  note w = written_files [OF assms(1)]
  note d = runHook_delivers [where fs = fs1 and root = root, OF assms(4) w(3) assms(6) w(1) assms(2,3)]
  let ?fs2 = "fst (runHook J F root (Some i) fs1)"
  have gone: "?fs2 (violation_file root sid) = None" "?fs2 (latest_file root) = None"
    unfolding d(2) by simp_all
  then show ?thesis
    using d(1) runHook_silent [OF assms(5) gone] by (intro exI [of _ ?fs2]) (auto simp: prod_eq_iff simp del: str_simps)
qed

text \<open>A codec and a machine on which everything succeeds.\<close>

definition reason_codec :: json_codec where
  "reason_codec = \<lparr>marshal_pending = pv_Reason, unmarshal_reason = Some\<rparr>"

definition willing_fs :: fs_env where
  "willing_fs = \<lparr>mkdir_ok = (\<lambda>_. True), write_ok = (\<lambda>_. True), remove_ok = (\<lambda>_. True)\<rparr>"

definition sample_pending :: PendingViolation where
  "sample_pending = \<lparr>pv_Reason = str ''denied'', pv_PolicyType = 1, pv_Path = [], pv_TimestampNs = 0\<rparr>"

definition sample_post :: hookInput where
  "sample_post = \<lparr>hi_SessionID = str ''thr_12345'', hi_ToolName = str ''Bash'', hi_HookEventName = str ''PostToolUse''\<rparr>"

lemma TrimSpace_samples:
  "TrimSpace (str ''thr_12345'') = str ''thr_12345''" "TrimSpace (str ''denied'') = str ''denied''"
  by (simp_all add: TrimSpace_def trim_left.simps trim_right.simps space_encodings_def suffix_def
      append_eq_Cons_conv)

theorem feedback_delivered_once_witness:
  "\<exists>fs1 fs2. runHook reason_codec willing_fs (str ''/tmp/agentguard'') (Some sample_post) fs1 =
      (fs2, Some \<lparr>ho_HookEventName = str ''PostToolUse'', ho_Message = str ''[SECURITY SYSTEM]: denied''\<rparr>)"
proof -
  let ?root = "str ''/tmp/agentguard''" and ?sid = "str ''thr_12345''"
  obtain fs1 where w: "writePendingViolation reason_codec willing_fs ?root ?sid sample_pending Map.empty = (fs1, True)"
    by (simp add: writePendingViolation_def willing_fs_def Let_def)
  have ev: "post_event sample_post ?sid"
    using TrimSpace_samples(1) TrimSpace_events(1) by (simp add: post_event_def sample_post_def)
  have "str ''[SECURITY SYSTEM]: '' @ str ''denied'' = str ''[SECURITY SYSTEM]: denied''"
    "str ''denied'' \<noteq> []" by simp_all
  then show ?thesis
    using feedback_delivered_once [OF w _ _ ev ev] TrimSpace_samples(2) TrimSpace_events(1)
    by (auto simp: reason_codec_def sample_pending_def willing_fs_def sample_post_def simp del: str_simps)
qed

section \<open>Where the files are\<close>

lemma id_char_plain: "list_all id_char sid \<Longrightarrow> plain (sid @ str ''.json'')"
proof -
  assume a: "list_all id_char sid"
  have "\<not> id_char SLASH" by (simp add: id_char_def)
  then have "SLASH \<notin> set sid" using a by (auto simp: list_all_iff)
  then show ?thesis by (auto simp: plain_def dest: arg_cong [where f = length])
qed

text \<open>
  A session id of letters, digits, underscores and dashes names a file directly in
  the violation store, whatever absolute state directory is configured.
\<close>

theorem plain_session_file:
  assumes "IsAbs env" "list_all id_char sid"
  shows "violation_file (state_root env) sid = violationStoreDir (state_root env) @ SLASH # sid @ str ''.json''"
proof -
  have "env \<noteq> []" using assms(1) by (auto simp: IsAbs_iff)
  then obtain es where es: "list_all plain es" "state_root env = abs_of es"
    using Clean_abs [OF assms(1)] by (auto simp: state_root_def)
  have v: "plain (str ''violations'')" by (simp add: plain_def)
  have store: "violationStoreDir (state_root env) = abs_of (es @ [str ''violations''])"
    unfolding violationStoreDir_def es(2) using es(1) v by (rule Join2_abs_of)
  have "violation_file (state_root env) sid = abs_of ((es @ [str ''violations'']) @ [sid @ str ''.json''])"
    unfolding violation_file_def store
    using es(1) v id_char_plain [OF assms(2)] by (intro Join2_abs_of) auto
  also have "\<dots> = violationStoreDir (state_root env) @ SLASH # sid @ str ''.json''"
    unfolding store abs_of_def by (subst join_with_snoc) auto
  finally show ?thesis .
qed

theorem plain_session_file_witness:
  "violation_file (state_root (str ''/run/ag'')) (str ''thr_12345'') =
   violationStoreDir (state_root (str ''/run/ag'')) @ str ''/thr_12345.json''"
  using plain_session_file [of "str ''/run/ag''" "str ''thr_12345''"]
  by (simp add: IsAbs_def id_char_def)

text \<open>An id in the shape of a UUID, followed by enough parent references and a path of one's own.\<close>

definition uuid_shape :: bytes where
  "uuid_shape = str ''aaaaaaaa-aaaa-aaaa-aaaa-aaaaaaaaaaaa''"

definition escaping_id :: "nat \<Rightarrow> bytes list \<Rightarrow> bytes \<Rightarrow> bytes" where
  "escaping_id n ts x = join_with SLASH (uuid_shape # replicate n dotdot_elem @ ts @ [x])"

lemma escaping_id_accepted:
  assumes "\<forall>b \<in> set (concat ts @ x). graphic b" "x \<noteq> []"
  shows "TrimSpace (escaping_id n ts x) = escaping_id n ts x" "isHookSessionID (escaping_id n ts x)"
proof -
  let ?tl = "join_with SLASH (replicate n dotdot_elem @ ts @ [x])"
  have id: "escaping_id n ts x = uuid_shape @ SLASH # ?tl"
    using join_with_append [of "[uuid_shape]" "replicate n dotdot_elem @ ts @ [x]" SLASH] by (simp add: escaping_id_def)
  have "graphic b" if "b \<in> set ?tl" for b
  proof -
    have "b \<in> insert SLASH (\<Union> (set ` set (replicate n dotdot_elem @ ts @ [x])))"
      using that set_join_with [of SLASH "replicate n dotdot_elem @ ts @ [x]"] by blast
    then show ?thesis using assms(1) by (cases "n = 0") (auto simp: graphic_def)
  qed
  moreover have "graphic b" if "b \<in> set uuid_shape" for b using that by (auto simp: uuid_shape_def graphic_def)
  ultimately have graphic: "graphic b" if "b \<in> set (escaping_id n ts x)" for b
    using that unfolding id by (auto simp: graphic_def)
  have ne: "escaping_id n ts x \<noteq> []" by (simp add: id)
  show trim: "TrimSpace (escaping_id n ts x) = escaping_id n ts x"
    using ne graphic by (intro TrimSpace_graphic) auto
  have "\<not> list_ex (\<lambda>c. c \<in> {0x20, 0x09, 0x0a}) (escaping_id n ts x)"
    using graphic by (auto simp: list_ex_iff graphic_def dest!: graphic)
  then show "isHookSessionID (escaping_id n ts x)"
    using ne unfolding isHookSessionID_def Let_def trim by (simp add: id uuid_shape_def)
qed

lemma escaping_id_target:
  assumes "list_all plain rs" "list_all plain ts" "SLASH \<notin> set x"
  shows "violation_file (abs_of rs) (escaping_id (length rs + 2) ts x) = abs_of (ts @ [x @ str ''.json''])"
proof -
  define n where "n = length rs + 2"
  let ?xs = "uuid_shape # replicate n dotdot_elem @ ts @ [x @ str ''.json'']"
  have v: "plain (str ''violations'')" "plain uuid_shape" by (simp_all add: plain_def uuid_shape_def)
  have json: "plain (x @ str ''.json'')" using assms(3) by (auto simp: plain_def dest: arg_cong [where f = length])
  have store: "violationStoreDir (abs_of rs) = abs_of (rs @ [str ''violations''])"
    unfolding violationStoreDir_def using assms(1) v(1) by (rule Join2_abs_of)
  have sid: "escaping_id n ts x @ str ''.json'' = join_with SLASH ?xs"
    unfolding escaping_id_def
    using join_with_extend [of SLASH "uuid_shape # replicate n dotdot_elem @ ts" x "str ''.json''"]
    by (simp only: append_Cons append_assoc)
  have "list_all (\<lambda>x. SLASH \<notin> set x) ts" "list_all (\<lambda>x. SLASH \<notin> set x) (replicate n dotdot_elem)"
    using assms(2) by (auto simp: list_all_iff plain_def)
  moreover have "SLASH \<notin> set uuid_shape" "SLASH \<notin> set (x @ str ''.json'')" using v(2) json by (simp_all only: plain_def simp_thms)
  ultimately have seps: "list_all (\<lambda>x. SLASH \<notin> set x) ?xs"
    by (simp only: list_all_append list.pred_inject simp_thms)
  have "violation_file (abs_of rs) (escaping_id n ts x) = Join2 (abs_of (rs @ [str ''violations''])) (join_with SLASH ?xs)"
    by (simp only: violation_file_def store sid)
  also have "\<dots> = abs_of (clean_elems True (rev (rs @ [str ''violations''])) ?xs)"
    using assms(1) v(1) by (intro Join2_abs_of_elems seps) (simp_all del: str_simps)
  also have "clean_elems True (rev (rs @ [str ''violations''])) ?xs = ts @ [x @ str ''.json'']"
  proof -
    have "clean_elems True (rev (rs @ [str ''violations''])) ?xs =
        clean_elems True (uuid_shape # rev (rs @ [str ''violations''])) (replicate n dotdot_elem @ ts @ [x @ str ''.json''])"
      by (rule clean_elems_plain_Cons [OF v(2)])
    also have "\<dots> = clean_elems True [] (ts @ [x @ str ''.json''])"
      using assms(1) v by (intro clean_elems_parents) (simp_all add: n_def del: str_simps)
    also have "\<dots> = ts @ [x @ str ''.json'']"
      using clean_elems_plain [of "ts @ [x @ str ''.json'']" True "[]"] assms(2) json
      by (simp only: rev.simps append_Nil list_all_append list.pred_inject simp_thms)
    finally show ?thesis .
  qed
  finally show ?thesis by (simp only: n_def)
qed

text \<open>
  C40 (error): the UUID branch of \<open>isHookSessionID\<close> looks at four dashes only. So the daemon can be
  made to write anywhere: for every absolute state directory and every absolute path of printable
  characters that ends in \<open>.json\<close> there is an input of the agent's hook process after which the next
  pending violation, written by the daemon, goes to exactly that path.
\<close>

theorem session_id_escapes_store:
  assumes "IsAbs env" "root = state_root env" "list_all plain ts" "x \<noteq> []" "SLASH \<notin> set x"
    and "\<forall>b \<in> set (concat ts @ x). graphic b" "\<forall>p. write_ok F p \<and> mkdir_ok F p"
  shows "\<exists>i. let fs1 = fst (runHook J F root (Some i) fs);
             sid = resolveSessionID (fs1 (activeSessionPath root) # reads) sessionIDByPid rootPID pid in
    fst (writePendingViolation J F root sid v fs1) (abs_of (ts @ [x @ str ''.json''])) = Some (marshal_pending J v)"
proof -
  have "env \<noteq> []" using assms(1) by (auto simp: IsAbs_iff)
  then obtain rs where rs: "list_all plain rs" "root = abs_of rs"
    using Clean_abs [OF assms(1)] assms(2) by (auto simp: state_root_def)
  define sid where "sid = escaping_id (length rs + 2) ts x"
  define i where "i = \<lparr>hi_SessionID = sid, hi_ToolName = [], hi_HookEventName = str ''PreToolUse''\<rparr>"
  note ok = escaping_id_accepted [OF assms(6,4), of "length rs + 2", folded sid_def]
  have ne: "sid \<noteq> []" using ok by (auto simp: isHookSessionID_def)
  have "TrimSpace (str ''PreToolUse'') = str ''PreToolUse''" by (rule TrimSpace_graphic) (simp_all add: graphic_def)
  then have run: "fst (runHook J F root (Some i) fs) = fs(activeSessionPath root \<mapsto> sid)"
    using ok(1) ne assms(7)
    by (simp add: runHook_def i_def Let_def isCursorHook_def isPreToolUseEvent_def write_active_def del: str_simps)
      simp
  have "resolveSessionID (Some sid # reads) sessionIDByPid rootPID pid = sid"
    using ok by (simp add: resolveSessionID_def numeral_3_eq_3)
  moreover have "violation_file root sid = abs_of (ts @ [x @ str ''.json''])"
    unfolding rs(2) sid_def using rs(1) assms(3,5) by (rule escaping_id_target)
  ultimately show ?thesis
    using ne assms(7) by (intro exI [of _ i]) (simp add: run writePendingViolation_def Let_def del: str_simps)
qed

theorem session_id_escapes_store_witness:
  "\<exists>i. let root = state_root (str ''/run/ag'');
           fs1 = fst (runHook reason_codec willing_fs root (Some i) Map.empty);
           sid = resolveSessionID [fs1 (activeSessionPath root)] Map.empty 42 50 in
    fst (writePendingViolation reason_codec willing_fs root sid sample_pending fs1) (str ''/etc/cron.json'') =
      Some (str ''denied'')"
proof -
  have "abs_of ([str ''etc''] @ [str ''cron'' @ str ''.json'']) = str ''/etc/cron.json''" by (simp add: abs_of_def)
  moreover have "IsAbs (str ''/run/ag'')" "list_all plain [str ''etc'']" "str ''cron'' \<noteq> []" "SLASH \<notin> set (str ''cron'')"
    "\<forall>b \<in> set (concat [str ''etc''] @ str ''cron''). graphic b" "\<forall>p. write_ok willing_fs p \<and> mkdir_ok willing_fs p"
    by (simp_all add: IsAbs_def plain_def graphic_def willing_fs_def)
  ultimately show ?thesis
    using session_id_escapes_store [of "str ''/run/ag''" _ "[str ''etc'']" "str ''cron''" willing_fs reason_codec
        Map.empty "[]" Map.empty 42 50 sample_pending, OF _ refl]
    by (simp add: reason_codec_def sample_pending_def Let_def del: str_simps)
qed

end
