(* ===== verification/Monitor.thy ===== *)
theory Monitor
  imports Bpf_Runtime
begin

text \<open>
  \<open>monitor.bpf.c\<close>: the event record, PID translation into the agent's namespace
  (\<open>pid_nr_in_agent_ns\<close>), the three observing tracepoints \<open>handle_openat\<close>, \<open>handle_connect\<close>,
  \<open>handle_execve\<close>, and \<open>handle_fork\<close> and \<open>handle_exit\<close>, which keep \<open>tracked_pids\<close>.
\<close>

section \<open>Data\<close>

record event =
  e_timestamp_ns :: u64
  e_pid :: u32
  e_ppid :: u32
  e_comm :: bytes
  event_type :: u8
  e_filename :: bytes
  e_daddr :: u32
  e_dport :: u16
  e_command :: bytes
  e_policy_type :: u32

text \<open>
  The kernel objects the programs read: a PID with one number per namespace level (level 0 is
  the initial namespace) and the fields of a task.
\<close>

record upid =
  nr :: u32
  ns_inum :: u32

record kpid =
  level :: u32
  numbers :: "upid list"

record task_struct =
  t_pid :: u32
  t_tgid :: u32
  thread_pid :: "kpid option"

record monitor =
  m_pidns_dev :: u64
  m_pidns_ino :: u64
  m_tracked_pids :: "(u32, u8) hmap"
  events :: "event list"

definition mon_current_nspids :: "'p kernel \<Rightarrow> monitor \<Rightarrow> (u32 \<times> u32) option" where
  "mon_current_nspids k m = ns_current_pid_tgid k (m_pidns_dev m) (m_pidns_ino m)"

section \<open>PID translation\<close>

definition pid_nr_in_agent_ns :: "u64 \<Rightarrow> kpid option \<Rightarrow> u32" where
  "pid_nr_in_agent_ns ino pid =
     (case pid of
        None \<Rightarrow> 0
      | Some p \<Rightarrow>
          if 0 \<le> level p \<and> ucast (ns_inum (numbers p ! 0)) = ino then nr (numbers p ! 0)
          else if 1 \<le> level p \<and> ucast (ns_inum (numbers p ! 1)) = ino then nr (numbers p ! 1)
          else if 2 \<le> level p \<and> ucast (ns_inum (numbers p ! 2)) = ino then nr (numbers p ! 2)
          else if 3 \<le> level p \<and> ucast (ns_inum (numbers p ! 3)) = ino then nr (numbers p ! 3)
          else 0)"

definition task_tgid_in_agent_ns :: "u64 \<Rightarrow> task_struct \<Rightarrow> u32" where
  "task_tgid_in_agent_ns ino task = pid_nr_in_agent_ns ino (thread_pid task)"

section \<open>Tracepoints\<close>

text \<open>
  Every handler that reports takes \<open>slot\<close>, the old contents of the reserved ring-buffer record:
  fields it does not write keep them. User memory is the bytes readable from the pointer the
  system call was given.
\<close>

definition handle_openat :: "'p kernel \<Rightarrow> event \<Rightarrow> bytes \<Rightarrow> monitor \<Rightarrow> monitor" where
  "handle_openat k slot user_path m =
     (case mon_current_nspids k m of
        None \<Rightarrow> m
      | Some (tid, pid) \<Rightarrow>
          if hash_lookup (m_tracked_pids m) pid = None then m
          else if \<not> ringbuf_has_room k then m
          else
            m\<lparr>events := events m @
               [slot\<lparr>e_timestamp_ns := ktime_get_ns k, e_pid := pid, e_comm := current_comm k,
                     event_type := 1,
                     e_filename := read_str_buf 256 (e_filename slot) user_path,
                     e_daddr := 0, e_dport := 0\<rparr>]\<rparr>)"

definition handle_connect :: "'p kernel \<Rightarrow> event \<Rightarrow> sockaddr_in option \<Rightarrow> monitor \<Rightarrow> monitor" where
  "handle_connect k slot user_addr m =
     (case mon_current_nspids k m of
        None \<Rightarrow> m
      | Some (tid, pid) \<Rightarrow>
          if hash_lookup (m_tracked_pids m) pid = None then m
          else
            let addr = (case user_addr of Some a \<Rightarrow> a | None \<Rightarrow> zero_sin) in
            if sin_family addr \<noteq> AF_INET then m
            else if \<not> ringbuf_has_room k then m
            else
              m\<lparr>events := events m @
                 [slot\<lparr>e_timestamp_ns := ktime_get_ns k, e_pid := pid, e_comm := current_comm k,
                       event_type := 2,
                       e_filename := (e_filename slot)[0 := 0],
                       e_daddr := s_addr addr, e_dport := bpf_ntohs (sin_port addr)\<rparr>]\<rparr>)"

definition handle_fork :: "'p kernel \<Rightarrow> event \<Rightarrow> task_struct \<Rightarrow> task_struct \<Rightarrow> monitor \<Rightarrow> monitor" where
  "handle_fork k slot parent child m =
     (if t_pid child \<noteq> t_tgid child then m
      else
        (case mon_current_nspids k m of
           None \<Rightarrow> m
         | Some (parent_tid, parent_tgid) \<Rightarrow>
             if hash_lookup (m_tracked_pids m) parent_tgid = None then m
             else
               let child_tgid = task_tgid_in_agent_ns (m_pidns_ino m) child in
               if child_tgid = 0 then m
               else
                 let m1 = m\<lparr>m_tracked_pids :=
                            snd (hash_update 8192 (m_tracked_pids m) child_tgid 1)\<rparr> in
                 if \<not> ringbuf_has_room k then m1
                 else
                   m1\<lparr>events := events m1 @
                      [slot\<lparr>e_timestamp_ns := ktime_get_ns k, e_pid := child_tgid,
                            e_ppid := parent_tgid, e_comm := current_comm k, event_type := 4,
                            e_filename := (e_filename slot)[0 := 0],
                            e_daddr := 0, e_dport := 0\<rparr>]\<rparr>))"

text \<open>
  The loop of \<open>handle_execve\<close> over the first three argument pointers (\<open>None\<close> is a null pointer):
  each string goes to \<open>command\<close> at the running offset and its NUL becomes a space.
\<close>

fun stitch_args :: "bytes option list \<Rightarrow> u32 \<Rightarrow> bytes \<Rightarrow> bytes" where
  "stitch_args [] offset command = command"
| "stitch_args (None # argv) offset command = command"
| "stitch_args (Some arg # argv) offset command =
     (let safe_offset = offset AND 0xff in
      if 192 < safe_offset then command
      else
        let (len, bs) = probe_read_str 64 arg;
            command1 = buf_write (unat safe_offset) bs command
        in if 0 < len then
             let space_offset = (safe_offset + of_int (len - 1)) AND 0xff
             in stitch_args argv (space_offset + 1) (command1[unat space_offset := 0x20])
           else stitch_args argv offset command1)"

text \<open>\<open>user_argv\<close> is \<open>None\<close> when the pointer array cannot be read, which leaves three null pointers.\<close>

definition handle_execve ::
  "'p kernel \<Rightarrow> event \<Rightarrow> bytes \<Rightarrow> (bytes option \<times> bytes option \<times> bytes option) option \<Rightarrow> monitor \<Rightarrow> monitor"
where
  "handle_execve k slot user_path user_argv m =
     (case mon_current_nspids k m of
        None \<Rightarrow> m
      | Some (tid, pid) \<Rightarrow>
          if hash_lookup (m_tracked_pids m) pid = None then m
          else if \<not> ringbuf_has_room k then m
          else
            let argv = (case user_argv of
                          Some (a0, a1, a2) \<Rightarrow> [a0, a1, a2]
                        | None \<Rightarrow> [None, None, None])
            in m\<lparr>events := events m @
                  [slot\<lparr>e_timestamp_ns := ktime_get_ns k, e_pid := pid, e_ppid := 0,
                        e_comm := current_comm k, event_type := 3,
                        e_filename := read_str_buf 256 (e_filename slot) user_path,
                        e_daddr := 0, e_dport := 0,
                        e_command := stitch_args argv 0 (zeros 256)\<rparr>]\<rparr>)"

definition handle_exit :: "'p kernel \<Rightarrow> monitor \<Rightarrow> monitor" where
  "handle_exit k m =
     (case mon_current_nspids k m of
        None \<Rightarrow> m
      | Some (tid, tgid) \<Rightarrow>
          let m1 = m\<lparr>m_tracked_pids := hash_delete (m_tracked_pids m) tid\<rparr>
          in if tid = tgid then m1\<lparr>m_tracked_pids := hash_delete (m_tracked_pids m1) tgid\<rparr>
             else m1)"

section \<open>PID translation is a search by namespace\<close>

definition kpid_wf :: "kpid \<Rightarrow> bool" where
  "kpid_wf p \<longleftrightarrow> length (numbers p) = unat (level p) + 1"

text \<open>The number of a PID in the namespace with the given inode, among its four outermost levels.\<close>

definition nr_in_ns :: "u64 \<Rightarrow> kpid \<Rightarrow> u32" where
  "nr_in_ns ino p =
     (case find (\<lambda>u. ucast (ns_inum u) = ino) (take 4 (numbers p)) of None \<Rightarrow> 0 | Some u \<Rightarrow> nr u)"

lemma pid_nr_in_agent_ns_eq:
  assumes "kpid_wf p"
  shows "pid_nr_in_agent_ns ino (Some p) = nr_in_ns ino p"
proof -
  have lev: "(1::u32) \<le> level p \<longleftrightarrow> 1 \<le> unat (level p)" "(2::u32) \<le> level p \<longleftrightarrow> 2 \<le> unat (level p)"
    "(3::u32) \<le> level p \<longleftrightarrow> 3 \<le> unat (level p)"
    by (simp_all add: word_le_nat_alt)
  have ge: "(0::u32) \<le> level p" by simp
  consider a where "numbers p = [a]" | a b where "numbers p = [a, b]"
    | a b c where "numbers p = [a, b, c]" | a b c d r where "numbers p = a # b # c # d # r"
    using assms unfolding kpid_wf_def
    by (metis Suc_eq_plus1 length_0_conv list.exhaust nat.distinct(1))
  then show ?thesis
  proof cases
    case (1 a)
    with assms have "unat (level p) = 0" by (simp add: kpid_wf_def)
    then show ?thesis using 1 ge lev by (simp add: pid_nr_in_agent_ns_def nr_in_ns_def)
  next
    case (2 a b)
    with assms have "unat (level p) = 1" by (simp add: kpid_wf_def)
    then show ?thesis using 2 ge lev by (simp add: pid_nr_in_agent_ns_def nr_in_ns_def)
  next
    case (3 a b c)
    with assms have "unat (level p) = 2" by (simp add: kpid_wf_def)
    then show ?thesis using 3 ge lev by (simp add: pid_nr_in_agent_ns_def nr_in_ns_def)
  next
    case (4 a b c d r)
    with assms have "3 \<le> unat (level p)" by (simp add: kpid_wf_def)
    then show ?thesis using 4 ge lev
      by (simp add: pid_nr_in_agent_ns_def nr_in_ns_def numeral_3_eq_3)
  qed
qed

section \<open>The command line of an exec event\<close>

definition user_str :: "bytes \<Rightarrow> bytes \<Rightarrow> bool" where
  "user_str a mem \<longleftrightarrow> 0 \<notin> set a \<and> prefix (a @ [0]) mem"

lemma probe_user_str:
  assumes "user_str a mem"
  shows "probe_read_str 64 mem = (int (length (take 63 a)) + 1, take 63 a @ [0])"
  using assms probe_read_str_ok [of 64 a] by (auto simp: user_str_def prefix_def)

lemma stitch_step:
  assumes "user_str a mem" "length acc \<le> 192"
  shows "stitch_args (Some mem # argv) (of_nat (length acc)) (acc @ zeros (256 - length acc)) =
    (let acc' = acc @ take 63 a @ [0x20]
     in stitch_args argv (of_nat (length acc')) (acc' @ zeros (256 - length acc')))"
proof -
  let ?t = "take 63 a" and ?n = "length acc"
  have nt: "length ?t \<le> 63" by simp
  have safe: "(of_nat ?n :: u32) AND 0xff = of_nat ?n"
    using assms(2) by (subst word_unat_eq_iff) (simp add: unat_and_mask8 unat_of_nat)
  have le: "\<not> (192 :: u32) < of_nat ?n"
    using assms(2) by (simp add: word_less_nat_alt unat_of_nat)
  have sp: "(of_nat ?n + of_int (int (length ?t) + 1 - 1) :: u32) AND 0xff = of_nat (?n + length ?t)"
  proof (subst word_unat_eq_iff)
    have "(of_nat ?n + of_int (int (length ?t) + 1 - 1) :: u32) = of_nat (?n + length ?t)" by simp
    then show "unat ((of_nat ?n + of_int (int (length ?t) + 1 - 1) :: u32) AND 0xff) =
        unat (of_nat (?n + length ?t) :: u32)"
      using assms(2) nt by (simp only: unat_and_mask8 unat_of_nat) simp
  qed
  have wr: "buf_write ?n (?t @ [0]) (acc @ zeros (256 - ?n)) =
      acc @ ?t @ 0 # zeros (256 - ?n - length ?t - 1)"
    using assms(2) nt by (simp add: buf_write_def zeros_def)
  have un: "unat (of_nat (?n + length ?t) :: u32) = ?n + length ?t" "unat (of_nat ?n :: u32) = ?n"
    using assms(2) nt by (simp_all only: unat_of_nat) simp_all
  have upd: "(acc @ ?t @ 0 # zeros (256 - ?n - length ?t - 1))[?n + length ?t := 0x20] =
      (acc @ ?t @ [0x20]) @ zeros (256 - length (acc @ ?t @ [0x20]))"
    by (simp add: list_update_append)
  show ?thesis
    unfolding stitch_args.simps safe probe_user_str [OF assms(1)] Let_def prod.case sp un wr upd
    using le by (simp add: add.commute)
qed

definition stitched :: "bytes list \<Rightarrow> bytes" where
  "stitched args = concat (map (\<lambda>a. take 63 a @ [0x20]) args)"

lemma length_stitched: "length (stitched args) \<le> 64 * length args"
  by (induction args) (auto simp: stitched_def)

lemma stitched_no_NUL: "list_all2 user_str args mems \<Longrightarrow> 0 \<notin> set (stitched args)"
  by (induction rule: list_all2_induct)
    (auto simp: stitched_def user_str_def dest: in_set_takeD)

lemma stitch_args_strings:
  assumes "list_all2 user_str args mems" "length acc + 64 * length args \<le> 256"
    and stop: "argv = [] \<or> hd argv = None"
  shows "stitch_args (map Some mems @ argv) (of_nat (length acc)) (acc @ zeros (256 - length acc)) =
           (acc @ stitched args) @ zeros (256 - length (acc @ stitched args))"
  using assms(1,2)
proof (induction args mems arbitrary: acc rule: list_all2_induct)
  case Nil
  from stop show ?case by (cases argv) (auto simp: stitched_def)
next
  case (Cons a args mem mems)
  let ?acc = "acc @ take 63 a @ [0x20]"
  have "length ?acc + 64 * length args \<le> 256" using Cons.prems by simp
  from Cons.IH [OF this] show ?case
    using stitch_step [OF Cons.hyps(1), of acc "map Some mems @ argv"] Cons.prems
    by (simp add: Let_def stitched_def del: of_nat_add length_append)
qed

section \<open>Effects on the tracked processes\<close>

text \<open>The calling process, when its PID namespace is the agent's and it is on the list.\<close>

definition mon_tracked :: "monitor \<Rightarrow> u32 \<Rightarrow> bool" where
  "mon_tracked m pid \<longleftrightarrow> hash_lookup (m_tracked_pids m) pid \<noteq> None"

named_theorems track_simps \<open>what the tracepoints do to the tracked processes\<close>

lemma observers_keep_tracking [track_simps]:
  "m_tracked_pids (handle_openat k slot p m) = m_tracked_pids m"
  "m_tracked_pids (handle_connect k slot a m) = m_tracked_pids m"
  "m_tracked_pids (handle_execve k slot p av m) = m_tracked_pids m"
  by (auto simp: handle_openat_def handle_connect_def handle_execve_def Let_def split: option.splits)

lemma fork_tracking [track_simps]:
  "m_tracked_pids (handle_fork k slot parent child m) =
     (case mon_current_nspids k m of
        None \<Rightarrow> m_tracked_pids m
      | Some (ptid, ptgid) \<Rightarrow>
          if t_pid child = t_tgid child \<and> mon_tracked m ptgid \<and>
             task_tgid_in_agent_ns (m_pidns_ino m) child \<noteq> 0
          then snd (hash_update 8192 (m_tracked_pids m) (task_tgid_in_agent_ns (m_pidns_ino m) child) 1)
          else m_tracked_pids m)"
  by (auto simp: handle_fork_def mon_tracked_def Let_def split: option.splits)

lemma hash_delete_idem: "hash_delete (hash_delete m k) k = hash_delete m k"
  by (simp add: hash_delete_def delete_idem)

lemma exit_tracking [track_simps]:
  "m_tracked_pids (handle_exit k m) =
     (case mon_current_nspids k m of
        None \<Rightarrow> m_tracked_pids m
      | Some (tid, tgid) \<Rightarrow> hash_delete (m_tracked_pids m) tid)"
  by (auto simp: handle_exit_def Let_def hash_delete_idem split: option.splits)

lemma handlers_keep_namespace [track_simps]:
  "m_pidns_dev (handle_openat k slot p m) = m_pidns_dev m"
  "m_pidns_ino (handle_openat k slot p m) = m_pidns_ino m"
  "m_pidns_dev (handle_connect k slot a m) = m_pidns_dev m"
  "m_pidns_ino (handle_connect k slot a m) = m_pidns_ino m"
  "m_pidns_dev (handle_execve k slot p av m) = m_pidns_dev m"
  "m_pidns_ino (handle_execve k slot p av m) = m_pidns_ino m"
  "m_pidns_dev (handle_fork k slot parent child m) = m_pidns_dev m"
  "m_pidns_ino (handle_fork k slot parent child m) = m_pidns_ino m"
  "m_pidns_dev (handle_exit k m) = m_pidns_dev m"
  "m_pidns_ino (handle_exit k m) = m_pidns_ino m"
  by (auto simp: handle_openat_def handle_connect_def handle_execve_def handle_fork_def
      handle_exit_def Let_def split: option.splits)

section \<open>Properties\<close>

lemma find_first_nth:
  assumes "i < length xs" "P (xs ! i)" "\<forall>j < i. \<not> P (xs ! j)"
  shows "find P xs = Some (xs ! i)"
  using assms by (auto simp: find_Some_iff)

text \<open>
  The number of a PID in the agent's namespace is the number at the outermost
  level whose namespace has the agent's inode, when that level is one of the first four, and 0
  when none of them has it.
\<close>

theorem pid_translation:
  assumes "kpid_wf p"
  shows "(\<forall>i. i < 4 \<and> i \<le> unat (level p) \<and> ucast (ns_inum (numbers p ! i)) = ino \<and>
            (\<forall>j < i. ucast (ns_inum (numbers p ! j)) \<noteq> ino) \<longrightarrow>
          pid_nr_in_agent_ns ino (Some p) = nr (numbers p ! i)) \<and>
    ((\<forall>i. i < 4 \<and> i \<le> unat (level p) \<longrightarrow> ucast (ns_inum (numbers p ! i)) \<noteq> ino) \<longrightarrow>
          pid_nr_in_agent_ns ino (Some p) = 0)"
proof (intro conjI allI impI; (elim conjE)?)
  fix i assume "i < 4" "i \<le> unat (level p)" "ucast (ns_inum (numbers p ! i)) = ino"
    "\<forall>j < i. ucast (ns_inum (numbers p ! j)) \<noteq> ino"
  then show "pid_nr_in_agent_ns ino (Some p) = nr (numbers p ! i)"
    using assms find_first_nth [of i "take 4 (numbers p)" "\<lambda>u. ucast (ns_inum u) = ino"]
    by (simp add: pid_nr_in_agent_ns_eq nr_in_ns_def kpid_wf_def)
next
  assume none: "\<forall>i. i < 4 \<and> i \<le> unat (level p) \<longrightarrow> ucast (ns_inum (numbers p ! i)) \<noteq> ino"
  have "ucast (ns_inum u) \<noteq> ino" if "u \<in> set (take 4 (numbers p))" for u
  proof -
    from that obtain i where "u = numbers p ! i" "i < 4" "i < length (numbers p)"
      by (auto simp: in_set_conv_nth)
    then show ?thesis using none assms by (auto simp: kpid_wf_def)
  qed
  then have "find (\<lambda>u. ucast (ns_inum u) = ino) (take 4 (numbers p)) = None"
    by (auto simp: find_None_iff)
  then show "pid_nr_in_agent_ns ino (Some p) = 0"
    using assms by (simp add: pid_nr_in_agent_ns_eq nr_in_ns_def)
qed

theorem pid_translation_witness:
  "pid_nr_in_agent_ns 9 (Some \<lparr>level = 1, numbers = [\<lparr>nr = 500, ns_inum = 8\<rparr>, \<lparr>nr = 5, ns_inum = 9\<rparr>]\<rparr>) = 5"
  using pid_translation [of "\<lparr>level = 1, numbers = [\<lparr>nr = 500, ns_inum = 8\<rparr>, \<lparr>nr = 5, ns_inum = 9\<rparr>]\<rparr>" 9]
  by (auto simp: kpid_wf_def dest!: spec [of _ 1] conjunct1)

text \<open>
  An exec of a tracked task with up to three argument strings adds one event
  of type 3 with the task's process, the program name cut to 255 bytes, and as command line the
  arguments, each cut to 63 bytes and followed by a space; the list of processes is untouched.
\<close>

theorem execve_event:
  assumes "mon_current_nspids k m = Some (tid, pid)" "mon_tracked m pid" "ringbuf_has_room k"
    and "user_str path mem" "list_all2 user_str args mems" "length args \<le> 3"
    and "[a0, a1, a2] = take 3 (map Some mems @ [None, None, None])"
  shows "\<exists>e. events (handle_execve k slot mem (Some (a0, a1, a2)) m) = events m @ [e] \<and>
    event_type e = 3 \<and> e_pid e = pid \<and> e_ppid e = 0 \<and> cstr (e_filename e) = take 255 path \<and>
    cstr (e_command e) = stitched args \<and> length (e_command e) = 256 \<and>
    m_tracked_pids (handle_execve k slot mem (Some (a0, a1, a2)) m) = m_tracked_pids m"
proof -
  have len: "length mems = length args" using assms(5) by (simp add: list_all2_lengthD)
  define r where "r = replicate (3 - length args) (None :: bytes option)"
  have "[None, None, None] = replicate 3 (None :: bytes option)" by (simp add: numeral_3_eq_3)
  then have argv: "[a0, a1, a2] = map Some mems @ r"
    using assms(6,7) len by (simp add: r_def)
  have "r = [] \<or> hd r = None" by (cases "3 - length args") (simp_all add: r_def)
  then have cmd: "stitch_args [a0, a1, a2] 0 (zeros 256) = stitched args @ zeros (256 - length (stitched args))"
    unfolding argv using stitch_args_strings [OF assms(5), of "[]" r] assms(6) by simp
  have ls: "length (stitched args) < 256" using length_stitched [of args] assms(6) by linarith
  then obtain z where "zeros (256 - length (stitched args)) = 0 # z"
    by (cases "256 - length (stitched args)") (auto simp: zeros_def)
  then have cs: "cstr (stitch_args [a0, a1, a2] 0 (zeros 256)) = stitched args"
    unfolding cmd using stitched_no_NUL [OF assms(5)] by (simp add: cstr_append_NUL)
  have cl: "length (stitch_args [a0, a1, a2] 0 (zeros 256)) = 256" unfolding cmd using ls by simp
  obtain rest where "mem = path @ 0 # rest" "0 \<notin> set path"
    using assms(4) by (auto simp: user_str_def prefix_def)
  then have fn: "cstr (read_str_buf 256 (e_filename slot) mem) = take 255 path"
    by (simp add: cstr_read_str_buf)
  show ?thesis
    using assms(1-3) cs cl fn
    by (simp add: handle_execve_def mon_tracked_def Let_def del: stitch_args.simps)
qed

text \<open>
  An open by a tracked task adds one event of type 1 with the task's process and the
  name passed by the program, cut to 255 bytes; a connect adds one of type 2 with the address as
  stored and the port in host order when the address is IPv4 and nothing otherwise.
\<close>

theorem open_connect_events:
  assumes "mon_current_nspids k m = Some (tid, pid)" "mon_tracked m pid" "ringbuf_has_room k"
    and "user_str path mem"
  shows "(\<exists>e. handle_openat k slot mem m = m\<lparr>events := events m @ [e]\<rparr> \<and>
      event_type e = 1 \<and> e_pid e = pid \<and> cstr (e_filename e) = take 255 path) \<and>
    (if sin_family a = AF_INET then
       \<exists>e. handle_connect k slot (Some a) m = m\<lparr>events := events m @ [e]\<rparr> \<and>
         event_type e = 2 \<and> e_pid e = pid \<and> e_daddr e = s_addr a \<and> bpf_ntohs (e_dport e) = sin_port a
     else handle_connect k slot (Some a) m = m)"
proof -
  obtain rest where "mem = path @ 0 # rest" "0 \<notin> set path"
    using assms(4) by (auto simp: user_str_def prefix_def)
  then have "cstr (read_str_buf 256 (e_filename slot) mem) = take 255 path"
    by (simp add: cstr_read_str_buf)
  then show ?thesis
    using assms(1-3)
    by (auto simp: handle_openat_def handle_connect_def mon_tracked_def)
qed

text \<open>A monitor state for concrete runs: process 42 is tracked in the namespace with inode 9.\<close>

definition sample_mon :: monitor where
  "sample_mon = \<lparr>m_pidns_dev = 3, m_pidns_ino = 9, m_tracked_pids = [(42, 1)], events = []\<rparr>"

definition sample_slot :: event where
  "sample_slot = \<lparr>e_timestamp_ns = 0, e_pid = 0, e_ppid = 0, e_comm = zeros 16, event_type = 0,
     e_filename = zeros 256, e_daddr = 0, e_dport = 0, e_command = zeros 256, e_policy_type = 0\<rparr>"

definition mon_kernel :: "u32 \<Rightarrow> u32 \<Rightarrow> unit kernel" where
  "mon_kernel t p =
     \<lparr>ns_current_pid_tgid = (\<lambda>_ _. Some (t, p)), ktime_get_ns = 0, current_comm = zeros 16,
      ringbuf_has_room = True, d_path = (\<lambda>_ b. (0, b)), path_d_path = (\<lambda>_ b. (0, b))\<rparr>"

lemma sample_mon_simps [simp]:
  "mon_current_nspids (mon_kernel t p) m = Some (t, p)" "ringbuf_has_room (mon_kernel t p)"
  "mon_tracked sample_mon p \<longleftrightarrow> p = 42"
  by (simp_all add: mon_current_nspids_def mon_kernel_def mon_tracked_def sample_mon_def hash_lookup_def)

theorem execve_event_witness:
  "\<exists>e. events (handle_execve (mon_kernel 42 42) sample_slot [0x6c, 0x73, 0]
         (Some (Some [0x6c, 0x73, 0], Some [0x2d, 0x6c, 0], None)) sample_mon) = events sample_mon @ [e] \<and>
     cstr (e_command e) = [0x6c, 0x73, 0x20, 0x2d, 0x6c, 0x20]"
proof -
  have "user_str [0x6c, 0x73] [0x6c, 0x73, 0]" "user_str [0x2d, 0x6c] [0x2d, 0x6c, 0]"
    by (simp_all add: user_str_def)
  then show ?thesis
    using execve_event [of "mon_kernel 42 42" sample_mon 42 42 "[0x6c, 0x73]" "[0x6c, 0x73, 0]"
        "[[0x6c, 0x73], [0x2d, 0x6c]]" "[[0x6c, 0x73, 0], [0x2d, 0x6c, 0]]"
        "Some [0x6c, 0x73, 0]" "Some [0x2d, 0x6c, 0]" None sample_slot]
    by (auto simp: stitched_def)
qed

theorem open_connect_events_witness:
  "\<exists>e. handle_openat (mon_kernel 42 42) sample_slot [0x61, 0] sample_mon = sample_mon\<lparr>events := events sample_mon @ [e]\<rparr> \<and>
     cstr (e_filename e) = [0x61]"
  using open_connect_events [of "mon_kernel 42 42" sample_mon 42 42 "[0x61]" "[0x61, 0]" sample_slot zero_sin]
  by (auto simp: user_str_def)

text \<open>
  A fork by a tracked process adds the child's process to the list when it is
  not full, keeps every other entry, and reports parent and child in an event of type 4; the
  creation of a thread, and a fork by a process that is not on the list, change nothing.
\<close>

theorem fork_extends_tracking:
  assumes "mon_current_nspids k m = Some (ptid, ptgid)"
    and "task_tgid_in_agent_ns (m_pidns_ino m) child = c" "c \<noteq> 0"
  shows "if t_pid child = t_tgid child \<and> mon_tracked m ptgid then
      (length (m_tracked_pids m) < 8192 \<longrightarrow>
         (\<forall>q. mon_tracked (handle_fork k slot parent child m) q \<longleftrightarrow> mon_tracked m q \<or> q = c)) \<and>
      (ringbuf_has_room k \<longrightarrow>
         (\<exists>e. events (handle_fork k slot parent child m) = events m @ [e] \<and>
           event_type e = 4 \<and> e_pid e = c \<and> e_ppid e = ptgid))
    else handle_fork k slot parent child m = m"
  using assms hm.lookup_update [of 8192 "m_tracked_pids m" c 1]
  by (auto simp: handle_fork_def mon_tracked_def Let_def)

text \<open>The child of the concrete runs: process 50 in the agent's namespace, number 500 outside.\<close>

definition sample_child :: task_struct where
  "sample_child = \<lparr>t_pid = 500, t_tgid = 500,
     thread_pid = Some \<lparr>level = 1, numbers = [\<lparr>nr = 500, ns_inum = 8\<rparr>, \<lparr>nr = 50, ns_inum = 9\<rparr>]\<rparr>\<rparr>"

lemma sample_child_nr: "task_tgid_in_agent_ns (m_pidns_ino sample_mon) sample_child = 50"
  by (simp add: task_tgid_in_agent_ns_def sample_child_def sample_mon_def pid_nr_in_agent_ns_def)

theorem fork_extends_tracking_witness:
  "mon_tracked (handle_fork (mon_kernel 43 42) sample_slot sample_child sample_child sample_mon) 50"
  using fork_extends_tracking [OF sample_mon_simps(1) [of 43 42] sample_child_nr, of sample_slot sample_child]
  by (simp add: sample_child_def) (simp add: sample_mon_def)

text \<open>
  A child whose PID has the agent's namespace at none of its first four levels is
  not put on the list and not reported: below four levels of namespaces forks escape.
\<close>

theorem deep_namespace_fork_ignored:
  assumes "thread_pid child = Some p" "kpid_wf p"
    and "\<forall>u \<in> set (take 4 (numbers p)). ucast (ns_inum u) \<noteq> m_pidns_ino m"
  shows "handle_fork k slot parent child m = m"
proof -
  have "find (\<lambda>u. ucast (ns_inum u) = m_pidns_ino m) (take 4 (numbers p)) = None"
    using assms(3) by (auto simp: find_None_iff)
  then have "task_tgid_in_agent_ns (m_pidns_ino m) child = 0"
    using assms by (simp add: task_tgid_in_agent_ns_def pid_nr_in_agent_ns_eq nr_in_ns_def)
  then show ?thesis
    by (auto simp: handle_fork_def Let_def split: option.splits)
qed

theorem deep_namespace_fork_ignored_witness:
  "handle_fork (mon_kernel 42 42) sample_slot sample_child
     \<lparr>t_pid = 500, t_tgid = 500, thread_pid = Some \<lparr>level = 4, numbers =
        [\<lparr>nr = 500, ns_inum = 1\<rparr>, \<lparr>nr = 400, ns_inum = 2\<rparr>, \<lparr>nr = 300, ns_inum = 3\<rparr>,
         \<lparr>nr = 200, ns_inum = 4\<rparr>, \<lparr>nr = 50, ns_inum = 9\<rparr>]\<rparr>\<rparr> sample_mon = sample_mon"
  by (rule deep_namespace_fork_ignored [of _ "\<lparr>level = 4, numbers =
        [\<lparr>nr = 500, ns_inum = 1\<rparr>, \<lparr>nr = 400, ns_inum = 2\<rparr>, \<lparr>nr = 300, ns_inum = 3\<rparr>,
         \<lparr>nr = 200, ns_inum = 4\<rparr>, \<lparr>nr = 50, ns_inum = 9\<rparr>]\<rparr>"])
    (simp_all add: kpid_wf_def sample_mon_def)

text \<open>
  A task that is not on the list causes no event and no change of the list through
  any of the four reporting programs, and no program but fork adds to the list.
\<close>

theorem untracked_tasks_unobserved:
  assumes "mon_current_nspids k m = Some (tid, pid)" "\<not> mon_tracked m pid"
  shows "handle_openat k slot path m = m \<and> handle_connect k slot a m = m \<and>
    handle_execve k slot path av m = m \<and> handle_fork k slot parent child m = m \<and>
    (mon_tracked (handle_exit k m) q \<longrightarrow> mon_tracked m q)"
  using assms
  by (auto simp: handle_openat_def handle_connect_def handle_execve_def handle_fork_def mon_tracked_def
      track_simps hm.lookup_delete split: if_splits)

theorem untracked_tasks_unobserved_witness:
  "handle_fork (mon_kernel 7 7) sample_slot sample_child sample_child sample_mon = sample_mon"
  using untracked_tasks_unobserved [of "mon_kernel 7 7" sample_mon 7 7 sample_slot "[]" None None
      sample_child sample_child 0]
  by simp

text \<open>
  An exiting worker thread, whose id is no listed process, leaves the list as it
  is; an exiting leader takes its process off the list, and every other process stays.
\<close>

theorem exit_removes_leader_only:
  assumes "mon_current_nspids k m = Some (tid, tgid)" "tid \<noteq> tgid \<longrightarrow> \<not> mon_tracked m tid"
  shows "mon_tracked (handle_exit k m) q \<longleftrightarrow> mon_tracked m q \<and> (tid = tgid \<longrightarrow> q \<noteq> tgid)"
  using assms by (auto simp: mon_tracked_def track_simps hm.lookup_delete split: if_splits)

theorem exit_removes_leader_only_witness:
  "mon_tracked (handle_exit (mon_kernel 43 42) sample_mon) 42 \<and>
   \<not> mon_tracked (handle_exit (mon_kernel 42 42) sample_mon) 42"
  using exit_removes_leader_only [of "mon_kernel 43 42" sample_mon 43 42 42]
    exit_removes_leader_only [of "mon_kernel 42 42" sample_mon 42 42 42]
  by simp

end
