(* ===== verification/C_Layout.thy ===== *)
theory C_Layout
  imports Prelude
begin

text \<open>
  The layout of C objects as the compiler of the eBPF programs computes it: sizes, alignments and
  bit offsets of members for scalars, pointers, arrays, structures, unions, packed structures and
  bit-fields, with members of anonymous structures found through them. Used for the kernel types of
  \<open>vmlinux.h\<close> the programs read with \<open>BPF_CORE_READ\<close> and for the records of the maps and ring
  buffers. Positions are in bits, sizes and alignments in bytes.
\<close>

section \<open>Types\<close>

text \<open>
  \<open>Scalar n\<close> is an integer or enumeration of \<open>n\<close> bytes, aligned to its size. The flag of a structure
  or union says that it is packed. \<open>Bit f n w\<close> is a bit-field of \<open>w\<close> bits in a type of \<open>n\<close> bytes; a
  member with the empty name is unnamed.
\<close>

datatype ctype =
  Scalar nat
| Ptr
| Arr ctype nat
| Struct bool "member list"
| Union bool "member list"
and member =
  Fld string ctype
| Bit string nat nat

text \<open>The scalar types of the target: 64-bit longs and pointers, 32-bit enumerations.\<close>

abbreviation c_char :: ctype where "c_char \<equiv> Scalar 1"
abbreviation c_bool :: ctype where "c_bool \<equiv> Scalar 1"
abbreviation c_short :: ctype where "c_short \<equiv> Scalar 2"
abbreviation c_int :: ctype where "c_int \<equiv> Scalar 4"
abbreviation c_enum :: ctype where "c_enum \<equiv> Scalar 4"
abbreviation c_long :: ctype where "c_long \<equiv> Scalar 8"
abbreviation c_int128 :: ctype where "c_int128 \<equiv> Scalar 16"

definition align_up :: "nat \<Rightarrow> nat \<Rightarrow> nat" where
  "align_up n a = (n + a - 1) div a * a"

fun alignof :: "ctype \<Rightarrow> nat" and alignm :: "member \<Rightarrow> nat" and alignms :: "member list \<Rightarrow> nat" where
  "alignof (Scalar n) = n"
| "alignof Ptr = 8"
| "alignof (Arr t n) = alignof t"
| "alignof (Struct p ms) = (if p then 1 else alignms ms)"
| "alignof (Union p ms) = (if p then 1 else alignms ms)"
| "alignm (Fld f t) = alignof t"
| "alignm (Bit f n w) = (if f = [] then 1 else n)"
| "alignms [] = 1"
| "alignms (m # ms) = max (alignm m) (alignms ms)"

named_theorems layout_simps \<open>evaluation of layouts on concrete types\<close>

declare align_up_def [layout_simps]

text \<open>Where a member starts when the members before it end at bit \<open>pos\<close>.\<close>

fun start_of :: "bool \<Rightarrow> nat \<Rightarrow> member \<Rightarrow> nat" where
  "start_of p pos (Fld f t) = align_up pos (8 * (if p then 1 else alignof t))"
| "start_of p pos (Bit f n w) =
     (if w = 0 then align_up pos (8 * n)
      else if p then pos
      else if 8 * n < pos mod (8 * n) + w then align_up pos (8 * n)
      else pos)"

fun sizeof :: "ctype \<Rightarrow> nat" and width :: "member \<Rightarrow> nat"
  and end_of :: "bool \<Rightarrow> nat \<Rightarrow> member list \<Rightarrow> nat" and union_end :: "member list \<Rightarrow> nat" where
  "sizeof (Scalar n) = n"
| "sizeof Ptr = 8"
| "sizeof (Arr t n) = n * sizeof t"
| "sizeof (Struct p ms) = align_up (end_of p 0 ms) (8 * (if p then 1 else alignms ms)) div 8"
| "sizeof (Union p ms) = align_up (union_end ms) (8 * (if p then 1 else alignms ms)) div 8"
| "width (Fld f t) = 8 * sizeof t"
| "width (Bit f n w) = w"
| "end_of p pos [] = pos"
| "end_of p pos (m # ms) = end_of p (start_of p pos m + width m) ms"
| "union_end [] = 0"
| "union_end (m # ms) = max (width m) (union_end ms)"

text \<open>The members with the bits they start at.\<close>

fun placed :: "bool \<Rightarrow> nat \<Rightarrow> member list \<Rightarrow> (nat \<times> member) list" where
  "placed p pos [] = []"
| "placed p pos (m # ms) = (start_of p pos m, m) # placed p (start_of p pos m + width m) ms"

text \<open>
  The member a name selects, as its first bit and type, looking into unnamed structures and unions;
  bit-fields have no address and are skipped.
\<close>

fun field :: "string \<Rightarrow> ctype \<Rightarrow> (nat \<times> ctype) option"
  and field_in :: "string \<Rightarrow> bool \<Rightarrow> nat \<Rightarrow> member list \<Rightarrow> (nat \<times> ctype) option"
  and field_un :: "string \<Rightarrow> member list \<Rightarrow> (nat \<times> ctype) option"
  and field_m :: "string \<Rightarrow> member \<Rightarrow> (nat \<times> ctype) option" where
  "field f (Struct p ms) = field_in f p 0 ms"
| "field f (Union p ms) = field_un f ms"
| "field f (Scalar n) = None"
| "field f Ptr = None"
| "field f (Arr t n) = None"
| "field_in f p pos [] = None"
| "field_in f p pos (m # ms) =
     (case field_m f m of
        Some (off, t) \<Rightarrow> Some (start_of p pos m + off, t)
      | None \<Rightarrow> field_in f p (start_of p pos m + width m) ms)"
| "field_un f [] = None"
| "field_un f (m # ms) = (case field_m f m of Some r \<Rightarrow> Some r | None \<Rightarrow> field_un f ms)"
| "field_m f (Fld g t) = (if g = f then Some (0, t) else if g = [] then field f t else None)"
| "field_m f (Bit g n w) = None"

text \<open>
  A path of member selections and array indexes, as in \<open>numbers[1].ns\<close>. An index is not checked
  against the declared length: C computes the address all the same, and kernel structures end in
  arrays of declared length 0.
\<close>

datatype access = Dot string | Idx nat

fun resolve :: "ctype \<Rightarrow> access list \<Rightarrow> (nat \<times> ctype) option" where
  "resolve t [] = Some (0, t)"
| "resolve t (Dot f # as) =
     (case field f t of
        None \<Rightarrow> None
      | Some (off, t') \<Rightarrow> map_option (\<lambda>(off', u). (off + off', u)) (resolve t' as))"
| "resolve (Arr t n) (Idx i # as) = map_option (\<lambda>(off', u). (i * (8 * sizeof t) + off', u)) (resolve t as)"
| "resolve t (Idx i # as) = None"

definition offsetof :: "ctype \<Rightarrow> access list \<Rightarrow> nat" where
  "offsetof t as = (case resolve t as of None \<Rightarrow> 0 | Some (off, u) \<Rightarrow> off div 8)"

section \<open>Well-formed types\<close>

text \<open>Sizes of scalars are powers of two and no bit-field is wider than its type.\<close>

fun ctype_wf :: "ctype \<Rightarrow> bool" and member_wf :: "member \<Rightarrow> bool" and members_wf :: "member list \<Rightarrow> bool" where
  "ctype_wf (Scalar n) \<longleftrightarrow> n \<in> {1, 2, 4, 8, 16}"
| "ctype_wf Ptr \<longleftrightarrow> True"
| "ctype_wf (Arr t n) \<longleftrightarrow> ctype_wf t"
| "ctype_wf (Struct p ms) \<longleftrightarrow> members_wf ms"
| "ctype_wf (Union p ms) \<longleftrightarrow> members_wf ms"
| "member_wf (Fld f t) \<longleftrightarrow> ctype_wf t"
| "member_wf (Bit f n w) \<longleftrightarrow> n \<in> {1, 2, 4, 8, 16} \<and> w \<le> 8 * n"
| "members_wf [] \<longleftrightarrow> True"
| "members_wf (m # ms) \<longleftrightarrow> member_wf m \<and> members_wf ms"

lemma members_wf_iff: "members_wf ms \<longleftrightarrow> (\<forall>m \<in> set ms. member_wf m)"
  by (induction ms) auto

text \<open>No packed structure or union inside.\<close>

fun natural :: "ctype \<Rightarrow> bool" and natural_m :: "member \<Rightarrow> bool" and naturals :: "member list \<Rightarrow> bool" where
  "natural (Scalar n) \<longleftrightarrow> True"
| "natural Ptr \<longleftrightarrow> True"
| "natural (Arr t n) \<longleftrightarrow> natural t"
| "natural (Struct p ms) \<longleftrightarrow> \<not> p \<and> naturals ms"
| "natural (Union p ms) \<longleftrightarrow> \<not> p \<and> naturals ms"
| "natural_m (Fld f t) \<longleftrightarrow> natural t"
| "natural_m (Bit f n w) \<longleftrightarrow> True"
| "naturals [] \<longleftrightarrow> True"
| "naturals (m # ms) \<longleftrightarrow> natural_m m \<and> naturals ms"

section \<open>Alignment\<close>

lemma align_up_ge: "0 < a \<Longrightarrow> n \<le> align_up n a"
proof -
  assume a: "0 < a"
  have "n + a - 1 = (n + a - 1) div a * a + (n + a - 1) mod a" by simp
  moreover have "(n + a - 1) mod a \<le> a - 1" using mod_less_divisor [OF a, of "n + a - 1"] by linarith
  ultimately show ?thesis using a unfolding align_up_def by linarith
qed

lemma align_up_less: "0 < a \<Longrightarrow> align_up n a < n + a"
proof -
  assume a: "0 < a"
  have "align_up n a \<le> n + a - 1" unfolding align_up_def by (rule div_times_less_eq_dividend)
  with a show ?thesis by linarith
qed

lemma align_up_dvd: "a dvd align_up n a"
  by (simp add: align_up_def)

lemma align_up_least:
  assumes "0 < a" "a dvd k" "n \<le> k"
  shows "align_up n a \<le> k"
proof -
  obtain q where k: "k = q * a" using assms(2) by (auto simp: dvd_def mult.commute)
  have "(n + a - 1) div a \<le> (q * a + (a - 1)) div a"
    using assms(1,3) k by (intro div_le_mono) linarith
  also have "\<dots> = q" using assms(1) by (intro div_nat_eqI) (auto simp: mult.commute)
  finally show ?thesis by (simp add: align_up_def k)
qed

abbreviation pow2_sizes :: "nat set" where
  "pow2_sizes \<equiv> {1, 2, 4, 8, 16}"

lemma pow2_dvd: "a \<in> pow2_sizes \<Longrightarrow> b \<in> pow2_sizes \<Longrightarrow> a \<le> b \<Longrightarrow> a dvd b"
  by auto

lemma align_pow2:
  "ctype_wf t \<Longrightarrow> alignof t \<in> pow2_sizes"
  "member_wf m \<Longrightarrow> alignm m \<in> pow2_sizes"
  "members_wf ms \<Longrightarrow> alignms ms \<in> pow2_sizes"
proof (induction t and m and ms rule: alignof_alignm_alignms.induct)
  case (9 m ms)
  then have "alignm m \<in> pow2_sizes" "alignms ms \<in> pow2_sizes" by simp_all
  then show ?case unfolding alignms.simps max_def by presburger
qed auto

lemma align_pos: "ctype_wf t \<Longrightarrow> 0 < alignof t" "members_wf ms \<Longrightarrow> 0 < alignms ms"
  using align_pow2(1) [of t] align_pow2(3) [of ms] by auto

lemma alignm_le: "m \<in> set ms \<Longrightarrow> alignm m \<le> alignms ms"
  by (induction ms) auto

lemma alignm_dvd: "members_wf ms \<Longrightarrow> m \<in> set ms \<Longrightarrow> alignm m dvd alignms ms"
  using pow2_dvd [OF align_pow2(2) align_pow2(3) alignm_le] by (auto simp: members_wf_iff)

lemma eight_dvd_div: "8 * a dvd n \<Longrightarrow> a dvd n div (8 :: nat)"
  by (auto simp: dvd_def)

lemma alignof_dvd_sizeof: "ctype_wf t \<Longrightarrow> alignof t dvd sizeof t"
proof (induction t rule: measure_induct_rule [where f = size])
  case (less t)
  have up: "(if p then 1 else a) dvd align_up n (8 * (if p then 1 else a)) div 8" for p n a
    by (rule eight_dvd_div [OF align_up_dvd])
  show ?case
  proof (cases t)
    case (Arr u n)
    then show ?thesis using less.IH [of u] less.prems by (simp add: dvd_mult)
  qed (auto simp only: sizeof.simps alignof.simps up dvd_refl)
qed

section \<open>Members inside their structure\<close>

lemma start_of_ge: "member_wf m \<Longrightarrow> pos \<le> start_of p pos m"
  by (cases m) (auto intro!: align_up_ge simp: align_pos)

lemma placed_ge: "members_wf ms \<Longrightarrow> (b, m) \<in> set (placed p pos ms) \<Longrightarrow> pos \<le> b"
proof (induction p pos ms rule: placed.induct)
  case (2 p pos m' ms)
  have "pos \<le> start_of p pos m'" using "2.prems"(1) by (simp add: start_of_ge)
  with 2 show ?case by fastforce
qed simp

lemma end_of_ge: "members_wf ms \<Longrightarrow> pos \<le> end_of p pos ms"
proof (induction ms arbitrary: pos)
  case (Cons m ms)
  have "pos \<le> start_of p pos m" using Cons.prems by (simp add: start_of_ge)
  also have "\<dots> + width m \<le> end_of p (start_of p pos m + width m) ms" using Cons by simp
  finally show ?case by simp
qed simp

lemma placed_in_end:
  "members_wf ms \<Longrightarrow> (b, m) \<in> set (placed p pos ms) \<Longrightarrow> b + width m \<le> end_of p pos ms"
proof (induction p pos ms rule: placed.induct)
  case (2 p pos m' ms)
  then show ?case using end_of_ge [of ms "start_of p pos m' + width m'" p] by auto
qed simp

lemma placed_disjoint:
  assumes "members_wf ms" "i < j" "j < length ms"
  shows "fst (placed p pos ms ! i) + width (ms ! i) \<le> fst (placed p pos ms ! j)"
  using assms
proof (induction p pos ms arbitrary: i j rule: placed.induct)
  case (2 p pos m ms)
  let ?nxt = "start_of p pos m + width m"
  obtain j' where j': "j = Suc j'" "j' < length ms" using "2.prems" by (cases j) auto
  have len: "length (placed p q ms) = length ms" for q by (induction ms arbitrary: q) auto
  show ?case
  proof (cases i)
    case 0
    have "placed p ?nxt ms ! j' \<in> set (placed p ?nxt ms)" using j'(2) by (simp add: len)
    then have "?nxt \<le> fst (placed p ?nxt ms ! j')"
      using placed_ge [of ms _ _ p ?nxt] "2.prems"(1) by (metis members_wf.simps(2) prod.collapse)
    then show ?thesis by (simp add: 0 j'(1))
  next
    case (Suc i')
    then show ?thesis using "2.IH" [of i' j'] "2.prems" j' by simp
  qed
qed simp

lemma end_le_sizeof:
  assumes "members_wf ms"
  shows "end_of p 0 ms \<le> 8 * sizeof (Struct p ms)" "union_end ms \<le> 8 * sizeof (Union p ms)"
proof -
  let ?a = "8 * (if p then 1 else alignms ms)"
  have a: "0 < ?a" using align_pos(2) [OF assms] by simp
  have by8: "8 * (align_up n ?a div 8) = align_up n ?a" for n
  proof -
    have "8 dvd align_up n ?a" using align_up_dvd [of ?a n] by (rule dvd_trans [rotated]) simp
    then show ?thesis by simp
  qed
  show "end_of p 0 ms \<le> 8 * sizeof (Struct p ms)" "union_end ms \<le> 8 * sizeof (Union p ms)"
    unfolding sizeof.simps by8 using a by (auto intro: align_up_ge)
qed

lemma placed_in_sizeof:
  "members_wf ms \<Longrightarrow> (b, m) \<in> set (placed p 0 ms) \<Longrightarrow> b + width m \<le> 8 * sizeof (Struct p ms)"
  using placed_in_end end_le_sizeof(1) le_trans by blast

section \<open>Selected members\<close>

lemma start_of_Fld:
  "8 dvd start_of p pos (Fld f t)" "\<not> p \<Longrightarrow> 8 * alignof t dvd start_of p pos (Fld f t)"
proof -
  show "8 dvd start_of p pos (Fld f t)"
    using align_up_dvd [of "8 * (if p then 1 else alignof t)" pos] by (simp add: dvd_mult_left)
  show "\<not> p \<Longrightarrow> 8 * alignof t dvd start_of p pos (Fld f t)"
    using align_up_dvd [of "8 * alignof t" pos] by simp
qed

text \<open>
  What a selected member is: well formed, at a byte address, inside, and aligned when nothing
  around it is packed. \<open>a\<close> is the alignment of the place the enclosing object starts at.
\<close>

definition sub_ok :: "nat \<Rightarrow> nat \<Rightarrow> bool \<Rightarrow> nat \<Rightarrow> ctype \<Rightarrow> bool" where
  "sub_ok lo hi nat_al off u \<longleftrightarrow>
     ctype_wf u \<and> 8 dvd off \<and> lo \<le> off \<and> off + 8 * sizeof u \<le> hi \<and>
     (nat_al \<longrightarrow> natural u \<and> 8 * alignof u dvd off)"

lemma sub_ok_shift:
  assumes "sub_ok 0 hi nat_al off u" "8 dvd b" "nat_al \<longrightarrow> 8 * alignof u dvd b"
  shows "sub_ok b (b + hi) nat_al (b + off) u"
  using assms by (auto simp: sub_ok_def)

lemma sub_ok_mono: "sub_ok lo hi n off u \<Longrightarrow> lo' \<le> lo \<Longrightarrow> hi \<le> hi' \<Longrightarrow> sub_ok lo' hi' n off u"
  by (auto simp: sub_ok_def)

text \<open>The alignment of a selected member divides that of the object around it.\<close>

lemma field_align:
  "field f t = Some (off, u) \<Longrightarrow> ctype_wf t \<Longrightarrow> natural t \<Longrightarrow> alignof u dvd alignof t"
  "field_in f p pos ms = Some (off, u) \<Longrightarrow> members_wf ms \<Longrightarrow> naturals ms \<Longrightarrow> alignof u dvd alignms ms"
  "field_un f ms = Some (off, u) \<Longrightarrow> members_wf ms \<Longrightarrow> naturals ms \<Longrightarrow> alignof u dvd alignms ms"
  "field_m f m = Some (off, u) \<Longrightarrow> member_wf m \<Longrightarrow> natural_m m \<Longrightarrow> alignof u dvd alignm m"
proof (induction f t and f p pos ms and f ms and f m arbitrary: off and off and off and off
    rule: field_field_in_field_un_field_m.induct)
  case (7 f p pos m ms)
  have head: "alignm m dvd alignms (m # ms)" and tail: "alignms ms dvd alignms (m # ms)"
    using alignm_dvd [of "m # ms" m] "7.prems"(2)
      pow2_dvd [OF align_pow2(3) [of ms] align_pow2(3) [of "m # ms"]] by auto
  show ?case
    using 7 dvd_trans [OF _ head] dvd_trans [OF _ tail]
    by (auto simp del: alignms.simps split: option.splits)
next
  case (9 f m ms)
  have head: "alignm m dvd alignms (m # ms)" and tail: "alignms ms dvd alignms (m # ms)"
    using alignm_dvd [of "m # ms" m] "9.prems"(2)
      pow2_dvd [OF align_pow2(3) [of ms] align_pow2(3) [of "m # ms"]] by auto
  show ?case
    using 9 dvd_trans [OF _ head] dvd_trans [OF _ tail]
    by (auto simp del: alignms.simps split: option.splits)
qed (auto split: if_splits)

lemma sub_ok_flag: "sub_ok lo hi n off u \<Longrightarrow> (n' \<longrightarrow> n) \<Longrightarrow> sub_ok lo hi n' off u"
  by (auto simp: sub_ok_def)

lemma field_m_start:
  assumes "field_m f m = Some (off, u)" "member_wf m" "sub_ok 0 (width m) (natural_m m) off u"
  shows "sub_ok (start_of p pos m) (start_of p pos m + width m) (\<not> p \<and> natural_m m) (start_of p pos m + off) u"
proof -
  obtain g t where m: "m = Fld g t" using assms(1) by (cases m) auto
  have "8 * alignof u dvd start_of p pos m" if "\<not> p" "natural_m m"
  proof -
    have "alignof u dvd alignof t" using field_align(4) [OF assms(1,2) that(2)] by (simp add: m)
    then have "8 * alignof u dvd 8 * alignof t" by simp
    with start_of_Fld(2) [OF that(1), of t pos g] show ?thesis unfolding m by (rule dvd_trans [rotated])
  qed
  then show ?thesis
    using assms(3) start_of_Fld(1) [of p pos g t] m
    by (intro sub_ok_shift sub_ok_flag [OF assms(3)]) auto
qed

lemma field_sub:
  "field f t = Some (off, u) \<Longrightarrow> ctype_wf t \<Longrightarrow> sub_ok 0 (8 * sizeof t) (natural t) off u"
  "field_in f p pos ms = Some (off, u) \<Longrightarrow> members_wf ms \<Longrightarrow>
     sub_ok pos (end_of p pos ms) (\<not> p \<and> naturals ms) off u"
  "field_un f ms = Some (off, u) \<Longrightarrow> members_wf ms \<Longrightarrow> sub_ok 0 (union_end ms) (naturals ms) off u"
  "field_m f m = Some (off, u) \<Longrightarrow> member_wf m \<Longrightarrow> sub_ok 0 (width m) (natural_m m) off u"
proof (induction f t and f p pos ms and f ms and f m arbitrary: off and off and off and off
    rule: field_field_in_field_un_field_m.induct)
  case (1 f p ms)
  then have "sub_ok 0 (end_of p 0 ms) (\<not> p \<and> naturals ms) off u" by simp
  then show ?case using end_le_sizeof(1) [of ms p] 1 by (auto intro: sub_ok_mono simp del: sizeof.simps)
next
  case (2 f p ms)
  then have "sub_ok 0 (union_end ms) (naturals ms) off u" by simp
  then have "sub_ok 0 (union_end ms) (natural (Union p ms)) off u" by (rule sub_ok_flag) simp
  then show ?case using end_le_sizeof(2) [of ms p] 2 by (auto intro: sub_ok_mono simp del: sizeof.simps)
next
  case (7 f p pos m ms)
  have m: "member_wf m" "members_wf ms" using "7.prems"(2) by simp_all
  let ?st = "start_of p pos m"
  note ge = start_of_ge [OF m(1), of pos p] end_of_ge [OF m(2), of "?st + width m" p]
  show ?case
  proof (cases "field_m f m")
    case None
    then have "sub_ok (?st + width m) (end_of p (?st + width m) ms) (\<not> p \<and> naturals ms) off u"
      using "7.IH"(2) "7.prems" m by simp
    then show ?thesis using ge by (auto intro: sub_ok_mono sub_ok_flag)
  next
    case (Some r)
    then obtain off' where r: "field_m f m = Some (off', u)" "off = ?st + off'"
      using "7.prems"(1) by (cases r) auto
    have "sub_ok ?st (?st + width m) (\<not> p \<and> natural_m m) off u"
      unfolding r(2) using r(1) m(1) "7.IH"(1) [OF r(1) m(1)] by (rule field_m_start)
    then have "sub_ok ?st (?st + width m) (\<not> p \<and> naturals (m # ms)) off u"
      by (rule sub_ok_flag) simp
    then show ?thesis using ge by (auto intro: sub_ok_mono)
  qed
next
  case (9 f m ms)
  then show ?case
    by (auto split: option.splits intro: sub_ok_mono sub_ok_flag)
next
  case (10 f g t)
  then show ?case by (auto simp: sub_ok_def split: if_splits)
qed auto

text \<open>Paths whose indexes stay inside the declared arrays.\<close>

fun in_bounds :: "ctype \<Rightarrow> access list \<Rightarrow> bool" where
  "in_bounds t [] \<longleftrightarrow> True"
| "in_bounds t (Dot f # as) \<longleftrightarrow> (case field f t of None \<Rightarrow> False | Some (off, u) \<Rightarrow> in_bounds u as)"
| "in_bounds (Arr t n) (Idx i # as) \<longleftrightarrow> i < n \<and> in_bounds t as"
| "in_bounds t (Idx i # as) \<longleftrightarrow> False"

lemma sub_ok_trans:
  assumes "sub_ok 0 hi n b t" "sub_ok 0 (8 * sizeof t) (natural t) off u" "natural t \<longrightarrow> alignof u dvd alignof t"
  shows "sub_ok 0 hi n (b + off) u"
proof -
  have "8 * alignof u dvd b" if "n"
  proof -
    have "8 * alignof u dvd 8 * alignof t" using assms(1,3) that by (auto simp: sub_ok_def)
    with that assms(1) show ?thesis by (auto simp: sub_ok_def intro: dvd_trans)
  qed
  with assms(1,2) show ?thesis by (auto simp: sub_ok_def)
qed

lemma resolve_sub:
  "resolve t as = Some (off, u) \<Longrightarrow> in_bounds t as \<Longrightarrow> ctype_wf t \<Longrightarrow>
   sub_ok 0 (8 * sizeof t) (natural t) off u \<and> (natural t \<longrightarrow> alignof u dvd alignof t)"
proof (induction t as arbitrary: off u rule: resolve.induct)
  case (1 t)
  then show ?case by (auto simp: sub_ok_def)
next
  case (2 t f as)
  then obtain b t' off' where f: "field f t = Some (b, t')" "resolve t' as = Some (off', u)" "off = b + off'"
    "in_bounds t' as"
    by (auto split: option.splits)
  have s: "sub_ok 0 (8 * sizeof t) (natural t) b t'" using field_sub(1) [OF f(1)] "2.prems"(3) .
  then have "ctype_wf t'" "natural t \<longrightarrow> natural t'" by (auto simp: sub_ok_def)
  with "2.IH" [OF f(1) refl f(2,4)] have r: "sub_ok 0 (8 * sizeof t') (natural t') off' u"
    "natural t \<longrightarrow> alignof u dvd alignof t'" "natural t' \<longrightarrow> alignof u dvd alignof t'" by auto
  show ?case
    using sub_ok_trans [OF s r(1,3)] r(2) field_align(1) [OF f(1)] "2.prems"(3) f(3)
    by (auto intro: dvd_trans)
next
  case (3 t n i as)
  then obtain off' where r: "resolve t as = Some (off', u)" "off = i * (8 * sizeof t) + off'" "i < n" "in_bounds t as"
    by (auto split: option.splits)
  have wf: "ctype_wf t" using "3.prems"(3) by simp
  note IH = "3.IH" [OF r(1,4) wf]
  have "i * (8 * sizeof t) + 8 * sizeof t \<le> n * (8 * sizeof t)"
    using mult_le_mono1 [of "Suc i" n "8 * sizeof t"] r(3) by simp
  then have s: "sub_ok 0 (8 * sizeof (Arr t n)) (natural (Arr t n)) (i * (8 * sizeof t)) t"
    using wf alignof_dvd_sizeof [OF wf] by (auto simp: sub_ok_def)
  show ?case using sub_ok_trans [OF s] IH r(2) by simp
qed auto

end
