(* ===== verification/Wire.thy ===== *)
theory Wire
  imports Enforcer_Files Monitor C_Layout
begin

text \<open>
  The records that cross between kernel and Go program: the packed layout of \<open>violation_event\<close> and
  \<open>event\<close> and the map values, the bytes of a submitted record, the Go structures \<open>ViolationEvent\<close>
  and \<open>Event\<close> with their decoding by \<open>binary.Read\<close> in little-endian order, and \<open>parseCString\<close>.
\<close>

section \<open>C layouts\<close>

definition C_path_pattern_entry :: ctype where
  "C_path_pattern_entry =
     Struct False [Fld ''pattern'' (Arr c_char 64), Fld ''policy_id'' c_int, Fld ''pattern_len'' c_char,
       Fld ''_pad'' (Arr c_char 3)]"

definition C_prefix_entry :: ctype where
  "C_prefix_entry =
     Struct False [Fld ''pattern'' (Arr c_char 64), Fld ''policy_id'' c_int, Fld ''pattern_len'' c_char,
       Fld ''_pad'' (Arr c_char 3)]"

definition C_workspace_root_entry :: ctype where
  "C_workspace_root_entry =
     Struct False [Fld ''prefix'' (Arr c_char 256), Fld ''prefix_len'' c_int, Fld ''policy_id'' c_int]"

definition C_violation_event :: ctype where
  "C_violation_event =
     Struct True [Fld ''timestamp_ns'' c_long, Fld ''pid'' c_int, Fld ''policy_type'' c_int,
       Fld ''typed_comm'' (Arr c_char 16), Fld ''canonical_path'' (Arr c_char 256),
       Fld ''detail'' (Arr c_char 256)]"

definition C_event :: ctype where
  "C_event =
     Struct True [Fld ''timestamp_ns'' c_long, Fld ''pid'' c_int, Fld ''ppid'' c_int,
       Fld ''comm'' (Arr c_char 16), Fld ''event_type'' c_char, Fld ''filename'' (Arr c_char 256),
       Fld ''daddr'' c_int, Fld ''dport'' c_short, Fld ''command'' (Arr c_char 256),
       Fld ''policy_type'' c_int]"

lemma wire_layouts [layout_simps]:
  "sizeof C_path_pattern_entry = 72" "sizeof C_prefix_entry = 72" "sizeof C_workspace_root_entry = 264"
  "sizeof C_violation_event = 544" "sizeof C_event = 555"
  by (simp_all add: C_path_pattern_entry_def C_prefix_entry_def C_workspace_root_entry_def
      C_violation_event_def C_event_def layout_simps)

section \<open>Bytes of words\<close>

fun to_le :: "nat \<Rightarrow> 'a::len word \<Rightarrow> bytes" where
  "to_le 0 w = []"
| "to_le (Suc n) w = ucast w # to_le n (drop_bit 8 w)"

fun of_le :: "bytes \<Rightarrow> 'a::len word" where
  "of_le [] = 0"
| "of_le (b # bs) = ucast b OR push_bit 8 (of_le bs)"

lemma length_to_le [simp]: "length (to_le n w) = n"
  by (induction n arbitrary: w) auto

lemma of_le_to_le: "of_le (to_le n w) = take_bit (8 * n) w"
proof (induction n arbitrary: w)
  case 0
  then show ?case by simp
next
  case (Suc n)
  show ?case
    unfolding to_le.simps of_le.simps Suc.IH
    by (rule bit_word_eqI) (auto simp: bit_simps not_less)
qed

lemma of_le_full [simp]:
  "of_le (to_le 8 (w :: u64)) = w" "of_le (to_le 4 (x :: u32)) = x" "of_le (to_le 2 (y :: u16)) = y"
  "of_le (to_le (Suc 0) (z :: u8)) = z"
  by (simp_all only: of_le_to_le) (simp_all add: take_bit_word_eq_self)

section \<open>Submitted records\<close>

text \<open>The members of the packed structures in order, as little-endian memory.\<close>

definition raw_violation :: "violation_event \<Rightarrow> bytes" where
  "raw_violation v =
     to_le 8 (timestamp_ns v) @ to_le 4 (v_pid v) @ to_le 4 (policy_type v) @ typed_comm v @
     canonical_path v @ detail v"

definition raw_event :: "event \<Rightarrow> bytes" where
  "raw_event e =
     to_le 8 (e_timestamp_ns e) @ to_le 4 (e_pid e) @ to_le 4 (e_ppid e) @ e_comm e @
     to_le 1 (event_type e) @ e_filename e @ to_le 4 (e_daddr e) @ to_le 2 (e_dport e) @
     e_command e @ to_le 4 (e_policy_type e)"

definition event_wf :: "event \<Rightarrow> bool" where
  "event_wf e \<longleftrightarrow> length (e_comm e) = 16 \<and> length (e_filename e) = 256 \<and> length (e_command e) = 256"

section \<open>Decoding in Go\<close>

record ViolationEvent =
  TimestampNs :: u64
  Pid :: u32
  PolicyType :: u32
  TypedComm :: bytes
  CanonicalPath :: bytes
  Detail :: bytes

record Event =
  ev_TimestampNs :: u64
  ev_Pid :: u32
  ev_Ppid :: u32
  ev_Comm :: bytes
  ev_EventType :: u8
  ev_FileName :: bytes
  ev_Daddr :: bytes
  ev_Dport :: u16
  ev_Command :: bytes
  ev_PolicyType :: u32

text \<open>
  \<open>binary.Read\<close> takes the fields in order from the record; it fails when the record is shorter than
  the structure and ignores what follows.
\<close>

definition read_n :: "nat \<Rightarrow> bytes \<Rightarrow> (bytes \<times> bytes) option" where
  "read_n n bs = (if n \<le> length bs then Some (take n bs, drop n bs) else None)"

definition decode_violation :: "bytes \<Rightarrow> ViolationEvent option" where
  "decode_violation bs =
     Option.bind (read_n 8 bs) (\<lambda>(ts, bs).
     Option.bind (read_n 4 bs) (\<lambda>(pid, bs).
     Option.bind (read_n 4 bs) (\<lambda>(pol, bs).
     Option.bind (read_n 16 bs) (\<lambda>(comm, bs).
     Option.bind (read_n 256 bs) (\<lambda>(canon, bs).
     Option.bind (read_n 256 bs) (\<lambda>(det, bs).
     Some \<lparr>TimestampNs = of_le ts, Pid = of_le pid, PolicyType = of_le pol, TypedComm = comm,
           CanonicalPath = canon, Detail = det\<rparr>))))))"

definition decode_event :: "bytes \<Rightarrow> Event option" where
  "decode_event bs =
     Option.bind (read_n 8 bs) (\<lambda>(ts, bs).
     Option.bind (read_n 4 bs) (\<lambda>(pid, bs).
     Option.bind (read_n 4 bs) (\<lambda>(ppid, bs).
     Option.bind (read_n 16 bs) (\<lambda>(comm, bs).
     Option.bind (read_n 1 bs) (\<lambda>(ty, bs).
     Option.bind (read_n 256 bs) (\<lambda>(fn, bs).
     Option.bind (read_n 4 bs) (\<lambda>(da, bs).
     Option.bind (read_n 2 bs) (\<lambda>(dp, bs).
     Option.bind (read_n 256 bs) (\<lambda>(cmd, bs).
     Option.bind (read_n 4 bs) (\<lambda>(pol, bs).
     Some \<lparr>ev_TimestampNs = of_le ts, ev_Pid = of_le pid, ev_Ppid = of_le ppid, ev_Comm = comm,
           ev_EventType = of_le ty, ev_FileName = fn, ev_Daddr = da, ev_Dport = of_le dp,
           ev_Command = cmd, ev_PolicyType = of_le pol\<rparr>))))))))))"

text \<open>Everything up to the first NUL byte, or the whole buffer.\<close>

definition parseCString :: "bytes \<Rightarrow> bytes" where
  "parseCString b =
     (case List.find (\<lambda>i. b ! i = 0) [0..<length b] of None \<Rightarrow> b | Some idx \<Rightarrow> take idx b)"

section \<open>Round trips\<close>

lemma read_n_append: "length xs = n \<Longrightarrow> read_n n (xs @ ys) = Some (xs, ys)"
  by (simp add: read_n_def)

lemma read_n_all: "length xs = n \<Longrightarrow> read_n n xs = Some (xs, [])"
  by (simp add: read_n_def)

lemma decode_raw_violation:
  assumes "violation_wf v"
  shows "decode_violation (raw_violation v) =
    Some \<lparr>TimestampNs = timestamp_ns v, Pid = v_pid v, PolicyType = policy_type v,
          TypedComm = typed_comm v, CanonicalPath = canonical_path v, Detail = detail v\<rparr>"
  using assms
  by (simp add: decode_violation_def raw_violation_def violation_wf_def read_n_append read_n_all)

lemma decode_raw_event:
  assumes "event_wf e"
  shows "decode_event (raw_event e) =
    Some \<lparr>ev_TimestampNs = e_timestamp_ns e, ev_Pid = e_pid e, ev_Ppid = e_ppid e, ev_Comm = e_comm e,
          ev_EventType = event_type e, ev_FileName = e_filename e, ev_Daddr = to_le 4 (e_daddr e),
          ev_Dport = e_dport e, ev_Command = e_command e, ev_PolicyType = e_policy_type e\<rparr>"
  using assms
  by (simp add: decode_event_def raw_event_def event_wf_def read_n_append read_n_all del: to_le.simps)

lemma takeWhile_take_first:
  assumes "i < length b" "b ! i = 0" "\<forall>j < i. b ! j \<noteq> (0 :: u8)"
  shows "takeWhile (\<lambda>x. x \<noteq> 0) b = take i b"
  using assms by (intro takeWhile_eq_take_P_nth) auto

lemma parseCString_cstr: "parseCString b = cstr b"
proof (cases "List.find (\<lambda>i. b ! i = 0) [0..<length b]")
  case None
  then have "\<forall>x \<in> set b. x \<noteq> 0" by (auto simp: find_None_iff in_set_conv_nth)
  then have "takeWhile (\<lambda>x. x \<noteq> 0) b = b" by (auto simp: takeWhile_eq_all_conv)
  with None show ?thesis by (simp only: parseCString_def cstr_def option.case)
next
  case (Some i)
  then have "i < length b" "b ! i = 0" "\<forall>j < i. b ! j \<noteq> 0" by (auto simp: find_Some_iff)
  from takeWhile_take_first [OF this] Some show ?thesis by (simp add: parseCString_def cstr_def)
qed

section \<open>Streams of records\<close>

text \<open>
  The interface between a ring buffer and its reader: what the kernel submits as bytes the reader
  decodes, and fewer bytes than a record are an error.
\<close>

locale ring_record =
  fixes wf :: "'r \<Rightarrow> bool" and raw :: "'r \<Rightarrow> bytes" and decode :: "bytes \<Rightarrow> 'g option" and go :: "'r \<Rightarrow> 'g"
    and record_size :: nat
  assumes decode_raw: "wf r \<Longrightarrow> decode (raw r) = Some (go r)"
    and raw_length: "wf r \<Longrightarrow> length (raw r) = record_size"
    and decode_short: "length b < record_size \<Longrightarrow> decode b = None"
begin

lemma decode_stream: "list_all wf rs \<Longrightarrow> List.map_filter decode (map raw rs) = map go rs"
  by (induction rs) (simp_all add: decode_raw)

text \<open>Truncated records anywhere in the stream are skipped.\<close>

lemma decode_stream_truncated:
  assumes "list_all2 (\<lambda>r b. b = raw r \<and> wf r \<or> length b < record_size) rs bs"
  shows "List.map_filter decode bs = map (go \<circ> fst) (filter (\<lambda>(r, b). length b = record_size) (zip rs bs))"
  using assms
proof (induction rule: list_all2_induct)
  case (Cons r rs b bs)
  then consider "b = raw r" "wf r" | "length b < record_size" by blast
  then show ?case
    using Cons.IH by cases (simp_all add: List.map_filter_simps decode_raw raw_length decode_short)
qed (simp add: List.map_filter_simps)

end

definition go_violation :: "violation_event \<Rightarrow> ViolationEvent" where
  "go_violation v =
     \<lparr>TimestampNs = timestamp_ns v, Pid = v_pid v, PolicyType = policy_type v,
      TypedComm = typed_comm v, CanonicalPath = canonical_path v, Detail = detail v\<rparr>"

definition go_event :: "event \<Rightarrow> Event" where
  "go_event e =
     \<lparr>ev_TimestampNs = e_timestamp_ns e, ev_Pid = e_pid e, ev_Ppid = e_ppid e, ev_Comm = e_comm e,
      ev_EventType = event_type e, ev_FileName = e_filename e, ev_Daddr = to_le 4 (e_daddr e),
      ev_Dport = e_dport e, ev_Command = e_command e, ev_PolicyType = e_policy_type e\<rparr>"

interpretation violation_record: ring_record violation_wf raw_violation decode_violation go_violation 544
proof
  show "violation_wf r \<Longrightarrow> decode_violation (raw_violation r) = Some (go_violation r)" for r
    by (simp add: decode_raw_violation go_violation_def)
  show "violation_wf r \<Longrightarrow> length (raw_violation r) = 544" for r
    by (simp add: raw_violation_def violation_wf_def)
  show "length b < 544 \<Longrightarrow> decode_violation b = None" for b
    by (auto simp: decode_violation_def read_n_def split: option.splits)
qed

interpretation event_record: ring_record event_wf raw_event decode_event go_event 555
proof
  show "event_wf r \<Longrightarrow> decode_event (raw_event r) = Some (go_event r)" for r
    by (simp add: decode_raw_event go_event_def)
  show "event_wf r \<Longrightarrow> length (raw_event r) = 555" for r
    by (simp add: raw_event_def event_wf_def)
  show "length b < 555 \<Longrightarrow> decode_event b = None" for b
    by (auto simp: decode_event_def read_n_def split: option.splits)
qed

section \<open>Members in the record\<close>

text \<open>The bytes of a record at the place and of the size the C layout gives a member.\<close>

definition member_bytes :: "ctype \<Rightarrow> string \<Rightarrow> bytes \<Rightarrow> bytes" where
  "member_bytes t f b = (case resolve t [Dot f] of None \<Rightarrow> [] | Some (off, u) \<Rightarrow> take (sizeof u) (drop (off div 8) b))"

lemma violation_members:
  assumes "violation_wf v"
  shows "member_bytes C_violation_event ''timestamp_ns'' (raw_violation v) = to_le 8 (timestamp_ns v)"
    "member_bytes C_violation_event ''pid'' (raw_violation v) = to_le 4 (v_pid v)"
    "member_bytes C_violation_event ''policy_type'' (raw_violation v) = to_le 4 (policy_type v)"
    "member_bytes C_violation_event ''typed_comm'' (raw_violation v) = typed_comm v"
    "member_bytes C_violation_event ''canonical_path'' (raw_violation v) = canonical_path v"
    "member_bytes C_violation_event ''detail'' (raw_violation v) = detail v"
  using assms
  by (simp_all add: member_bytes_def C_violation_event_def layout_simps raw_violation_def violation_wf_def
      del: to_le.simps)

lemma event_members:
  assumes "event_wf e"
  shows "member_bytes C_event ''timestamp_ns'' (raw_event e) = to_le 8 (e_timestamp_ns e)"
    "member_bytes C_event ''pid'' (raw_event e) = to_le 4 (e_pid e)"
    "member_bytes C_event ''ppid'' (raw_event e) = to_le 4 (e_ppid e)"
    "member_bytes C_event ''comm'' (raw_event e) = e_comm e"
    "member_bytes C_event ''event_type'' (raw_event e) = to_le 1 (event_type e)"
    "member_bytes C_event ''filename'' (raw_event e) = e_filename e"
    "member_bytes C_event ''daddr'' (raw_event e) = to_le 4 (e_daddr e)"
    "member_bytes C_event ''dport'' (raw_event e) = to_le 2 (e_dport e)"
    "member_bytes C_event ''command'' (raw_event e) = e_command e"
    "member_bytes C_event ''policy_type'' (raw_event e) = to_le 4 (e_policy_type e)"
  using assms
  by (simp_all add: member_bytes_def C_event_def layout_simps raw_event_def event_wf_def del: to_le.simps)

section \<open>Properties\<close>

text \<open>
  C30 (roundtrip): a record the kernel programs submit has the size of the packed C structure, holds
  every member at the offset and in the size of the C layout, and is decoded by the Go program field
  by field: every field of \<open>ViolationEvent\<close> and of \<open>Event\<close> gets the value of its C counterpart, and
  \<open>parseCString\<close> recovers the C strings.
\<close>

theorem ring_records_roundtrip:
  assumes "violation_wf v" "event_wf e"
  shows "length (raw_violation v) = sizeof C_violation_event \<and> length (raw_event e) = sizeof C_event \<and>
    map (\<lambda>f. member_bytes C_violation_event f (raw_violation v))
        [''timestamp_ns'', ''pid'', ''policy_type'', ''typed_comm'', ''canonical_path'', ''detail''] =
      [to_le 8 (timestamp_ns v), to_le 4 (v_pid v), to_le 4 (policy_type v), typed_comm v, canonical_path v, detail v] \<and>
    map (\<lambda>f. member_bytes C_event f (raw_event e))
        [''timestamp_ns'', ''pid'', ''ppid'', ''comm'', ''event_type'', ''filename'', ''daddr'', ''dport'', ''command'',
         ''policy_type''] =
      [to_le 8 (e_timestamp_ns e), to_le 4 (e_pid e), to_le 4 (e_ppid e), e_comm e, to_le 1 (event_type e),
       e_filename e, to_le 4 (e_daddr e), to_le 2 (e_dport e), e_command e, to_le 4 (e_policy_type e)] \<and>
    decode_violation (raw_violation v) =
      Some \<lparr>TimestampNs = timestamp_ns v, Pid = v_pid v, PolicyType = policy_type v,
            TypedComm = typed_comm v, CanonicalPath = canonical_path v, Detail = detail v\<rparr> \<and>
    decode_event (raw_event e) =
      Some \<lparr>ev_TimestampNs = e_timestamp_ns e, ev_Pid = e_pid e, ev_Ppid = e_ppid e, ev_Comm = e_comm e,
            ev_EventType = event_type e, ev_FileName = e_filename e, ev_Daddr = to_le 4 (e_daddr e),
            ev_Dport = e_dport e, ev_Command = e_command e, ev_PolicyType = e_policy_type e\<rparr> \<and>
    parseCString (detail v) = cstr (detail v)"
proof (intro conjI)
  show "length (raw_violation v) = sizeof C_violation_event" "length (raw_event e) = sizeof C_event"
    using violation_record.raw_length [OF assms(1)] event_record.raw_length [OF assms(2)] by (simp_all add: wire_layouts)
qed (simp_all only: violation_members [OF assms(1)] event_members [OF assms(2)] decode_raw_violation [OF assms(1)]
    decode_raw_event [OF assms(2)] parseCString_cstr list.map)

theorem ring_records_roundtrip_witness:
  "decode_event (raw_event sample_slot) \<noteq> None"
  using ring_records_roundtrip [of "\<lparr>timestamp_ns = 1, v_pid = 2, policy_type = 3, typed_comm = zeros 16,
      canonical_path = zeros 256, detail = zeros 256\<rparr>" sample_slot]
  by (simp add: violation_wf_def event_wf_def sample_slot_def)

end
