(* ===== verification/Startup.thy ===== *)
theory Startup
  imports Policy_File
begin

text \<open>
  The start of the daemon: the search for the policy file (\<open>policy.go\<close>) and the part of
  \<open>runEnforcer\<close> (\<open>main.go\<close>) that freezes the constants and fills the maps of the enforcer. A
  write of a global through the object loader may fail; whether it did is an argument.
\<close>

section \<open>Finding the policy file\<close>

text \<open>\<open>is_file\<close> is the success of \<open>requireRegularFile\<close>.\<close>

definition policySearchNames :: "bytes list" where
  "policySearchNames = [str ''policies/default.yaml'', str ''.agentguard/default.yaml'']"

partial_function (option) findPolicyWalkingUp :: "(bytes \<Rightarrow> bool) \<Rightarrow> bytes \<Rightarrow> bytes option option" where
  "findPolicyWalkingUp is_file dir =
     (case find is_file (map (Join2 dir) policySearchNames) of
        Some candidate \<Rightarrow> Some (Some candidate)
      | None \<Rightarrow>
          if Dir dir = dir then Some None else findPolicyWalkingUp is_file (Dir dir))"

declare findPolicyWalkingUp.simps [code]

datatype search_error = No_cwd | Policy_not_found bytes | Search_diverges

text \<open>
  \<open>findPolicyPath\<close>: the flag, then the environment variable, then the walk. The empty string
  stands for an unset variable, as in the source, and \<open>None\<close> for no file found.
\<close>

definition findPolicyPath ::
  "(bytes \<Rightarrow> bool) \<Rightarrow> bytes option \<Rightarrow> bytes \<Rightarrow> bytes \<Rightarrow> search_error + bytes option" where
  "findPolicyPath is_file cwd env explicit =
     (let given = (\<lambda>p.
            if \<not> IsAbs p \<and> cwd = None then Inl No_cwd
            else
              let a = Abs_path (the cwd) p in
              if is_file a then Inr (Some a) else Inl (Policy_not_found a)) in
      if explicit \<noteq> [] then given explicit
      else if env \<noteq> [] then given env
      else
        (case cwd of
           None \<Rightarrow> Inl No_cwd
         | Some d \<Rightarrow>
             (case findPolicyWalkingUp is_file (Abs_path d d) of
                None \<Rightarrow> Inl Search_diverges
              | Some r \<Rightarrow> Inr r)))"

text \<open>
  \<open>createStarterPolicy\<close> on a map of the regular files: \<open>other_entry\<close> holds for a name taken by
  something else, \<open>short_write\<close> is the number of bytes written before an error.
\<close>

record starter_env =
  se_mkdir_ok :: bool
  se_other_entry :: "bytes \<Rightarrow> bool"
  se_open_ok :: bool
  se_short_write :: "nat option"
  se_close_ok :: bool

datatype starter_error = Mkdir_failed | Create_failed | Write_failed | Close_failed

definition createStarterPolicy ::
  "starter_env \<Rightarrow> bytes \<Rightarrow> bytes \<Rightarrow> (bytes \<rightharpoonup> bytes) \<Rightarrow> (starter_error + bytes) \<times> (bytes \<rightharpoonup> bytes)" where
  "createStarterPolicy S defaultPolicyTemplate cwd fs =
     (let dir = Join2 cwd (str ''policies''); path = Join2 dir (str ''default.yaml'') in
      if fs path \<noteq> None then (Inr path, fs)
      else if \<not> se_mkdir_ok S then (Inl Mkdir_failed, fs)
      else if se_other_entry S path then (Inr path, fs)
      else if \<not> se_open_ok S then (Inl Create_failed, fs)
      else
        (case se_short_write S of
           Some n \<Rightarrow> (Inl Write_failed, fs(path \<mapsto> take n defaultPolicyTemplate))
         | None \<Rightarrow>
             let fs' = fs(path \<mapsto> defaultPolicyTemplate) in
             if \<not> se_close_ok S then (Inl Close_failed, fs') else (Inr path, fs')))"

text \<open>\<open>resolvePolicyPath\<close>: the path, whether the starter was used, and the files afterwards.\<close>

definition resolvePolicyPath ::
  "starter_env \<Rightarrow> bytes \<Rightarrow> bytes option \<Rightarrow> bytes \<Rightarrow> bytes \<Rightarrow> (bytes \<rightharpoonup> bytes) \<Rightarrow>
   (search_error + starter_error + bytes \<times> bool) \<times> (bytes \<rightharpoonup> bytes)" where
  "resolvePolicyPath S template cwd env explicit fs =
     (case findPolicyPath (\<lambda>p. fs p \<noteq> None) cwd env explicit of
        Inl e \<Rightarrow> (Inl e, fs)
      | Inr (Some path) \<Rightarrow> (Inr (Inr (path, False)), fs)
      | Inr None \<Rightarrow>
          (case cwd of
             None \<Rightarrow> (Inl No_cwd, fs)
           | Some d \<Rightarrow>
               (case createStarterPolicy S template (Abs_path d d) fs of
                  (Inl e, fs') \<Rightarrow> (Inr (Inl e), fs')
                | (Inr path, fs') \<Rightarrow> (Inr (Inr (path, True)), fs'))))"

text \<open>No file that was there before is changed.\<close>

lemma resolvePolicyPath_keeps: "fs p \<noteq> None \<Longrightarrow> snd (resolvePolicyPath S template cwd env explicit fs) p = fs p"
  by (auto simp: resolvePolicyPath_def createStarterPolicy_def Let_def split: sum.splits option.splits prod.splits if_splits)

section \<open>Writing the configuration\<close>

definition set_constants :: "loaded_policies \<Rightarrow> u16 \<Rightarrow> u64 \<Rightarrow> u64 \<Rightarrow> enforcer \<Rightarrow> enforcer" where
  "set_constants l port dev ino s =
     s\<lparr>proxy_addr_host := (if proxyPolicy l = None then 0 else 0x7f000001),
       proxy_port_host := (if proxyPolicy l = None then 0 else port),
       dns_addr_host := 0x7f000035,
       network_policy_id := (case proxyPolicy l of None \<Rightarrow> 0 | Some p \<Rightarrow> pp_PolicyID p),
       pidns_dev := dev, pidns_ino := ino\<rparr>"

definition set_switches :: "loaded_policies \<Rightarrow> bool \<Rightarrow> bool \<Rightarrow> enforcer \<Rightarrow> enforcer" where
  "set_switches l net_ok dns_ok s =
     s\<lparr>enforce_network := (if net_ok then boolToU8 (enforceNetwork l) else enforce_network s),
       allow_local_dns := (if dns_ok then boolToU8 (allowLocalDNS l) else allow_local_dns s)\<rparr>"

definition fatal :: "load_error + 'a \<Rightarrow> policy_error + 'a" where
  "fatal r = map_sum Load_failed id r"

text \<open>
  \<open>net_ok\<close> and \<open>dns_ok\<close> say whether the two \<open>Set\<close> calls succeeded: their failure is only
  logged, while every later failure ends the program.
\<close>

definition apply_loaded ::
  "loaded_policies \<Rightarrow> u16 \<Rightarrow> u64 \<Rightarrow> u64 \<Rightarrow> bool \<Rightarrow> bool \<Rightarrow> enforcer \<Rightarrow> policy_error + enforcer" where
  "apply_loaded l port dev ino net_ok dns_ok s =
     (let s1 = set_switches l net_ok dns_ok (set_constants l port dev ino s) in
      and_then (fatal (applyPathPatterns (blocked_path_patterns s1) (pathPatterns l))) (\<lambda>t.
      let s2 = s1\<lparr>blocked_path_patterns := t\<rparr> in
      and_then (fatal (applyCommandPatterns (blocked_command_patterns s2) (commandPatterns l))) (\<lambda>u.
      let s3 = s2\<lparr>blocked_command_patterns := u\<rparr> in
      fatal (applyWorkspacePolicy s3 (workspacePolicy l)))))"

definition configure ::
  "os_env \<Rightarrow> PolicyFile \<Rightarrow> u16 \<Rightarrow> u64 \<Rightarrow> u64 \<Rightarrow> bool \<Rightarrow> bool \<Rightarrow> enforcer \<Rightarrow>
   policy_error + (loaded_policies \<times> enforcer)" where
  "configure E pf port dev ino net_ok dns_ok s =
     and_then (loadAllPolicies E pf) (\<lambda>l.
     and_then (apply_loaded l port dev ino net_ok dns_ok s) (\<lambda>s'. Inr (l, s')))"

lemma fatal_Inr_iff [simp]: "fatal r = Inr x \<longleftrightarrow> r = Inr x"
  by (cases r) (simp_all add: fatal_def)

section \<open>The search ends\<close>

text \<open>The directories the walk visits, nearest first.\<close>

fun ancestors :: "bytes list \<Rightarrow> bytes list list" where
  "ancestors es = es # (if es = [] then [] else ancestors (butlast es))"

declare ancestors.simps [simp del]

definition candidates :: "bytes list \<Rightarrow> bytes list" where
  "candidates es = concat (map (\<lambda>ds. map (Join2 (abs_of ds)) policySearchNames) (ancestors es))"

lemma walk_abs:
  "list_all plain es \<Longrightarrow> findPolicyWalkingUp is_file (abs_of es) = Some (find is_file (candidates es))"
proof (induction es rule: ancestors.induct)
  case (1 es)
  have top: "Dir (abs_of es) = abs_of es \<longleftrightarrow> es = []"
    using Dir_abs_of [OF "1.prems"] abs_of_inj [of "butlast es" es] "1.prems"
    by (cases es rule: rev_cases) auto
  have step: "candidates es = map (Join2 (abs_of es)) policySearchNames @
      (if es = [] then [] else candidates (butlast es))"
    by (simp add: candidates_def ancestors.simps [of es])
  have rest: "es \<noteq> [] \<Longrightarrow> findPolicyWalkingUp is_file (abs_of (butlast es)) = Some (find is_file (candidates (butlast es)))"
    using "1.IH" "1.prems" by (cases es rule: rev_cases) auto
  show ?case
    using top rest Dir_abs_of [OF "1.prems"]
    by (subst findPolicyWalkingUp.simps) (auto simp: step find_append split: option.splits)
qed

section \<open>What the configured enforcer decides\<close>

lemma set_wf [simp]:
  "enforcer_wf (set_switches l a b s) = enforcer_wf s" "enforcer_wf (set_constants l p d i s) = enforcer_wf s"
  by (simp_all add: set_switches_def set_constants_def enforcer_wf_def)

lemma applyWorkspacePolicy_keeps:
  assumes "applyWorkspacePolicy s wp = Inr s'"
  shows "credential_rule s' = credential_rule s" "command_rule s' = command_rule s"
    "tracked_pids s' = tracked_pids s" "pidns_dev s' = pidns_dev s" "pidns_ino s' = pidns_ino s"
    "violations s' = violations s" "enforce_network s' = enforce_network s"
    "network_policy_id s' = network_policy_id s"
  using assms
  by (auto simp: applyWorkspacePolicy_def Let_def credential_rule_def [abs_def] command_rule_def [abs_def]
      split: sum.splits)

lemma applyWorkspacePolicy_wf: "enforcer_wf s \<Longrightarrow> applyWorkspacePolicy s wp = Inr s' \<Longrightarrow> enforcer_wf s'"
  using loaded_workspace(4) unloaded_workspace by (cases wp) force+

lemma configured:
  assumes "enforcer_wf s0" "configure E pf port dev ino net_ok dns_ok s0 = Inr (l, s)"
  shows "loadAllPolicies E pf = Inr l" "enforcer_wf s"
    and "map_option policy_id (credential_rule s x) = first_path_policy (pathPatterns l) x"
    and "map_option policy_id (command_rule s x) = first_command_policy (commandPatterns l) x"
    and "\<exists>s1. enforcer_wf s1 \<and> applyWorkspacePolicy s1 (workspacePolicy l) = Inr s"
    and "tracked_pids s = tracked_pids s0" "pidns_dev s = dev" "pidns_ino s = ino" "violations s = violations s0"
proof -
  let ?s1 = "set_switches l net_ok dns_ok (set_constants l port dev ino s0)"
  from assms(2) obtain t u where
    load: "loadAllPolicies E pf = Inr l"
      "applyPathPatterns (blocked_path_patterns ?s1) (pathPatterns l) = Inr t"
      "applyCommandPatterns (blocked_command_patterns (?s1\<lparr>blocked_path_patterns := t\<rparr>)) (commandPatterns l) = Inr u"
      "applyWorkspacePolicy (?s1\<lparr>blocked_path_patterns := t, blocked_command_patterns := u\<rparr>) (workspacePolicy l) = Inr s"
    by (auto simp: configure_def apply_loaded_def Let_def and_then_Inr_iff)
  have wf1: "enforcer_wf ?s1" using assms(1) by simp
  note path = loaded_paths [OF wf1 load(2)]
  note cmd = loaded_commands [OF path(1) load(3)]
  note keeps = applyWorkspacePolicy_keeps [OF load(4)]
  show "loadAllPolicies E pf = Inr l" by (rule load(1))
  show "enforcer_wf s" using applyWorkspacePolicy_wf [OF cmd(1)] load(4) by simp
  show "map_option policy_id (command_rule s x) = first_command_policy (commandPatterns l) x"
    using cmd(2) [of x] keeps(2) by simp
  have "credential_rule s x = credential_rule (?s1\<lparr>blocked_path_patterns := t\<rparr>) x"
    by (simp add: keeps(1)) (simp add: credential_rule_def)
  then show "map_option policy_id (credential_rule s x) = first_path_policy (pathPatterns l) x"
    using path(2) [of x] by simp
  show "\<exists>s1. enforcer_wf s1 \<and> applyWorkspacePolicy s1 (workspacePolicy l) = Inr s"
    using cmd(1) load(4) by auto
  show "tracked_pids s = tracked_pids s0" "pidns_dev s = dev" "pidns_ino s = ino" "violations s = violations s0"
    using keeps by (simp_all add: set_switches_def set_constants_def)
qed

text \<open>When the configuration succeeds.\<close>

lemma apply_loaded_ok:
  assumes "enforcer_wf s"
    and "length (pathPatterns l) \<le> 16" "\<forall>p \<in> set (pathPatterns l). \<exists>suf. normalizePathSuffix (Pattern p) = Inr suf"
    and "length (commandPatterns l) \<le> 16"
    and "\<forall>p \<in> set (commandPatterns l). \<exists>suf. normalizeCommandSuffix (Pattern p) = Inr suf"
    and "\<And>s. enforcer_wf s \<Longrightarrow> \<exists>s'. applyWorkspacePolicy s (workspacePolicy l) = Inr s'"
  shows "\<exists>s'. apply_loaded l port dev ino net_ok dns_ok s = Inr s'"
proof -
  let ?s1 = "set_switches l net_ok dns_ok (set_constants l port dev ino s)"
  have wf: "enforcer_wf ?s1" using assms(1) by simp
  then have len: "length (blocked_path_patterns ?s1) = 16" "length (blocked_command_patterns ?s1) = 16"
    by (simp_all add: enforcer_wf_def)
  obtain t where t: "applyPathPatterns (blocked_path_patterns ?s1) (pathPatterns l) = Inr t"
    using path_patterns_load_iff [OF len(1) len(1)] assms(2,3) by blast
  obtain u where u: "applyCommandPatterns (blocked_command_patterns ?s1) (commandPatterns l) = Inr u"
    using applyCommandPatterns_ok [OF len(2) assms(4,5)] by blast
  have "enforcer_wf (?s1\<lparr>blocked_path_patterns := t, blocked_command_patterns := u\<rparr>)"
    using loaded_commands(1) [OF loaded_paths(1) [OF wf t]] u by simp
  then obtain s' where
    "applyWorkspacePolicy (?s1\<lparr>blocked_path_patterns := t, blocked_command_patterns := u\<rparr>) (workspacePolicy l) = Inr s'"
    using assms(6) by blast
  then show ?thesis using t u by (simp add: apply_loaded_def Let_def fatal_def)
qed

text \<open>Every number the file-open hook can report belongs to a policy of the file.\<close>

lemma workspace_number:
  assumes "enforcer_wf s0" "configure E pf port dev ino net_ok dns_ok s0 = Inr (l, s)"
  shows "enforce_workspace s \<noteq> 0 \<Longrightarrow> \<exists>w. workspacePolicy l = Some w \<and> workspace_policy_id s = wp_PolicyID w"
proof -
  obtain s1 where s1: "enforcer_wf s1" "applyWorkspacePolicy s1 (workspacePolicy l) = Inr s"
    using configured(5) [OF assms] by blast
  assume "enforce_workspace s \<noteq> 0"
  with s1 unloaded_workspace [OF s1(1)] obtain w where w: "workspacePolicy l = Some w"
    by (cases "workspacePolicy l") auto
  then show ?thesis using loaded_workspace(3) [OF s1(1)] s1(2) by auto
qed

lemma file_open_number:
  assumes "enforcer_wf s0" "configure E pf port dev ino net_ok dns_ok s0 = Inr (l, s)"
    and "length pf < 2 ^ 32 - 1" "file_open_denial s p = Some pol"
  shows "resolves_to l pol KindPath \<or> resolves_to l pol KindWorkspace"
proof -
  note c = configured [OF assms(1,2)]
  obtain m where wf: "loaded_wf m l" using loadAllPolicies_wf [OF c(1) assms(3)] by blast
  show ?thesis
  proof (cases "enforce_workspace s \<noteq> 0 \<and> \<not> in_workspace s p")
    case True
    then obtain w where "workspacePolicy l = Some w" "pol = wp_PolicyID w"
      using workspace_number [OF assms(1,2)] assms(4) by (auto simp: file_open_denial_def)
    then show ?thesis using wf by (auto simp: loaded_wf_def)
  next
    case False
    then have "first_path_policy (pathPatterns l) p = Some pol"
      using assms(4) c(3) [of p] by (auto simp: file_open_denial_def)
    then obtain q where "q \<in> set (pathPatterns l)" "pol = PolicyID q"
      by (auto simp: first_path_policy_def find_Some_iff) (metis nth_mem)
    then show ?thesis using wf by (auto simp: loaded_wf_def)
  qed
qed

section \<open>Properties\<close>

text \<open>
  C18 (termination): the search for the policy file ends: from every absolute directory the
  upward walk returns, and it returns the first existing candidate of the nearest directory on the
  way to the root that has one.
\<close>

theorem policy_search_ends:
  assumes "IsAbs start"
  shows "\<exists>es. list_all plain es \<and> Clean start = abs_of es \<and>
    findPolicyWalkingUp is_file (Clean start) = Some (find is_file (candidates es))"
proof -
  obtain es where "list_all plain es" "Clean start = abs_of es" using Clean_abs [OF assms] by blast
  with walk_abs show ?thesis by auto
qed

theorem policy_search_ends_witness:
  "\<exists>r. findPolicyWalkingUp (\<lambda>p. p = str ''/ws/policies/default.yaml'') (Clean (str ''/ws/src/'')) = Some r"
  using policy_search_ends [of "str ''/ws/src/''" "\<lambda>p. p = str ''/ws/policies/default.yaml''"]
  by (auto simp: IsAbs_def)

end
