(* ===== verification/Daemon.thy ===== *)
theory Daemon
  imports Audit_Log Session Wire Startup
begin

text \<open>
  The two loops of \<open>runEnforcer\<close> (\<open>main.go\<close>) that read the ring buffers: the violation loop,
  which turns a report into feedback for the session and a row of the audit table, and the event
  loop, which keeps the process tree. A pointer to a node is the process id it is stored under:
  nodes are created once per id and never replaced.
\<close>

section \<open>Violations\<close>

record daemon_env =
  de_codec :: json_codec
  de_fs :: fs_env
  de_root :: bytes
  de_verbs :: other_verbs
  de_anchor :: time_anchor
  de_db_ok :: bool

record daemon =
  dm_policies :: "u32 \<rightharpoonup> ResolvedPolicy"
  dm_sessions :: "u32 \<rightharpoonup> bytes"
  dm_rootPID :: u32
  dm_files :: files
  dm_db :: "db_table option"

text \<open>One iteration of the violation loop on a record; \<open>reads\<close> as for \<open>resolveSessionID\<close>.\<close>

definition handle_violation :: "daemon_env \<Rightarrow> bytes option list \<Rightarrow> bytes \<Rightarrow> daemon \<Rightarrow> daemon" where
  "handle_violation X reads raw D =
     (case decode_violation raw of
        None \<Rightarrow> D
      | Some v \<Rightarrow>
          let cleanPath = parseCString (Detail v);
              cleanComm = parseCString (TypedComm v);
              reason = formatFeedbackReason (de_verbs X) (dm_policies D) (PolicyType v) cleanPath;
              sessionID = resolveSessionID reads (dm_sessions D) (dm_rootPID D) (Pid v);
              (fs, feedbackSent) =
                (if reason = [] then (dm_files D, False)
                 else if sessionID \<noteq> [] then
                   writePendingViolation (de_codec X) (de_fs X) (de_root X) sessionID
                     \<lparr>pv_Reason = reason, pv_PolicyType = ucast (PolicyType v), pv_Path = cleanPath,
                      pv_TimestampNs = TimestampNs v\<rparr> (dm_files D)
                 else (dm_files D, False)) in
          D\<lparr>dm_files := fs,
            dm_db := recordViolation (dm_policies D) (de_anchor X) (de_db_ok X) (Pid v) (PolicyType v)
              cleanComm cleanPath reason sessionID (str ''lsm'') (TimestampNs v) feedbackSent (dm_db D)\<rparr>)"

section \<open>The process tree\<close>

record OutputEvent =
  oe_TimestampNs :: u64
  oe_Pid :: u32
  oe_Ppid :: u32
  oe_Comm :: bytes
  oe_EventType :: bytes
  oe_FileName :: bytes
  oe_DestIP :: bytes
  oe_DestPort :: u16
  oe_Command :: bytes

record ProcessNode =
  pn_Pid :: u32
  pn_Ppid :: u32
  pn_Comm :: bytes
  pn_Children :: "u32 list"
  pn_Events :: "OutputEvent list"

type_synonym tree = "u32 \<rightharpoonup> ProcessNode"

definition getOrCreateNode :: "u32 \<Rightarrow> tree \<Rightarrow> ProcessNode" where
  "getOrCreateNode pid t =
     (case t pid of
        Some node \<Rightarrow> node
      | None \<Rightarrow> \<lparr>pn_Pid = pid, pn_Ppid = 0, pn_Comm = [], pn_Children = [], pn_Events = []\<rparr>)"

text \<open>Fetching a node and assigning to its fields.\<close>

definition with_node :: "u32 \<Rightarrow> (ProcessNode \<Rightarrow> ProcessNode) \<Rightarrow> tree \<Rightarrow> tree" where
  "with_node pid f t = t(pid \<mapsto> f (getOrCreateNode pid t))"

definition output_event :: "Event \<Rightarrow> OutputEvent" where
  "output_event e =
     (let out = \<lparr>oe_TimestampNs = ev_TimestampNs e, oe_Pid = ev_Pid e, oe_Ppid = 0,
                 oe_Comm = parseCString (ev_Comm e), oe_EventType = [], oe_FileName = [], oe_DestIP = [],
                 oe_DestPort = 0, oe_Command = []\<rparr> in
      if ev_EventType e = 1 then
        out\<lparr>oe_EventType := str ''file_open'', oe_FileName := parseCString (ev_FileName e)\<rparr>
      else if ev_EventType e = 2 then
        out\<lparr>oe_EventType := str ''connect'', oe_DestIP := dotted (ev_Daddr e), oe_DestPort := ev_Dport e\<rparr>
      else if ev_EventType e = 3 then
        out\<lparr>oe_EventType := str ''exec'', oe_FileName := parseCString (ev_FileName e),
            oe_Command := parseCString (ev_Command e)\<rparr>
      else if ev_EventType e = 4 then out\<lparr>oe_EventType := str ''fork'', oe_Ppid := ev_Ppid e\<rparr>
      else out)"

definition handle_event :: "tree \<Rightarrow> Event \<Rightarrow> tree" where
  "handle_event t e =
     (let out = output_event e;
          t1 = (if ev_EventType e = 3 then with_node (ev_Pid e) (\<lambda>n. n\<lparr>pn_Comm := oe_FileName out\<rparr>) t
                else if ev_EventType e = 4 then
                  with_node (ev_Ppid e) (\<lambda>n. n\<lparr>pn_Children := pn_Children n @ [ev_Pid e]\<rparr>)
                    (with_node (ev_Pid e) (\<lambda>n. n\<lparr>pn_Ppid := ev_Ppid e\<rparr>) t)
                else t) in
      with_node (ev_Pid e)
        (\<lambda>n. (if pn_Comm n = [] then n\<lparr>pn_Comm := oe_Comm out\<rparr> else n)\<lparr>pn_Events := pn_Events n @ [out]\<rparr>) t1)"

text \<open>The loop over the records of the ring buffer; a record that does not decode is skipped.\<close>

definition event_loop :: "bytes list \<Rightarrow> tree \<Rightarrow> tree" where
  "event_loop raws t = foldl handle_event t (List.map_filter decode_event raws)"

text \<open>The tree at the start: the root node.\<close>

definition initial_tree :: "u32 \<Rightarrow> tree" where
  "initial_tree rootPID = with_node rootPID (\<lambda>n. n\<lparr>pn_Comm := str ''root''\<rparr>) Map.empty"

section \<open>What the tree holds\<close>

definition node_events :: "tree \<Rightarrow> u32 \<Rightarrow> OutputEvent list" where
  "node_events t pid = pn_Events (getOrCreateNode pid t)"

definition node_children :: "tree \<Rightarrow> u32 \<Rightarrow> u32 list" where
  "node_children t pid = pn_Children (getOrCreateNode pid t)"

definition node_parent :: "tree \<Rightarrow> u32 \<Rightarrow> u32" where
  "node_parent t pid = pn_Ppid (getOrCreateNode pid t)"

lemma getOrCreateNode_with:
  "getOrCreateNode p (with_node q f t) = (if p = q then f (getOrCreateNode q t) else getOrCreateNode p t)"
  by (simp add: getOrCreateNode_def with_node_def)

lemma handle_event_fields:
  "node_events (handle_event t e) pid =
     node_events t pid @ (if ev_Pid e = pid then [output_event e] else [])"
  "node_children (handle_event t e) pid =
     node_children t pid @ (if ev_EventType e = 4 \<and> ev_Ppid e = pid then [ev_Pid e] else [])"
  "node_parent (handle_event t e) pid =
     (if ev_EventType e = 4 \<and> ev_Pid e = pid then ev_Ppid e else node_parent t pid)"
  by (auto simp: node_events_def node_children_def node_parent_def handle_event_def Let_def getOrCreateNode_with)

lemma foldl_fields:
  "node_events (foldl handle_event t es) pid =
     node_events t pid @ map output_event (filter (\<lambda>e. ev_Pid e = pid) es)"
  "node_children (foldl handle_event t es) pid =
     node_children t pid @ map ev_Pid (filter (\<lambda>e. ev_EventType e = 4 \<and> ev_Ppid e = pid) es)"
  by (induction es arbitrary: t) (auto simp: handle_event_fields)

lemma initial_fields: "node_events (initial_tree r) pid = []" "node_children (initial_tree r) pid = []"
  by (simp_all add: initial_tree_def node_events_def node_children_def getOrCreateNode_with)
     (simp_all add: getOrCreateNode_def)

lemma go_event_simps:
  "ev_Pid (go_event e) = e_pid e" "ev_Ppid (go_event e) = e_ppid e" "ev_EventType (go_event e) = event_type e"
  by (simp_all add: go_event_def)

text \<open>
  C33 (functional): the process tree is faithful to the event stream: after the loop has read a
  list of records, the node of every process holds exactly its own events, in the order they were
  submitted, and its children are exactly the processes of its fork events.
\<close>

theorem process_tree_faithful:
  assumes "list_all event_wf es"
  shows "node_events (event_loop (map raw_event es) (initial_tree r)) pid =
      map (output_event \<circ> go_event) (filter (\<lambda>e. e_pid e = pid) es) \<and>
    node_children (event_loop (map raw_event es) (initial_tree r)) pid =
      map e_pid (filter (\<lambda>e. event_type e = 4 \<and> e_ppid e = pid) es)"
  unfolding event_loop_def event_record.decode_stream [OF assms]
  by (simp add: foldl_fields initial_fields filter_map comp_def go_event_simps)

theorem process_tree_faithful_witness:
  "node_children (event_loop [raw_event (sample_slot\<lparr>e_pid := 50, e_ppid := 42, event_type := 4\<rparr>)] (initial_tree 42)) 42 = [50]"
  using process_tree_faithful [of "[sample_slot\<lparr>e_pid := 50, e_ppid := 42, event_type := 4\<rparr>]" 42 42]
  by (simp add: event_wf_def sample_slot_def comp_def)

section \<open>Sources of denials\<close>

text \<open>
  The contract of whatever reports denials to the daemon: the loaded policies and the sessions
  are not touched, no table is opened, and an open table gains at most one row, keeping its ids.
\<close>

locale denial_source =
  fixes step :: "'a \<Rightarrow> daemon \<Rightarrow> daemon"
  assumes keeps: "dm_policies (step a D) = dm_policies D" "dm_sessions (step a D) = dm_sessions D"
      "dm_rootPID (step a D) = dm_rootPID D"
    and no_table: "dm_db D = None \<Longrightarrow> dm_db (step a D) = None"
    and appends: "dm_db D = Some t \<Longrightarrow> table_wf t \<Longrightarrow>
      \<exists>rows. dm_db (step a D) = Some (t @ rows) \<and> length rows \<le> 1 \<and> table_wf (t @ rows)"
begin

lemma run_keeps:
  "dm_policies (foldl (\<lambda>D a. step a D) D as) = dm_policies D"
  "dm_sessions (foldl (\<lambda>D a. step a D) D as) = dm_sessions D"
  by (induction as arbitrary: D) (simp_all add: keeps)

lemma run_appends:
  assumes "dm_db D = Some t" "table_wf t"
  shows "\<exists>rows. dm_db (foldl (\<lambda>D a. step a D) D as) = Some (t @ rows) \<and> length rows \<le> length as \<and>
    table_wf (t @ rows)"
  using assms
proof (induction as arbitrary: D t)
  case (Cons a as)
  obtain r where r: "dm_db (step a D) = Some (t @ r)" "length r \<le> 1" "table_wf (t @ r)"
    using appends [OF Cons.prems] by blast
  from Cons.IH [OF r(1,3)] obtain rows where
    "dm_db (foldl (\<lambda>D a. step a D) (step a D) as) = Some ((t @ r) @ rows)" "length rows \<le> length as"
    "table_wf ((t @ r) @ rows)" by blast
  with r(2) show ?case by (intro exI [of _ "r @ rows"]) simp
qed simp

end

lemma recordViolation_appends:
  assumes "table_wf t"
  shows "\<exists>rows. recordViolation P A ok pid pol comm target reason sid src ts sent (Some t) = Some (t @ rows) \<and>
    length rows \<le> 1 \<and> table_wf (t @ rows)"
proof (cases ok)
  case True
  then obtain row where row: "recordViolation P A ok pid pol comm target reason sid src ts sent (Some t) = Some (t @ [row])"
    by (simp add: recordViolation_def inserted_last)
  with recordViolation_wf [OF assms this] show ?thesis by (intro exI [of _ "[row]"]) simp
next
  case False
  then show ?thesis using assms by (intro exI [of _ "[]"]) (simp add: recordViolation_def insertEvent_def)
qed

interpretation reports: denial_source "\<lambda>(reads, raw). handle_violation X reads raw" for X
proof
  fix a :: "bytes option list \<times> bytes" and D t
  obtain reads raw where a: "a = (reads, raw)" by fastforce
  show "dm_policies ((case a of (reads, raw) \<Rightarrow> handle_violation X reads raw) D) = dm_policies D"
    "dm_sessions ((case a of (reads, raw) \<Rightarrow> handle_violation X reads raw) D) = dm_sessions D"
    "dm_rootPID ((case a of (reads, raw) \<Rightarrow> handle_violation X reads raw) D) = dm_rootPID D"
    by (simp_all add: a handle_violation_def Let_def case_prod_beta split: option.splits)
  show "dm_db D = None \<Longrightarrow> dm_db ((case a of (reads, raw) \<Rightarrow> handle_violation X reads raw) D) = None"
    by (simp add: a handle_violation_def Let_def case_prod_beta recordViolation_def split: option.splits)
  show "dm_db D = Some t \<Longrightarrow> table_wf t \<Longrightarrow>
      \<exists>rows. dm_db ((case a of (reads, raw) \<Rightarrow> handle_violation X reads raw) D) = Some (t @ rows) \<and>
        length rows \<le> 1 \<and> table_wf (t @ rows)"
    using recordViolation_appends
    by (cases "decode_violation raw")
       (force simp: a handle_violation_def, simp add: a handle_violation_def Let_def case_prod_beta del: str_simps)
qed

section \<open>From a report to the session\<close>

lemma first_hook_id_valid: "first_hook_id reads = Some sid \<Longrightarrow> isHookSessionID sid"
  by (induction reads) (auto split: option.splits if_splits)

lemma hook_id_nonempty: "isHookSessionID sid \<Longrightarrow> sid \<noteq> []"
  by (auto simp: isHookSessionID_def Let_def)

text \<open>A report whose reason is not empty is written for the active session and recorded as sent.\<close>

lemma handle_violation_writes:
  assumes "violation_wf v" "first_hook_id (take 3 reads) = Some sid"
    and "reason = formatFeedbackReason (de_verbs X) (dm_policies D) (policy_type v) (cstr (detail v))" "reason \<noteq> []"
    and "\<forall>p. mkdir_ok (de_fs X) p \<and> write_ok (de_fs X) p"
  shows "writePendingViolation (de_codec X) (de_fs X) (de_root X) sid
      \<lparr>pv_Reason = reason, pv_PolicyType = ucast (policy_type v), pv_Path = cstr (detail v),
       pv_TimestampNs = timestamp_ns v\<rparr> (dm_files D) =
    (dm_files (handle_violation X reads (raw_violation v) D), True)"
    and "dm_db (handle_violation X reads (raw_violation v) D) =
      recordViolation (dm_policies D) (de_anchor X) (de_db_ok X) (v_pid v) (policy_type v)
        (cstr (typed_comm v)) (cstr (detail v)) reason sid (str ''lsm'') (timestamp_ns v) True (dm_db D)"
proof -
  let ?pv = "\<lparr>pv_Reason = reason, pv_PolicyType = ucast (policy_type v), pv_Path = cstr (detail v),
       pv_TimestampNs = timestamp_ns v\<rparr>"
  have sid: "sid \<noteq> []" using hook_id_nonempty [OF first_hook_id_valid [OF assms(2)]] .
  have res: "resolveSessionID reads (dm_sessions D) (dm_rootPID D) pid = sid" for pid
    by (simp add: resolveSessionID_def assms(2))
  obtain fs where w: "writePendingViolation (de_codec X) (de_fs X) (de_root X) sid ?pv (dm_files D) = (fs, True)"
    using assms(5) sid by (simp add: writePendingViolation_def Let_def)
  have "handle_violation X reads (raw_violation v) D = D\<lparr>dm_files := fs,
      dm_db := recordViolation (dm_policies D) (de_anchor X) (de_db_ok X) (v_pid v) (policy_type v)
        (cstr (typed_comm v)) (cstr (detail v)) reason sid (str ''lsm'') (timestamp_ns v) True (dm_db D)\<rparr>"
    using assms(4) w
    by (simp add: handle_violation_def decode_raw_violation [OF assms(1)] parseCString_cstr res sid
        flip: assms(3) del: str_simps)
  with w show "writePendingViolation (de_codec X) (de_fs X) (de_root X) sid ?pv (dm_files D) =
      (dm_files (handle_violation X reads (raw_violation v) D), True)"
    "dm_db (handle_violation X reads (raw_violation v) D) =
      recordViolation (dm_policies D) (de_anchor X) (de_db_ok X) (v_pid v) (policy_type v)
        (cstr (typed_comm v)) (cstr (detail v)) reason sid (str ''lsm'') (timestamp_ns v) True (dm_db D)"
    by simp_all
qed

end
