(* ===== verification/Api.thy ===== *)
theory Api
  imports Daemon
begin

text \<open>
  The HTTP interface of the daemon (\<open>api.go\<close>): the parameters of a query, the handlers and
  their routes. A handler is the list of the responses it writes, in order. What the operating
  system and the libraries supply is an argument: the query parameters, the text of a failed
  statement, the policy file read again, the iteration of the map, the entries of the state
  directory, and what iterating a nil map does.
\<close>

section \<open>Responses\<close>

record 'd apiResponse =
  ar_OK :: bool
  ar_Data :: "'d option"
  ar_Error :: bytes

definition writeOK :: "'d \<Rightarrow> nat \<times> 'd apiResponse" where
  "writeOK d = (200, \<lparr>ar_OK = True, ar_Data = Some d, ar_Error = []\<rparr>)"

definition writeErr :: "nat \<Rightarrow> bytes \<Rightarrow> nat \<times> 'd apiResponse" where
  "writeErr status msg = (status, \<lparr>ar_OK = False, ar_Data = None, ar_Error = msg\<rparr>)"

definition db_error_text :: "bytes \<Rightarrow> db_error \<Rightarrow> bytes" where
  "db_error_text msg e = (case e of Db_not_initialized \<Rightarrow> str ''db not initialized'' | Statement_failed \<Rightarrow> msg)"

section \<open>Parameters\<close>

text \<open>A missing parameter is the empty text.\<close>

definition parseLimit :: "bytes \<Rightarrow> int" where
  "parseLimit s =
     (case Atoi s of
        None \<Rightarrow> 50
      | Some n \<Rightarrow> if n \<le> 0 then 50 else if 500 < n then 500 else n)"

text \<open>\<open>None\<close> is the error, \<open>Some None\<close> the absence of a process.\<close>

definition parsePIDQuery :: "bytes \<Rightarrow> u32 option option" where
  "parsePIDQuery p =
     (let s = TrimSpace p in if s = [] then Some None else map_option Some (ParseUint32 s))"

section \<open>Events\<close>

definition reply_events ::
  "bool \<Rightarrow> bool \<Rightarrow> bytes \<Rightarrow> bytes \<Rightarrow> bytes \<Rightarrow> db_table option \<Rightarrow> (nat \<times> EventRow list apiResponse) list" where
  "reply_events blockedOnly ok msg pid limit db =
     (case parsePIDQuery pid of
        None \<Rightarrow> [writeErr 400 (str ''invalid pid'')]
      | Some p \<Rightarrow>
          (case queryEvents ok p blockedOnly (parseLimit limit) db of
             Inl e \<Rightarrow> [writeErr 500 (db_error_text msg e)]
           | Inr rows \<Rightarrow> [writeOK rows]))"

definition handleEvents ::
  "bool \<Rightarrow> bytes \<Rightarrow> bytes \<Rightarrow> bytes \<Rightarrow> db_table option \<Rightarrow> (nat \<times> EventRow list apiResponse) list" where
  "handleEvents = reply_events False"

definition handleViolations ::
  "bool \<Rightarrow> bytes \<Rightarrow> bytes \<Rightarrow> bytes \<Rightarrow> db_table option \<Rightarrow> (nat \<times> EventRow list apiResponse) list" where
  "handleViolations = reply_events True"

section \<open>Policies\<close>

definition kindName :: "PolicyKind \<Rightarrow> bytes" where
  "kindName k =
     (case k of
        KindPath \<Rightarrow> str ''path''
      | KindNetwork \<Rightarrow> str ''network''
      | KindCommand \<Rightarrow> str ''command''
      | KindWorkspace \<Rightarrow> str ''workspace'')"

record policy_item =
  pi_name :: bytes
  pi_description :: bytes
  pi_feedback :: bytes
  pi_path_patterns :: "bytes list"
  pi_command_patterns :: "bytes list"
  pi_allowed_hosts :: "bytes list"
  pi_allowed_ports :: "bytes list"
  pi_egress :: bytes
  pi_allow_local_dns :: bool
  pi_confine :: bool
  pi_workspace :: bytes
  pi_allow_prefixes :: "bytes list"
  pi_allow_home_suffixes :: "bytes list"
  pi_id :: "u32 option"
  pi_kind :: "bytes option"

text \<open>The loop over the registry, whose values come in some order: the last one of a name stays.\<close>

definition idByName :: "ResolvedPolicy list \<Rightarrow> (bytes \<rightharpoonup> ResolvedPolicy)" where
  "idByName rs = foldl (\<lambda>m p. m(rp_Name p \<mapsto> p)) Map.empty rs"

definition policy_entry :: "ResolvedPolicy list \<Rightarrow> bytes \<times> AgentPolicy \<Rightarrow> policy_item" where
  "policy_entry rs np =
     (let (name, pol) = np; rp = idByName rs name in
      \<lparr>pi_name = name, pi_description = ap_Description pol, pi_feedback = ap_Feedback pol,
       pi_path_patterns = ap_PathPatterns pol, pi_command_patterns = ap_CommandPatterns pol,
       pi_allowed_hosts = ap_AllowedHosts pol, pi_allowed_ports = ap_AllowedPorts pol, pi_egress = ap_Egress pol,
       pi_allow_local_dns = ap_AllowLocalDNS pol, pi_confine = ap_Confine pol, pi_workspace = ap_Workspace pol,
       pi_allow_prefixes = ap_AllowPrefixes pol, pi_allow_home_suffixes = ap_AllowHomeSuffixes pol,
       pi_id = map_option rp_ID rp, pi_kind = map_option (\<lambda>r. kindName (rp_Kind r)) rp\<rparr>)"

definition handlePolicies ::
  "bytes \<Rightarrow> bytes + PolicyFile \<Rightarrow> ResolvedPolicy list \<Rightarrow> (nat \<times> policy_item list apiResponse) list" where
  "handlePolicies apiPolicyPath loadPolicies rs =
     (if apiPolicyPath = [] then [writeErr 500 (str ''policy path not set'')]
      else
        (case loadPolicies of
           Inl msg \<Rightarrow> [writeErr 500 msg]
         | Inr pf \<Rightarrow> [writeOK (map (policy_entry rs) pf)]))"

section \<open>Agents\<close>

record agentInfo =
  ai_Pid :: u32
  ai_Comm :: bytes
  ai_Ppid :: u32
  ai_SessionID :: bytes
  ai_IsRoot :: bool

definition agent_info :: "u32 \<Rightarrow> tree \<Rightarrow> (u32 \<rightharpoonup> bytes) \<Rightarrow> u32 \<Rightarrow> agentInfo" where
  "agent_info rootPID t sessionIDByPid pid =
     (let a = \<lparr>ai_Pid = pid, ai_Comm = [], ai_Ppid = 0, ai_SessionID = [], ai_IsRoot = (pid = rootPID)\<rparr>;
          a1 = (case t pid of None \<Rightarrow> a | Some node \<Rightarrow> a\<lparr>ai_Comm := pn_Comm node, ai_Ppid := pn_Ppid node\<rparr>) in
      a1\<lparr>ai_SessionID := getSessionIDForPID sessionIDByPid pid\<rparr>)"

text \<open>
  An iteration is the keys it delivers and its error; \<open>nil_iteration\<close> is that of a nil map, with
  \<open>None\<close> for a panic, after which nothing more is written.
\<close>

type_synonym iteration = "u32 list \<times> bytes option"

definition handleAgents ::
  "iteration option \<Rightarrow> iteration option \<Rightarrow> u32 \<Rightarrow> tree \<Rightarrow> (u32 \<rightharpoonup> bytes) \<Rightarrow>
   (nat \<times> agentInfo list apiResponse) list" where
  "handleAgents nil_iteration apiTrackedPids rootPID t sessionIDByPid =
     (let first = (if apiTrackedPids = None
                   then [writeErr 503 (str ''tracked_pids map not ready'')] else []);
          it = (case apiTrackedPids of None \<Rightarrow> nil_iteration | Some i \<Rightarrow> Some i) in
      first @
      (case it of
         None \<Rightarrow> []
       | Some (pids, err) \<Rightarrow>
           (case err of
              Some msg \<Rightarrow> [writeErr 500 msg]
            | None \<Rightarrow> [writeOK (map (agent_info rootPID t sessionIDByPid) pids)])))"

section \<open>Status\<close>

record health =
  he_status :: bytes
  he_uptime_sec :: int
  he_root_pid :: u32
  he_proxy_addr :: bytes
  he_db_path :: bytes
  he_db_ready :: bool

definition handleHealth ::
  "int \<Rightarrow> u32 \<Rightarrow> bytes \<Rightarrow> bytes \<Rightarrow> db_table option \<Rightarrow> (nat \<times> health apiResponse) list" where
  "handleHealth uptime rootPID proxyAddr dbPath db =
     [writeOK \<lparr>he_status = str ''ok'', he_uptime_sec = uptime, he_root_pid = rootPID, he_proxy_addr = proxyAddr,
               he_db_path = dbPath, he_db_ready = (db \<noteq> None)\<rparr>]"

record feedback_status =
  fs_hook_path :: bytes
  fs_hook_ok :: bool
  fs_active_session :: bytes
  fs_pending :: nat
  fs_last_blocked :: "EventRow option"

text \<open>
  \<open>ents\<close>: the entries of the violation store with whether they are directories; \<open>self\<close>: whether
  the executable is a directory, and its size.
\<close>

definition handleFeedbackStatus ::
  "(bytes \<times> bool) list option \<Rightarrow> bytes option \<Rightarrow> (bool \<times> nat) option \<Rightarrow> bytes \<Rightarrow> bool \<Rightarrow> db_table option \<Rightarrow>
   (nat \<times> feedback_status apiResponse) list" where
  "handleFeedbackStatus ents active self hookBinaryPath ok db =
     (let pending = (case ents of
            None \<Rightarrow> 0
          | Some es \<Rightarrow> length (filter (\<lambda>(name, isDir). \<not> isDir \<and> suffix (str ''.json'') name) es));
          session = (case active of None \<Rightarrow> [] | Some b \<Rightarrow> TrimSpace b);
          hookOK = (case self of None \<Rightarrow> False | Some (isDir, sz) \<Rightarrow> \<not> isDir \<and> 0 < sz);
          last = (case lastBlockedEvent ok db of Inl _ \<Rightarrow> None | Inr r \<Rightarrow> r) in
      [writeOK \<lparr>fs_hook_path = hookBinaryPath, fs_hook_ok = hookOK, fs_active_session = session,
                fs_pending = pending, fs_last_blocked = last\<rparr>])"

section \<open>Properties\<close>

lemma parseLimit_bounds: "1 \<le> parseLimit s \<and> parseLimit s \<le> 500"
  by (auto simp: parseLimit_def split: option.splits)

text \<open>
  C34 (functional): what the violations endpoint answers: with a valid process parameter and an
  open table, one reply of status 200 with at most 500 rows, newest first, all of them blocked
  rows of the table and of the given process; a matching row is left out only when the limit is
  reached, and then it is older than every row of the reply.
\<close>

theorem newest_violations:
  assumes "table_wf t" "parsePIDQuery pid = Some p"
  shows "\<exists>rows. handleViolations True msg pid limit (Some t) = [writeOK rows] \<and>
    sorted_wrt (\<lambda>a b. er_ID b < er_ID a) rows \<and> length rows \<le> 500 \<and>
    (\<forall>r \<in> set rows. r \<in> set t \<and> er_Action r = str ''blocked'' \<and> (\<forall>q. p = Some q \<longrightarrow> er_AgentPid r = q)) \<and>
    (\<forall>r \<in> set t. er_Action r = str ''blocked'' \<and> (\<forall>q. p = Some q \<longrightarrow> er_AgentPid r = q) \<and> r \<notin> set rows \<longrightarrow>
       int (length rows) = parseLimit limit \<and> (\<forall>r' \<in> set rows. er_ID r < er_ID r'))"
proof -
  let ?n = "nat (parseLimit limit)"
  define rows where "rows = take ?n (filter (selects p True) (rev t))"
  note lim = parseLimit_bounds [of limit]
  have sel: "selects p True r \<longleftrightarrow> er_Action r = str ''blocked'' \<and> (\<forall>q. p = Some q \<longrightarrow> er_AgentPid r = q)" for r
    by (auto simp: selects_def split: option.splits)
  have "handleViolations True msg pid limit (Some t) = [writeOK rows]"
    using lim by (simp add: handleViolations_def reply_events_def assms(2) queryEvents_def Let_def rows_def)
  moreover note props = take_filter_newest [OF table_wf_sorted [OF assms(1)] rows_def]
  have "length rows \<le> 500" using props(2) lim by linarith
  moreover have "int (length rows) = parseLimit limit" if "length rows = ?n" using that lim by simp
  ultimately show ?thesis
    using props(1,3,4) unfolding sel set_rev by blast
qed

definition sample_table :: db_table where
  "sample_table = map (\<lambda>i. table_row i (violation_row Map.empty \<lparr>bootTimeAnchor = 0, ktimeAnchorNs = 0\<rparr>
     42 1 [] (str ''/ws/.env'') (str ''no'') [] (str ''lsm'') 0 False)) [1, 2]"

lemma sample_row_fields:
  "er_Action (table_row i (violation_row P A pid pol comm tg rs sid src ts sent)) = str ''blocked''"
  "er_AgentPid (table_row i (violation_row P A pid pol comm tg rs sid src ts sent)) = pid"
  "er_ID (table_row i e) = i"
  by (simp_all add: table_row_def violation_row_def Let_def del: str_simps)

theorem newest_violations_witness:
  "\<exists>r. handleViolations True [] (str ''42'') (str ''1'') (Some sample_table) = [writeOK [r]] \<and> er_ID r = 2"
proof -
  have lim: "parseLimit (str ''1'') = 1"
    by (simp add: parseLimit_def Atoi_def decimal_def is_digit_def digit_val_def)
  have "TrimSpace (str ''42'') = str ''42''"
    by (simp add: TrimSpace_def trim_left.simps trim_right.simps space_encodings_def suffix_def
        append_eq_Cons_conv)
  then have pid: "parsePIDQuery (str ''42'') = Some (Some 42)"
    by (simp add: parsePIDQuery_def ParseUint32_def decimal_def is_digit_def digit_val_def)
  have wf: "table_wf sample_table" by (simp add: table_wf_def sample_table_def sample_row_fields)
  obtain rows where rows: "handleViolations True [] (str ''42'') (str ''1'') (Some sample_table) = [writeOK rows]"
    "\<forall>r \<in> set rows. r \<in> set sample_table"
    "\<forall>r \<in> set sample_table. r \<notin> set rows \<longrightarrow> int (length rows) = 1 \<and> (\<forall>r' \<in> set rows. er_ID r < er_ID r')"
    using newest_violations [OF wf pid, of "[]" "str ''1''"] lim
    by (auto simp: sample_table_def sample_row_fields simp del: str_simps)
  have "rows = take 1 (filter (selects (Some 42) True) (rev sample_table))"
    using rows(1) lim pid
    by (simp add: handleViolations_def reply_events_def queryEvents_def writeOK_def Let_def del: str_simps)
  then have "rows = [last sample_table]"
    by (simp add: sample_table_def selects_def sample_row_fields del: str_simps)
  moreover have "er_ID (last sample_table) = 2" by (simp add: sample_table_def sample_row_fields del: str_simps)
  ultimately show ?thesis using rows(1) by blast
qed

text \<open>The registry as the policies endpoint sees it.\<close>

lemma idByName_distinct:
  assumes "distinct (map rp_Name rs)" "r \<in> set rs"
  shows "idByName rs (rp_Name r) = Some r"
proof -
  have "foldl (\<lambda>m p. m(rp_Name p \<mapsto> p)) m rs (rp_Name r) = Some r" for m
    using assms
  proof (induction rs arbitrary: m)
    case (Cons a rs)
    have keep: "n \<notin> rp_Name ` set rs \<Longrightarrow> foldl (\<lambda>m p. m(rp_Name p \<mapsto> p)) m rs n = m n" for m n
      by (induction rs arbitrary: m) auto
    from Cons show ?case using keep by (cases "r = a") (auto simp del: fun_upd_apply simp: fun_upd_same)
  qed simp
  then show ?thesis by (simp add: idByName_def)
qed

text \<open>
  What the policies endpoint answers for the file the daemon runs on: every
  policy of the file is listed once, and a policy of a kind carries the number under which the
  enforcer reports it, and the name of its kind.
\<close>

theorem policies_listed:
  assumes "loadAllPolicies E pf = Inr l" "distinct (map fst pf)" "length pf < 2 ^ 32 - 1"
    and "distinct rs" "set rs = ran (policyByID l)" "path \<noteq> []"
  shows "\<exists>items. handlePolicies path (Inr pf) rs = [writeOK items] \<and> map pi_name items = map fst pf \<and>
    (\<forall>item \<in> set items. \<forall>p k. (pi_name item, p) \<in> set pf \<and> policy_kind p = Some k \<longrightarrow>
       pi_kind item = Some (kindName k) \<and>
       (\<exists>i. pi_id item = Some i \<and> policyByID l i = Some (resolved (pi_name item) p i k)))"
proof -
  note load = assms(1-3)
  have "inj_on rp_Name (set rs)"
    using registry_name_inj [OF load] assms(5) by (auto simp: inj_on_def ran_def)
  then have names: "distinct (map rp_Name rs)" using assms(4) by (simp add: distinct_map)
  let ?items = "map (policy_entry rs) pf"
  have "pi_kind item = Some (kindName k) \<and>
       (\<exists>i. pi_id item = Some i \<and> policyByID l i = Some (resolved (pi_name item) p i k))"
    if m: "item \<in> set ?items" "(pi_name item, p) \<in> set pf" "policy_kind p = Some k" for item p k
  proof -
    obtain name q where item: "item = policy_entry rs (name, q)" "(name, q) \<in> set pf" using m(1) by auto
    then have name: "pi_name item = name" by (simp add: policy_entry_def Let_def)
    obtain i where i: "policyByID l i = Some (resolved name p i k)"
      using registry_complete [OF load m(2,3)] name by blast
    then have "resolved name p i k \<in> set rs" using assms(5) by (auto simp: ran_def)
    then have "idByName rs name = Some (resolved name p i k)"
      using idByName_distinct [OF names] by (metis ResolvedPolicy.select_convs(1) resolved_def)
    then show ?thesis using i name by (simp add: item(1) policy_entry_def Let_def resolved_def)
  qed
  moreover have "map pi_name ?items = map fst pf" by (auto simp: policy_entry_def Let_def)
  moreover have "handlePolicies path (Inr pf) rs = [writeOK ?items]" using assms(6) by (simp add: handlePolicies_def)
  ultimately show ?thesis by blast
qed

theorem policies_listed_witness:
  "\<exists>l items. loadAllPolicies sample_os [(str ''creds'', sample_path_policy)] = Inr l \<and>
     handlePolicies (str ''/p.yaml'') (Inr [(str ''creds'', sample_path_policy)])
       [resolved (str ''creds'') sample_path_policy 1 KindPath] = [writeOK items] \<and>
     map pi_name items = [str ''creds'']"
proof -
  let ?pf = "[(str ''creds'', sample_path_policy)]"
  obtain l where l: "loadAllPolicies sample_os ?pf = Inr l"
    using sample_file_loads by blast
  have r: "policyByID l = [1 \<mapsto> resolved (str ''creds'') sample_path_policy 1 KindPath]"
    using l by (auto simp: loadAllPolicies_def by_name_def load_policy_def sample_path_policy_def empty_policy_def
        no_policies_def resolved_def)
  have "ran (policyByID l) = {resolved (str ''creds'') sample_path_policy 1 KindPath}"
    unfolding r by simp
  then show ?thesis
    using policies_listed [OF l, of "[resolved (str ''creds'') sample_path_policy 1 KindPath]" "str ''/p.yaml''"] l
    by auto
qed

end
