(* ===== verification/Kernel_Base.thy ===== *)
theory Kernel_Base
  imports C_Layout
begin

text \<open>
  Transcribed from \<open>vmlinux.h\<close>: the kernel types shared by the groups: lists, trees, locks, counters, timers and scalar typedefs.
  \<open>S_\<close>, \<open>U_\<close> and \<open>T_\<close> stand for struct, union and typedef; leading underscores of a name are
  written \<open>x\<close>. The facts after a type are its size, its alignment and that it is well formed.
\<close>

definition T_xu64 :: ctype where
  "T_xu64 =
     c_long"

lemma T_xu64_layout [layout_simps]:
  "sizeof T_xu64 = 8" "alignof T_xu64 = 8" "ctype_wf T_xu64" "natural T_xu64 \<longleftrightarrow> True"
  by (simp_all add: T_xu64_def layout_simps)

definition T_u64 :: ctype where
  "T_u64 =
     T_xu64"

lemma T_u64_layout [layout_simps]:
  "sizeof T_u64 = 8" "alignof T_u64 = 8" "ctype_wf T_u64" "natural T_u64 \<longleftrightarrow> True"
  by (simp_all add: T_u64_def layout_simps)

definition T_xu32 :: ctype where
  "T_xu32 =
     c_int"

lemma T_xu32_layout [layout_simps]:
  "sizeof T_xu32 = 4" "alignof T_xu32 = 4" "ctype_wf T_xu32" "natural T_xu32 \<longleftrightarrow> True"
  by (simp_all add: T_xu32_def layout_simps)

definition T_u32 :: ctype where
  "T_u32 =
     T_xu32"

lemma T_u32_layout [layout_simps]:
  "sizeof T_u32 = 4" "alignof T_u32 = 4" "ctype_wf T_u32" "natural T_u32 \<longleftrightarrow> True"
  by (simp_all add: T_u32_def layout_simps)

definition T_atomic_t :: ctype where
  "T_atomic_t =
     Struct False [Fld ''counter'' c_int]"

lemma T_atomic_t_layout [layout_simps]:
  "sizeof T_atomic_t = 4" "alignof T_atomic_t = 4" "ctype_wf T_atomic_t" "natural T_atomic_t \<longleftrightarrow> True"
  by (simp_all add: T_atomic_t_def layout_simps)

definition S_refcount_struct :: ctype where
  "S_refcount_struct =
     Struct False [Fld ''refs'' T_atomic_t]"

lemma S_refcount_struct_layout [layout_simps]:
  "sizeof S_refcount_struct = 4" "alignof S_refcount_struct = 4" "ctype_wf S_refcount_struct" "natural S_refcount_struct \<longleftrightarrow> True"
  by (simp_all add: S_refcount_struct_def layout_simps)

definition T_refcount_t :: ctype where
  "T_refcount_t =
     S_refcount_struct"

lemma T_refcount_t_layout [layout_simps]:
  "sizeof T_refcount_t = 4" "alignof T_refcount_t = 4" "ctype_wf T_refcount_t" "natural T_refcount_t \<longleftrightarrow> True"
  by (simp_all add: T_refcount_t_def layout_simps)

definition S_llist_node :: ctype where
  "S_llist_node =
     Struct False [Fld ''next'' Ptr]"

lemma S_llist_node_layout [layout_simps]:
  "sizeof S_llist_node = 8" "alignof S_llist_node = 8" "ctype_wf S_llist_node" "natural S_llist_node \<longleftrightarrow> True"
  by (simp_all add: S_llist_node_def layout_simps)

definition T_xu16 :: ctype where
  "T_xu16 =
     c_short"

lemma T_xu16_layout [layout_simps]:
  "sizeof T_xu16 = 2" "alignof T_xu16 = 2" "ctype_wf T_xu16" "natural T_xu16 \<longleftrightarrow> True"
  by (simp_all add: T_xu16_def layout_simps)

definition T_u16 :: ctype where
  "T_u16 =
     T_xu16"

lemma T_u16_layout [layout_simps]:
  "sizeof T_u16 = 2" "alignof T_u16 = 2" "ctype_wf T_u16" "natural T_u16 \<longleftrightarrow> True"
  by (simp_all add: T_u16_def layout_simps)

definition S_xcall_single_node :: ctype where
  "S_xcall_single_node =
     Struct False [Fld ''llist'' S_llist_node, Fld '''' (Union False [Fld ''u_flags'' c_int,
     Fld ''a_flags'' T_atomic_t]), Fld ''src'' T_u16, Fld ''dst'' T_u16]"

lemma S_xcall_single_node_layout [layout_simps]:
  "sizeof S_xcall_single_node = 16" "alignof S_xcall_single_node = 8" "ctype_wf S_xcall_single_node" "natural S_xcall_single_node \<longleftrightarrow> True"
  by (simp_all add: S_xcall_single_node_def layout_simps)

definition S_rb_node :: ctype where
  "S_rb_node =
     Struct False [Fld ''__rb_parent_color'' c_long, Fld ''rb_right'' Ptr, Fld ''rb_left'' Ptr]"

lemma S_rb_node_layout [layout_simps]:
  "sizeof S_rb_node = 24" "alignof S_rb_node = 8" "ctype_wf S_rb_node" "natural S_rb_node \<longleftrightarrow> True"
  by (simp_all add: S_rb_node_def layout_simps)

definition S_list_head :: ctype where
  "S_list_head =
     Struct False [Fld ''next'' Ptr, Fld ''prev'' Ptr]"

lemma S_list_head_layout [layout_simps]:
  "sizeof S_list_head = 16" "alignof S_list_head = 8" "ctype_wf S_list_head" "natural S_list_head \<longleftrightarrow> True"
  by (simp_all add: S_list_head_def layout_simps)

definition T_xs64 :: ctype where
  "T_xs64 =
     c_long"

lemma T_xs64_layout [layout_simps]:
  "sizeof T_xs64 = 8" "alignof T_xs64 = 8" "ctype_wf T_xs64" "natural T_xs64 \<longleftrightarrow> True"
  by (simp_all add: T_xs64_def layout_simps)

definition T_s64 :: ctype where
  "T_s64 =
     T_xs64"

lemma T_s64_layout [layout_simps]:
  "sizeof T_s64 = 8" "alignof T_s64 = 8" "ctype_wf T_s64" "natural T_s64 \<longleftrightarrow> True"
  by (simp_all add: T_s64_def layout_simps)

definition T_ktime_t :: ctype where
  "T_ktime_t =
     T_s64"

lemma T_ktime_t_layout [layout_simps]:
  "sizeof T_ktime_t = 8" "alignof T_ktime_t = 8" "ctype_wf T_ktime_t" "natural T_ktime_t \<longleftrightarrow> True"
  by (simp_all add: T_ktime_t_def layout_simps)

definition S_timerqueue_node :: ctype where
  "S_timerqueue_node =
     Struct False [Fld ''node'' S_rb_node, Fld ''expires'' T_ktime_t]"

lemma S_timerqueue_node_layout [layout_simps]:
  "sizeof S_timerqueue_node = 32" "alignof S_timerqueue_node = 8" "ctype_wf S_timerqueue_node" "natural S_timerqueue_node \<longleftrightarrow> True"
  by (simp_all add: S_timerqueue_node_def layout_simps)

definition T_xu8 :: ctype where
  "T_xu8 =
     c_char"

lemma T_xu8_layout [layout_simps]:
  "sizeof T_xu8 = 1" "alignof T_xu8 = 1" "ctype_wf T_xu8" "natural T_xu8 \<longleftrightarrow> True"
  by (simp_all add: T_xu8_def layout_simps)

definition T_u8 :: ctype where
  "T_u8 =
     T_xu8"

lemma T_u8_layout [layout_simps]:
  "sizeof T_u8 = 1" "alignof T_u8 = 1" "ctype_wf T_u8" "natural T_u8 \<longleftrightarrow> True"
  by (simp_all add: T_u8_def layout_simps)

definition S_hrtimer :: ctype where
  "S_hrtimer =
     Struct False [Fld ''node'' S_timerqueue_node, Fld ''_softexpires'' T_ktime_t, Fld ''function'' Ptr,
     Fld ''base'' Ptr, Fld ''state'' T_u8, Fld ''is_rel'' T_u8, Fld ''is_soft'' T_u8,
     Fld ''is_hard'' T_u8]"

lemma S_hrtimer_layout [layout_simps]:
  "sizeof S_hrtimer = 64" "alignof S_hrtimer = 8" "ctype_wf S_hrtimer" "natural S_hrtimer \<longleftrightarrow> True"
  by (simp_all add: S_hrtimer_def layout_simps)

definition T_xs32 :: ctype where
  "T_xs32 =
     c_int"

lemma T_xs32_layout [layout_simps]:
  "sizeof T_xs32 = 4" "alignof T_xs32 = 4" "ctype_wf T_xs32" "natural T_xs32 \<longleftrightarrow> True"
  by (simp_all add: T_xs32_def layout_simps)

definition T_s32 :: ctype where
  "T_s32 =
     T_xs32"

lemma T_s32_layout [layout_simps]:
  "sizeof T_s32 = 4" "alignof T_s32 = 4" "ctype_wf T_s32" "natural T_s32 \<longleftrightarrow> True"
  by (simp_all add: T_s32_def layout_simps)

definition T_atomic64_t :: ctype where
  "T_atomic64_t =
     Struct False [Fld ''counter'' T_s64]"

lemma T_atomic64_t_layout [layout_simps]:
  "sizeof T_atomic64_t = 8" "alignof T_atomic64_t = 8" "ctype_wf T_atomic64_t" "natural T_atomic64_t \<longleftrightarrow> True"
  by (simp_all add: T_atomic64_t_def layout_simps)

definition T_atomic_long_t :: ctype where
  "T_atomic_long_t =
     T_atomic64_t"

lemma T_atomic_long_t_layout [layout_simps]:
  "sizeof T_atomic_long_t = 8" "alignof T_atomic_long_t = 8" "ctype_wf T_atomic_long_t" "natural T_atomic_long_t \<longleftrightarrow> True"
  by (simp_all add: T_atomic_long_t_def layout_simps)

definition S_callback_head :: ctype where
  "S_callback_head =
     Struct False [Fld ''next'' Ptr, Fld ''func'' Ptr]"

lemma S_callback_head_layout [layout_simps]:
  "sizeof S_callback_head = 16" "alignof S_callback_head = 8" "ctype_wf S_callback_head" "natural S_callback_head \<longleftrightarrow> True"
  by (simp_all add: S_callback_head_def layout_simps)

definition S_hlist_head :: ctype where
  "S_hlist_head =
     Struct False [Fld ''first'' Ptr]"

lemma S_hlist_head_layout [layout_simps]:
  "sizeof S_hlist_head = 8" "alignof S_hlist_head = 8" "ctype_wf S_hlist_head" "natural S_hlist_head \<longleftrightarrow> True"
  by (simp_all add: S_hlist_head_def layout_simps)

definition T_time64_t :: ctype where
  "T_time64_t =
     T_xs64"

lemma T_time64_t_layout [layout_simps]:
  "sizeof T_time64_t = 8" "alignof T_time64_t = 8" "ctype_wf T_time64_t" "natural T_time64_t \<longleftrightarrow> True"
  by (simp_all add: T_time64_t_def layout_simps)

definition T_xkernel_pid_t :: ctype where
  "T_xkernel_pid_t =
     c_int"

lemma T_xkernel_pid_t_layout [layout_simps]:
  "sizeof T_xkernel_pid_t = 4" "alignof T_xkernel_pid_t = 4" "ctype_wf T_xkernel_pid_t" "natural T_xkernel_pid_t \<longleftrightarrow> True"
  by (simp_all add: T_xkernel_pid_t_def layout_simps)

definition T_pid_t :: ctype where
  "T_pid_t =
     T_xkernel_pid_t"

lemma T_pid_t_layout [layout_simps]:
  "sizeof T_pid_t = 4" "alignof T_pid_t = 4" "ctype_wf T_pid_t" "natural T_pid_t \<longleftrightarrow> True"
  by (simp_all add: T_pid_t_def layout_simps)

definition S_hlist_node :: ctype where
  "S_hlist_node =
     Struct False [Fld ''next'' Ptr, Fld ''pprev'' Ptr]"

lemma S_hlist_node_layout [layout_simps]:
  "sizeof S_hlist_node = 16" "alignof S_hlist_node = 8" "ctype_wf S_hlist_node" "natural S_hlist_node \<longleftrightarrow> True"
  by (simp_all add: S_hlist_node_def layout_simps)

definition S_qspinlock :: ctype where
  "S_qspinlock =
     Struct False [Fld '''' (Union False [Fld ''val'' T_atomic_t,
     Fld '''' (Struct False [Fld ''locked'' T_u8, Fld ''pending'' T_u8]),
     Fld '''' (Struct False [Fld ''locked_pending'' T_u16, Fld ''tail'' T_u16])])]"

lemma S_qspinlock_layout [layout_simps]:
  "sizeof S_qspinlock = 4" "alignof S_qspinlock = 4" "ctype_wf S_qspinlock" "natural S_qspinlock \<longleftrightarrow> True"
  by (simp_all add: S_qspinlock_def layout_simps)

definition T_arch_spinlock_t :: ctype where
  "T_arch_spinlock_t =
     S_qspinlock"

lemma T_arch_spinlock_t_layout [layout_simps]:
  "sizeof T_arch_spinlock_t = 4" "alignof T_arch_spinlock_t = 4" "ctype_wf T_arch_spinlock_t" "natural T_arch_spinlock_t \<longleftrightarrow> True"
  by (simp_all add: T_arch_spinlock_t_def layout_simps)

definition S_raw_spinlock :: ctype where
  "S_raw_spinlock =
     Struct False [Fld ''raw_lock'' T_arch_spinlock_t]"

lemma S_raw_spinlock_layout [layout_simps]:
  "sizeof S_raw_spinlock = 4" "alignof S_raw_spinlock = 4" "ctype_wf S_raw_spinlock" "natural S_raw_spinlock \<longleftrightarrow> True"
  by (simp_all add: S_raw_spinlock_def layout_simps)

definition T_raw_spinlock_t :: ctype where
  "T_raw_spinlock_t =
     S_raw_spinlock"

lemma T_raw_spinlock_t_layout [layout_simps]:
  "sizeof T_raw_spinlock_t = 4" "alignof T_raw_spinlock_t = 4" "ctype_wf T_raw_spinlock_t" "natural T_raw_spinlock_t \<longleftrightarrow> True"
  by (simp_all add: T_raw_spinlock_t_def layout_simps)

definition S_seqcount :: ctype where
  "S_seqcount =
     Struct False [Fld ''sequence'' c_int]"

lemma S_seqcount_layout [layout_simps]:
  "sizeof S_seqcount = 4" "alignof S_seqcount = 4" "ctype_wf S_seqcount" "natural S_seqcount \<longleftrightarrow> True"
  by (simp_all add: S_seqcount_def layout_simps)

definition T_seqcount_t :: ctype where
  "T_seqcount_t =
     S_seqcount"

lemma T_seqcount_t_layout [layout_simps]:
  "sizeof T_seqcount_t = 4" "alignof T_seqcount_t = 4" "ctype_wf T_seqcount_t" "natural T_seqcount_t \<longleftrightarrow> True"
  by (simp_all add: T_seqcount_t_def layout_simps)

definition S_rb_root :: ctype where
  "S_rb_root =
     Struct False [Fld ''rb_node'' Ptr]"

lemma S_rb_root_layout [layout_simps]:
  "sizeof S_rb_root = 8" "alignof S_rb_root = 8" "ctype_wf S_rb_root" "natural S_rb_root \<longleftrightarrow> True"
  by (simp_all add: S_rb_root_def layout_simps)

definition S_rb_root_cached :: ctype where
  "S_rb_root_cached =
     Struct False [Fld ''rb_root'' S_rb_root, Fld ''rb_leftmost'' Ptr]"

lemma S_rb_root_cached_layout [layout_simps]:
  "sizeof S_rb_root_cached = 16" "alignof S_rb_root_cached = 8" "ctype_wf S_rb_root_cached" "natural S_rb_root_cached \<longleftrightarrow> True"
  by (simp_all add: S_rb_root_cached_def layout_simps)

definition S_optimistic_spin_queue :: ctype where
  "S_optimistic_spin_queue =
     Struct False [Fld ''tail'' T_atomic_t]"

lemma S_optimistic_spin_queue_layout [layout_simps]:
  "sizeof S_optimistic_spin_queue = 4" "alignof S_optimistic_spin_queue = 4" "ctype_wf S_optimistic_spin_queue" "natural S_optimistic_spin_queue \<longleftrightarrow> True"
  by (simp_all add: S_optimistic_spin_queue_def layout_simps)

definition S_mutex :: ctype where
  "S_mutex =
     Struct False [Fld ''owner'' T_atomic_long_t, Fld ''wait_lock'' T_raw_spinlock_t,
     Fld ''osq'' S_optimistic_spin_queue, Fld ''wait_list'' S_list_head]"

lemma S_mutex_layout [layout_simps]:
  "sizeof S_mutex = 32" "alignof S_mutex = 8" "ctype_wf S_mutex" "natural S_mutex \<longleftrightarrow> True"
  by (simp_all add: S_mutex_def layout_simps)

definition T_xkernel_ulong_t :: ctype where
  "T_xkernel_ulong_t =
     c_long"

lemma T_xkernel_ulong_t_layout [layout_simps]:
  "sizeof T_xkernel_ulong_t = 8" "alignof T_xkernel_ulong_t = 8" "ctype_wf T_xkernel_ulong_t" "natural T_xkernel_ulong_t \<longleftrightarrow> True"
  by (simp_all add: T_xkernel_ulong_t_def layout_simps)

definition T_xkernel_size_t :: ctype where
  "T_xkernel_size_t =
     T_xkernel_ulong_t"

lemma T_xkernel_size_t_layout [layout_simps]:
  "sizeof T_xkernel_size_t = 8" "alignof T_xkernel_size_t = 8" "ctype_wf T_xkernel_size_t" "natural T_xkernel_size_t \<longleftrightarrow> True"
  by (simp_all add: T_xkernel_size_t_def layout_simps)

definition T_size_t :: ctype where
  "T_size_t =
     T_xkernel_size_t"

lemma T_size_t_layout [layout_simps]:
  "sizeof T_size_t = 8" "alignof T_size_t = 8" "ctype_wf T_size_t" "natural T_size_t \<longleftrightarrow> True"
  by (simp_all add: T_size_t_def layout_simps)

definition T_xkernel_uid32_t :: ctype where
  "T_xkernel_uid32_t =
     c_int"

lemma T_xkernel_uid32_t_layout [layout_simps]:
  "sizeof T_xkernel_uid32_t = 4" "alignof T_xkernel_uid32_t = 4" "ctype_wf T_xkernel_uid32_t" "natural T_xkernel_uid32_t \<longleftrightarrow> True"
  by (simp_all add: T_xkernel_uid32_t_def layout_simps)

definition T_uid_t :: ctype where
  "T_uid_t =
     T_xkernel_uid32_t"

lemma T_uid_t_layout [layout_simps]:
  "sizeof T_uid_t = 4" "alignof T_uid_t = 4" "ctype_wf T_uid_t" "natural T_uid_t \<longleftrightarrow> True"
  by (simp_all add: T_uid_t_def layout_simps)

definition T_kuid_t :: ctype where
  "T_kuid_t =
     Struct False [Fld ''val'' T_uid_t]"

lemma T_kuid_t_layout [layout_simps]:
  "sizeof T_kuid_t = 4" "alignof T_kuid_t = 4" "ctype_wf T_kuid_t" "natural T_kuid_t \<longleftrightarrow> True"
  by (simp_all add: T_kuid_t_def layout_simps)

definition S_spinlock :: ctype where
  "S_spinlock =
     Struct False [Fld '''' (Union False [Fld ''rlock'' S_raw_spinlock])]"

lemma S_spinlock_layout [layout_simps]:
  "sizeof S_spinlock = 4" "alignof S_spinlock = 4" "ctype_wf S_spinlock" "natural S_spinlock \<longleftrightarrow> True"
  by (simp_all add: S_spinlock_def layout_simps)

definition T_spinlock_t :: ctype where
  "T_spinlock_t =
     S_spinlock"

lemma T_spinlock_t_layout [layout_simps]:
  "sizeof T_spinlock_t = 4" "alignof T_spinlock_t = 4" "ctype_wf T_spinlock_t" "natural T_spinlock_t \<longleftrightarrow> True"
  by (simp_all add: T_spinlock_t_def layout_simps)

definition S_seqcount_spinlock :: ctype where
  "S_seqcount_spinlock =
     Struct False [Fld ''seqcount'' T_seqcount_t]"

lemma S_seqcount_spinlock_layout [layout_simps]:
  "sizeof S_seqcount_spinlock = 4" "alignof S_seqcount_spinlock = 4" "ctype_wf S_seqcount_spinlock" "natural S_seqcount_spinlock \<longleftrightarrow> True"
  by (simp_all add: S_seqcount_spinlock_def layout_simps)

definition T_seqcount_spinlock_t :: ctype where
  "T_seqcount_spinlock_t =
     S_seqcount_spinlock"

lemma T_seqcount_spinlock_t_layout [layout_simps]:
  "sizeof T_seqcount_spinlock_t = 4" "alignof T_seqcount_spinlock_t = 4" "ctype_wf T_seqcount_spinlock_t" "natural T_seqcount_spinlock_t \<longleftrightarrow> True"
  by (simp_all add: T_seqcount_spinlock_t_def layout_simps)

definition S_page_frag :: ctype where
  "S_page_frag =
     Struct False [Fld ''page'' Ptr, Fld ''offset'' T_xu32, Fld ''size'' T_xu32]"

lemma S_page_frag_layout [layout_simps]:
  "sizeof S_page_frag = 16" "alignof S_page_frag = 8" "ctype_wf S_page_frag" "natural S_page_frag \<longleftrightarrow> True"
  by (simp_all add: S_page_frag_def layout_simps)

definition S_timer_list :: ctype where
  "S_timer_list =
     Struct False [Fld ''entry'' S_hlist_node, Fld ''expires'' c_long, Fld ''function'' Ptr,
     Fld ''flags'' T_u32]"

lemma S_timer_list_layout [layout_simps]:
  "sizeof S_timer_list = 40" "alignof S_timer_list = 8" "ctype_wf S_timer_list" "natural S_timer_list \<longleftrightarrow> True"
  by (simp_all add: S_timer_list_def layout_simps)

definition S_rhash_head :: ctype where
  "S_rhash_head =
     Struct False [Fld ''next'' Ptr]"

lemma S_rhash_head_layout [layout_simps]:
  "sizeof S_rhash_head = 8" "alignof S_rhash_head = 8" "ctype_wf S_rhash_head" "natural S_rhash_head \<longleftrightarrow> True"
  by (simp_all add: S_rhash_head_def layout_simps)

definition S_wait_queue_head :: ctype where
  "S_wait_queue_head =
     Struct False [Fld ''lock'' T_spinlock_t, Fld ''head'' S_list_head]"

lemma S_wait_queue_head_layout [layout_simps]:
  "sizeof S_wait_queue_head = 24" "alignof S_wait_queue_head = 8" "ctype_wf S_wait_queue_head" "natural S_wait_queue_head \<longleftrightarrow> True"
  by (simp_all add: S_wait_queue_head_def layout_simps)

definition T_wait_queue_head_t :: ctype where
  "T_wait_queue_head_t =
     S_wait_queue_head"

lemma T_wait_queue_head_t_layout [layout_simps]:
  "sizeof T_wait_queue_head_t = 24" "alignof T_wait_queue_head_t = 8" "ctype_wf T_wait_queue_head_t" "natural T_wait_queue_head_t \<longleftrightarrow> True"
  by (simp_all add: T_wait_queue_head_t_def layout_simps)

definition T_gfp_t :: ctype where
  "T_gfp_t =
     c_int"

lemma T_gfp_t_layout [layout_simps]:
  "sizeof T_gfp_t = 4" "alignof T_gfp_t = 4" "ctype_wf T_gfp_t" "natural T_gfp_t \<longleftrightarrow> True"
  by (simp_all add: T_gfp_t_def layout_simps)

definition S_xarray :: ctype where
  "S_xarray =
     Struct False [Fld ''xa_lock'' T_spinlock_t, Fld ''xa_flags'' T_gfp_t, Fld ''xa_head'' Ptr]"

lemma S_xarray_layout [layout_simps]:
  "sizeof S_xarray = 16" "alignof S_xarray = 8" "ctype_wf S_xarray" "natural S_xarray \<longleftrightarrow> True"
  by (simp_all add: S_xarray_def layout_simps)

definition T_work_func_t :: ctype where
  "T_work_func_t =
     Ptr"

lemma T_work_func_t_layout [layout_simps]:
  "sizeof T_work_func_t = 8" "alignof T_work_func_t = 8" "ctype_wf T_work_func_t" "natural T_work_func_t \<longleftrightarrow> True"
  by (simp_all add: T_work_func_t_def layout_simps)

definition S_work_struct :: ctype where
  "S_work_struct =
     Struct False [Fld ''data'' T_atomic_long_t, Fld ''entry'' S_list_head, Fld ''func'' T_work_func_t]"

lemma S_work_struct_layout [layout_simps]:
  "sizeof S_work_struct = 32" "alignof S_work_struct = 8" "ctype_wf S_work_struct" "natural S_work_struct \<longleftrightarrow> True"
  by (simp_all add: S_work_struct_def layout_simps)

definition T_xkernel_gid32_t :: ctype where
  "T_xkernel_gid32_t =
     c_int"

lemma T_xkernel_gid32_t_layout [layout_simps]:
  "sizeof T_xkernel_gid32_t = 4" "alignof T_xkernel_gid32_t = 4" "ctype_wf T_xkernel_gid32_t" "natural T_xkernel_gid32_t \<longleftrightarrow> True"
  by (simp_all add: T_xkernel_gid32_t_def layout_simps)

definition T_gid_t :: ctype where
  "T_gid_t =
     T_xkernel_gid32_t"

lemma T_gid_t_layout [layout_simps]:
  "sizeof T_gid_t = 4" "alignof T_gid_t = 4" "ctype_wf T_gid_t" "natural T_gid_t \<longleftrightarrow> True"
  by (simp_all add: T_gid_t_def layout_simps)

definition T_kgid_t :: ctype where
  "T_kgid_t =
     Struct False [Fld ''val'' T_gid_t]"

lemma T_kgid_t_layout [layout_simps]:
  "sizeof T_kgid_t = 4" "alignof T_kgid_t = 4" "ctype_wf T_kgid_t" "natural T_kgid_t \<longleftrightarrow> True"
  by (simp_all add: T_kgid_t_def layout_simps)

definition S_rlimit :: ctype where
  "S_rlimit =
     Struct False [Fld ''rlim_cur'' T_xkernel_ulong_t, Fld ''rlim_max'' T_xkernel_ulong_t]"

lemma S_rlimit_layout [layout_simps]:
  "sizeof S_rlimit = 16" "alignof S_rlimit = 8" "ctype_wf S_rlimit" "natural S_rlimit \<longleftrightarrow> True"
  by (simp_all add: S_rlimit_def layout_simps)

definition S_rw_semaphore :: ctype where
  "S_rw_semaphore =
     Struct False [Fld ''count'' T_atomic_long_t, Fld ''owner'' T_atomic_long_t,
     Fld ''osq'' S_optimistic_spin_queue, Fld ''wait_lock'' T_raw_spinlock_t,
     Fld ''wait_list'' S_list_head]"

lemma S_rw_semaphore_layout [layout_simps]:
  "sizeof S_rw_semaphore = 40" "alignof S_rw_semaphore = 8" "ctype_wf S_rw_semaphore" "natural S_rw_semaphore \<longleftrightarrow> True"
  by (simp_all add: S_rw_semaphore_def layout_simps)

definition S_rcuwait :: ctype where
  "S_rcuwait =
     Struct False [Fld ''task'' Ptr]"

lemma S_rcuwait_layout [layout_simps]:
  "sizeof S_rcuwait = 8" "alignof S_rcuwait = 8" "ctype_wf S_rcuwait" "natural S_rcuwait \<longleftrightarrow> True"
  by (simp_all add: S_rcuwait_def layout_simps)

definition S_irq_work :: ctype where
  "S_irq_work =
     Struct False [Fld ''node'' S_xcall_single_node, Fld ''func'' Ptr, Fld ''irqwait'' S_rcuwait]"

lemma S_irq_work_layout [layout_simps]:
  "sizeof S_irq_work = 32" "alignof S_irq_work = 8" "ctype_wf S_irq_work" "natural S_irq_work \<longleftrightarrow> True"
  by (simp_all add: S_irq_work_def layout_simps)

definition T_xkernel_loff_t :: ctype where
  "T_xkernel_loff_t =
     c_long"

lemma T_xkernel_loff_t_layout [layout_simps]:
  "sizeof T_xkernel_loff_t = 8" "alignof T_xkernel_loff_t = 8" "ctype_wf T_xkernel_loff_t" "natural T_xkernel_loff_t \<longleftrightarrow> True"
  by (simp_all add: T_xkernel_loff_t_def layout_simps)

definition T_loff_t :: ctype where
  "T_loff_t =
     T_xkernel_loff_t"

lemma T_loff_t_layout [layout_simps]:
  "sizeof T_loff_t = 8" "alignof T_loff_t = 8" "ctype_wf T_loff_t" "natural T_loff_t \<longleftrightarrow> True"
  by (simp_all add: T_loff_t_def layout_simps)

definition T_freeptr_t :: ctype where
  "T_freeptr_t =
     Struct False [Fld ''v'' c_long]"

lemma T_freeptr_t_layout [layout_simps]:
  "sizeof T_freeptr_t = 8" "alignof T_freeptr_t = 8" "ctype_wf T_freeptr_t" "natural T_freeptr_t \<longleftrightarrow> True"
  by (simp_all add: T_freeptr_t_def layout_simps)

definition T_umode_t :: ctype where
  "T_umode_t =
     c_short"

lemma T_umode_t_layout [layout_simps]:
  "sizeof T_umode_t = 2" "alignof T_umode_t = 2" "ctype_wf T_umode_t" "natural T_umode_t \<longleftrightarrow> True"
  by (simp_all add: T_umode_t_def layout_simps)

end
