(* ===== verification/Kernel_Task.thy ===== *)
theory Kernel_Task
  imports Kernel_Base
begin

text \<open>
  Transcribed from \<open>vmlinux.h\<close>: the types around struct task_struct, struct pid and struct pid_namespace, which the monitor reads to translate process ids.
  \<open>S_\<close>, \<open>U_\<close> and \<open>T_\<close> stand for struct, union and typedef; leading underscores of a name are
  written \<open>x\<close>. The facts after a type are its size, its alignment and that it is well formed.
\<close>

definition S_thread_info :: ctype where
  "S_thread_info =
     Struct False [Fld ''flags'' c_long, Fld ''ttbr0'' T_u64,
     Fld '''' (Union False [Fld ''preempt_count'' T_u64,
     Fld ''preempt'' (Struct False [Fld ''count'' T_u32, Fld ''need_resched'' T_u32])]),
     Fld ''scs_base'' Ptr, Fld ''scs_sp'' Ptr, Fld ''cpu'' T_u32]"

lemma S_thread_info_layout [layout_simps]:
  "sizeof S_thread_info = 48" "alignof S_thread_info = 8" "ctype_wf S_thread_info" "natural S_thread_info \<longleftrightarrow> True"
  by (simp_all add: S_thread_info_def layout_simps)

definition S_load_weight :: ctype where
  "S_load_weight =
     Struct False [Fld ''weight'' c_long, Fld ''inv_weight'' T_u32]"

lemma S_load_weight_layout [layout_simps]:
  "sizeof S_load_weight = 16" "alignof S_load_weight = 8" "ctype_wf S_load_weight" "natural S_load_weight \<longleftrightarrow> True"
  by (simp_all add: S_load_weight_def layout_simps)

definition S_sched_avg :: ctype where
  "S_sched_avg =
     Struct False [Fld ''last_update_time'' T_u64, Fld ''load_sum'' T_u64, Fld ''runnable_sum'' T_u64,
     Fld ''util_sum'' T_u32, Fld ''period_contrib'' T_u32, Fld ''load_avg'' c_long,
     Fld ''runnable_avg'' c_long, Fld ''util_avg'' c_long, Fld ''util_est'' c_int]"

lemma S_sched_avg_layout [layout_simps]:
  "sizeof S_sched_avg = 64" "alignof S_sched_avg = 8" "ctype_wf S_sched_avg" "natural S_sched_avg \<longleftrightarrow> True"
  by (simp_all add: S_sched_avg_def layout_simps)

definition S_sched_entity :: ctype where
  "S_sched_entity =
     Struct False [Fld ''load'' S_load_weight, Fld ''run_node'' S_rb_node, Fld ''deadline'' T_u64,
     Fld ''min_vruntime'' T_u64, Fld ''min_slice'' T_u64, Fld ''max_slice'' T_u64,
     Fld ''group_node'' S_list_head, Fld ''on_rq'' c_char, Fld ''sched_delayed'' c_char,
     Fld ''rel_deadline'' c_char, Fld ''custom_slice'' c_char, Fld ''exec_start'' T_u64,
     Fld ''sum_exec_runtime'' T_u64, Fld ''prev_sum_exec_runtime'' T_u64, Fld ''vruntime'' T_u64,
     Fld ''vlag'' T_s64, Fld ''vprot'' T_u64, Fld ''slice'' T_u64, Fld ''nr_migrations'' T_u64,
     Fld ''depth'' c_int, Fld ''parent'' Ptr, Fld ''cfs_rq'' Ptr, Fld ''my_q'' Ptr,
     Fld ''runnable_weight'' c_long, Bit '''' 8 64, Bit '''' 8 64, Bit '''' 8 64, Bit '''' 8 64,
     Bit '''' 8 64, Bit '''' 8 64, Bit '''' 8 64, Fld ''avg'' S_sched_avg]"

lemma S_sched_entity_layout [layout_simps]:
  "sizeof S_sched_entity = 320" "alignof S_sched_entity = 8" "ctype_wf S_sched_entity" "natural S_sched_entity \<longleftrightarrow> True"
  by (simp_all add: S_sched_entity_def layout_simps)

definition S_sched_rt_entity :: ctype where
  "S_sched_rt_entity =
     Struct False [Fld ''run_list'' S_list_head, Fld ''timeout'' c_long, Fld ''watchdog_stamp'' c_long,
     Fld ''time_slice'' c_int, Fld ''on_rq'' c_short, Fld ''on_list'' c_short, Fld ''back'' Ptr]"

lemma S_sched_rt_entity_layout [layout_simps]:
  "sizeof S_sched_rt_entity = 48" "alignof S_sched_rt_entity = 8" "ctype_wf S_sched_rt_entity" "natural S_sched_rt_entity \<longleftrightarrow> True"
  by (simp_all add: S_sched_rt_entity_def layout_simps)

definition T_dl_server_pick_f :: ctype where
  "T_dl_server_pick_f =
     Ptr"

lemma T_dl_server_pick_f_layout [layout_simps]:
  "sizeof T_dl_server_pick_f = 8" "alignof T_dl_server_pick_f = 8" "ctype_wf T_dl_server_pick_f" "natural T_dl_server_pick_f \<longleftrightarrow> True"
  by (simp_all add: T_dl_server_pick_f_def layout_simps)

definition S_sched_dl_entity :: ctype where
  "S_sched_dl_entity =
     Struct False [Fld ''rb_node'' S_rb_node, Fld ''dl_runtime'' T_u64, Fld ''dl_deadline'' T_u64,
     Fld ''dl_period'' T_u64, Fld ''dl_bw'' T_u64, Fld ''dl_density'' T_u64, Fld ''runtime'' T_s64,
     Fld ''deadline'' T_u64, Fld ''flags'' c_int, Bit ''dl_throttled'' 4 1, Bit ''dl_yielded'' 4 1,
     Bit ''dl_non_contending'' 4 1, Bit ''dl_overrun'' 4 1, Bit ''dl_server'' 4 1,
     Bit ''dl_server_active'' 4 1, Bit ''dl_defer'' 4 1, Bit ''dl_defer_armed'' 4 1,
     Bit ''dl_defer_running'' 4 1, Bit ''dl_defer_idle'' 4 1, Fld ''dl_timer'' S_hrtimer,
     Fld ''inactive_timer'' S_hrtimer, Fld ''rq'' Ptr, Fld ''server_pick_task'' T_dl_server_pick_f,
     Fld ''pi_se'' Ptr]"

lemma S_sched_dl_entity_layout [layout_simps]:
  "sizeof S_sched_dl_entity = 240" "alignof S_sched_dl_entity = 8" "ctype_wf S_sched_dl_entity" "natural S_sched_dl_entity \<longleftrightarrow> True"
  by (simp_all add: S_sched_dl_entity_def layout_simps)

definition S_scx_dsq_list_node :: ctype where
  "S_scx_dsq_list_node =
     Struct False [Fld ''node'' S_list_head, Fld ''flags'' T_u32, Fld ''priv'' T_u32]"

lemma S_scx_dsq_list_node_layout [layout_simps]:
  "sizeof S_scx_dsq_list_node = 24" "alignof S_scx_dsq_list_node = 8" "ctype_wf S_scx_dsq_list_node" "natural S_scx_dsq_list_node \<longleftrightarrow> True"
  by (simp_all add: S_scx_dsq_list_node_def layout_simps)

definition S_sched_ext_entity :: ctype where
  "S_sched_ext_entity =
     Struct False [Fld ''dsq'' Ptr, Fld ''dsq_list'' S_scx_dsq_list_node, Fld ''dsq_priq'' S_rb_node,
     Fld ''dsq_seq'' T_u32, Fld ''dsq_flags'' T_u32, Fld ''flags'' T_u32, Fld ''weight'' T_u32,
     Fld ''sticky_cpu'' T_s32, Fld ''holding_cpu'' T_s32, Fld ''selected_cpu'' T_s32,
     Fld ''kf_mask'' T_u32, Fld ''kf_tasks'' (Arr Ptr 2), Fld ''ops_state'' T_atomic_long_t,
     Fld ''runnable_node'' S_list_head, Fld ''runnable_at'' c_long, Fld ''core_sched_at'' T_u64,
     Fld ''ddsp_dsq_id'' T_u64, Fld ''ddsp_enq_flags'' T_u64, Fld ''slice'' T_u64,
     Fld ''dsq_vtime'' T_u64, Fld ''disallow'' c_bool, Fld ''cgrp_moving_from'' Ptr,
     Fld ''tasks_node'' S_list_head]"

lemma S_sched_ext_entity_layout [layout_simps]:
  "sizeof S_sched_ext_entity = 208" "alignof S_sched_ext_entity = 8" "ctype_wf S_sched_ext_entity" "natural S_sched_ext_entity \<longleftrightarrow> True"
  by (simp_all add: S_sched_ext_entity_def layout_simps)

definition S_uclamp_se :: ctype where
  "S_uclamp_se =
     Struct False [Bit ''value'' 4 11, Bit ''bucket_id'' 4 3, Bit ''active'' 4 1,
     Bit ''user_defined'' 4 1]"

lemma S_uclamp_se_layout [layout_simps]:
  "sizeof S_uclamp_se = 4" "alignof S_uclamp_se = 4" "ctype_wf S_uclamp_se" "natural S_uclamp_se \<longleftrightarrow> True"
  by (simp_all add: S_uclamp_se_def layout_simps)

definition S_sched_statistics :: ctype where
  "S_sched_statistics =
     Struct False [Fld ''wait_start'' T_u64, Fld ''wait_max'' T_u64, Fld ''wait_count'' T_u64,
     Fld ''wait_sum'' T_u64, Fld ''iowait_count'' T_u64, Fld ''iowait_sum'' T_u64,
     Fld ''sleep_start'' T_u64, Fld ''sleep_max'' T_u64, Fld ''sum_sleep_runtime'' T_s64,
     Fld ''block_start'' T_u64, Fld ''block_max'' T_u64, Fld ''sum_block_runtime'' T_s64,
     Fld ''exec_max'' T_s64, Fld ''slice_max'' T_u64, Fld ''nr_migrations_cold'' T_u64,
     Fld ''nr_failed_migrations_affine'' T_u64, Fld ''nr_failed_migrations_running'' T_u64,
     Fld ''nr_failed_migrations_hot'' T_u64, Fld ''nr_forced_migrations'' T_u64,
     Fld ''nr_wakeups'' T_u64, Fld ''nr_wakeups_sync'' T_u64, Fld ''nr_wakeups_migrate'' T_u64,
     Fld ''nr_wakeups_local'' T_u64, Fld ''nr_wakeups_remote'' T_u64,
     Fld ''nr_wakeups_affine'' T_u64, Fld ''nr_wakeups_affine_attempts'' T_u64,
     Fld ''nr_wakeups_passive'' T_u64, Fld ''nr_wakeups_idle'' T_u64,
     Fld ''core_forceidle_sum'' T_u64, Bit '''' 8 64, Bit '''' 8 64, Bit '''' 8 64]"

lemma S_sched_statistics_layout [layout_simps]:
  "sizeof S_sched_statistics = 256" "alignof S_sched_statistics = 8" "ctype_wf S_sched_statistics" "natural S_sched_statistics \<longleftrightarrow> True"
  by (simp_all add: S_sched_statistics_def layout_simps)

definition S_cpumask :: ctype where
  "S_cpumask =
     Struct False [Fld ''bits'' (Arr c_long 8)]"

lemma S_cpumask_layout [layout_simps]:
  "sizeof S_cpumask = 64" "alignof S_cpumask = 8" "ctype_wf S_cpumask" "natural S_cpumask \<longleftrightarrow> True"
  by (simp_all add: S_cpumask_def layout_simps)

definition T_cpumask_t :: ctype where
  "T_cpumask_t =
     S_cpumask"

lemma T_cpumask_t_layout [layout_simps]:
  "sizeof T_cpumask_t = 64" "alignof T_cpumask_t = 8" "ctype_wf T_cpumask_t" "natural T_cpumask_t \<longleftrightarrow> True"
  by (simp_all add: T_cpumask_t_def layout_simps)

definition U_rcu_special :: ctype where
  "U_rcu_special =
     Union False [Fld ''b'' (Struct False [Fld ''blocked'' T_u8, Fld ''need_qs'' T_u8,
     Fld ''exp_hint'' T_u8, Fld ''need_mb'' T_u8]), Fld ''s'' T_u32]"

lemma U_rcu_special_layout [layout_simps]:
  "sizeof U_rcu_special = 4" "alignof U_rcu_special = 4" "ctype_wf U_rcu_special" "natural U_rcu_special \<longleftrightarrow> True"
  by (simp_all add: U_rcu_special_def layout_simps)

definition S_timespec64 :: ctype where
  "S_timespec64 =
     Struct False [Fld ''tv_sec'' T_time64_t, Fld ''tv_nsec'' c_long]"

lemma S_timespec64_layout [layout_simps]:
  "sizeof S_timespec64 = 16" "alignof S_timespec64 = 8" "ctype_wf S_timespec64" "natural S_timespec64 \<longleftrightarrow> True"
  by (simp_all add: S_timespec64_def layout_simps)

definition S_sched_info :: ctype where
  "S_sched_info =
     Struct False [Fld ''pcount'' c_long, Fld ''run_delay'' c_long, Fld ''max_run_delay'' c_long,
     Fld ''min_run_delay'' c_long, Fld ''last_arrival'' c_long, Fld ''last_queued'' c_long,
     Fld ''max_run_delay_ts'' S_timespec64]"

lemma S_sched_info_layout [layout_simps]:
  "sizeof S_sched_info = 64" "alignof S_sched_info = 8" "ctype_wf S_sched_info" "natural S_sched_info \<longleftrightarrow> True"
  by (simp_all add: S_sched_info_def layout_simps)

definition S_plist_node :: ctype where
  "S_plist_node =
     Struct False [Fld ''prio'' c_int, Fld ''prio_list'' S_list_head, Fld ''node_list'' S_list_head]"

lemma S_plist_node_layout [layout_simps]:
  "sizeof S_plist_node = 40" "alignof S_plist_node = 8" "ctype_wf S_plist_node" "natural S_plist_node \<longleftrightarrow> True"
  by (simp_all add: S_plist_node_def layout_simps)

definition T_xkernel_clockid_t :: ctype where
  "T_xkernel_clockid_t =
     c_int"

lemma T_xkernel_clockid_t_layout [layout_simps]:
  "sizeof T_xkernel_clockid_t = 4" "alignof T_xkernel_clockid_t = 4" "ctype_wf T_xkernel_clockid_t" "natural T_xkernel_clockid_t \<longleftrightarrow> True"
  by (simp_all add: T_xkernel_clockid_t_def layout_simps)

definition T_clockid_t :: ctype where
  "T_clockid_t =
     T_xkernel_clockid_t"

lemma T_clockid_t_layout [layout_simps]:
  "sizeof T_clockid_t = 4" "alignof T_clockid_t = 4" "ctype_wf T_clockid_t" "natural T_clockid_t \<longleftrightarrow> True"
  by (simp_all add: T_clockid_t_def layout_simps)

definition S_restart_block :: ctype where
  "S_restart_block =
     Struct False [Fld ''arch_data'' c_long, Fld ''fn'' Ptr,
     Fld '''' (Union False [Fld ''futex'' (Struct False [Fld ''uaddr'' Ptr, Fld ''val'' T_u32,
     Fld ''flags'' T_u32, Fld ''bitset'' T_u32, Fld ''time'' T_ktime_t, Fld ''uaddr2'' Ptr]),
     Fld ''nanosleep'' (Struct False [Fld ''clockid'' T_clockid_t, Fld ''type'' c_enum,
     Fld '''' (Union False [Fld ''rmtp'' Ptr, Fld ''compat_rmtp'' Ptr]),
     Fld ''expires'' T_ktime_t]), Fld ''poll'' (Struct False [Fld ''ufds'' Ptr, Fld ''nfds'' c_int,
     Fld ''has_timeout'' c_int, Fld ''end_time'' S_timespec64])])]"

lemma S_restart_block_layout [layout_simps]:
  "sizeof S_restart_block = 56" "alignof S_restart_block = 8" "ctype_wf S_restart_block" "natural S_restart_block \<longleftrightarrow> True"
  by (simp_all add: S_restart_block_def layout_simps)

definition S_prev_cputime :: ctype where
  "S_prev_cputime =
     Struct False [Fld ''utime'' T_u64, Fld ''stime'' T_u64, Fld ''lock'' T_raw_spinlock_t]"

lemma S_prev_cputime_layout [layout_simps]:
  "sizeof S_prev_cputime = 24" "alignof S_prev_cputime = 8" "ctype_wf S_prev_cputime" "natural S_prev_cputime \<longleftrightarrow> True"
  by (simp_all add: S_prev_cputime_def layout_simps)

definition S_vtime :: ctype where
  "S_vtime =
     Struct False [Fld ''seqcount'' T_seqcount_t, Fld ''starttime'' c_long, Fld ''state'' c_enum,
     Fld ''cpu'' c_int, Fld ''utime'' T_u64, Fld ''stime'' T_u64, Fld ''gtime'' T_u64]"

lemma S_vtime_layout [layout_simps]:
  "sizeof S_vtime = 48" "alignof S_vtime = 8" "ctype_wf S_vtime" "natural S_vtime \<longleftrightarrow> True"
  by (simp_all add: S_vtime_def layout_simps)

definition S_timerqueue_head :: ctype where
  "S_timerqueue_head =
     Struct False [Fld ''rb_root'' S_rb_root_cached]"

lemma S_timerqueue_head_layout [layout_simps]:
  "sizeof S_timerqueue_head = 16" "alignof S_timerqueue_head = 8" "ctype_wf S_timerqueue_head" "natural S_timerqueue_head \<longleftrightarrow> True"
  by (simp_all add: S_timerqueue_head_def layout_simps)

definition S_posix_cputimer_base :: ctype where
  "S_posix_cputimer_base =
     Struct False [Fld ''nextevt'' T_u64, Fld ''tqhead'' S_timerqueue_head]"

lemma S_posix_cputimer_base_layout [layout_simps]:
  "sizeof S_posix_cputimer_base = 24" "alignof S_posix_cputimer_base = 8" "ctype_wf S_posix_cputimer_base" "natural S_posix_cputimer_base \<longleftrightarrow> True"
  by (simp_all add: S_posix_cputimer_base_def layout_simps)

definition S_posix_cputimers :: ctype where
  "S_posix_cputimers =
     Struct False [Fld ''bases'' (Arr S_posix_cputimer_base 3), Fld ''timers_active'' c_int,
     Fld ''expiry_active'' c_int]"

lemma S_posix_cputimers_layout [layout_simps]:
  "sizeof S_posix_cputimers = 80" "alignof S_posix_cputimers = 8" "ctype_wf S_posix_cputimers" "natural S_posix_cputimers \<longleftrightarrow> True"
  by (simp_all add: S_posix_cputimers_def layout_simps)

definition S_posix_cputimers_work :: ctype where
  "S_posix_cputimers_work =
     Struct False [Fld ''work'' S_callback_head, Fld ''mutex'' S_mutex, Fld ''scheduled'' c_int]"

lemma S_posix_cputimers_work_layout [layout_simps]:
  "sizeof S_posix_cputimers_work = 56" "alignof S_posix_cputimers_work = 8" "ctype_wf S_posix_cputimers_work" "natural S_posix_cputimers_work \<longleftrightarrow> True"
  by (simp_all add: S_posix_cputimers_work_def layout_simps)

definition S_sysv_sem :: ctype where
  "S_sysv_sem =
     Struct False [Fld ''undo_list'' Ptr]"

lemma S_sysv_sem_layout [layout_simps]:
  "sizeof S_sysv_sem = 8" "alignof S_sysv_sem = 8" "ctype_wf S_sysv_sem" "natural S_sysv_sem \<longleftrightarrow> True"
  by (simp_all add: S_sysv_sem_def layout_simps)

definition S_sysv_shm :: ctype where
  "S_sysv_shm =
     Struct False [Fld ''shm_clist'' S_list_head]"

lemma S_sysv_shm_layout [layout_simps]:
  "sizeof S_sysv_shm = 16" "alignof S_sysv_shm = 8" "ctype_wf S_sysv_shm" "natural S_sysv_shm \<longleftrightarrow> True"
  by (simp_all add: S_sysv_shm_def layout_simps)

definition T_sigset_t :: ctype where
  "T_sigset_t =
     Struct False [Fld ''sig'' (Arr c_long 1)]"

lemma T_sigset_t_layout [layout_simps]:
  "sizeof T_sigset_t = 8" "alignof T_sigset_t = 8" "ctype_wf T_sigset_t" "natural T_sigset_t \<longleftrightarrow> True"
  by (simp_all add: T_sigset_t_def layout_simps)

definition S_sigpending :: ctype where
  "S_sigpending =
     Struct False [Fld ''list'' S_list_head, Fld ''signal'' T_sigset_t]"

lemma S_sigpending_layout [layout_simps]:
  "sizeof S_sigpending = 24" "alignof S_sigpending = 8" "ctype_wf S_sigpending" "natural S_sigpending \<longleftrightarrow> True"
  by (simp_all add: S_sigpending_def layout_simps)

definition S_seccomp :: ctype where
  "S_seccomp =
     Struct False [Fld ''mode'' c_int, Fld ''filter_count'' T_atomic_t, Fld ''filter'' Ptr]"

lemma S_seccomp_layout [layout_simps]:
  "sizeof S_seccomp = 16" "alignof S_seccomp = 8" "ctype_wf S_seccomp" "natural S_seccomp \<longleftrightarrow> True"
  by (simp_all add: S_seccomp_def layout_simps)

definition S_syscall_user_dispatch :: ctype where
  "S_syscall_user_dispatch =
     Struct False []"

lemma S_syscall_user_dispatch_layout [layout_simps]:
  "sizeof S_syscall_user_dispatch = 0" "alignof S_syscall_user_dispatch = 1" "ctype_wf S_syscall_user_dispatch" "natural S_syscall_user_dispatch \<longleftrightarrow> True"
  by (simp_all add: S_syscall_user_dispatch_def layout_simps)

definition S_wake_q_node :: ctype where
  "S_wake_q_node =
     Struct False [Fld ''next'' Ptr]"

lemma S_wake_q_node_layout [layout_simps]:
  "sizeof S_wake_q_node = 8" "alignof S_wake_q_node = 8" "ctype_wf S_wake_q_node" "natural S_wake_q_node \<longleftrightarrow> True"
  by (simp_all add: S_wake_q_node_def layout_simps)

definition S_task_io_accounting :: ctype where
  "S_task_io_accounting =
     Struct False [Fld ''rchar'' T_u64, Fld ''wchar'' T_u64, Fld ''syscr'' T_u64, Fld ''syscw'' T_u64,
     Fld ''read_bytes'' T_u64, Fld ''write_bytes'' T_u64, Fld ''cancelled_write_bytes'' T_u64]"

lemma S_task_io_accounting_layout [layout_simps]:
  "sizeof S_task_io_accounting = 56" "alignof S_task_io_accounting = 8" "ctype_wf S_task_io_accounting" "natural S_task_io_accounting \<longleftrightarrow> True"
  by (simp_all add: S_task_io_accounting_def layout_simps)

definition T_nodemask_t :: ctype where
  "T_nodemask_t =
     Struct False [Fld ''bits'' (Arr c_long 1)]"

lemma T_nodemask_t_layout [layout_simps]:
  "sizeof T_nodemask_t = 8" "alignof T_nodemask_t = 8" "ctype_wf T_nodemask_t" "natural T_nodemask_t \<longleftrightarrow> True"
  by (simp_all add: T_nodemask_t_def layout_simps)

definition S_rseq_event :: ctype where
  "S_rseq_event =
     Struct False [Fld '''' (Union False [Fld ''all'' T_u64,
     Fld '''' (Struct False [Fld '''' (Union False [Fld ''events'' T_u32,
     Fld '''' (Struct False [Fld ''sched_switch'' T_u8, Fld ''ids_changed'' T_u8,
     Fld ''user_irq'' T_u8])]), Fld ''has_rseq'' T_u8, Fld ''__pad'' T_u8,
     Fld '''' (Union False [Fld ''error'' T_u16, Fld '''' (Struct False [Fld ''fatal'' T_u8,
     Fld ''slowpath'' T_u8])])])])]"

lemma S_rseq_event_layout [layout_simps]:
  "sizeof S_rseq_event = 8" "alignof S_rseq_event = 8" "ctype_wf S_rseq_event" "natural S_rseq_event \<longleftrightarrow> True"
  by (simp_all add: S_rseq_event_def layout_simps)

definition S_rseq_ids :: ctype where
  "S_rseq_ids =
     Struct False [Fld '''' (Union False [Fld ''cpu_cid'' T_u64,
     Fld '''' (Struct False [Fld ''cpu_id'' T_u32, Fld ''mm_cid'' T_u32])]), Fld ''node_id'' T_u32]"

lemma S_rseq_ids_layout [layout_simps]:
  "sizeof S_rseq_ids = 16" "alignof S_rseq_ids = 8" "ctype_wf S_rseq_ids" "natural S_rseq_ids \<longleftrightarrow> True"
  by (simp_all add: S_rseq_ids_def layout_simps)

definition S_rseq_data :: ctype where
  "S_rseq_data =
     Struct False [Fld ''usrptr'' Ptr, Fld ''len'' T_u32, Fld ''sig'' T_u32, Fld ''event'' S_rseq_event,
     Fld ''ids'' S_rseq_ids]"

lemma S_rseq_data_layout [layout_simps]:
  "sizeof S_rseq_data = 40" "alignof S_rseq_data = 8" "ctype_wf S_rseq_data" "natural S_rseq_data \<longleftrightarrow> True"
  by (simp_all add: S_rseq_data_def layout_simps)

definition S_sched_mm_cid :: ctype where
  "S_sched_mm_cid =
     Struct False [Fld ''active'' c_int, Fld ''cid'' c_int, Fld ''node'' S_hlist_node]"

lemma S_sched_mm_cid_layout [layout_simps]:
  "sizeof S_sched_mm_cid = 24" "alignof S_sched_mm_cid = 8" "ctype_wf S_sched_mm_cid" "natural S_sched_mm_cid \<longleftrightarrow> True"
  by (simp_all add: S_sched_mm_cid_def layout_simps)

definition S_arch_tlbflush_unmap_batch :: ctype where
  "S_arch_tlbflush_unmap_batch =
     Struct False []"

lemma S_arch_tlbflush_unmap_batch_layout [layout_simps]:
  "sizeof S_arch_tlbflush_unmap_batch = 0" "alignof S_arch_tlbflush_unmap_batch = 1" "ctype_wf S_arch_tlbflush_unmap_batch" "natural S_arch_tlbflush_unmap_batch \<longleftrightarrow> True"
  by (simp_all add: S_arch_tlbflush_unmap_batch_def layout_simps)

definition S_tlbflush_unmap_batch :: ctype where
  "S_tlbflush_unmap_batch =
     Struct False [Fld ''arch'' S_arch_tlbflush_unmap_batch, Fld ''flush_required'' c_bool,
     Fld ''writable'' c_bool]"

lemma S_tlbflush_unmap_batch_layout [layout_simps]:
  "sizeof S_tlbflush_unmap_batch = 2" "alignof S_tlbflush_unmap_batch = 1" "ctype_wf S_tlbflush_unmap_batch" "natural S_tlbflush_unmap_batch \<longleftrightarrow> True"
  by (simp_all add: S_tlbflush_unmap_batch_def layout_simps)

definition S_lazy_mmu_state :: ctype where
  "S_lazy_mmu_state =
     Struct False [Fld ''enable_count'' T_u8, Fld ''pause_count'' T_u8]"

lemma S_lazy_mmu_state_layout [layout_simps]:
  "sizeof S_lazy_mmu_state = 2" "alignof S_lazy_mmu_state = 1" "ctype_wf S_lazy_mmu_state" "natural S_lazy_mmu_state \<longleftrightarrow> True"
  by (simp_all add: S_lazy_mmu_state_def layout_simps)

definition S_latency_record :: ctype where
  "S_latency_record =
     Struct False [Fld ''backtrace'' (Arr c_long 12), Fld ''count'' c_int, Fld ''time'' c_long,
     Fld ''max'' c_long]"

lemma S_latency_record_layout [layout_simps]:
  "sizeof S_latency_record = 120" "alignof S_latency_record = 8" "ctype_wf S_latency_record" "natural S_latency_record \<longleftrightarrow> True"
  by (simp_all add: S_latency_record_def layout_simps)

definition S_kmap_ctrl :: ctype where
  "S_kmap_ctrl =
     Struct False []"

lemma S_kmap_ctrl_layout [layout_simps]:
  "sizeof S_kmap_ctrl = 0" "alignof S_kmap_ctrl = 1" "ctype_wf S_kmap_ctrl" "natural S_kmap_ctrl \<longleftrightarrow> True"
  by (simp_all add: S_kmap_ctrl_def layout_simps)

definition S_llist_head :: ctype where
  "S_llist_head =
     Struct False [Fld ''first'' Ptr]"

lemma S_llist_head_layout [layout_simps]:
  "sizeof S_llist_head = 8" "alignof S_llist_head = 8" "ctype_wf S_llist_head" "natural S_llist_head \<longleftrightarrow> True"
  by (simp_all add: S_llist_head_def layout_simps)

definition S_da_monitor :: ctype where
  "S_da_monitor =
     Struct False [Fld ''monitoring'' c_bool, Fld ''curr_state'' c_int]"

lemma S_da_monitor_layout [layout_simps]:
  "sizeof S_da_monitor = 8" "alignof S_da_monitor = 4" "ctype_wf S_da_monitor" "natural S_da_monitor \<longleftrightarrow> True"
  by (simp_all add: S_da_monitor_def layout_simps)

definition S_ltl_monitor :: ctype where
  "S_ltl_monitor =
     Struct False []"

lemma S_ltl_monitor_layout [layout_simps]:
  "sizeof S_ltl_monitor = 0" "alignof S_ltl_monitor = 1" "ctype_wf S_ltl_monitor" "natural S_ltl_monitor \<longleftrightarrow> True"
  by (simp_all add: S_ltl_monitor_def layout_simps)

definition U_rv_task_monitor :: ctype where
  "U_rv_task_monitor =
     Union False [Fld ''da_mon'' S_da_monitor, Fld ''ltl_mon'' S_ltl_monitor]"

lemma U_rv_task_monitor_layout [layout_simps]:
  "sizeof U_rv_task_monitor = 8" "alignof U_rv_task_monitor = 4" "ctype_wf U_rv_task_monitor" "natural U_rv_task_monitor \<longleftrightarrow> True"
  by (simp_all add: U_rv_task_monitor_def layout_simps)

definition S_cpu_context :: ctype where
  "S_cpu_context =
     Struct False [Fld ''x19'' c_long, Fld ''x20'' c_long, Fld ''x21'' c_long, Fld ''x22'' c_long,
     Fld ''x23'' c_long, Fld ''x24'' c_long, Fld ''x25'' c_long, Fld ''x26'' c_long,
     Fld ''x27'' c_long, Fld ''x28'' c_long, Fld ''fp'' c_long, Fld ''sp'' c_long,
     Fld ''pc'' c_long]"

lemma S_cpu_context_layout [layout_simps]:
  "sizeof S_cpu_context = 104" "alignof S_cpu_context = 8" "ctype_wf S_cpu_context" "natural S_cpu_context \<longleftrightarrow> True"
  by (simp_all add: S_cpu_context_def layout_simps)

definition S_user_fpsimd_state :: ctype where
  "S_user_fpsimd_state =
     Struct False [Fld ''vregs'' (Arr c_int128 32), Fld ''fpsr'' T_xu32, Fld ''fpcr'' T_xu32,
     Fld ''__reserved'' (Arr T_xu32 2)]"

lemma S_user_fpsimd_state_layout [layout_simps]:
  "sizeof S_user_fpsimd_state = 528" "alignof S_user_fpsimd_state = 16" "ctype_wf S_user_fpsimd_state" "natural S_user_fpsimd_state \<longleftrightarrow> True"
  by (simp_all add: S_user_fpsimd_state_def layout_simps)

definition S_debug_info :: ctype where
  "S_debug_info =
     Struct False [Fld ''suspended_step'' c_int, Fld ''bps_disabled'' c_int, Fld ''wps_disabled'' c_int,
     Fld ''hbp_break'' (Arr Ptr 16), Fld ''hbp_watch'' (Arr Ptr 16)]"

lemma S_debug_info_layout [layout_simps]:
  "sizeof S_debug_info = 272" "alignof S_debug_info = 8" "ctype_wf S_debug_info" "natural S_debug_info \<longleftrightarrow> True"
  by (simp_all add: S_debug_info_def layout_simps)

definition S_ptrauth_key :: ctype where
  "S_ptrauth_key =
     Struct False [Fld ''lo'' c_long, Fld ''hi'' c_long]"

lemma S_ptrauth_key_layout [layout_simps]:
  "sizeof S_ptrauth_key = 16" "alignof S_ptrauth_key = 8" "ctype_wf S_ptrauth_key" "natural S_ptrauth_key \<longleftrightarrow> True"
  by (simp_all add: S_ptrauth_key_def layout_simps)

definition S_ptrauth_keys_user :: ctype where
  "S_ptrauth_keys_user =
     Struct False [Fld ''apia'' S_ptrauth_key, Fld ''apib'' S_ptrauth_key, Fld ''apda'' S_ptrauth_key,
     Fld ''apdb'' S_ptrauth_key, Fld ''apga'' S_ptrauth_key]"

lemma S_ptrauth_keys_user_layout [layout_simps]:
  "sizeof S_ptrauth_keys_user = 80" "alignof S_ptrauth_keys_user = 8" "ctype_wf S_ptrauth_keys_user" "natural S_ptrauth_keys_user \<longleftrightarrow> True"
  by (simp_all add: S_ptrauth_keys_user_def layout_simps)

definition S_ptrauth_keys_kernel :: ctype where
  "S_ptrauth_keys_kernel =
     Struct False [Fld ''apia'' S_ptrauth_key]"

lemma S_ptrauth_keys_kernel_layout [layout_simps]:
  "sizeof S_ptrauth_keys_kernel = 16" "alignof S_ptrauth_keys_kernel = 8" "ctype_wf S_ptrauth_keys_kernel" "natural S_ptrauth_keys_kernel \<longleftrightarrow> True"
  by (simp_all add: S_ptrauth_keys_kernel_def layout_simps)

definition S_thread_struct :: ctype where
  "S_thread_struct =
     Struct False [Fld ''cpu_context'' S_cpu_context, Bit '''' 8 64,
     Fld ''uw'' (Struct False [Fld ''tp_value'' c_long, Fld ''tp2_value'' c_long,
     Fld ''fpmr'' T_u64, Fld ''pad'' c_long, Fld ''fpsimd_state'' S_user_fpsimd_state]),
     Fld ''fp_type'' c_enum, Fld ''fpsimd_cpu'' c_int, Fld ''sve_state'' Ptr, Fld ''sme_state'' Ptr,
     Fld ''vl'' (Arr c_int 2), Fld ''vl_onexec'' (Arr c_int 2), Fld ''fault_address'' c_long,
     Fld ''fault_code'' c_long, Fld ''debug'' S_debug_info, Fld ''kernel_fpsimd_state'' Ptr,
     Fld ''kernel_fpsimd_cpu'' c_int, Fld ''keys_user'' S_ptrauth_keys_user,
     Fld ''keys_kernel'' S_ptrauth_keys_kernel, Fld ''mte_ctrl'' T_u64, Fld ''sctlr_user'' T_u64,
     Fld ''svcr'' T_u64, Fld ''tpidr2_el0'' T_u64, Fld ''por_el0'' T_u64,
     Fld ''gcs_el0_mode'' c_int, Fld ''gcs_el0_locked'' c_int, Fld ''gcspr_el0'' T_u64,
     Fld ''gcs_base'' T_u64, Fld ''gcs_size'' T_u64]"

lemma S_thread_struct_layout [layout_simps]:
  "sizeof S_thread_struct = 1184" "alignof S_thread_struct = 16" "ctype_wf S_thread_struct" "natural S_thread_struct \<longleftrightarrow> True"
  by (simp_all add: S_thread_struct_def layout_simps)

definition S_task_struct :: ctype where
  "S_task_struct =
     Struct False [Fld ''thread_info'' S_thread_info, Fld ''__state'' c_int, Fld ''saved_state'' c_int,
     Fld ''stack'' Ptr, Fld ''usage'' T_refcount_t, Fld ''flags'' c_int, Fld ''ptrace'' c_int,
     Fld ''on_cpu'' c_int, Fld ''wake_entry'' S_xcall_single_node, Fld ''wakee_flips'' c_int,
     Fld ''wakee_flip_decay_ts'' c_long, Fld ''last_wakee'' Ptr, Fld ''recent_used_cpu'' c_int,
     Fld ''wake_cpu'' c_int, Fld ''on_rq'' c_int, Fld ''prio'' c_int, Fld ''static_prio'' c_int,
     Fld ''normal_prio'' c_int, Fld ''rt_priority'' c_int, Bit '''' 8 64, Bit '''' 8 64,
     Bit '''' 8 64, Bit '''' 8 64, Bit '''' 8 64, Fld ''se'' S_sched_entity,
     Fld ''rt'' S_sched_rt_entity, Fld ''dl'' S_sched_dl_entity, Fld ''dl_server'' Ptr,
     Fld ''scx'' S_sched_ext_entity, Fld ''sched_class'' Ptr, Fld ''core_node'' S_rb_node,
     Fld ''core_cookie'' c_long, Fld ''core_occupation'' c_int, Fld ''sched_task_group'' Ptr,
     Fld ''sched_throttle_work'' S_callback_head, Fld ''throttle_node'' S_list_head,
     Fld ''throttled'' c_bool, Fld ''uclamp_req'' (Arr S_uclamp_se 2),
     Fld ''uclamp'' (Arr S_uclamp_se 2), Bit '''' 8 64, Bit '''' 8 64, Bit '''' 8 64,
     Fld ''stats'' S_sched_statistics, Fld ''preempt_notifiers'' S_hlist_head,
     Fld ''btrace_seq'' c_int, Fld ''policy'' c_int, Fld ''max_allowed_capacity'' c_long,
     Fld ''nr_cpus_allowed'' c_int, Fld ''cpus_ptr'' Ptr, Fld ''user_cpus_ptr'' Ptr,
     Fld ''cpus_mask'' T_cpumask_t, Fld ''migration_pending'' Ptr,
     Fld ''migration_disabled'' c_short, Fld ''migration_flags'' c_short,
     Fld ''rcu_read_lock_nesting'' c_int, Fld ''rcu_read_unlock_special'' U_rcu_special,
     Fld ''rcu_node_entry'' S_list_head, Fld ''rcu_blocked_node'' Ptr,
     Fld ''rcu_tasks_nvcsw'' c_long, Fld ''rcu_tasks_holdout'' T_u8, Fld ''rcu_tasks_idx'' T_u8,
     Fld ''rcu_tasks_idle_cpu'' c_int, Fld ''rcu_tasks_holdout_list'' S_list_head,
     Fld ''rcu_tasks_exit_cpu'' c_int, Fld ''rcu_tasks_exit_list'' S_list_head,
     Fld ''trc_reader_nesting'' c_int, Fld ''trc_reader_scp'' Ptr, Fld ''sched_info'' S_sched_info,
     Fld ''tasks'' S_list_head, Fld ''pushable_tasks'' S_plist_node,
     Fld ''pushable_dl_tasks'' S_rb_node, Fld ''mm'' Ptr, Fld ''active_mm'' Ptr,
     Fld ''exit_state'' c_int, Fld ''exit_code'' c_int, Fld ''exit_signal'' c_int,
     Fld ''pdeath_signal'' c_int, Fld ''jobctl'' c_long, Fld ''personality'' c_int,
     Bit ''sched_reset_on_fork'' 4 1, Bit ''sched_contributes_to_load'' 4 1,
     Bit ''sched_migrated'' 4 1, Bit ''sched_task_hot'' 4 1, Bit '''' 8 28,
     Bit ''sched_remote_wakeup'' 4 1, Bit ''sched_rt_mutex'' 4 1, Bit ''user_dumpable'' 4 1,
     Bit ''in_execve'' 4 1, Bit ''in_iowait'' 4 1, Bit ''in_lru_fault'' 4 1,
     Bit ''no_cgroup_migration'' 4 1, Bit ''frozen'' 4 1, Bit ''use_memdelay'' 4 1,
     Bit ''in_memstall'' 4 1, Bit ''in_eventfd'' 4 1, Bit ''in_thrashing'' 4 1,
     Bit ''in_nf_duplicate'' 4 1, Fld ''atomic_flags'' c_long,
     Fld ''restart_block'' S_restart_block, Fld ''pid'' T_pid_t, Fld ''tgid'' T_pid_t,
     Fld ''stack_canary'' c_long, Fld ''real_parent'' Ptr, Fld ''parent'' Ptr,
     Fld ''children'' S_list_head, Fld ''sibling'' S_list_head, Fld ''group_leader'' Ptr,
     Fld ''ptraced'' S_list_head, Fld ''ptrace_entry'' S_list_head, Fld ''thread_pid'' Ptr,
     Fld ''pid_links'' (Arr S_hlist_node 4), Fld ''thread_node'' S_list_head,
     Fld ''vfork_done'' Ptr, Fld ''set_child_tid'' Ptr, Fld ''clear_child_tid'' Ptr,
     Fld ''worker_private'' Ptr, Fld ''utime'' T_u64, Fld ''stime'' T_u64, Fld ''gtime'' T_u64,
     Fld ''prev_cputime'' S_prev_cputime, Fld ''vtime'' S_vtime, Fld ''tick_dep_mask'' T_atomic_t,
     Fld ''nvcsw'' c_long, Fld ''nivcsw'' c_long, Fld ''start_time'' T_u64,
     Fld ''start_boottime'' T_u64, Fld ''min_flt'' c_long, Fld ''maj_flt'' c_long,
     Fld ''posix_cputimers'' S_posix_cputimers, Fld ''posix_cputimers_work'' S_posix_cputimers_work,
     Fld ''ptracer_cred'' Ptr, Fld ''real_cred'' Ptr, Fld ''cred'' Ptr,
     Fld ''cached_requested_key'' Ptr, Fld ''comm'' (Arr c_char 16), Fld ''nameidata'' Ptr,
     Fld ''sysvsem'' S_sysv_sem, Fld ''sysvshm'' S_sysv_shm, Fld ''last_switch_count'' c_long,
     Fld ''last_switch_time'' c_long, Fld ''fs'' Ptr, Fld ''files'' Ptr, Fld ''io_uring'' Ptr,
     Fld ''io_uring_restrict'' Ptr, Fld ''nsproxy'' Ptr, Fld ''signal'' Ptr, Fld ''sighand'' Ptr,
     Fld ''blocked'' T_sigset_t, Fld ''real_blocked'' T_sigset_t, Fld ''saved_sigmask'' T_sigset_t,
     Fld ''pending'' S_sigpending, Fld ''sas_ss_sp'' c_long, Fld ''sas_ss_size'' T_size_t,
     Fld ''sas_ss_flags'' c_int, Fld ''task_works'' Ptr, Fld ''audit_context'' Ptr,
     Fld ''loginuid'' T_kuid_t, Fld ''sessionid'' c_int, Fld ''seccomp'' S_seccomp,
     Fld ''syscall_dispatch'' S_syscall_user_dispatch, Fld ''parent_exec_id'' T_u64,
     Fld ''self_exec_id'' T_u64, Fld ''alloc_lock'' T_spinlock_t, Fld ''pi_lock'' T_raw_spinlock_t,
     Fld ''wake_q'' S_wake_q_node, Fld ''pi_waiters'' S_rb_root_cached, Fld ''pi_top_task'' Ptr,
     Fld ''pi_blocked_on'' Ptr, Fld ''blocked_on'' Ptr, Fld ''blocker'' c_long,
     Fld ''in_ubsan'' c_int, Fld ''journal_info'' Ptr, Fld ''bio_list'' Ptr, Fld ''plug'' Ptr,
     Fld ''reclaim_state'' Ptr, Fld ''io_context'' Ptr, Fld ''capture_control'' Ptr,
     Fld ''ptrace_message'' c_long, Fld ''last_siginfo'' Ptr, Fld ''ioac'' S_task_io_accounting,
     Fld ''psi_flags'' c_int, Fld ''acct_rss_mem1'' T_u64, Fld ''acct_vm_mem1'' T_u64,
     Fld ''acct_timexpd'' T_u64, Fld ''mems_allowed'' T_nodemask_t,
     Fld ''mems_allowed_seq'' T_seqcount_spinlock_t, Fld ''cpuset_mem_spread_rotor'' c_int,
     Fld ''cgroups'' Ptr, Fld ''cg_list'' S_list_head, Fld ''robust_list'' Ptr,
     Fld ''compat_robust_list'' Ptr, Fld ''pi_state_list'' S_list_head, Fld ''pi_state_cache'' Ptr,
     Fld ''futex_exit_mutex'' S_mutex, Fld ''futex_state'' c_int,
     Fld ''perf_recursion'' (Arr T_u8 4), Fld ''perf_event_ctxp'' Ptr,
     Fld ''perf_event_mutex'' S_mutex, Fld ''perf_event_list'' S_list_head,
     Fld ''perf_ctx_data'' Ptr, Fld ''mempolicy'' Ptr, Fld ''il_prev'' c_short,
     Fld ''il_weight'' T_u8, Fld ''pref_node_fork'' c_short, Fld ''numa_scan_seq'' c_int,
     Fld ''numa_scan_period'' c_int, Fld ''numa_scan_period_max'' c_int,
     Fld ''numa_preferred_nid'' c_int, Fld ''numa_migrate_retry'' c_long, Fld ''node_stamp'' T_u64,
     Fld ''last_task_numa_placement'' T_u64, Fld ''last_sum_exec_runtime'' T_u64,
     Fld ''numa_work'' S_callback_head, Fld ''numa_group'' Ptr, Fld ''numa_faults'' Ptr,
     Fld ''total_numa_faults'' c_long, Fld ''numa_faults_locality'' (Arr c_long 3),
     Fld ''numa_pages_migrated'' c_long, Fld ''rseq'' S_rseq_data, Fld ''mm_cid'' S_sched_mm_cid,
     Fld ''tlb_ubc'' S_tlbflush_unmap_batch, Fld ''splice_pipe'' Ptr, Fld ''task_frag'' S_page_frag,
     Fld ''lazy_mmu_state'' S_lazy_mmu_state, Fld ''delays'' Ptr, Fld ''nr_dirtied'' c_int,
     Fld ''nr_dirtied_pause'' c_int, Fld ''dirty_paused_when'' c_long,
     Fld ''latency_record_count'' c_int, Fld ''latency_record'' (Arr S_latency_record 32),
     Fld ''timer_slack_ns'' T_u64, Fld ''default_timer_slack_ns'' T_u64,
     Fld ''curr_ret_stack'' c_int, Fld ''curr_ret_depth'' c_int, Fld ''ret_stack'' Ptr,
     Fld ''ftrace_timestamp'' c_long, Fld ''ftrace_sleeptime'' c_long,
     Fld ''trace_overrun'' T_atomic_t, Fld ''tracing_graph_pause'' T_atomic_t,
     Fld ''trace_recursion'' c_long, Fld ''memcg_nr_pages_over_high'' c_int,
     Fld ''active_memcg'' Ptr, Fld ''objcg'' Ptr, Fld ''throttle_disk'' Ptr, Fld ''utask'' Ptr,
     Fld ''sequential_io'' c_int, Fld ''sequential_io_avg'' c_int, Fld ''kmap_ctrl'' S_kmap_ctrl,
     Fld ''rcu'' S_callback_head, Fld ''rcu_users'' T_refcount_t, Fld ''pagefault_disabled'' c_int,
     Fld ''oom_reaper_list'' Ptr, Fld ''oom_reaper_timer'' S_timer_list, Fld ''stack_vm_area'' Ptr,
     Fld ''stack_refcount'' T_refcount_t, Fld ''patch_state'' c_int, Fld ''security'' Ptr,
     Fld ''bpf_storage'' Ptr, Fld ''bpf_ctx'' Ptr, Fld ''bpf_net_context'' Ptr,
     Fld ''kstack_offset'' T_u32, Fld ''kretprobe_instances'' S_llist_head,
     Fld ''rv'' (Arr U_rv_task_monitor 2), Fld ''user_event_mm'' Ptr,
     Fld ''thread'' S_thread_struct, Bit '''' 8 64, Bit '''' 8 64, Bit '''' 8 64, Bit '''' 8 64]"

lemma S_task_struct_layout [layout_simps]:
  "sizeof S_task_struct = 8704" "alignof S_task_struct = 16" "ctype_wf S_task_struct" "natural S_task_struct \<longleftrightarrow> True"
  by (simp_all add: S_task_struct_def layout_simps)

definition S_upid :: ctype where
  "S_upid =
     Struct False [Fld ''nr'' c_int, Fld ''ns'' Ptr]"

lemma S_upid_layout [layout_simps]:
  "sizeof S_upid = 16" "alignof S_upid = 8" "ctype_wf S_upid" "natural S_upid \<longleftrightarrow> True"
  by (simp_all add: S_upid_def layout_simps)

definition S_pid :: ctype where
  "S_pid =
     Struct False [Fld ''count'' T_refcount_t, Fld ''level'' c_int, Fld ''lock'' T_spinlock_t,
     Fld '''' (Struct False [Fld ''ino'' T_u64, Fld ''pidfs_hash'' S_rhash_head,
     Fld ''stashed'' Ptr, Fld ''attr'' Ptr]), Fld ''tasks'' (Arr S_hlist_head 4),
     Fld ''inodes'' S_hlist_head, Fld ''wait_pidfd'' T_wait_queue_head_t,
     Fld ''rcu'' S_callback_head, Fld ''numbers'' (Arr S_upid 0)]"

lemma S_pid_layout [layout_simps]:
  "sizeof S_pid = 128" "alignof S_pid = 8" "ctype_wf S_pid" "natural S_pid \<longleftrightarrow> True"
  by (simp_all add: S_pid_def layout_simps)

definition S_idr :: ctype where
  "S_idr =
     Struct False [Fld ''idr_rt'' S_xarray, Fld ''idr_base'' c_int, Fld ''idr_next'' c_int]"

lemma S_idr_layout [layout_simps]:
  "sizeof S_idr = 24" "alignof S_idr = 8" "ctype_wf S_idr" "natural S_idr \<longleftrightarrow> True"
  by (simp_all add: S_idr_def layout_simps)

definition S_ctl_table_header :: ctype where
  "S_ctl_table_header =
     Struct False [Fld '''' (Union False [Fld '''' (Struct False [Fld ''ctl_table'' Ptr,
     Fld ''ctl_table_size'' c_int, Fld ''used'' c_int, Fld ''count'' c_int, Fld ''nreg'' c_int]),
     Fld ''rcu'' S_callback_head]), Fld ''unregistering'' Ptr, Fld ''ctl_table_arg'' Ptr,
     Fld ''root'' Ptr, Fld ''set'' Ptr, Fld ''parent'' Ptr, Fld ''node'' Ptr,
     Fld ''inodes'' S_hlist_head, Fld ''type'' c_enum]"

lemma S_ctl_table_header_layout [layout_simps]:
  "sizeof S_ctl_table_header = 88" "alignof S_ctl_table_header = 8" "ctype_wf S_ctl_table_header" "natural S_ctl_table_header \<longleftrightarrow> True"
  by (simp_all add: S_ctl_table_header_def layout_simps)

definition S_ctl_dir :: ctype where
  "S_ctl_dir =
     Struct False [Fld ''header'' S_ctl_table_header, Fld ''root'' S_rb_root]"

lemma S_ctl_dir_layout [layout_simps]:
  "sizeof S_ctl_dir = 96" "alignof S_ctl_dir = 8" "ctype_wf S_ctl_dir" "natural S_ctl_dir \<longleftrightarrow> True"
  by (simp_all add: S_ctl_dir_def layout_simps)

definition S_ctl_table_set :: ctype where
  "S_ctl_table_set =
     Struct False [Fld ''is_seen'' Ptr, Fld ''dir'' S_ctl_dir]"

lemma S_ctl_table_set_layout [layout_simps]:
  "sizeof S_ctl_table_set = 104" "alignof S_ctl_table_set = 8" "ctype_wf S_ctl_table_set" "natural S_ctl_table_set \<longleftrightarrow> True"
  by (simp_all add: S_ctl_table_set_def layout_simps)

definition S_ns_common :: ctype where
  "S_ns_common =
     Struct False [Fld '''' (Struct False [Fld ''__ns_ref'' T_refcount_t, Bit '''' 8 64, Bit '''' 8 64,
     Bit '''' 8 64, Bit '''' 8 64, Bit '''' 8 64, Bit '''' 8 64, Bit '''' 8 64]),
     Fld ''ns_type'' T_u32, Fld ''stashed'' Ptr, Fld ''ops'' Ptr, Fld ''inum'' c_int,
     Fld '''' (Union False [Fld ''ns_rcu'' S_callback_head])]"

lemma S_ns_common_layout [layout_simps]:
  "sizeof S_ns_common = 112" "alignof S_ns_common = 8" "ctype_wf S_ns_common" "natural S_ns_common \<longleftrightarrow> True"
  by (simp_all add: S_ns_common_def layout_simps)

definition S_pid_namespace :: ctype where
  "S_pid_namespace =
     Struct False [Fld ''idr'' S_idr, Fld ''rcu'' S_callback_head, Fld ''pid_allocated'' c_int,
     Fld ''memfd_noexec_scope'' c_int, Fld ''set'' S_ctl_table_set, Fld ''sysctls'' Ptr,
     Fld ''child_reaper'' Ptr, Fld ''pid_cachep'' Ptr, Fld ''level'' c_int, Fld ''pid_max'' c_int,
     Fld ''parent'' Ptr, Fld ''bacct'' Ptr, Fld ''user_ns'' Ptr, Fld ''ucounts'' Ptr,
     Fld ''reboot'' c_int, Bit '''' 8 64, Bit '''' 8 64, Bit '''' 8 64, Bit '''' 8 64,
     Fld ''ns'' S_ns_common, Fld ''work'' S_work_struct, Bit '''' 8 64, Bit '''' 8 64,
     Bit '''' 8 64, Bit '''' 8 64]"

lemma S_pid_namespace_layout [layout_simps]:
  "sizeof S_pid_namespace = 432" "alignof S_pid_namespace = 8" "ctype_wf S_pid_namespace" "natural S_pid_namespace \<longleftrightarrow> True"
  by (simp_all add: S_pid_namespace_def layout_simps)

definition T_kernel_cap_t :: ctype where
  "T_kernel_cap_t =
     Struct False [Fld ''val'' T_u64]"

lemma T_kernel_cap_t_layout [layout_simps]:
  "sizeof T_kernel_cap_t = 8" "alignof T_kernel_cap_t = 8" "ctype_wf T_kernel_cap_t" "natural T_kernel_cap_t \<longleftrightarrow> True"
  by (simp_all add: T_kernel_cap_t_def layout_simps)

definition S_cred :: ctype where
  "S_cred =
     Struct False [Fld ''usage'' T_atomic_long_t, Fld ''uid'' T_kuid_t, Fld ''gid'' T_kgid_t,
     Fld ''suid'' T_kuid_t, Fld ''sgid'' T_kgid_t, Fld ''euid'' T_kuid_t, Fld ''egid'' T_kgid_t,
     Fld ''fsuid'' T_kuid_t, Fld ''fsgid'' T_kgid_t, Fld ''securebits'' c_int,
     Fld ''cap_inheritable'' T_kernel_cap_t, Fld ''cap_permitted'' T_kernel_cap_t,
     Fld ''cap_effective'' T_kernel_cap_t, Fld ''cap_bset'' T_kernel_cap_t,
     Fld ''cap_ambient'' T_kernel_cap_t, Fld ''jit_keyring'' c_char, Fld ''session_keyring'' Ptr,
     Fld ''process_keyring'' Ptr, Fld ''thread_keyring'' Ptr, Fld ''request_key_auth'' Ptr,
     Fld ''security'' Ptr, Fld ''user'' Ptr, Fld ''user_ns'' Ptr, Fld ''ucounts'' Ptr,
     Fld ''group_info'' Ptr, Fld '''' (Union False [Fld ''non_rcu'' c_int,
     Fld ''rcu'' S_callback_head])]"

lemma S_cred_layout [layout_simps]:
  "sizeof S_cred = 184" "alignof S_cred = 8" "ctype_wf S_cred" "natural S_cred \<longleftrightarrow> True"
  by (simp_all add: S_cred_def layout_simps)

definition S_cpu_itimer :: ctype where
  "S_cpu_itimer =
     Struct False [Fld ''expires'' T_u64, Fld ''incr'' T_u64]"

lemma S_cpu_itimer_layout [layout_simps]:
  "sizeof S_cpu_itimer = 16" "alignof S_cpu_itimer = 8" "ctype_wf S_cpu_itimer" "natural S_cpu_itimer \<longleftrightarrow> True"
  by (simp_all add: S_cpu_itimer_def layout_simps)

definition S_task_cputime_atomic :: ctype where
  "S_task_cputime_atomic =
     Struct False [Fld ''utime'' T_atomic64_t, Fld ''stime'' T_atomic64_t,
     Fld ''sum_exec_runtime'' T_atomic64_t]"

lemma S_task_cputime_atomic_layout [layout_simps]:
  "sizeof S_task_cputime_atomic = 24" "alignof S_task_cputime_atomic = 8" "ctype_wf S_task_cputime_atomic" "natural S_task_cputime_atomic \<longleftrightarrow> True"
  by (simp_all add: S_task_cputime_atomic_def layout_simps)

definition S_thread_group_cputimer :: ctype where
  "S_thread_group_cputimer =
     Struct False [Fld ''cputime_atomic'' S_task_cputime_atomic]"

lemma S_thread_group_cputimer_layout [layout_simps]:
  "sizeof S_thread_group_cputimer = 24" "alignof S_thread_group_cputimer = 8" "ctype_wf S_thread_group_cputimer" "natural S_thread_group_cputimer \<longleftrightarrow> True"
  by (simp_all add: S_thread_group_cputimer_def layout_simps)

definition S_seqlock :: ctype where
  "S_seqlock =
     Struct False [Fld ''seqcount'' T_seqcount_spinlock_t, Fld ''lock'' T_spinlock_t]"

lemma S_seqlock_layout [layout_simps]:
  "sizeof S_seqlock = 8" "alignof S_seqlock = 4" "ctype_wf S_seqlock" "natural S_seqlock \<longleftrightarrow> True"
  by (simp_all add: S_seqlock_def layout_simps)

definition T_seqlock_t :: ctype where
  "T_seqlock_t =
     S_seqlock"

lemma T_seqlock_t_layout [layout_simps]:
  "sizeof T_seqlock_t = 8" "alignof T_seqlock_t = 4" "ctype_wf T_seqlock_t" "natural T_seqlock_t \<longleftrightarrow> True"
  by (simp_all add: T_seqlock_t_def layout_simps)

definition S_pacct_struct :: ctype where
  "S_pacct_struct =
     Struct False [Fld ''ac_flag'' c_int, Fld ''ac_exitcode'' c_long, Fld ''ac_mem'' c_long,
     Fld ''ac_utime'' T_u64, Fld ''ac_stime'' T_u64, Fld ''ac_minflt'' c_long,
     Fld ''ac_majflt'' c_long]"

lemma S_pacct_struct_layout [layout_simps]:
  "sizeof S_pacct_struct = 56" "alignof S_pacct_struct = 8" "ctype_wf S_pacct_struct" "natural S_pacct_struct \<longleftrightarrow> True"
  by (simp_all add: S_pacct_struct_def layout_simps)

definition S_signal_struct :: ctype where
  "S_signal_struct =
     Struct False [Fld ''sigcnt'' T_refcount_t, Fld ''live'' T_atomic_t, Fld ''nr_threads'' c_int,
     Fld ''quick_threads'' c_int, Fld ''thread_head'' S_list_head,
     Fld ''wait_chldexit'' T_wait_queue_head_t, Fld ''curr_target'' Ptr,
     Fld ''shared_pending'' S_sigpending, Fld ''multiprocess'' S_hlist_head,
     Fld ''group_exit_code'' c_int, Fld ''notify_count'' c_int, Fld ''group_exec_task'' Ptr,
     Fld ''group_stop_count'' c_int, Fld ''flags'' c_int, Fld ''core_state'' Ptr,
     Bit ''is_child_subreaper'' 4 1, Bit ''has_child_subreaper'' 4 1,
     Bit ''timer_create_restore_ids'' 4 1, Fld ''next_posix_timer_id'' T_atomic_t,
     Fld ''posix_timers'' S_hlist_head, Fld ''ignored_posix_timers'' S_hlist_head,
     Fld ''real_timer'' S_hrtimer, Fld ''it_real_incr'' T_ktime_t, Fld ''it'' (Arr S_cpu_itimer 2),
     Fld ''cputimer'' S_thread_group_cputimer, Fld ''posix_cputimers'' S_posix_cputimers,
     Fld ''pids'' (Arr Ptr 4), Fld ''tick_dep_mask'' T_atomic_t, Fld ''tty_old_pgrp'' Ptr,
     Fld ''leader'' c_int, Fld ''tty'' Ptr, Fld ''autogroup'' Ptr, Fld ''stats_lock'' T_seqlock_t,
     Fld ''utime'' T_u64, Fld ''stime'' T_u64, Fld ''cutime'' T_u64, Fld ''cstime'' T_u64,
     Fld ''gtime'' T_u64, Fld ''cgtime'' T_u64, Fld ''prev_cputime'' S_prev_cputime,
     Fld ''nvcsw'' c_long, Fld ''nivcsw'' c_long, Fld ''cnvcsw'' c_long, Fld ''cnivcsw'' c_long,
     Fld ''min_flt'' c_long, Fld ''maj_flt'' c_long, Fld ''cmin_flt'' c_long,
     Fld ''cmaj_flt'' c_long, Fld ''inblock'' c_long, Fld ''oublock'' c_long,
     Fld ''cinblock'' c_long, Fld ''coublock'' c_long, Fld ''maxrss'' c_long,
     Fld ''cmaxrss'' c_long, Fld ''ioac'' S_task_io_accounting, Fld ''sum_sched_runtime'' c_long,
     Fld ''rlim'' (Arr S_rlimit 16), Fld ''pacct'' S_pacct_struct, Fld ''stats'' Ptr,
     Fld ''audit_tty'' c_int, Fld ''tty_audit_buf'' Ptr,
     Fld ''cgroup_threadgroup_rwsem'' S_rw_semaphore, Fld ''oom_flag_origin'' c_bool,
     Fld ''oom_score_adj'' c_short, Fld ''oom_score_adj_min'' c_short, Fld ''oom_mm'' Ptr,
     Fld ''cred_guard_mutex'' S_mutex, Fld ''exec_update_lock'' S_rw_semaphore]"

lemma S_signal_struct_layout [layout_simps]:
  "sizeof S_signal_struct = 1152" "alignof S_signal_struct = 8" "ctype_wf S_signal_struct" "natural S_signal_struct \<longleftrightarrow> True"
  by (simp_all add: S_signal_struct_def layout_simps)

definition S_uid_gid_extent :: ctype where
  "S_uid_gid_extent =
     Struct False [Fld ''first'' T_u32, Fld ''lower_first'' T_u32, Fld ''count'' T_u32]"

lemma S_uid_gid_extent_layout [layout_simps]:
  "sizeof S_uid_gid_extent = 12" "alignof S_uid_gid_extent = 4" "ctype_wf S_uid_gid_extent" "natural S_uid_gid_extent \<longleftrightarrow> True"
  by (simp_all add: S_uid_gid_extent_def layout_simps)

definition S_uid_gid_map :: ctype where
  "S_uid_gid_map =
     Struct False [Fld '''' (Union False [Fld '''' (Struct False [Fld ''extent'' (Arr S_uid_gid_extent 5),
     Fld ''nr_extents'' T_u32]), Fld '''' (Struct False [Fld ''forward'' Ptr,
     Fld ''reverse'' Ptr])])]"

lemma S_uid_gid_map_layout [layout_simps]:
  "sizeof S_uid_gid_map = 64" "alignof S_uid_gid_map = 8" "ctype_wf S_uid_gid_map" "natural S_uid_gid_map \<longleftrightarrow> True"
  by (simp_all add: S_uid_gid_map_def layout_simps)

definition S_user_namespace :: ctype where
  "S_user_namespace =
     Struct False [Fld ''uid_map'' S_uid_gid_map, Fld ''gid_map'' S_uid_gid_map,
     Fld ''projid_map'' S_uid_gid_map, Fld ''parent'' Ptr, Fld ''level'' c_int,
     Fld ''owner'' T_kuid_t, Fld ''group'' T_kgid_t, Bit '''' 8 64, Bit '''' 8 64, Bit '''' 8 64,
     Bit '''' 8 64, Bit '''' 8 64, Fld ''ns'' S_ns_common, Fld ''flags'' c_long,
     Fld ''parent_could_setfcap'' c_bool, Fld ''keyring_name_list'' S_list_head,
     Fld ''user_keyring_register'' Ptr, Fld ''keyring_sem'' S_rw_semaphore,
     Fld ''persistent_keyring_register'' Ptr, Fld ''work'' S_work_struct,
     Fld ''set'' S_ctl_table_set, Fld ''sysctls'' Ptr, Fld ''ucounts'' Ptr,
     Fld ''ucount_max'' (Arr c_long 12), Fld ''rlimit_max'' (Arr c_long 4), Fld ''binfmt_misc'' Ptr,
     Bit '''' 8 64]"

lemma S_user_namespace_layout [layout_simps]:
  "sizeof S_user_namespace = 752" "alignof S_user_namespace = 8" "ctype_wf S_user_namespace" "natural S_user_namespace \<longleftrightarrow> True"
  by (simp_all add: S_user_namespace_def layout_simps)

definition S_nsproxy :: ctype where
  "S_nsproxy =
     Struct False [Fld ''count'' T_refcount_t, Fld ''uts_ns'' Ptr, Fld ''ipc_ns'' Ptr,
     Fld ''mnt_ns'' Ptr, Fld ''pid_ns_for_children'' Ptr, Fld ''net_ns'' Ptr, Fld ''time_ns'' Ptr,
     Fld ''time_ns_for_children'' Ptr, Fld ''cgroup_ns'' Ptr]"

lemma S_nsproxy_layout [layout_simps]:
  "sizeof S_nsproxy = 72" "alignof S_nsproxy = 8" "ctype_wf S_nsproxy" "natural S_nsproxy \<longleftrightarrow> True"
  by (simp_all add: S_nsproxy_def layout_simps)

definition S_bpf_pidns_info :: ctype where
  "S_bpf_pidns_info =
     Struct False [Fld ''pid'' T_xu32, Fld ''tgid'' T_xu32]"

lemma S_bpf_pidns_info_layout [layout_simps]:
  "sizeof S_bpf_pidns_info = 8" "alignof S_bpf_pidns_info = 4" "ctype_wf S_bpf_pidns_info" "natural S_bpf_pidns_info \<longleftrightarrow> True"
  by (simp_all add: S_bpf_pidns_info_def layout_simps)

end
