(* ===== verification/Kernel_Perf.thy ===== *)
theory Kernel_Perf
  imports Kernel_Base
begin

text \<open>
  Transcribed from \<open>vmlinux.h\<close>: the tracing types that the objects of the programs carry in their type information.
  \<open>S_\<close>, \<open>U_\<close> and \<open>T_\<close> stand for struct, union and typedef; leading underscores of a name are
  written \<open>x\<close>. The facts after a type are its size, its alignment and that it is well formed.
\<close>

definition T_local_t :: ctype where
  "T_local_t =
     Struct False [Fld ''a'' T_atomic_long_t]"

lemma T_local_t_layout [layout_simps]:
  "sizeof T_local_t = 8" "alignof T_local_t = 8" "ctype_wf T_local_t" "natural T_local_t \<longleftrightarrow> True"
  by (simp_all add: T_local_t_def layout_simps)

definition T_local64_t :: ctype where
  "T_local64_t =
     Struct False [Fld ''a'' T_local_t]"

lemma T_local64_t_layout [layout_simps]:
  "sizeof T_local64_t = 8" "alignof T_local64_t = 8" "ctype_wf T_local64_t" "natural T_local64_t \<longleftrightarrow> True"
  by (simp_all add: T_local64_t_def layout_simps)

definition S_perf_event_attr :: ctype where
  "S_perf_event_attr =
     Struct False [Fld ''type'' T_xu32, Fld ''size'' T_xu32, Fld ''config'' T_xu64,
     Fld '''' (Union False [Fld ''sample_period'' T_xu64, Fld ''sample_freq'' T_xu64]),
     Fld ''sample_type'' T_xu64, Fld ''read_format'' T_xu64, Bit ''disabled'' 8 1,
     Bit ''inherit'' 8 1, Bit ''pinned'' 8 1, Bit ''exclusive'' 8 1, Bit ''exclude_user'' 8 1,
     Bit ''exclude_kernel'' 8 1, Bit ''exclude_hv'' 8 1, Bit ''exclude_idle'' 8 1, Bit ''mmap'' 8 1,
     Bit ''comm'' 8 1, Bit ''freq'' 8 1, Bit ''inherit_stat'' 8 1, Bit ''enable_on_exec'' 8 1,
     Bit ''task'' 8 1, Bit ''watermark'' 8 1, Bit ''precise_ip'' 8 2, Bit ''mmap_data'' 8 1,
     Bit ''sample_id_all'' 8 1, Bit ''exclude_host'' 8 1, Bit ''exclude_guest'' 8 1,
     Bit ''exclude_callchain_kernel'' 8 1, Bit ''exclude_callchain_user'' 8 1, Bit ''mmap2'' 8 1,
     Bit ''comm_exec'' 8 1, Bit ''use_clockid'' 8 1, Bit ''context_switch'' 8 1,
     Bit ''write_backward'' 8 1, Bit ''namespaces'' 8 1, Bit ''ksymbol'' 8 1, Bit ''bpf_event'' 8 1,
     Bit ''aux_output'' 8 1, Bit ''cgroup'' 8 1, Bit ''text_poke'' 8 1, Bit ''build_id'' 8 1,
     Bit ''inherit_thread'' 8 1, Bit ''remove_on_exec'' 8 1, Bit ''sigtrap'' 8 1,
     Bit ''defer_callchain'' 8 1, Bit ''defer_output'' 8 1, Bit ''__reserved_1'' 8 24,
     Fld '''' (Union False [Fld ''wakeup_events'' T_xu32, Fld ''wakeup_watermark'' T_xu32]),
     Fld ''bp_type'' T_xu32, Fld '''' (Union False [Fld ''bp_addr'' T_xu64,
     Fld ''kprobe_func'' T_xu64, Fld ''uprobe_path'' T_xu64, Fld ''config1'' T_xu64]),
     Fld '''' (Union False [Fld ''bp_len'' T_xu64, Fld ''kprobe_addr'' T_xu64,
     Fld ''probe_offset'' T_xu64, Fld ''config2'' T_xu64]), Fld ''branch_sample_type'' T_xu64,
     Fld ''sample_regs_user'' T_xu64, Fld ''sample_stack_user'' T_xu32, Fld ''clockid'' T_xs32,
     Fld ''sample_regs_intr'' T_xu64, Fld ''aux_watermark'' T_xu32, Fld ''sample_max_stack'' T_xu16,
     Fld ''__reserved_2'' T_xu16, Fld ''aux_sample_size'' T_xu32,
     Fld '''' (Union False [Fld ''aux_action'' T_xu32,
     Fld '''' (Struct False [Bit ''aux_start_paused'' 4 1, Bit ''aux_pause'' 4 1,
     Bit ''aux_resume'' 4 1, Bit ''__reserved_3'' 4 29])]), Fld ''sig_data'' T_xu64,
     Fld ''config3'' T_xu64, Fld ''config4'' T_xu64]"

lemma S_perf_event_attr_layout [layout_simps]:
  "sizeof S_perf_event_attr = 144" "alignof S_perf_event_attr = 8" "ctype_wf S_perf_event_attr" "natural S_perf_event_attr \<longleftrightarrow> True"
  by (simp_all add: S_perf_event_attr_def layout_simps)

definition S_hw_perf_event_extra :: ctype where
  "S_hw_perf_event_extra =
     Struct False [Fld ''config'' T_u64, Fld ''reg'' c_int, Fld ''alloc'' c_int, Fld ''idx'' c_int]"

lemma S_hw_perf_event_extra_layout [layout_simps]:
  "sizeof S_hw_perf_event_extra = 24" "alignof S_hw_perf_event_extra = 8" "ctype_wf S_hw_perf_event_extra" "natural S_hw_perf_event_extra \<longleftrightarrow> True"
  by (simp_all add: S_hw_perf_event_extra_def layout_simps)

definition S_arch_hw_breakpoint_ctrl :: ctype where
  "S_arch_hw_breakpoint_ctrl =
     Struct False [Bit ''__reserved'' 4 19, Bit ''len'' 4 8, Bit ''type'' 4 2, Bit ''privilege'' 4 2,
     Bit ''enabled'' 4 1]"

lemma S_arch_hw_breakpoint_ctrl_layout [layout_simps]:
  "sizeof S_arch_hw_breakpoint_ctrl = 4" "alignof S_arch_hw_breakpoint_ctrl = 4" "ctype_wf S_arch_hw_breakpoint_ctrl" "natural S_arch_hw_breakpoint_ctrl \<longleftrightarrow> True"
  by (simp_all add: S_arch_hw_breakpoint_ctrl_def layout_simps)

definition S_arch_hw_breakpoint :: ctype where
  "S_arch_hw_breakpoint =
     Struct False [Fld ''address'' T_u64, Fld ''trigger'' T_u64, Fld ''ctrl'' S_arch_hw_breakpoint_ctrl]"

lemma S_arch_hw_breakpoint_layout [layout_simps]:
  "sizeof S_arch_hw_breakpoint = 24" "alignof S_arch_hw_breakpoint = 8" "ctype_wf S_arch_hw_breakpoint" "natural S_arch_hw_breakpoint \<longleftrightarrow> True"
  by (simp_all add: S_arch_hw_breakpoint_def layout_simps)

definition S_rhlist_head :: ctype where
  "S_rhlist_head =
     Struct False [Fld ''rhead'' S_rhash_head, Fld ''next'' Ptr]"

lemma S_rhlist_head_layout [layout_simps]:
  "sizeof S_rhlist_head = 16" "alignof S_rhlist_head = 8" "ctype_wf S_rhlist_head" "natural S_rhlist_head \<longleftrightarrow> True"
  by (simp_all add: S_rhlist_head_def layout_simps)

definition S_hw_perf_event :: ctype where
  "S_hw_perf_event =
     Struct False [Fld '''' (Union False [Fld '''' (Struct False [Fld ''config'' T_u64,
     Fld ''config1'' T_u64, Fld ''last_tag'' T_u64, Fld ''dyn_constraint'' T_u64,
     Fld ''config_base'' c_long, Fld ''event_base'' c_long, Fld ''event_base_rdpmc'' c_int,
     Fld ''idx'' c_int, Fld ''last_cpu'' c_int, Fld ''flags'' c_int,
     Fld ''extra_reg'' S_hw_perf_event_extra, Fld ''branch_reg'' S_hw_perf_event_extra]),
     Fld '''' (Struct False [Fld ''aux_config'' T_u64, Fld ''aux_paused'' c_int]),
     Fld '''' (Struct False [Fld ''hrtimer'' S_hrtimer]),
     Fld '''' (Struct False [Fld ''tp_list'' S_list_head]),
     Fld '''' (Struct False [Fld ''pwr_acc'' T_u64, Fld ''ptsc'' T_u64]),
     Fld '''' (Struct False [Fld ''info'' S_arch_hw_breakpoint, Fld ''bp_list'' S_rhlist_head]),
     Fld '''' (Struct False [Fld ''iommu_bank'' T_u8, Fld ''iommu_cntr'' T_u8,
     Fld ''padding'' T_u16, Fld ''conf'' T_u64, Fld ''conf1'' T_u64])]), Fld ''target'' Ptr,
     Fld ''addr_filters'' Ptr, Fld ''addr_filters_gen'' c_long, Fld ''state'' c_int,
     Fld ''prev_count'' T_local64_t, Fld ''sample_period'' T_u64,
     Fld '''' (Union False [Fld '''' (Struct False [Fld ''last_period'' T_u64,
     Fld ''period_left'' T_local64_t]), Fld '''' (Struct False [Fld ''saved_metric'' T_u64,
     Fld ''saved_slots'' T_u64])]), Fld ''interrupts_seq'' T_u64, Fld ''interrupts'' T_u64,
     Fld ''freq_time_stamp'' T_u64, Fld ''freq_count_stamp'' T_u64]"

lemma S_hw_perf_event_layout [layout_simps]:
  "sizeof S_hw_perf_event = 208" "alignof S_hw_perf_event = 8" "ctype_wf S_hw_perf_event" "natural S_hw_perf_event \<longleftrightarrow> True"
  by (simp_all add: S_hw_perf_event_def layout_simps)

definition S_perf_addr_filters_head :: ctype where
  "S_perf_addr_filters_head =
     Struct False [Fld ''list'' S_list_head, Fld ''lock'' T_raw_spinlock_t,
     Fld ''nr_file_filters'' c_int]"

lemma S_perf_addr_filters_head_layout [layout_simps]:
  "sizeof S_perf_addr_filters_head = 24" "alignof S_perf_addr_filters_head = 8" "ctype_wf S_perf_addr_filters_head" "natural S_perf_addr_filters_head \<longleftrightarrow> True"
  by (simp_all add: S_perf_addr_filters_head_def layout_simps)

definition T_perf_overflow_handler_t :: ctype where
  "T_perf_overflow_handler_t =
     Ptr"

lemma T_perf_overflow_handler_t_layout [layout_simps]:
  "sizeof T_perf_overflow_handler_t = 8" "alignof T_perf_overflow_handler_t = 8" "ctype_wf T_perf_overflow_handler_t" "natural T_perf_overflow_handler_t \<longleftrightarrow> True"
  by (simp_all add: T_perf_overflow_handler_t_def layout_simps)

definition T_ftrace_func_t :: ctype where
  "T_ftrace_func_t =
     Ptr"

lemma T_ftrace_func_t_layout [layout_simps]:
  "sizeof T_ftrace_func_t = 8" "alignof T_ftrace_func_t = 8" "ctype_wf T_ftrace_func_t" "natural T_ftrace_func_t \<longleftrightarrow> True"
  by (simp_all add: T_ftrace_func_t_def layout_simps)

definition S_ftrace_ops_hash :: ctype where
  "S_ftrace_ops_hash =
     Struct False [Fld ''notrace_hash'' Ptr, Fld ''filter_hash'' Ptr, Fld ''regex_lock'' S_mutex]"

lemma S_ftrace_ops_hash_layout [layout_simps]:
  "sizeof S_ftrace_ops_hash = 48" "alignof S_ftrace_ops_hash = 8" "ctype_wf S_ftrace_ops_hash" "natural S_ftrace_ops_hash \<longleftrightarrow> True"
  by (simp_all add: S_ftrace_ops_hash_def layout_simps)

definition T_ftrace_ops_func_t :: ctype where
  "T_ftrace_ops_func_t =
     Ptr"

lemma T_ftrace_ops_func_t_layout [layout_simps]:
  "sizeof T_ftrace_ops_func_t = 8" "alignof T_ftrace_ops_func_t = 8" "ctype_wf T_ftrace_ops_func_t" "natural T_ftrace_ops_func_t \<longleftrightarrow> True"
  by (simp_all add: T_ftrace_ops_func_t_def layout_simps)

definition S_ftrace_ops :: ctype where
  "S_ftrace_ops =
     Struct False [Fld ''func'' T_ftrace_func_t, Fld ''next'' Ptr, Fld ''flags'' c_long,
     Fld ''private'' Ptr, Fld ''saved_func'' T_ftrace_func_t, Fld ''local_hash'' S_ftrace_ops_hash,
     Fld ''func_hash'' Ptr, Fld ''old_hash'' S_ftrace_ops_hash, Fld ''trampoline'' c_long,
     Fld ''trampoline_size'' c_long, Fld ''list'' S_list_head, Fld ''subop_list'' S_list_head,
     Fld ''ops_func'' T_ftrace_ops_func_t, Fld ''managed'' Ptr, Fld ''direct_call'' c_long]"

lemma S_ftrace_ops_layout [layout_simps]:
  "sizeof S_ftrace_ops = 216" "alignof S_ftrace_ops = 8" "ctype_wf S_ftrace_ops" "natural S_ftrace_ops \<longleftrightarrow> True"
  by (simp_all add: S_ftrace_ops_def layout_simps)

definition S_perf_event :: ctype where
  "S_perf_event =
     Struct False [Fld ''event_entry'' S_list_head, Fld ''sibling_list'' S_list_head,
     Fld ''active_list'' S_list_head, Fld ''group_node'' S_rb_node, Fld ''group_index'' T_u64,
     Fld ''migrate_entry'' S_list_head, Fld ''hlist_entry'' S_hlist_node,
     Fld ''active_entry'' S_list_head, Fld ''nr_siblings'' c_int, Fld ''event_caps'' c_int,
     Fld ''group_caps'' c_int, Fld ''group_generation'' c_int, Fld ''group_leader'' Ptr,
     Fld ''pmu'' Ptr, Fld ''pmu_private'' Ptr, Fld ''state'' c_enum, Fld ''attach_state'' c_int,
     Fld ''count'' T_local64_t, Fld ''child_count'' T_atomic64_t, Fld ''total_time_enabled'' T_u64,
     Fld ''total_time_running'' T_u64, Fld ''tstamp'' T_u64, Fld ''attr'' S_perf_event_attr,
     Fld ''header_size'' T_u16, Fld ''id_header_size'' T_u16, Fld ''read_size'' T_u16,
     Fld ''hw'' S_hw_perf_event, Fld ''ctx'' Ptr, Fld ''pmu_ctx'' Ptr,
     Fld ''refcount'' T_atomic_long_t, Fld ''child_total_time_enabled'' T_atomic64_t,
     Fld ''child_total_time_running'' T_atomic64_t, Fld ''child_mutex'' S_mutex,
     Fld ''child_list'' S_list_head, Fld ''parent'' Ptr, Fld ''oncpu'' c_int, Fld ''cpu'' c_int,
     Fld ''owner_entry'' S_list_head, Fld ''owner'' Ptr, Fld ''mmap_mutex'' S_mutex,
     Fld ''mmap_count'' T_refcount_t, Fld ''rb'' Ptr, Fld ''rb_entry'' S_list_head,
     Fld ''rcu_batches'' c_long, Fld ''rcu_pending'' c_int, Fld ''waitq'' T_wait_queue_head_t,
     Fld ''fasync'' Ptr, Fld ''pending_wakeup'' c_int, Fld ''pending_kill'' c_int,
     Fld ''pending_disable'' c_int, Fld ''pending_addr'' c_long, Fld ''pending_irq'' S_irq_work,
     Fld ''pending_disable_irq'' S_irq_work, Fld ''pending_task'' S_callback_head,
     Fld ''pending_work'' c_int, Fld ''event_limit'' T_atomic_t,
     Fld ''addr_filters'' S_perf_addr_filters_head, Fld ''addr_filter_ranges'' Ptr,
     Fld ''addr_filters_gen'' c_long, Fld ''aux_event'' Ptr, Fld ''destroy'' Ptr,
     Fld ''callback_head'' S_callback_head, Fld ''ns'' Ptr, Fld ''id'' T_u64,
     Fld ''lost_samples'' T_atomic64_t, Fld ''clock'' Ptr,
     Fld ''overflow_handler'' T_perf_overflow_handler_t, Fld ''overflow_handler_context'' Ptr,
     Fld ''prog'' Ptr, Fld ''bpf_cookie'' T_u64, Fld ''tp_event'' Ptr, Fld ''filter'' Ptr,
     Fld ''ftrace_ops'' S_ftrace_ops, Fld ''cgrp'' Ptr, Fld ''security'' Ptr,
     Fld ''sb_list'' S_list_head, Fld ''pmu_list'' S_list_head, Fld ''orig_type'' T_u32]"

lemma S_perf_event_layout [layout_simps]:
  "sizeof S_perf_event = 1352" "alignof S_perf_event = 8" "ctype_wf S_perf_event" "natural S_perf_event \<longleftrightarrow> True"
  by (simp_all add: S_perf_event_def layout_simps)

definition U_perf_sample_weight :: ctype where
  "U_perf_sample_weight =
     Union False [Fld ''full'' T_xu64, Fld '''' (Struct False [Fld ''var1_dw'' T_xu32,
     Fld ''var2_w'' T_xu16, Fld ''var3_w'' T_xu16])]"

lemma U_perf_sample_weight_layout [layout_simps]:
  "sizeof U_perf_sample_weight = 8" "alignof U_perf_sample_weight = 8" "ctype_wf U_perf_sample_weight" "natural U_perf_sample_weight \<longleftrightarrow> True"
  by (simp_all add: U_perf_sample_weight_def layout_simps)

definition U_perf_mem_data_src :: ctype where
  "U_perf_mem_data_src =
     Union False [Fld ''val'' T_xu64, Fld '''' (Struct False [Bit ''mem_op'' 8 5, Bit ''mem_lvl'' 8 14,
     Bit ''mem_snoop'' 8 5, Bit ''mem_lock'' 8 2, Bit ''mem_dtlb'' 8 7, Bit ''mem_lvl_num'' 8 4,
     Bit ''mem_remote'' 8 1, Bit ''mem_snoopx'' 8 2, Bit ''mem_blk'' 8 3, Bit ''mem_hops'' 8 3,
     Bit ''mem_region'' 8 5, Bit ''mem_rsvd'' 8 13])]"

lemma U_perf_mem_data_src_layout [layout_simps]:
  "sizeof U_perf_mem_data_src = 8" "alignof U_perf_mem_data_src = 8" "ctype_wf U_perf_mem_data_src" "natural U_perf_mem_data_src \<longleftrightarrow> True"
  by (simp_all add: U_perf_mem_data_src_def layout_simps)

definition S_perf_regs :: ctype where
  "S_perf_regs =
     Struct False [Fld ''abi'' T_xu64, Fld ''regs'' Ptr]"

lemma S_perf_regs_layout [layout_simps]:
  "sizeof S_perf_regs = 16" "alignof S_perf_regs = 8" "ctype_wf S_perf_regs" "natural S_perf_regs \<longleftrightarrow> True"
  by (simp_all add: S_perf_regs_def layout_simps)

definition S_perf_sample_data :: ctype where
  "S_perf_sample_data =
     Struct False [Fld ''sample_flags'' T_u64, Fld ''period'' T_u64, Fld ''dyn_size'' T_u64,
     Fld ''type'' T_u64, Fld ''tid_entry'' (Struct False [Fld ''pid'' T_u32, Fld ''tid'' T_u32]),
     Fld ''time'' T_u64, Fld ''id'' T_u64, Fld ''cpu_entry'' (Struct False [Fld ''cpu'' T_u32,
     Fld ''reserved'' T_u32]), Fld ''ip'' T_u64, Fld ''callchain'' Ptr, Fld ''raw'' Ptr,
     Fld ''br_stack'' Ptr, Fld ''br_stack_cntr'' Ptr, Fld ''weight'' U_perf_sample_weight,
     Fld ''data_src'' U_perf_mem_data_src, Fld ''txn'' T_u64, Fld ''regs_user'' S_perf_regs,
     Fld ''regs_intr'' S_perf_regs, Fld ''stack_user_size'' T_u64, Fld ''stream_id'' T_u64,
     Fld ''cgroup'' T_u64, Fld ''addr'' T_u64, Fld ''phys_addr'' T_u64,
     Fld ''data_page_size'' T_u64, Fld ''code_page_size'' T_u64, Fld ''aux_size'' T_u64,
     Bit '''' 8 64, Bit '''' 8 64, Bit '''' 8 64, Bit '''' 8 64]"

lemma S_perf_sample_data_layout [layout_simps]:
  "sizeof S_perf_sample_data = 256" "alignof S_perf_sample_data = 8" "ctype_wf S_perf_sample_data" "natural S_perf_sample_data \<longleftrightarrow> True"
  by (simp_all add: S_perf_sample_data_def layout_simps)

definition S_user_pt_regs :: ctype where
  "S_user_pt_regs =
     Struct False [Fld ''regs'' (Arr T_xu64 31), Fld ''sp'' T_xu64, Fld ''pc'' T_xu64,
     Fld ''pstate'' T_xu64]"

lemma S_user_pt_regs_layout [layout_simps]:
  "sizeof S_user_pt_regs = 272" "alignof S_user_pt_regs = 8" "ctype_wf S_user_pt_regs" "natural S_user_pt_regs \<longleftrightarrow> True"
  by (simp_all add: S_user_pt_regs_def layout_simps)

definition S_frame_record :: ctype where
  "S_frame_record =
     Struct False [Fld ''fp'' T_u64, Fld ''lr'' T_u64]"

lemma S_frame_record_layout [layout_simps]:
  "sizeof S_frame_record = 16" "alignof S_frame_record = 8" "ctype_wf S_frame_record" "natural S_frame_record \<longleftrightarrow> True"
  by (simp_all add: S_frame_record_def layout_simps)

definition S_frame_record_meta :: ctype where
  "S_frame_record_meta =
     Struct False [Fld ''record'' S_frame_record, Fld ''type'' T_u64]"

lemma S_frame_record_meta_layout [layout_simps]:
  "sizeof S_frame_record_meta = 24" "alignof S_frame_record_meta = 8" "ctype_wf S_frame_record_meta" "natural S_frame_record_meta \<longleftrightarrow> True"
  by (simp_all add: S_frame_record_meta_def layout_simps)

definition S_pt_regs :: ctype where
  "S_pt_regs =
     Struct False [Fld '''' (Union False [Fld ''user_regs'' S_user_pt_regs,
     Fld '''' (Struct False [Fld ''regs'' (Arr T_u64 31), Fld ''sp'' T_u64, Fld ''pc'' T_u64,
     Fld ''pstate'' T_u64])]), Fld ''orig_x0'' T_u64, Fld ''syscallno'' T_s32, Fld ''pmr'' T_u32,
     Fld ''sdei_ttbr1'' T_u64, Fld ''stackframe'' S_frame_record_meta]"

lemma S_pt_regs_layout [layout_simps]:
  "sizeof S_pt_regs = 320" "alignof S_pt_regs = 8" "ctype_wf S_pt_regs" "natural S_pt_regs \<longleftrightarrow> True"
  by (simp_all add: S_pt_regs_def layout_simps)

end
