(* ===== verification/Kernel_Fs.thy ===== *)
theory Kernel_Fs
  imports Kernel_Base
begin

text \<open>
  Transcribed from \<open>vmlinux.h\<close>: the types around struct file, struct path, struct dentry and struct linux_binprm, which the file and exec hooks take apart.
  \<open>S_\<close>, \<open>U_\<close> and \<open>T_\<close> stand for struct, union and typedef; leading underscores of a name are
  written \<open>x\<close>. The facts after a type are its size, its alignment and that it is well formed.
\<close>

definition T_fmode_t :: ctype where
  "T_fmode_t =
     c_int"

lemma T_fmode_t_layout [layout_simps]:
  "sizeof T_fmode_t = 4" "alignof T_fmode_t = 4" "ctype_wf T_fmode_t" "natural T_fmode_t \<longleftrightarrow> True"
  by (simp_all add: T_fmode_t_def layout_simps)

definition S_path :: ctype where
  "S_path =
     Struct False [Fld ''mnt'' Ptr, Fld ''dentry'' Ptr]"

lemma S_path_layout [layout_simps]:
  "sizeof S_path = 16" "alignof S_path = 8" "ctype_wf S_path" "natural S_path \<longleftrightarrow> True"
  by (simp_all add: S_path_def layout_simps)

definition T_errseq_t :: ctype where
  "T_errseq_t =
     T_u32"

lemma T_errseq_t_layout [layout_simps]:
  "sizeof T_errseq_t = 4" "alignof T_errseq_t = 4" "ctype_wf T_errseq_t" "natural T_errseq_t \<longleftrightarrow> True"
  by (simp_all add: T_errseq_t_def layout_simps)

definition S_file_ra_state :: ctype where
  "S_file_ra_state =
     Struct False [Fld ''start'' c_long, Fld ''size'' c_int, Fld ''async_size'' c_int,
     Fld ''ra_pages'' c_int, Fld ''order'' c_short, Fld ''mmap_miss'' c_short,
     Fld ''prev_pos'' T_loff_t]"

lemma S_file_ra_state_layout [layout_simps]:
  "sizeof S_file_ra_state = 32" "alignof S_file_ra_state = 8" "ctype_wf S_file_ra_state" "natural S_file_ra_state \<longleftrightarrow> True"
  by (simp_all add: S_file_ra_state_def layout_simps)

definition T_file_ref_t :: ctype where
  "T_file_ref_t =
     Struct False [Fld ''refcnt'' T_atomic64_t]"

lemma T_file_ref_t_layout [layout_simps]:
  "sizeof T_file_ref_t = 8" "alignof T_file_ref_t = 8" "ctype_wf T_file_ref_t" "natural T_file_ref_t \<longleftrightarrow> True"
  by (simp_all add: T_file_ref_t_def layout_simps)

definition S_file :: ctype where
  "S_file =
     Struct False [Fld ''f_lock'' T_spinlock_t, Fld ''f_mode'' T_fmode_t, Fld ''f_op'' Ptr,
     Fld ''f_mapping'' Ptr, Fld ''private_data'' Ptr, Fld ''f_inode'' Ptr, Fld ''f_flags'' c_int,
     Fld ''f_iocb_flags'' c_int, Fld ''f_cred'' Ptr, Fld ''f_owner'' Ptr,
     Fld '''' (Union False [Fld ''f_path'' S_path, Fld ''__f_path'' S_path]),
     Fld '''' (Union False [Fld ''f_pos_lock'' S_mutex, Fld ''f_pipe'' T_u64]),
     Fld ''f_pos'' T_loff_t, Fld ''f_security'' Ptr, Fld ''f_wb_err'' T_errseq_t,
     Fld ''f_sb_err'' T_errseq_t, Fld ''f_ep'' Ptr,
     Fld '''' (Union False [Fld ''f_task_work'' S_callback_head, Fld ''f_llist'' S_llist_node,
     Fld ''f_ra'' S_file_ra_state, Fld ''f_freeptr'' T_freeptr_t]), Fld ''f_ref'' T_file_ref_t]"

lemma S_file_layout [layout_simps]:
  "sizeof S_file = 184" "alignof S_file = 8" "ctype_wf S_file" "natural S_file \<longleftrightarrow> True"
  by (simp_all add: S_file_def layout_simps)

definition S_linux_binprm :: ctype where
  "S_linux_binprm =
     Struct False [Fld ''vma'' Ptr, Fld ''vma_pages'' c_long, Fld ''argmin'' c_long, Fld ''mm'' Ptr,
     Fld ''p'' c_long, Bit ''have_execfd'' 4 1, Bit ''execfd_creds'' 4 1, Bit ''secureexec'' 4 1,
     Bit ''point_of_no_return'' 4 1, Bit ''comm_from_dentry'' 4 1, Bit ''is_check'' 4 1,
     Fld ''executable'' Ptr, Fld ''interpreter'' Ptr, Fld ''file'' Ptr, Fld ''cred'' Ptr,
     Fld ''unsafe'' c_int, Fld ''per_clear'' c_int, Fld ''argc'' c_int, Fld ''envc'' c_int,
     Fld ''filename'' Ptr, Fld ''interp'' Ptr, Fld ''fdpath'' Ptr, Fld ''interp_flags'' c_int,
     Fld ''execfd'' c_int, Fld ''exec'' c_long, Fld ''rlim_stack'' S_rlimit,
     Fld ''buf'' (Arr c_char 256)]"

lemma S_linux_binprm_layout [layout_simps]:
  "sizeof S_linux_binprm = 408" "alignof S_linux_binprm = 8" "ctype_wf S_linux_binprm" "natural S_linux_binprm \<longleftrightarrow> True"
  by (simp_all add: S_linux_binprm_def layout_simps)

definition S_hlist_bl_node :: ctype where
  "S_hlist_bl_node =
     Struct False [Fld ''next'' Ptr, Fld ''pprev'' Ptr]"

lemma S_hlist_bl_node_layout [layout_simps]:
  "sizeof S_hlist_bl_node = 16" "alignof S_hlist_bl_node = 8" "ctype_wf S_hlist_bl_node" "natural S_hlist_bl_node \<longleftrightarrow> True"
  by (simp_all add: S_hlist_bl_node_def layout_simps)

definition S_qstr :: ctype where
  "S_qstr =
     Struct False [Fld '''' (Union False [Fld '''' (Struct False [Fld ''hash'' T_u32,
     Fld ''len'' T_u32]), Fld ''hash_len'' T_u64]), Fld ''name'' Ptr]"

lemma S_qstr_layout [layout_simps]:
  "sizeof S_qstr = 16" "alignof S_qstr = 8" "ctype_wf S_qstr" "natural S_qstr \<longleftrightarrow> True"
  by (simp_all add: S_qstr_def layout_simps)

definition U_shortname_store :: ctype where
  "U_shortname_store =
     Union False [Fld ''string'' (Arr c_char 40), Fld ''words'' (Arr c_long 5)]"

lemma U_shortname_store_layout [layout_simps]:
  "sizeof U_shortname_store = 40" "alignof U_shortname_store = 8" "ctype_wf U_shortname_store" "natural U_shortname_store \<longleftrightarrow> True"
  by (simp_all add: U_shortname_store_def layout_simps)

definition S_lockref :: ctype where
  "S_lockref =
     Struct False [Fld '''' (Union False [Fld ''lock_count'' T_xu64,
     Fld '''' (Struct False [Fld ''lock'' T_spinlock_t, Fld ''count'' c_int])])]"

lemma S_lockref_layout [layout_simps]:
  "sizeof S_lockref = 8" "alignof S_lockref = 8" "ctype_wf S_lockref" "natural S_lockref \<longleftrightarrow> True"
  by (simp_all add: S_lockref_def layout_simps)

definition S_dentry :: ctype where
  "S_dentry =
     Struct False [Fld ''d_flags'' c_int, Fld ''d_seq'' T_seqcount_spinlock_t,
     Fld ''d_hash'' S_hlist_bl_node, Fld ''d_parent'' Ptr,
     Fld '''' (Union False [Fld ''__d_name'' S_qstr, Fld ''d_name'' S_qstr]), Fld ''d_inode'' Ptr,
     Fld ''d_shortname'' U_shortname_store, Fld ''d_op'' Ptr, Fld ''d_sb'' Ptr,
     Fld ''d_time'' c_long, Fld ''d_fsdata'' Ptr, Fld ''d_lockref'' S_lockref,
     Fld '''' (Union False [Fld ''d_lru'' S_list_head, Fld ''d_wait'' Ptr]),
     Fld ''d_sib'' S_hlist_node, Fld ''d_children'' S_hlist_head,
     Fld ''d_u'' (Union False [Fld ''d_alias'' S_hlist_node,
     Fld ''d_in_lookup_hash'' S_hlist_bl_node, Fld ''d_rcu'' S_callback_head])]"

lemma S_dentry_layout [layout_simps]:
  "sizeof S_dentry = 192" "alignof S_dentry = 8" "ctype_wf S_dentry" "natural S_dentry \<longleftrightarrow> True"
  by (simp_all add: S_dentry_def layout_simps)

definition T_xkernel_dev_t :: ctype where
  "T_xkernel_dev_t =
     T_u32"

lemma T_xkernel_dev_t_layout [layout_simps]:
  "sizeof T_xkernel_dev_t = 4" "alignof T_xkernel_dev_t = 4" "ctype_wf T_xkernel_dev_t" "natural T_xkernel_dev_t \<longleftrightarrow> True"
  by (simp_all add: T_xkernel_dev_t_def layout_simps)

definition T_dev_t :: ctype where
  "T_dev_t =
     T_xkernel_dev_t"

lemma T_dev_t_layout [layout_simps]:
  "sizeof T_dev_t = 4" "alignof T_dev_t = 4" "ctype_wf T_dev_t" "natural T_dev_t \<longleftrightarrow> True"
  by (simp_all add: T_dev_t_def layout_simps)

definition T_blkcnt_t :: ctype where
  "T_blkcnt_t =
     T_u64"

lemma T_blkcnt_t_layout [layout_simps]:
  "sizeof T_blkcnt_t = 8" "alignof T_blkcnt_t = 8" "ctype_wf T_blkcnt_t" "natural T_blkcnt_t \<longleftrightarrow> True"
  by (simp_all add: T_blkcnt_t_def layout_simps)

definition S_inode_state_flags :: ctype where
  "S_inode_state_flags =
     Struct False [Fld ''__state'' c_enum]"

lemma S_inode_state_flags_layout [layout_simps]:
  "sizeof S_inode_state_flags = 4" "alignof S_inode_state_flags = 4" "ctype_wf S_inode_state_flags" "natural S_inode_state_flags \<longleftrightarrow> True"
  by (simp_all add: S_inode_state_flags_def layout_simps)

definition S_address_space :: ctype where
  "S_address_space =
     Struct False [Fld ''host'' Ptr, Fld ''i_pages'' S_xarray, Fld ''invalidate_lock'' S_rw_semaphore,
     Fld ''gfp_mask'' T_gfp_t, Fld ''i_mmap_writable'' T_atomic_t, Fld ''i_mmap'' S_rb_root_cached,
     Fld ''nrpages'' c_long, Fld ''writeback_index'' c_long, Fld ''a_ops'' Ptr,
     Fld ''flags'' c_long, Fld ''wb_err'' T_errseq_t, Fld ''i_private_lock'' T_spinlock_t,
     Fld ''i_private_list'' S_list_head, Fld ''i_mmap_rwsem'' S_rw_semaphore,
     Fld ''i_private_data'' Ptr]"

lemma S_address_space_layout [layout_simps]:
  "sizeof S_address_space = 192" "alignof S_address_space = 8" "ctype_wf S_address_space" "natural S_address_space \<longleftrightarrow> True"
  by (simp_all add: S_address_space_def layout_simps)

definition S_inode :: ctype where
  "S_inode =
     Struct False [Fld ''i_mode'' T_umode_t, Fld ''i_opflags'' c_short, Fld ''i_flags'' c_int,
     Fld ''i_acl'' Ptr, Fld ''i_default_acl'' Ptr, Fld ''i_uid'' T_kuid_t, Fld ''i_gid'' T_kgid_t,
     Fld ''i_op'' Ptr, Fld ''i_sb'' Ptr, Fld ''i_mapping'' Ptr, Fld ''i_security'' Ptr,
     Fld ''i_ino'' c_long, Fld '''' (Union False [Fld ''i_nlink'' c_int, Fld ''__i_nlink'' c_int]),
     Fld ''i_rdev'' T_dev_t, Fld ''i_size'' T_loff_t, Fld ''i_atime_sec'' T_time64_t,
     Fld ''i_mtime_sec'' T_time64_t, Fld ''i_ctime_sec'' T_time64_t, Fld ''i_atime_nsec'' T_u32,
     Fld ''i_mtime_nsec'' T_u32, Fld ''i_ctime_nsec'' T_u32, Fld ''i_generation'' T_u32,
     Fld ''i_lock'' T_spinlock_t, Fld ''i_bytes'' c_short, Fld ''i_blkbits'' T_u8,
     Fld ''i_write_hint'' c_enum, Fld ''i_blocks'' T_blkcnt_t, Fld ''i_state'' S_inode_state_flags,
     Fld ''i_rwsem'' S_rw_semaphore, Fld ''dirtied_when'' c_long, Fld ''dirtied_time_when'' c_long,
     Fld ''i_hash'' S_hlist_node, Fld ''i_io_list'' S_list_head, Fld ''i_wb'' Ptr,
     Fld ''i_wb_frn_winner'' c_int, Fld ''i_wb_frn_avg_time'' T_u16, Fld ''i_wb_frn_history'' T_u16,
     Fld ''i_lru'' S_list_head, Fld ''i_sb_list'' S_list_head, Fld ''i_wb_list'' S_list_head,
     Fld '''' (Union False [Fld ''i_dentry'' S_hlist_head, Fld ''i_rcu'' S_callback_head]),
     Fld ''i_version'' T_atomic64_t, Fld ''i_sequence'' T_atomic64_t, Fld ''i_count'' T_atomic_t,
     Fld ''i_dio_count'' T_atomic_t, Fld ''i_writecount'' T_atomic_t,
     Fld ''i_readcount'' T_atomic_t, Fld '''' (Union False [Fld ''i_fop'' Ptr,
     Fld ''free_inode'' Ptr]), Fld ''i_flctx'' Ptr, Fld ''i_data'' S_address_space,
     Fld '''' (Union False [Fld ''i_devices'' S_list_head, Fld ''i_linklen'' c_int]),
     Fld '''' (Union False [Fld ''i_pipe'' Ptr, Fld ''i_cdev'' Ptr, Fld ''i_link'' Ptr,
     Fld ''i_dir_seq'' c_int]), Fld ''i_fsnotify_mask'' T_xu32, Fld ''i_fsnotify_marks'' Ptr,
     Fld ''i_private'' Ptr]"

lemma S_inode_layout [layout_simps]:
  "sizeof S_inode = 616" "alignof S_inode = 8" "ctype_wf S_inode" "natural S_inode \<longleftrightarrow> True"
  by (simp_all add: S_inode_def layout_simps)

definition S_hlist_bl_head :: ctype where
  "S_hlist_bl_head =
     Struct False [Fld ''first'' Ptr]"

lemma S_hlist_bl_head_layout [layout_simps]:
  "sizeof S_hlist_bl_head = 8" "alignof S_hlist_bl_head = 8" "ctype_wf S_hlist_bl_head" "natural S_hlist_bl_head \<longleftrightarrow> True"
  by (simp_all add: S_hlist_bl_head_def layout_simps)

definition T_qsize_t :: ctype where
  "T_qsize_t =
     c_long"

lemma T_qsize_t_layout [layout_simps]:
  "sizeof T_qsize_t = 8" "alignof T_qsize_t = 8" "ctype_wf T_qsize_t" "natural T_qsize_t \<longleftrightarrow> True"
  by (simp_all add: T_qsize_t_def layout_simps)

definition S_mem_dqinfo :: ctype where
  "S_mem_dqinfo =
     Struct False [Fld ''dqi_format'' Ptr, Fld ''dqi_fmt_id'' c_int, Fld ''dqi_dirty_list'' S_list_head,
     Fld ''dqi_flags'' c_long, Fld ''dqi_bgrace'' c_int, Fld ''dqi_igrace'' c_int,
     Fld ''dqi_max_spc_limit'' T_qsize_t, Fld ''dqi_max_ino_limit'' T_qsize_t, Fld ''dqi_priv'' Ptr]"

lemma S_mem_dqinfo_layout [layout_simps]:
  "sizeof S_mem_dqinfo = 72" "alignof S_mem_dqinfo = 8" "ctype_wf S_mem_dqinfo" "natural S_mem_dqinfo \<longleftrightarrow> True"
  by (simp_all add: S_mem_dqinfo_def layout_simps)

definition S_quota_info :: ctype where
  "S_quota_info =
     Struct False [Fld ''flags'' c_int, Fld ''dqio_sem'' S_rw_semaphore, Fld ''files'' (Arr Ptr 3),
     Fld ''info'' (Arr S_mem_dqinfo 3), Fld ''ops'' (Arr Ptr 3)]"

lemma S_quota_info_layout [layout_simps]:
  "sizeof S_quota_info = 312" "alignof S_quota_info = 8" "ctype_wf S_quota_info" "natural S_quota_info \<longleftrightarrow> True"
  by (simp_all add: S_quota_info_def layout_simps)

definition S_rcu_sync :: ctype where
  "S_rcu_sync =
     Struct False [Fld ''gp_state'' c_int, Fld ''gp_count'' c_int, Fld ''gp_wait'' T_wait_queue_head_t,
     Fld ''cb_head'' S_callback_head]"

lemma S_rcu_sync_layout [layout_simps]:
  "sizeof S_rcu_sync = 48" "alignof S_rcu_sync = 8" "ctype_wf S_rcu_sync" "natural S_rcu_sync \<longleftrightarrow> True"
  by (simp_all add: S_rcu_sync_def layout_simps)

definition S_percpu_rw_semaphore :: ctype where
  "S_percpu_rw_semaphore =
     Struct False [Fld ''rss'' S_rcu_sync, Fld ''read_count'' Ptr, Fld ''writer'' S_rcuwait,
     Fld ''waiters'' T_wait_queue_head_t, Fld ''block'' T_atomic_t]"

lemma S_percpu_rw_semaphore_layout [layout_simps]:
  "sizeof S_percpu_rw_semaphore = 96" "alignof S_percpu_rw_semaphore = 8" "ctype_wf S_percpu_rw_semaphore" "natural S_percpu_rw_semaphore \<longleftrightarrow> True"
  by (simp_all add: S_percpu_rw_semaphore_def layout_simps)

definition S_sb_writers :: ctype where
  "S_sb_writers =
     Struct False [Fld ''frozen'' c_short, Fld ''freeze_kcount'' c_int, Fld ''freeze_ucount'' c_int,
     Fld ''freeze_owner'' Ptr, Fld ''rw_sem'' (Arr S_percpu_rw_semaphore 3)]"

lemma S_sb_writers_layout [layout_simps]:
  "sizeof S_sb_writers = 312" "alignof S_sb_writers = 8" "ctype_wf S_sb_writers" "natural S_sb_writers \<longleftrightarrow> True"
  by (simp_all add: S_sb_writers_def layout_simps)

definition T_uuid_t :: ctype where
  "T_uuid_t =
     Struct False [Fld ''b'' (Arr T_xu8 16)]"

lemma T_uuid_t_layout [layout_simps]:
  "sizeof T_uuid_t = 16" "alignof T_uuid_t = 1" "ctype_wf T_uuid_t" "natural T_uuid_t \<longleftrightarrow> True"
  by (simp_all add: T_uuid_t_def layout_simps)

definition S_list_lru :: ctype where
  "S_list_lru =
     Struct False [Fld ''node'' Ptr, Fld ''list'' S_list_head, Fld ''shrinker_id'' c_int,
     Fld ''memcg_aware'' c_bool, Fld ''xa'' S_xarray]"

lemma S_list_lru_layout [layout_simps]:
  "sizeof S_list_lru = 48" "alignof S_list_lru = 8" "ctype_wf S_list_lru" "natural S_list_lru \<longleftrightarrow> True"
  by (simp_all add: S_list_lru_def layout_simps)

definition S_super_block :: ctype where
  "S_super_block =
     Struct False [Fld ''s_list'' S_list_head, Fld ''s_dev'' T_dev_t, Fld ''s_blocksize_bits'' c_char,
     Fld ''s_blocksize'' c_long, Fld ''s_maxbytes'' T_loff_t, Fld ''s_type'' Ptr, Fld ''s_op'' Ptr,
     Fld ''dq_op'' Ptr, Fld ''s_qcop'' Ptr, Fld ''s_export_op'' Ptr, Fld ''s_flags'' c_long,
     Fld ''s_iflags'' c_long, Fld ''s_magic'' c_long, Fld ''s_root'' Ptr,
     Fld ''s_umount'' S_rw_semaphore, Fld ''s_count'' c_int, Fld ''s_active'' T_atomic_t,
     Fld ''s_security'' Ptr, Fld ''s_xattr'' Ptr, Fld ''s_cop'' Ptr, Fld ''s_master_keys'' Ptr,
     Fld ''s_vop'' Ptr, Fld ''s_encoding'' Ptr, Fld ''s_encoding_flags'' T_xu16,
     Fld ''s_roots'' S_hlist_bl_head, Fld ''s_mounts'' Ptr, Fld ''s_bdev'' Ptr,
     Fld ''s_bdev_file'' Ptr, Fld ''s_bdi'' Ptr, Fld ''s_mtd'' Ptr,
     Fld ''s_instances'' S_hlist_node, Fld ''s_quota_types'' c_int, Fld ''s_dquot'' S_quota_info,
     Fld ''s_writers'' S_sb_writers, Fld ''s_fs_info'' Ptr, Fld ''s_time_gran'' T_u32,
     Fld ''s_time_min'' T_time64_t, Fld ''s_time_max'' T_time64_t, Fld ''s_fsnotify_mask'' T_u32,
     Fld ''s_fsnotify_info'' Ptr, Fld ''s_id'' (Arr c_char 32), Fld ''s_uuid'' T_uuid_t,
     Fld ''s_uuid_len'' T_u8, Fld ''s_sysfs_name'' (Arr c_char 37), Fld ''s_max_links'' c_int,
     Fld ''s_d_flags'' c_int, Fld ''s_vfs_rename_mutex'' S_mutex, Fld ''s_subtype'' Ptr,
     Fld ''__s_d_op'' Ptr, Fld ''s_shrink'' Ptr, Fld ''s_remove_count'' T_atomic_long_t,
     Fld ''s_readonly_remount'' c_int, Fld ''s_wb_err'' T_errseq_t, Fld ''s_dio_done_wq'' Ptr,
     Fld ''s_pins'' S_hlist_head, Fld ''s_user_ns'' Ptr, Fld ''s_dentry_lru'' S_list_lru,
     Fld ''s_inode_lru'' S_list_lru, Fld ''rcu'' S_callback_head,
     Fld ''destroy_work'' S_work_struct, Fld ''s_sync_lock'' S_mutex, Fld ''s_stack_depth'' c_int,
     Bit '''' 8 64, Fld ''s_inode_list_lock'' T_spinlock_t, Fld ''s_inodes'' S_list_head,
     Fld ''s_inode_wblist_lock'' T_spinlock_t, Fld ''s_inodes_wb'' S_list_head,
     Fld ''s_min_writeback_pages'' c_long, Fld ''s_pending_errors'' T_refcount_t]"

lemma S_super_block_layout [layout_simps]:
  "sizeof S_super_block = 1408" "alignof S_super_block = 8" "ctype_wf S_super_block" "natural S_super_block \<longleftrightarrow> True"
  by (simp_all add: S_super_block_def layout_simps)

definition S_maple_tree :: ctype where
  "S_maple_tree =
     Struct False [Fld '''' (Union False [Fld ''ma_lock'' T_spinlock_t]), Fld ''ma_flags'' c_int,
     Fld ''ma_root'' Ptr]"

lemma S_maple_tree_layout [layout_simps]:
  "sizeof S_maple_tree = 16" "alignof S_maple_tree = 8" "ctype_wf S_maple_tree" "natural S_maple_tree \<longleftrightarrow> True"
  by (simp_all add: S_maple_tree_def layout_simps)

definition S_mm_mm_cid :: ctype where
  "S_mm_mm_cid =
     Struct False [Fld ''pcpu'' Ptr, Fld ''mode'' c_int, Fld ''max_cids'' c_int,
     Fld ''irq_work'' S_irq_work, Fld ''work'' S_work_struct, Fld ''lock'' T_raw_spinlock_t,
     Fld ''mutex'' S_mutex, Fld ''user_list'' S_hlist_head, Fld ''nr_cpus_allowed'' c_int,
     Fld ''users'' c_int, Fld ''pcpu_thrs'' c_int, Fld ''update_deferred'' c_int, Bit '''' 8 64,
     Bit '''' 8 64, Bit '''' 8 64, Bit '''' 8 64, Bit '''' 8 64, Bit '''' 8 64]"

lemma S_mm_mm_cid_layout [layout_simps]:
  "sizeof S_mm_mm_cid = 192" "alignof S_mm_mm_cid = 8" "ctype_wf S_mm_mm_cid" "natural S_mm_mm_cid \<longleftrightarrow> True"
  by (simp_all add: S_mm_mm_cid_def layout_simps)

definition T_vm_flags_t :: ctype where
  "T_vm_flags_t =
     c_long"

lemma T_vm_flags_t_layout [layout_simps]:
  "sizeof T_vm_flags_t = 8" "alignof T_vm_flags_t = 8" "ctype_wf T_vm_flags_t" "natural T_vm_flags_t \<longleftrightarrow> True"
  by (simp_all add: T_vm_flags_t_def layout_simps)

definition S_percpu_counter :: ctype where
  "S_percpu_counter =
     Struct False [Fld ''lock'' T_raw_spinlock_t, Fld ''count'' T_s64, Fld ''list'' S_list_head,
     Fld ''counters'' Ptr]"

lemma S_percpu_counter_layout [layout_simps]:
  "sizeof S_percpu_counter = 40" "alignof S_percpu_counter = 8" "ctype_wf S_percpu_counter" "natural S_percpu_counter \<longleftrightarrow> True"
  by (simp_all add: S_percpu_counter_def layout_simps)

definition T_mm_context_t :: ctype where
  "T_mm_context_t =
     Struct False [Fld ''id'' T_atomic64_t, Fld ''sigpage'' Ptr, Fld ''pinned'' T_refcount_t,
     Fld ''vdso'' Ptr, Fld ''flags'' c_long, Fld ''pkey_allocation_map'' T_u8]"

lemma T_mm_context_t_layout [layout_simps]:
  "sizeof T_mm_context_t = 48" "alignof T_mm_context_t = 8" "ctype_wf T_mm_context_t" "natural T_mm_context_t \<longleftrightarrow> True"
  by (simp_all add: T_mm_context_t_def layout_simps)

definition T_mm_flags_t :: ctype where
  "T_mm_flags_t =
     Struct False [Fld ''__mm_flags'' (Arr c_long 1)]"

lemma T_mm_flags_t_layout [layout_simps]:
  "sizeof T_mm_flags_t = 8" "alignof T_mm_flags_t = 8" "ctype_wf T_mm_flags_t" "natural T_mm_flags_t \<longleftrightarrow> True"
  by (simp_all add: T_mm_flags_t_def layout_simps)

definition S_uprobes_state :: ctype where
  "S_uprobes_state =
     Struct False [Fld ''xol_area'' Ptr]"

lemma S_uprobes_state_layout [layout_simps]:
  "sizeof S_uprobes_state = 8" "alignof S_uprobes_state = 8" "ctype_wf S_uprobes_state" "natural S_uprobes_state \<longleftrightarrow> True"
  by (simp_all add: S_uprobes_state_def layout_simps)

definition T_mm_id_t :: ctype where
  "T_mm_id_t =
     c_int"

lemma T_mm_id_t_layout [layout_simps]:
  "sizeof T_mm_id_t = 4" "alignof T_mm_id_t = 4" "ctype_wf T_mm_id_t" "natural T_mm_id_t \<longleftrightarrow> True"
  by (simp_all add: T_mm_id_t_def layout_simps)

definition S_mm_struct :: ctype where
  "S_mm_struct =
     Struct False [Fld '''' (Struct False [Fld '''' (Struct False [Fld ''mm_count'' T_atomic_t,
     Bit '''' 8 64, Bit '''' 8 64, Bit '''' 8 64, Bit '''' 8 64, Bit '''' 8 64, Bit '''' 8 64,
     Bit '''' 8 64]), Fld ''mm_mt'' S_maple_tree, Fld ''mmap_base'' c_long,
     Fld ''mmap_legacy_base'' c_long, Fld ''task_size'' c_long, Fld ''pgd'' Ptr,
     Fld ''membarrier_state'' T_atomic_t, Fld ''mm_users'' T_atomic_t, Bit '''' 8 64,
     Fld ''mm_cid'' S_mm_mm_cid, Fld ''pgtables_bytes'' T_atomic_long_t, Fld ''map_count'' c_int,
     Fld ''page_table_lock'' T_spinlock_t, Fld ''mmap_lock'' S_rw_semaphore,
     Fld ''mmlist'' S_list_head, Fld ''vma_writer_wait'' S_rcuwait,
     Fld ''mm_lock_seq'' T_seqcount_t, Fld ''futex_hash_lock'' S_mutex, Fld ''futex_phash'' Ptr,
     Fld ''futex_phash_new'' Ptr, Fld ''futex_batches'' c_long, Fld ''futex_rcu'' S_callback_head,
     Fld ''futex_atomic'' T_atomic_long_t, Fld ''futex_ref'' Ptr, Fld ''hiwater_rss'' c_long,
     Fld ''hiwater_vm'' c_long, Fld ''total_vm'' c_long, Fld ''locked_vm'' c_long,
     Fld ''pinned_vm'' T_atomic64_t, Fld ''data_vm'' c_long, Fld ''exec_vm'' c_long,
     Fld ''stack_vm'' c_long, Fld ''def_flags'' T_vm_flags_t,
     Fld ''write_protect_seq'' T_seqcount_t, Fld ''arg_lock'' T_spinlock_t,
     Fld ''start_code'' c_long, Fld ''end_code'' c_long, Fld ''start_data'' c_long,
     Fld ''end_data'' c_long, Fld ''start_brk'' c_long, Fld ''brk'' c_long,
     Fld ''start_stack'' c_long, Fld ''arg_start'' c_long, Fld ''arg_end'' c_long,
     Fld ''env_start'' c_long, Fld ''env_end'' c_long, Fld ''saved_auxv'' (Arr c_long 54),
     Fld ''rss_stat'' (Arr S_percpu_counter 4), Fld ''binfmt'' Ptr, Fld ''context'' T_mm_context_t,
     Fld ''flags'' T_mm_flags_t, Fld ''ioctx_lock'' T_spinlock_t, Fld ''ioctx_table'' Ptr,
     Fld ''owner'' Ptr, Fld ''user_ns'' Ptr, Fld ''exe_file'' Ptr,
     Fld ''notifier_subscriptions'' Ptr, Fld ''numa_next_scan'' c_long,
     Fld ''numa_scan_offset'' c_long, Fld ''numa_scan_seq'' c_int,
     Fld ''tlb_flush_pending'' T_atomic_t, Fld ''tlb_flush_batched'' T_atomic_t,
     Fld ''uprobes_state'' S_uprobes_state, Fld ''hugetlb_usage'' T_atomic_long_t,
     Fld ''async_put_work'' S_work_struct, Fld ''iommu_mm'' Ptr, Fld ''ksm_merging_pages'' c_long,
     Fld ''ksm_rmap_items'' c_long, Fld ''ksm_zero_pages'' T_atomic_long_t,
     Fld ''lru_gen'' (Struct False [Fld ''list'' S_list_head, Fld ''bitmap'' c_long,
     Fld ''memcg'' Ptr]), Fld ''mm_id'' T_mm_id_t, Bit '''' 8 64, Bit '''' 8 64]),
     Fld ''flexible_array'' (Arr c_char 0)]"

lemma S_mm_struct_layout [layout_simps]:
  "sizeof S_mm_struct = 1536" "alignof S_mm_struct = 8" "ctype_wf S_mm_struct" "natural S_mm_struct \<longleftrightarrow> True"
  by (simp_all add: S_mm_struct_def layout_simps)

definition T_ptdesc_t :: ctype where
  "T_ptdesc_t =
     T_u64"

lemma T_ptdesc_t_layout [layout_simps]:
  "sizeof T_ptdesc_t = 8" "alignof T_ptdesc_t = 8" "ctype_wf T_ptdesc_t" "natural T_ptdesc_t \<longleftrightarrow> True"
  by (simp_all add: T_ptdesc_t_def layout_simps)

definition T_pgprot_t :: ctype where
  "T_pgprot_t =
     Struct False [Fld ''pgprot'' T_ptdesc_t]"

lemma T_pgprot_t_layout [layout_simps]:
  "sizeof T_pgprot_t = 8" "alignof T_pgprot_t = 8" "ctype_wf T_pgprot_t" "natural T_pgprot_t \<longleftrightarrow> True"
  by (simp_all add: T_pgprot_t_def layout_simps)

definition T_vma_flags_t :: ctype where
  "T_vma_flags_t =
     Struct False [Fld ''__vma_flags'' (Arr c_long 1)]"

lemma T_vma_flags_t_layout [layout_simps]:
  "sizeof T_vma_flags_t = 8" "alignof T_vma_flags_t = 8" "ctype_wf T_vma_flags_t" "natural T_vma_flags_t \<longleftrightarrow> True"
  by (simp_all add: T_vma_flags_t_def layout_simps)

definition S_vm_userfaultfd_ctx :: ctype where
  "S_vm_userfaultfd_ctx =
     Struct False [Fld ''ctx'' Ptr]"

lemma S_vm_userfaultfd_ctx_layout [layout_simps]:
  "sizeof S_vm_userfaultfd_ctx = 8" "alignof S_vm_userfaultfd_ctx = 8" "ctype_wf S_vm_userfaultfd_ctx" "natural S_vm_userfaultfd_ctx \<longleftrightarrow> True"
  by (simp_all add: S_vm_userfaultfd_ctx_def layout_simps)

definition S_vm_area_struct :: ctype where
  "S_vm_area_struct =
     Struct False [Fld '''' (Union False [Fld '''' (Struct False [Fld ''vm_start'' c_long,
     Fld ''vm_end'' c_long]), Fld ''vm_freeptr'' T_freeptr_t]), Fld ''vm_mm'' Ptr,
     Fld ''vm_page_prot'' T_pgprot_t, Fld '''' (Union False [Fld ''vm_flags'' T_vm_flags_t,
     Fld ''flags'' T_vma_flags_t]), Fld ''vm_lock_seq'' c_int, Fld ''anon_vma_chain'' S_list_head,
     Fld ''anon_vma'' Ptr, Fld ''vm_ops'' Ptr, Fld ''vm_pgoff'' c_long, Fld ''vm_file'' Ptr,
     Fld ''vm_private_data'' Ptr, Fld ''swap_readahead_info'' T_atomic_long_t,
     Fld ''vm_policy'' Ptr, Fld ''numab_state'' Ptr, Fld ''vm_refcnt'' T_refcount_t,
     Fld ''shared'' (Struct False [Fld ''rb'' S_rb_node, Fld ''rb_subtree_last'' c_long]),
     Fld ''anon_name'' Ptr, Fld ''vm_userfaultfd_ctx'' S_vm_userfaultfd_ctx, Bit '''' 8 64]"

lemma S_vm_area_struct_layout [layout_simps]:
  "sizeof S_vm_area_struct = 192" "alignof S_vm_area_struct = 8" "ctype_wf S_vm_area_struct" "natural S_vm_area_struct \<longleftrightarrow> True"
  by (simp_all add: S_vm_area_struct_def layout_simps)

definition T_fop_flags_t :: ctype where
  "T_fop_flags_t =
     c_int"

lemma T_fop_flags_t_layout [layout_simps]:
  "sizeof T_fop_flags_t = 4" "alignof T_fop_flags_t = 4" "ctype_wf T_fop_flags_t" "natural T_fop_flags_t \<longleftrightarrow> True"
  by (simp_all add: T_fop_flags_t_def layout_simps)

definition S_file_operations :: ctype where
  "S_file_operations =
     Struct False [Fld ''owner'' Ptr, Fld ''fop_flags'' T_fop_flags_t, Fld ''llseek'' Ptr,
     Fld ''read'' Ptr, Fld ''write'' Ptr, Fld ''read_iter'' Ptr, Fld ''write_iter'' Ptr,
     Fld ''iopoll'' Ptr, Fld ''iterate_shared'' Ptr, Fld ''poll'' Ptr, Fld ''unlocked_ioctl'' Ptr,
     Fld ''compat_ioctl'' Ptr, Fld ''mmap'' Ptr, Fld ''open'' Ptr, Fld ''flush'' Ptr,
     Fld ''release'' Ptr, Fld ''fsync'' Ptr, Fld ''fasync'' Ptr, Fld ''lock'' Ptr,
     Fld ''get_unmapped_area'' Ptr, Fld ''check_flags'' Ptr, Fld ''flock'' Ptr,
     Fld ''splice_write'' Ptr, Fld ''splice_read'' Ptr, Fld ''splice_eof'' Ptr,
     Fld ''setlease'' Ptr, Fld ''fallocate'' Ptr, Fld ''show_fdinfo'' Ptr,
     Fld ''copy_file_range'' Ptr, Fld ''remap_file_range'' Ptr, Fld ''fadvise'' Ptr,
     Fld ''uring_cmd'' Ptr, Fld ''uring_cmd_iopoll'' Ptr, Fld ''mmap_prepare'' Ptr]"

lemma S_file_operations_layout [layout_simps]:
  "sizeof S_file_operations = 272" "alignof S_file_operations = 8" "ctype_wf S_file_operations" "natural S_file_operations \<longleftrightarrow> True"
  by (simp_all add: S_file_operations_def layout_simps)

end
