(* ===== verification/Kernel_Net.thy ===== *)
theory Kernel_Net
  imports Kernel_Base
begin

text \<open>
  Transcribed from \<open>vmlinux.h\<close>: the socket address and message types the network hooks take apart, with the socket types around them.
  \<open>S_\<close>, \<open>U_\<close> and \<open>T_\<close> stand for struct, union and typedef; leading underscores of a name are
  written \<open>x\<close>. The facts after a type are its size, its alignment and that it is well formed.
\<close>

definition T_xkernel_sa_family_t :: ctype where
  "T_xkernel_sa_family_t =
     c_short"

lemma T_xkernel_sa_family_t_layout [layout_simps]:
  "sizeof T_xkernel_sa_family_t = 2" "alignof T_xkernel_sa_family_t = 2" "ctype_wf T_xkernel_sa_family_t" "natural T_xkernel_sa_family_t \<longleftrightarrow> True"
  by (simp_all add: T_xkernel_sa_family_t_def layout_simps)

definition T_sa_family_t :: ctype where
  "T_sa_family_t =
     T_xkernel_sa_family_t"

lemma T_sa_family_t_layout [layout_simps]:
  "sizeof T_sa_family_t = 2" "alignof T_sa_family_t = 2" "ctype_wf T_sa_family_t" "natural T_sa_family_t \<longleftrightarrow> True"
  by (simp_all add: T_sa_family_t_def layout_simps)

definition S_sockaddr :: ctype where
  "S_sockaddr =
     Struct False [Fld ''sa_family'' T_sa_family_t, Fld ''sa_data'' (Arr c_char 14)]"

lemma S_sockaddr_layout [layout_simps]:
  "sizeof S_sockaddr = 16" "alignof S_sockaddr = 2" "ctype_wf S_sockaddr" "natural S_sockaddr \<longleftrightarrow> True"
  by (simp_all add: S_sockaddr_def layout_simps)

definition T_xbe16 :: ctype where
  "T_xbe16 =
     T_xu16"

lemma T_xbe16_layout [layout_simps]:
  "sizeof T_xbe16 = 2" "alignof T_xbe16 = 2" "ctype_wf T_xbe16" "natural T_xbe16 \<longleftrightarrow> True"
  by (simp_all add: T_xbe16_def layout_simps)

definition T_xbe32 :: ctype where
  "T_xbe32 =
     T_xu32"

lemma T_xbe32_layout [layout_simps]:
  "sizeof T_xbe32 = 4" "alignof T_xbe32 = 4" "ctype_wf T_xbe32" "natural T_xbe32 \<longleftrightarrow> True"
  by (simp_all add: T_xbe32_def layout_simps)

definition S_in_addr :: ctype where
  "S_in_addr =
     Struct False [Fld ''s_addr'' T_xbe32]"

lemma S_in_addr_layout [layout_simps]:
  "sizeof S_in_addr = 4" "alignof S_in_addr = 4" "ctype_wf S_in_addr" "natural S_in_addr \<longleftrightarrow> True"
  by (simp_all add: S_in_addr_def layout_simps)

definition S_sockaddr_in :: ctype where
  "S_sockaddr_in =
     Struct False [Fld ''sin_family'' T_xkernel_sa_family_t, Fld ''sin_port'' T_xbe16,
     Fld ''sin_addr'' S_in_addr, Fld ''__pad'' (Arr c_char 8)]"

lemma S_sockaddr_in_layout [layout_simps]:
  "sizeof S_sockaddr_in = 16" "alignof S_sockaddr_in = 4" "ctype_wf S_sockaddr_in" "natural S_sockaddr_in \<longleftrightarrow> True"
  by (simp_all add: S_sockaddr_in_def layout_simps)

definition S_iovec :: ctype where
  "S_iovec =
     Struct False [Fld ''iov_base'' Ptr, Fld ''iov_len'' T_xkernel_size_t]"

lemma S_iovec_layout [layout_simps]:
  "sizeof S_iovec = 16" "alignof S_iovec = 8" "ctype_wf S_iovec" "natural S_iovec \<longleftrightarrow> True"
  by (simp_all add: S_iovec_def layout_simps)

definition S_iov_iter :: ctype where
  "S_iov_iter =
     Struct False [Fld ''iter_type'' T_u8, Fld ''nofault'' c_bool, Fld ''data_source'' c_bool,
     Fld ''iov_offset'' T_size_t, Fld '''' (Union False [Fld ''__ubuf_iovec'' S_iovec,
     Fld '''' (Struct False [Fld '''' (Union False [Fld ''__iov'' Ptr, Fld ''kvec'' Ptr,
     Fld ''bvec'' Ptr, Fld ''folioq'' Ptr, Fld ''xarray'' Ptr, Fld ''ubuf'' Ptr]),
     Fld ''count'' T_size_t])]), Fld '''' (Union False [Fld ''nr_segs'' c_long,
     Fld ''folioq_slot'' T_u8, Fld ''xarray_start'' T_loff_t])]"

lemma S_iov_iter_layout [layout_simps]:
  "sizeof S_iov_iter = 40" "alignof S_iov_iter = 8" "ctype_wf S_iov_iter" "natural S_iov_iter \<longleftrightarrow> True"
  by (simp_all add: S_iov_iter_def layout_simps)

definition S_msghdr :: ctype where
  "S_msghdr =
     Struct False [Fld ''msg_name'' Ptr, Fld ''msg_namelen'' c_int, Fld ''msg_inq'' c_int,
     Fld ''msg_iter'' S_iov_iter, Fld '''' (Union False [Fld ''msg_control'' Ptr,
     Fld ''msg_control_user'' Ptr]), Bit ''msg_control_is_user'' 1 1, Bit ''msg_get_inq'' 1 1,
     Fld ''msg_flags'' c_int, Fld ''msg_controllen'' T_xkernel_size_t, Fld ''msg_iocb'' Ptr,
     Fld ''msg_ubuf'' Ptr, Fld ''sg_from_iter'' Ptr]"

lemma S_msghdr_layout [layout_simps]:
  "sizeof S_msghdr = 104" "alignof S_msghdr = 8" "ctype_wf S_msghdr" "natural S_msghdr \<longleftrightarrow> True"
  by (simp_all add: S_msghdr_def layout_simps)

definition T_socket_state :: ctype where
  "T_socket_state =
     c_enum"

lemma T_socket_state_layout [layout_simps]:
  "sizeof T_socket_state = 4" "alignof T_socket_state = 4" "ctype_wf T_socket_state" "natural T_socket_state \<longleftrightarrow> True"
  by (simp_all add: T_socket_state_def layout_simps)

definition S_socket_wq :: ctype where
  "S_socket_wq =
     Struct False [Fld ''wait'' T_wait_queue_head_t, Fld ''fasync_list'' Ptr, Fld ''flags'' c_long,
     Fld ''rcu'' S_callback_head, Bit '''' 8 64]"

lemma S_socket_wq_layout [layout_simps]:
  "sizeof S_socket_wq = 64" "alignof S_socket_wq = 8" "ctype_wf S_socket_wq" "natural S_socket_wq \<longleftrightarrow> True"
  by (simp_all add: S_socket_wq_def layout_simps)

definition S_socket :: ctype where
  "S_socket =
     Struct False [Fld ''state'' T_socket_state, Fld ''type'' c_short, Fld ''flags'' c_long,
     Fld ''file'' Ptr, Fld ''sk'' Ptr, Fld ''ops'' Ptr, Bit '''' 8 64, Bit '''' 8 64, Bit '''' 8 64,
     Fld ''wq'' S_socket_wq]"

lemma S_socket_layout [layout_simps]:
  "sizeof S_socket = 128" "alignof S_socket = 8" "ctype_wf S_socket" "natural S_socket \<longleftrightarrow> True"
  by (simp_all add: S_socket_def layout_simps)

definition T_xaddrpair :: ctype where
  "T_xaddrpair =
     T_xu64"

lemma T_xaddrpair_layout [layout_simps]:
  "sizeof T_xaddrpair = 8" "alignof T_xaddrpair = 8" "ctype_wf T_xaddrpair" "natural T_xaddrpair \<longleftrightarrow> True"
  by (simp_all add: T_xaddrpair_def layout_simps)

definition T_xportpair :: ctype where
  "T_xportpair =
     T_xu32"

lemma T_xportpair_layout [layout_simps]:
  "sizeof T_xportpair = 4" "alignof T_xportpair = 4" "ctype_wf T_xportpair" "natural T_xportpair \<longleftrightarrow> True"
  by (simp_all add: T_xportpair_def layout_simps)

definition T_possible_net_t :: ctype where
  "T_possible_net_t =
     Struct False [Fld ''net'' Ptr]"

lemma T_possible_net_t_layout [layout_simps]:
  "sizeof T_possible_net_t = 8" "alignof T_possible_net_t = 8" "ctype_wf T_possible_net_t" "natural T_possible_net_t \<longleftrightarrow> True"
  by (simp_all add: T_possible_net_t_def layout_simps)

definition S_in6_addr :: ctype where
  "S_in6_addr =
     Struct False [Fld ''in6_u'' (Union False [Fld ''u6_addr8'' (Arr T_xu8 16),
     Fld ''u6_addr16'' (Arr T_xbe16 8), Fld ''u6_addr32'' (Arr T_xbe32 4)])]"

lemma S_in6_addr_layout [layout_simps]:
  "sizeof S_in6_addr = 16" "alignof S_in6_addr = 4" "ctype_wf S_in6_addr" "natural S_in6_addr \<longleftrightarrow> True"
  by (simp_all add: S_in6_addr_def layout_simps)

definition S_hlist_nulls_node :: ctype where
  "S_hlist_nulls_node =
     Struct False [Fld ''next'' Ptr, Fld ''pprev'' Ptr]"

lemma S_hlist_nulls_node_layout [layout_simps]:
  "sizeof S_hlist_nulls_node = 16" "alignof S_hlist_nulls_node = 8" "ctype_wf S_hlist_nulls_node" "natural S_hlist_nulls_node \<longleftrightarrow> True"
  by (simp_all add: S_hlist_nulls_node_def layout_simps)

definition S_sock_common :: ctype where
  "S_sock_common =
     Struct False [Fld '''' (Union False [Fld ''skc_addrpair'' T_xaddrpair,
     Fld '''' (Struct False [Fld ''skc_daddr'' T_xbe32, Fld ''skc_rcv_saddr'' T_xbe32])]),
     Fld '''' (Union False [Fld ''skc_hash'' c_int, Fld ''skc_u16hashes'' (Arr T_xu16 2)]),
     Fld '''' (Union False [Fld ''skc_portpair'' T_xportpair,
     Fld '''' (Struct False [Fld ''skc_dport'' T_xbe16, Fld ''skc_num'' T_xu16])]),
     Fld ''skc_family'' c_short, Fld ''skc_state'' c_char, Bit ''skc_reuse'' 1 4,
     Bit ''skc_reuseport'' 1 1, Bit ''skc_ipv6only'' 1 1, Bit ''skc_net_refcnt'' 1 1,
     Bit ''skc_bypass_prot_mem'' 1 1, Fld ''skc_bound_dev_if'' c_int,
     Fld '''' (Union False [Fld ''skc_bind_node'' S_hlist_node,
     Fld ''skc_portaddr_node'' S_hlist_node]), Fld ''skc_prot'' Ptr,
     Fld ''skc_net'' T_possible_net_t, Fld ''skc_v6_daddr'' S_in6_addr,
     Fld ''skc_v6_rcv_saddr'' S_in6_addr, Fld ''skc_cookie'' T_atomic64_t,
     Fld '''' (Union False [Fld ''skc_flags'' c_long, Fld ''skc_listener'' Ptr,
     Fld ''skc_tw_dr'' Ptr]), Fld ''skc_dontcopy_begin'' (Arr c_int 0),
     Fld '''' (Union False [Fld ''skc_node'' S_hlist_node,
     Fld ''skc_nulls_node'' S_hlist_nulls_node]), Fld ''skc_tx_queue_mapping'' c_short,
     Fld ''skc_rx_queue_mapping'' c_short, Fld '''' (Union False [Fld ''skc_incoming_cpu'' c_int,
     Fld ''skc_rcv_wnd'' T_u32, Fld ''skc_tw_rcv_nxt'' T_u32]), Fld ''skc_refcnt'' T_refcount_t,
     Fld ''skc_dontcopy_end'' (Arr c_int 0), Fld '''' (Union False [Fld ''skc_rxhash'' T_u32,
     Fld ''skc_window_clamp'' T_u32, Fld ''skc_tw_snd_nxt'' T_u32])]"

lemma S_sock_common_layout [layout_simps]:
  "sizeof S_sock_common = 136" "alignof S_sock_common = 8" "ctype_wf S_sock_common" "natural S_sock_common \<longleftrightarrow> True"
  by (simp_all add: S_sock_common_def layout_simps)

definition S_sk_buff_list :: ctype where
  "S_sk_buff_list =
     Struct False [Fld ''next'' Ptr, Fld ''prev'' Ptr]"

lemma S_sk_buff_list_layout [layout_simps]:
  "sizeof S_sk_buff_list = 16" "alignof S_sk_buff_list = 8" "ctype_wf S_sk_buff_list" "natural S_sk_buff_list \<longleftrightarrow> True"
  by (simp_all add: S_sk_buff_list_def layout_simps)

definition S_sk_buff_head :: ctype where
  "S_sk_buff_head =
     Struct False [Fld '''' (Union False [Fld '''' (Struct False [Fld ''next'' Ptr, Fld ''prev'' Ptr]),
     Fld ''list'' S_sk_buff_list]), Fld ''qlen'' T_xu32, Fld ''lock'' T_spinlock_t]"

lemma S_sk_buff_head_layout [layout_simps]:
  "sizeof S_sk_buff_head = 24" "alignof S_sk_buff_head = 8" "ctype_wf S_sk_buff_head" "natural S_sk_buff_head \<longleftrightarrow> True"
  by (simp_all add: S_sk_buff_head_def layout_simps)

definition T_socket_lock_t :: ctype where
  "T_socket_lock_t =
     Struct False [Fld ''slock'' T_spinlock_t, Fld ''owned'' c_int, Fld ''wq'' T_wait_queue_head_t]"

lemma T_socket_lock_t_layout [layout_simps]:
  "sizeof T_socket_lock_t = 32" "alignof T_socket_lock_t = 8" "ctype_wf T_socket_lock_t" "natural T_socket_lock_t \<longleftrightarrow> True"
  by (simp_all add: T_socket_lock_t_def layout_simps)

definition T_netdev_features_t :: ctype where
  "T_netdev_features_t =
     T_u64"

lemma T_netdev_features_t_layout [layout_simps]:
  "sizeof T_netdev_features_t = 8" "alignof T_netdev_features_t = 8" "ctype_wf T_netdev_features_t" "natural T_netdev_features_t \<longleftrightarrow> True"
  by (simp_all add: T_netdev_features_t_def layout_simps)

definition S_qrwlock :: ctype where
  "S_qrwlock =
     Struct False [Fld '''' (Union False [Fld ''cnts'' T_atomic_t,
     Fld '''' (Struct False [Fld ''wlocked'' T_u8, Fld ''__lstate'' (Arr T_u8 3)])]),
     Fld ''wait_lock'' T_arch_spinlock_t]"

lemma S_qrwlock_layout [layout_simps]:
  "sizeof S_qrwlock = 8" "alignof S_qrwlock = 4" "ctype_wf S_qrwlock" "natural S_qrwlock \<longleftrightarrow> True"
  by (simp_all add: S_qrwlock_def layout_simps)

definition T_arch_rwlock_t :: ctype where
  "T_arch_rwlock_t =
     S_qrwlock"

lemma T_arch_rwlock_t_layout [layout_simps]:
  "sizeof T_arch_rwlock_t = 8" "alignof T_arch_rwlock_t = 4" "ctype_wf T_arch_rwlock_t" "natural T_arch_rwlock_t \<longleftrightarrow> True"
  by (simp_all add: T_arch_rwlock_t_def layout_simps)

definition S_rwlock :: ctype where
  "S_rwlock =
     Struct False [Fld ''raw_lock'' T_arch_rwlock_t]"

lemma S_rwlock_layout [layout_simps]:
  "sizeof S_rwlock = 8" "alignof S_rwlock = 4" "ctype_wf S_rwlock" "natural S_rwlock \<longleftrightarrow> True"
  by (simp_all add: S_rwlock_def layout_simps)

definition T_rwlock_t :: ctype where
  "T_rwlock_t =
     S_rwlock"

lemma T_rwlock_t_layout [layout_simps]:
  "sizeof T_rwlock_t = 8" "alignof T_rwlock_t = 4" "ctype_wf T_rwlock_t" "natural T_rwlock_t \<longleftrightarrow> True"
  by (simp_all add: T_rwlock_t_def layout_simps)

definition S_sock_cgroup_data :: ctype where
  "S_sock_cgroup_data =
     Struct False [Fld ''cgroup'' Ptr, Fld ''classid'' T_u32, Fld ''prioidx'' T_u16]"

lemma S_sock_cgroup_data_layout [layout_simps]:
  "sizeof S_sock_cgroup_data = 16" "alignof S_sock_cgroup_data = 8" "ctype_wf S_sock_cgroup_data" "natural S_sock_cgroup_data \<longleftrightarrow> True"
  by (simp_all add: S_sock_cgroup_data_def layout_simps)

definition T_netns_tracker :: ctype where
  "T_netns_tracker =
     Struct False []"

lemma T_netns_tracker_layout [layout_simps]:
  "sizeof T_netns_tracker = 0" "alignof T_netns_tracker = 1" "ctype_wf T_netns_tracker" "natural T_netns_tracker \<longleftrightarrow> True"
  by (simp_all add: T_netns_tracker_def layout_simps)

definition S_sock :: ctype where
  "S_sock =
     Struct False [Fld ''__sk_common'' S_sock_common,
     Fld ''__cacheline_group_begin__sock_write_rx'' (Arr T_xu8 0), Fld ''sk_drops'' T_atomic_t,
     Fld ''sk_peek_off'' T_xs32, Fld ''sk_error_queue'' S_sk_buff_head,
     Fld ''sk_receive_queue'' S_sk_buff_head,
     Fld ''sk_backlog'' (Struct False [Fld ''rmem_alloc'' T_atomic_t, Fld ''len'' c_int,
     Fld ''head'' Ptr, Fld ''tail'' Ptr]),
     Fld ''__cacheline_group_end__sock_write_rx'' (Arr T_xu8 0),
     Fld ''__cacheline_group_begin__sock_read_rx'' (Arr T_xu8 0), Fld ''sk_rx_dst'' Ptr,
     Fld ''sk_rx_dst_ifindex'' c_int, Fld ''sk_rx_dst_cookie'' T_u32, Fld ''sk_ll_usec'' c_int,
     Fld ''sk_napi_id'' c_int, Fld ''sk_busy_poll_budget'' T_u16, Fld ''sk_prefer_busy_poll'' T_u8,
     Fld ''sk_userlocks'' T_u8, Fld ''sk_rcvbuf'' c_int, Fld ''sk_filter'' Ptr,
     Fld '''' (Union False [Fld ''sk_wq'' Ptr, Fld ''sk_wq_raw'' Ptr]), Fld ''sk_data_ready'' Ptr,
     Fld ''sk_rcvtimeo'' c_long, Fld ''sk_rcvlowat'' c_int,
     Fld ''__cacheline_group_end__sock_read_rx'' (Arr T_xu8 0),
     Fld ''__cacheline_group_begin__sock_read_rxtx'' (Arr T_xu8 0), Fld ''sk_err'' c_int,
     Fld ''sk_socket'' Ptr, Fld ''sk_memcg'' Ptr, Fld ''sk_policy'' (Arr Ptr 2),
     Fld ''psp_assoc'' Ptr, Fld ''__cacheline_group_end__sock_read_rxtx'' (Arr T_xu8 0),
     Fld ''__cacheline_group_begin__sock_write_rxtx'' (Arr T_xu8 0),
     Fld ''sk_lock'' T_socket_lock_t, Fld ''sk_reserved_mem'' T_u32, Fld ''sk_forward_alloc'' c_int,
     Fld ''sk_tsflags'' T_u32, Fld ''__cacheline_group_end__sock_write_rxtx'' (Arr T_xu8 0),
     Fld ''__cacheline_group_begin__sock_write_tx'' (Arr T_xu8 0), Fld ''sk_write_pending'' c_int,
     Fld ''sk_omem_alloc'' T_atomic_t, Fld ''sk_err_soft'' c_int, Fld ''sk_wmem_queued'' c_int,
     Fld ''sk_wmem_alloc'' T_refcount_t, Fld ''sk_tsq_flags'' c_long,
     Fld '''' (Union False [Fld ''sk_send_head'' Ptr, Fld ''tcp_rtx_queue'' S_rb_root]),
     Fld ''sk_write_queue'' S_sk_buff_head, Fld ''sk_frag'' S_page_frag,
     Fld '''' (Union False [Fld ''sk_timer'' S_timer_list,
     Fld ''tcp_retransmit_timer'' S_timer_list, Fld ''mptcp_retransmit_timer'' S_timer_list]),
     Fld ''sk_pacing_rate'' c_long, Fld ''sk_zckey'' T_atomic_t, Fld ''sk_tskey'' T_atomic_t,
     Fld ''sk_tx_queue_mapping_jiffies'' c_long,
     Fld ''__cacheline_group_end__sock_write_tx'' (Arr T_xu8 0),
     Fld ''__cacheline_group_begin__sock_read_tx'' (Arr T_xu8 0),
     Fld ''sk_dst_pending_confirm'' T_u32, Fld ''sk_pacing_status'' T_u32,
     Fld ''sk_max_pacing_rate'' c_long, Fld ''sk_sndtimeo'' c_long, Fld ''sk_priority'' T_u32,
     Fld ''sk_mark'' T_u32, Fld ''sk_uid'' T_kuid_t, Fld ''sk_protocol'' T_u16,
     Fld ''sk_type'' T_u16, Fld ''sk_dst_cache'' Ptr, Fld ''sk_route_caps'' T_netdev_features_t,
     Fld ''sk_validate_xmit_skb'' Ptr, Fld ''sk_gso_type'' T_u16, Fld ''sk_gso_max_segs'' T_u16,
     Fld ''sk_gso_max_size'' c_int, Fld ''sk_allocation'' T_gfp_t, Fld ''sk_txhash'' T_u32,
     Fld ''sk_sndbuf'' c_int, Fld ''sk_pacing_shift'' T_u8, Fld ''sk_use_task_frag'' c_bool,
     Fld ''__cacheline_group_end__sock_read_tx'' (Arr T_xu8 0), Bit ''sk_gso_disabled'' 1 1,
     Bit ''sk_kern_sock'' 1 1, Bit ''sk_no_check_tx'' 1 1, Bit ''sk_no_check_rx'' 1 1,
     Fld ''sk_shutdown'' T_u8, Fld ''sk_lingertime'' c_long, Fld ''sk_prot_creator'' Ptr,
     Fld ''sk_callback_lock'' T_rwlock_t, Fld ''sk_ack_backlog'' T_u32,
     Fld ''sk_max_ack_backlog'' T_u32, Fld ''sk_ino'' c_long, Fld ''sk_peer_lock'' T_spinlock_t,
     Fld ''sk_bind_phc'' c_int, Fld ''sk_peer_pid'' Ptr, Fld ''sk_peer_cred'' Ptr,
     Fld ''sk_stamp'' T_ktime_t, Fld ''sk_disconnects'' c_int,
     Fld '''' (Union False [Fld ''sk_txrehash'' T_u8, Fld ''sk_scm_recv_flags'' T_u8,
     Fld '''' (Struct False [Bit ''sk_scm_credentials'' 1 1, Bit ''sk_scm_security'' 1 1,
     Bit ''sk_scm_pidfd'' 1 1, Bit ''sk_scm_rights'' 1 1, Bit ''sk_scm_unused'' 1 4])]),
     Fld ''sk_clockid'' T_u8, Bit ''sk_txtime_deadline_mode'' 1 1,
     Bit ''sk_txtime_report_errors'' 1 1, Bit ''sk_txtime_unused'' 1 6,
     Fld ''sk_bpf_cb_flags'' T_u8, Fld ''sk_user_data'' Ptr, Fld ''sk_security'' Ptr,
     Fld ''sk_cgrp_data'' S_sock_cgroup_data, Fld ''sk_state_change'' Ptr,
     Fld ''sk_write_space'' Ptr, Fld ''sk_error_report'' Ptr, Fld ''sk_backlog_rcv'' Ptr,
     Fld ''sk_destruct'' Ptr, Fld ''sk_reuseport_cb'' Ptr, Fld ''sk_bpf_storage'' Ptr,
     Fld ''sk_drop_counters'' Ptr, Fld '''' (Union False [Fld ''sk_rcu'' S_callback_head,
     Fld ''sk_freeptr'' T_freeptr_t]), Fld ''ns_tracker'' T_netns_tracker,
     Fld ''sk_user_frags'' S_xarray]"

lemma S_sock_layout [layout_simps]:
  "sizeof S_sock = 808" "alignof S_sock = 8" "ctype_wf S_sock" "natural S_sock \<longleftrightarrow> True"
  by (simp_all add: S_sock_def layout_simps)

definition T_xwsum :: ctype where
  "T_xwsum =
     T_xu32"

lemma T_xwsum_layout [layout_simps]:
  "sizeof T_xwsum = 4" "alignof T_xwsum = 4" "ctype_wf T_xwsum" "natural T_xwsum \<longleftrightarrow> True"
  by (simp_all add: T_xwsum_def layout_simps)

definition T_sk_buff_data_t :: ctype where
  "T_sk_buff_data_t =
     c_int"

lemma T_sk_buff_data_t_layout [layout_simps]:
  "sizeof T_sk_buff_data_t = 4" "alignof T_sk_buff_data_t = 4" "ctype_wf T_sk_buff_data_t" "natural T_sk_buff_data_t \<longleftrightarrow> True"
  by (simp_all add: T_sk_buff_data_t_def layout_simps)

definition S_sk_buff :: ctype where
  "S_sk_buff =
     Struct False [Fld '''' (Union False [Fld '''' (Struct False [Fld ''next'' Ptr, Fld ''prev'' Ptr,
     Fld '''' (Union False [Fld ''dev'' Ptr, Fld ''dev_scratch'' c_long])]),
     Fld ''rbnode'' S_rb_node, Fld ''list'' S_list_head, Fld ''ll_node'' S_llist_node]),
     Fld ''sk'' Ptr, Fld '''' (Union False [Fld ''tstamp'' T_ktime_t, Fld ''skb_mstamp_ns'' T_u64]),
     Fld ''cb'' (Arr c_char 48),
     Fld '''' (Union False [Fld '''' (Struct False [Fld ''_skb_refdst'' c_long,
     Fld ''destructor'' Ptr]), Fld ''tcp_tsorted_anchor'' S_list_head, Fld ''_sk_redir'' c_long]),
     Fld ''_nfct'' c_long, Fld ''len'' c_int, Fld ''data_len'' c_int, Fld ''mac_len'' T_xu16,
     Fld ''hdr_len'' T_xu16, Fld ''queue_mapping'' T_xu16, Fld ''__cloned_offset'' (Arr T_xu8 0),
     Bit ''cloned'' 1 1, Bit ''nohdr'' 1 1, Bit ''fclone'' 1 2, Bit ''peeked'' 1 1,
     Bit ''head_frag'' 1 1, Bit ''pfmemalloc'' 1 1, Bit ''pp_recycle'' 1 1,
     Fld ''active_extensions'' T_xu8,
     Fld '''' (Union False [Fld '''' (Struct False [Fld ''__pkt_type_offset'' (Arr T_xu8 0),
     Bit ''pkt_type'' 1 3, Bit ''ignore_df'' 1 1, Bit ''dst_pending_confirm'' 1 1,
     Bit ''ip_summed'' 1 2, Bit ''ooo_okay'' 1 1, Fld ''__mono_tc_offset'' (Arr T_xu8 0),
     Bit ''tstamp_type'' 1 2, Bit ''tc_at_ingress'' 1 1, Bit ''tc_skip_classify'' 1 1,
     Bit ''remcsum_offload'' 1 1, Bit ''csum_complete_sw'' 1 1, Bit ''csum_level'' 1 2,
     Bit ''inner_protocol_type'' 1 1, Bit ''l4_hash'' 1 1, Bit ''sw_hash'' 1 1,
     Bit ''wifi_acked_valid'' 1 1, Bit ''wifi_acked'' 1 1, Bit ''no_fcs'' 1 1,
     Bit ''encapsulation'' 1 1, Bit ''encap_hdr_csum'' 1 1, Bit ''csum_valid'' 1 1,
     Bit ''ndisc_nodetype'' 1 2, Bit ''ipvs_property'' 1 1, Bit ''nf_trace'' 1 1,
     Bit ''offload_fwd_mark'' 1 1, Bit ''offload_l3_fwd_mark'' 1 1, Bit ''redirected'' 1 1,
     Bit ''from_ingress'' 1 1, Bit ''nf_skip_egress'' 1 1, Bit ''decrypted'' 1 1,
     Bit ''slow_gro'' 1 1, Bit ''csum_not_inet'' 1 1, Bit ''unreadable'' 1 1, Bit ''tc_depth'' 1 2,
     Fld ''tc_index'' T_xu16, Fld ''alloc_cpu'' T_u16, Fld '''' (Union False [Fld ''csum'' T_xwsum,
     Fld '''' (Struct False [Fld ''csum_start'' T_xu16, Fld ''csum_offset'' T_xu16])]),
     Fld ''priority'' T_xu32, Fld ''skb_iif'' c_int, Fld ''hash'' T_xu32,
     Fld '''' (Union False [Fld ''vlan_all'' T_u32,
     Fld '''' (Struct False [Fld ''vlan_proto'' T_xbe16, Fld ''vlan_tci'' T_xu16])]),
     Fld '''' (Union False [Fld ''napi_id'' c_int, Fld ''sender_cpu'' c_int]),
     Fld ''secmark'' T_xu32, Fld '''' (Union False [Fld ''mark'' T_xu32,
     Fld ''reserved_tailroom'' T_xu32]), Fld '''' (Union False [Fld ''inner_protocol'' T_xbe16,
     Fld ''inner_ipproto'' T_xu8]), Fld ''inner_transport_header'' T_xu16,
     Fld ''inner_network_header'' T_xu16, Fld ''inner_mac_header'' T_xu16, Fld ''protocol'' T_xbe16,
     Fld ''transport_header'' T_xu16, Fld ''network_header'' T_xu16, Fld ''mac_header'' T_xu16]),
     Fld ''headers'' (Struct False [Fld ''__pkt_type_offset'' (Arr T_xu8 0), Bit ''pkt_type'' 1 3,
     Bit ''ignore_df'' 1 1, Bit ''dst_pending_confirm'' 1 1, Bit ''ip_summed'' 1 2,
     Bit ''ooo_okay'' 1 1, Fld ''__mono_tc_offset'' (Arr T_xu8 0), Bit ''tstamp_type'' 1 2,
     Bit ''tc_at_ingress'' 1 1, Bit ''tc_skip_classify'' 1 1, Bit ''remcsum_offload'' 1 1,
     Bit ''csum_complete_sw'' 1 1, Bit ''csum_level'' 1 2, Bit ''inner_protocol_type'' 1 1,
     Bit ''l4_hash'' 1 1, Bit ''sw_hash'' 1 1, Bit ''wifi_acked_valid'' 1 1, Bit ''wifi_acked'' 1 1,
     Bit ''no_fcs'' 1 1, Bit ''encapsulation'' 1 1, Bit ''encap_hdr_csum'' 1 1,
     Bit ''csum_valid'' 1 1, Bit ''ndisc_nodetype'' 1 2, Bit ''ipvs_property'' 1 1,
     Bit ''nf_trace'' 1 1, Bit ''offload_fwd_mark'' 1 1, Bit ''offload_l3_fwd_mark'' 1 1,
     Bit ''redirected'' 1 1, Bit ''from_ingress'' 1 1, Bit ''nf_skip_egress'' 1 1,
     Bit ''decrypted'' 1 1, Bit ''slow_gro'' 1 1, Bit ''csum_not_inet'' 1 1, Bit ''unreadable'' 1 1,
     Bit ''tc_depth'' 1 2, Fld ''tc_index'' T_xu16, Fld ''alloc_cpu'' T_u16,
     Fld '''' (Union False [Fld ''csum'' T_xwsum, Fld '''' (Struct False [Fld ''csum_start'' T_xu16,
     Fld ''csum_offset'' T_xu16])]), Fld ''priority'' T_xu32, Fld ''skb_iif'' c_int,
     Fld ''hash'' T_xu32, Fld '''' (Union False [Fld ''vlan_all'' T_u32,
     Fld '''' (Struct False [Fld ''vlan_proto'' T_xbe16, Fld ''vlan_tci'' T_xu16])]),
     Fld '''' (Union False [Fld ''napi_id'' c_int, Fld ''sender_cpu'' c_int]),
     Fld ''secmark'' T_xu32, Fld '''' (Union False [Fld ''mark'' T_xu32,
     Fld ''reserved_tailroom'' T_xu32]), Fld '''' (Union False [Fld ''inner_protocol'' T_xbe16,
     Fld ''inner_ipproto'' T_xu8]), Fld ''inner_transport_header'' T_xu16,
     Fld ''inner_network_header'' T_xu16, Fld ''inner_mac_header'' T_xu16, Fld ''protocol'' T_xbe16,
     Fld ''transport_header'' T_xu16, Fld ''network_header'' T_xu16, Fld ''mac_header'' T_xu16])]),
     Fld ''tail'' T_sk_buff_data_t, Fld ''end'' T_sk_buff_data_t, Fld ''head'' Ptr,
     Fld ''data'' Ptr, Fld ''truesize'' c_int, Fld ''users'' T_refcount_t, Fld ''extensions'' Ptr]"

lemma S_sk_buff_layout [layout_simps]:
  "sizeof S_sk_buff = 232" "alignof S_sk_buff = 8" "ctype_wf S_sk_buff" "natural S_sk_buff \<longleftrightarrow> True"
  by (simp_all add: S_sk_buff_def layout_simps)

end
