(* ===== verification/Kernel_Trace.thy ===== *)
theory Kernel_Trace
  imports Kernel_Base
begin

text \<open>
  Transcribed from \<open>vmlinux.h\<close>: the contexts of the tracepoints and the map and program types.
  \<open>S_\<close>, \<open>U_\<close> and \<open>T_\<close> stand for struct, union and typedef; leading underscores of a name are
  written \<open>x\<close>. The facts after a type are its size, its alignment and that it is well formed.
\<close>

definition S_trace_entry :: ctype where
  "S_trace_entry =
     Struct False [Fld ''type'' c_short, Fld ''flags'' c_char, Fld ''preempt_count'' c_char,
     Fld ''pid'' c_int]"

lemma S_trace_entry_layout [layout_simps]:
  "sizeof S_trace_entry = 8" "alignof S_trace_entry = 4" "ctype_wf S_trace_entry" "natural S_trace_entry \<longleftrightarrow> True"
  by (simp_all add: S_trace_entry_def layout_simps)

definition S_trace_event_raw_sys_enter :: ctype where
  "S_trace_event_raw_sys_enter =
     Struct False [Fld ''ent'' S_trace_entry, Fld ''id'' c_long, Fld ''args'' (Arr c_long 6),
     Fld ''__data'' (Arr c_char 0)]"

lemma S_trace_event_raw_sys_enter_layout [layout_simps]:
  "sizeof S_trace_event_raw_sys_enter = 64" "alignof S_trace_event_raw_sys_enter = 8" "ctype_wf S_trace_event_raw_sys_enter" "natural S_trace_event_raw_sys_enter \<longleftrightarrow> True"
  by (simp_all add: S_trace_event_raw_sys_enter_def layout_simps)

definition S_trace_event_raw_sched_process_template :: ctype where
  "S_trace_event_raw_sched_process_template =
     Struct False [Fld ''ent'' S_trace_entry, Fld ''__data_loc_comm'' T_u32, Fld ''pid'' T_pid_t,
     Fld ''prio'' c_int, Fld ''__data'' (Arr c_char 0)]"

lemma S_trace_event_raw_sched_process_template_layout [layout_simps]:
  "sizeof S_trace_event_raw_sched_process_template = 20" "alignof S_trace_event_raw_sched_process_template = 4" "ctype_wf S_trace_event_raw_sched_process_template" "natural S_trace_event_raw_sched_process_template \<longleftrightarrow> True"
  by (simp_all add: S_trace_event_raw_sched_process_template_def layout_simps)

definition S_bpf_map :: ctype where
  "S_bpf_map =
     Struct False [Fld ''sha'' (Arr T_u8 32), Fld ''ops'' Ptr, Fld ''inner_map_meta'' Ptr,
     Fld ''security'' Ptr, Fld ''map_type'' c_enum, Fld ''key_size'' T_u32,
     Fld ''value_size'' T_u32, Fld ''max_entries'' T_u32, Fld ''map_extra'' T_u64,
     Fld ''map_flags'' T_u32, Fld ''id'' T_u32, Fld ''record'' Ptr, Fld ''numa_node'' c_int,
     Fld ''btf_key_type_id'' T_u32, Fld ''btf_value_type_id'' T_u32,
     Fld ''btf_vmlinux_value_type_id'' T_u32, Fld ''btf'' Ptr, Fld ''objcg'' Ptr,
     Fld ''name'' (Arr c_char 16), Fld ''freeze_mutex'' S_mutex, Fld ''refcnt'' T_atomic64_t,
     Fld ''usercnt'' T_atomic64_t, Fld '''' (Union False [Fld ''work'' S_work_struct,
     Fld ''rcu'' S_callback_head]), Fld ''writecnt'' T_atomic64_t, Fld ''owner_lock'' T_spinlock_t,
     Fld ''owner'' Ptr, Fld ''bypass_spec_v1'' c_bool, Fld ''frozen'' c_bool,
     Fld ''free_after_mult_rcu_gp'' c_bool, Fld ''free_after_rcu_gp'' c_bool,
     Fld ''sleepable_refcnt'' T_atomic64_t, Fld ''elem_count'' Ptr, Fld ''cookie'' T_u64,
     Fld ''excl_prog_sha'' Ptr]"

lemma S_bpf_map_layout [layout_simps]:
  "sizeof S_bpf_map = 288" "alignof S_bpf_map = 8" "ctype_wf S_bpf_map" "natural S_bpf_map \<longleftrightarrow> True"
  by (simp_all add: S_bpf_map_def layout_simps)

definition S_sock_filter :: ctype where
  "S_sock_filter =
     Struct False [Fld ''code'' T_xu16, Fld ''jt'' T_xu8, Fld ''jf'' T_xu8, Fld ''k'' T_xu32]"

lemma S_sock_filter_layout [layout_simps]:
  "sizeof S_sock_filter = 8" "alignof S_sock_filter = 4" "ctype_wf S_sock_filter" "natural S_sock_filter \<longleftrightarrow> True"
  by (simp_all add: S_sock_filter_def layout_simps)

definition T_xs16 :: ctype where
  "T_xs16 =
     c_short"

lemma T_xs16_layout [layout_simps]:
  "sizeof T_xs16 = 2" "alignof T_xs16 = 2" "ctype_wf T_xs16" "natural T_xs16 \<longleftrightarrow> True"
  by (simp_all add: T_xs16_def layout_simps)

definition S_bpf_insn :: ctype where
  "S_bpf_insn =
     Struct False [Fld ''code'' T_xu8, Bit ''dst_reg'' 1 4, Bit ''src_reg'' 1 4, Fld ''off'' T_xs16,
     Fld ''imm'' T_xs32]"

lemma S_bpf_insn_layout [layout_simps]:
  "sizeof S_bpf_insn = 8" "alignof S_bpf_insn = 4" "ctype_wf S_bpf_insn" "natural S_bpf_insn \<longleftrightarrow> True"
  by (simp_all add: S_bpf_insn_def layout_simps)

definition S_bpf_prog :: ctype where
  "S_bpf_prog =
     Struct False [Fld ''pages'' T_u16, Bit ''jited'' 2 1, Bit ''jit_requested'' 2 1,
     Bit ''gpl_compatible'' 2 1, Bit ''cb_access'' 2 1, Bit ''dst_needed'' 2 1,
     Bit ''blinding_requested'' 2 1, Bit ''blinded'' 2 1, Bit ''is_func'' 2 1,
     Bit ''kprobe_override'' 2 1, Bit ''has_callchain_buf'' 2 1,
     Bit ''enforce_expected_attach_type'' 2 1, Bit ''call_get_stack'' 2 1,
     Bit ''call_get_func_ip'' 2 1, Bit ''call_session_cookie'' 2 1, Bit ''tstamp_type_access'' 2 1,
     Bit ''sleepable'' 2 1, Fld ''type'' c_enum, Fld ''expected_attach_type'' c_enum,
     Fld ''len'' T_u32, Fld ''jited_len'' T_u32,
     Fld '''' (Union False [Fld ''digest'' (Arr T_u8 32), Fld ''tag'' (Arr T_u8 8)]),
     Fld ''stats'' Ptr, Fld ''active'' Ptr, Fld ''bpf_func'' Ptr, Fld ''aux'' Ptr,
     Fld ''orig_prog'' Ptr,
     Fld '''' (Union False [Fld '''' (Struct False [Fld ''__empty_insns'' (Struct False []),
     Fld ''insns'' (Arr S_sock_filter 0)]),
     Fld '''' (Struct False [Fld ''__empty_insnsi'' (Struct False []),
     Fld ''insnsi'' (Arr S_bpf_insn 0)])])]"

lemma S_bpf_prog_layout [layout_simps]:
  "sizeof S_bpf_prog = 96" "alignof S_bpf_prog = 8" "ctype_wf S_bpf_prog" "natural S_bpf_prog \<longleftrightarrow> True"
  by (simp_all add: S_bpf_prog_def layout_simps)

definition S_ctl_table :: ctype where
  "S_ctl_table =
     Struct False [Fld ''procname'' Ptr, Fld ''data'' Ptr, Fld ''maxlen'' c_int, Fld ''mode'' T_umode_t,
     Fld ''proc_handler'' Ptr, Fld ''poll'' Ptr, Fld ''extra1'' Ptr, Fld ''extra2'' Ptr]"

lemma S_ctl_table_layout [layout_simps]:
  "sizeof S_ctl_table = 56" "alignof S_ctl_table = 8" "ctype_wf S_ctl_table" "natural S_ctl_table \<longleftrightarrow> True"
  by (simp_all add: S_ctl_table_def layout_simps)

end
