(* ===== verification/Kernel_Access.thy ===== *)
theory Kernel_Access
  imports Kernel_Task Kernel_Perf Kernel_Fs Kernel_Net Kernel_Trace Wire
begin

text \<open>
  How the programs read kernel objects: partial byte memory, \<open>BPF_CORE_READ\<close> as a load at the offset
  of a member path in the layout of the running kernel (a parameter: the offsets are relocated when
  the program is loaded), the memory-level form of \<open>pid_nr_in_agent_ns\<close> and of the read of
  \<open>handle_fork\<close>, what it means that memory holds an object, the translation on such memory, and the
  layouts of \<open>vmlinux.h\<close> the programs are compiled against.
\<close>

section \<open>Memory\<close>

text \<open>An address without a byte is not mapped.\<close>

type_synonym kmem = "u64 \<rightharpoonup> u8"

fun mem_bytes :: "kmem \<Rightarrow> u64 \<Rightarrow> nat \<Rightarrow> bytes option" where
  "mem_bytes mem a 0 = Some []"
| "mem_bytes mem a (Suc n) =
     (case mem a of None \<Rightarrow> None | Some b \<Rightarrow> map_option (Cons b) (mem_bytes mem (a + 1) n))"

text \<open>\<open>bpf_probe_read_kernel\<close> clears the destination when a byte cannot be read.\<close>

definition load :: "nat \<Rightarrow> kmem \<Rightarrow> u64 \<Rightarrow> 'a::len word" where
  "load n mem a = (case mem_bytes mem a n of None \<Rightarrow> 0 | Some bs \<Rightarrow> of_le bs)"

definition core_read32 :: "ctype \<Rightarrow> kmem \<Rightarrow> u64 \<Rightarrow> access list \<Rightarrow> u32" where
  "core_read32 t mem p path = load 4 mem (p + of_nat (offsetof t path))"

definition core_read64 :: "ctype \<Rightarrow> kmem \<Rightarrow> u64 \<Rightarrow> access list \<Rightarrow> u64" where
  "core_read64 t mem p path = load 8 mem (p + of_nat (offsetof t path))"

abbreviation nr_path :: "nat \<Rightarrow> access list" where
  "nr_path i \<equiv> [Dot ''numbers'', Idx i, Dot ''nr'']"

abbreviation ns_path :: "nat \<Rightarrow> access list" where
  "ns_path i \<equiv> [Dot ''numbers'', Idx i, Dot ''ns'']"

abbreviation inum_path :: "access list" where
  "inum_path \<equiv> [Dot ''ns'', Dot ''inum'']"

section \<open>The programs on memory\<close>

text \<open>\<open>tp\<close> and \<open>tn\<close> are the layouts of \<open>struct pid\<close> and \<open>struct pid_namespace\<close>.\<close>

definition ns_inum_core :: "ctype \<Rightarrow> ctype \<Rightarrow> kmem \<Rightarrow> u64 \<Rightarrow> nat \<Rightarrow> u32" where
  "ns_inum_core tp tn mem pid i = core_read32 tn mem (core_read64 tp mem pid (ns_path i)) inum_path"

definition pid_nr_core :: "ctype \<Rightarrow> ctype \<Rightarrow> kmem \<Rightarrow> u64 \<Rightarrow> u64 \<Rightarrow> u32" where
  "pid_nr_core tp tn mem ino pid =
     (if pid = 0 then 0
      else
        let lev = core_read32 tp mem pid [Dot ''level''] in
        if 0 \<le> lev \<and> ucast (ns_inum_core tp tn mem pid 0) = ino then core_read32 tp mem pid (nr_path 0)
        else if 1 \<le> lev \<and> ucast (ns_inum_core tp tn mem pid 1) = ino then core_read32 tp mem pid (nr_path 1)
        else if 2 \<le> lev \<and> ucast (ns_inum_core tp tn mem pid 2) = ino then core_read32 tp mem pid (nr_path 2)
        else if 3 \<le> lev \<and> ucast (ns_inum_core tp tn mem pid 3) = ino then core_read32 tp mem pid (nr_path 3)
        else 0)"

definition task_tgid_core :: "ctype \<Rightarrow> ctype \<Rightarrow> ctype \<Rightarrow> kmem \<Rightarrow> u64 \<Rightarrow> u64 \<Rightarrow> u32" where
  "task_tgid_core tt tp tn mem ino task =
     pid_nr_core tp tn mem ino (core_read64 tt mem task [Dot ''thread_pid''])"

section \<open>Objects in memory\<close>

text \<open>
  A member of the object at \<open>p\<close> holds the given bytes: the layout has the member, of that size, and
  memory has the bytes at its place. \<open>pid_at\<close> and \<open>task_at\<close> say that memory holds a PID object with its
  namespaces, or a task with its PID. Only the \<open>level + 1\<close> numbers of a PID are required to be there;
  what follows them may be anything or not mapped.
\<close>

definition member_is :: "ctype \<Rightarrow> kmem \<Rightarrow> u64 \<Rightarrow> access list \<Rightarrow> bytes \<Rightarrow> bool" where
  "member_is t mem p path bs \<longleftrightarrow>
     (case resolve t path of
        None \<Rightarrow> False
      | Some (off, u) \<Rightarrow> sizeof u = length bs \<and> mem_bytes mem (p + of_nat (off div 8)) (length bs) = Some bs)"

definition pid_at :: "ctype \<Rightarrow> ctype \<Rightarrow> kmem \<Rightarrow> u64 \<Rightarrow> kpid \<Rightarrow> bool" where
  "pid_at tp tn mem a p \<longleftrightarrow>
     a \<noteq> 0 \<and> kpid_wf p \<and> member_is tp mem a [Dot ''level''] (to_le 4 (level p)) \<and>
     (\<forall>i < length (numbers p).
        member_is tp mem a (nr_path i) (to_le 4 (nr (numbers p ! i))) \<and>
        (\<exists>ns. member_is tp mem a (ns_path i) (to_le 8 ns) \<and>
           member_is tn mem ns inum_path (to_le 4 (ns_inum (numbers p ! i)))))"

definition task_at :: "ctype \<Rightarrow> ctype \<Rightarrow> ctype \<Rightarrow> kmem \<Rightarrow> u64 \<Rightarrow> task_struct \<Rightarrow> bool" where
  "task_at tt tp tn mem a task \<longleftrightarrow>
     (\<exists>q. member_is tt mem a [Dot ''thread_pid''] (to_le 8 q) \<and>
        (case thread_pid task of None \<Rightarrow> q = 0 | Some p \<Rightarrow> pid_at tp tn mem q p))"

lemma core_read_member:
  "member_is t mem p path (to_le 4 x) \<Longrightarrow> core_read32 t mem p path = x"
  "member_is t mem p path (to_le 8 y) \<Longrightarrow> core_read64 t mem p path = y"
  by (auto simp: member_is_def core_read32_def core_read64_def offsetof_def load_def simp del: to_le.simps
      split: option.splits)

lemma pid_reads:
  assumes "pid_at tp tn mem a p"
  shows "core_read32 tp mem a [Dot ''level''] = level p"
    and "of_nat i \<le> level p \<Longrightarrow> i < 4 \<Longrightarrow> core_read32 tp mem a (nr_path i) = nr (numbers p ! i)"
    and "of_nat i \<le> level p \<Longrightarrow> i < 4 \<Longrightarrow> ns_inum_core tp tn mem a i = ns_inum (numbers p ! i)"
proof -
  have i: "i < length (numbers p)" if "of_nat i \<le> level p" "i < 4"
    using that assms by (simp add: pid_at_def kpid_wf_def word_le_nat_alt unat_of_nat)
  show "core_read32 tp mem a [Dot ''level''] = level p"
    using assms core_read_member(1) unfolding pid_at_def by blast
  show "core_read32 tp mem a (nr_path i) = nr (numbers p ! i)" if "of_nat i \<le> level p" "i < 4"
    using assms i [OF that] core_read_member(1) unfolding pid_at_def by blast
  show "ns_inum_core tp tn mem a i = ns_inum (numbers p ! i)" if "of_nat i \<le> level p" "i < 4"
    using assms i [OF that] core_read_member unfolding pid_at_def ns_inum_core_def by metis
qed

lemma pid_nr_core_at:
  assumes "pid_at tp tn mem a p"
  shows "pid_nr_core tp tn mem ino a = nr_in_ns ino p"
proof -
  have step: "(if of_nat i \<le> level p \<and> ucast (ns_inum_core tp tn mem a i) = ino then core_read32 tp mem a (nr_path i) else x) =
      (if of_nat i \<le> level p \<and> ucast (ns_inum (numbers p ! i)) = ino then nr (numbers p ! i) else x)" if "i < 4" for i x
    using pid_reads(2,3) [OF assms _ that] by auto
  have "a \<noteq> 0" "kpid_wf p" using assms by (simp_all add: pid_at_def)
  moreover from \<open>a \<noteq> 0\<close> have "pid_nr_core tp tn mem ino a = pid_nr_in_agent_ns ino (Some p)"
    using step [of 0] step [of 1] step [of 2] step [of 3]
    by (simp add: pid_nr_core_def pid_nr_in_agent_ns_def pid_reads(1) [OF assms] Let_def
        del: One_nat_def cong: if_cong split del: if_split)
  ultimately show ?thesis by (simp add: pid_nr_in_agent_ns_eq)
qed

section \<open>Layouts the programs are compiled against\<close>

text \<open>The types a program takes members of, directly or through \<open>BPF_CORE_READ\<close>.\<close>

definition read_types :: "ctype list" where
  "read_types =
     [S_task_struct, S_pid, S_pid_namespace, S_linux_binprm, S_file, S_path, S_msghdr, S_sockaddr,
      S_sockaddr_in, S_trace_event_raw_sys_enter, S_bpf_pidns_info]"

lemma read_types_wf: "t \<in> set read_types \<Longrightarrow> ctype_wf t"
  by (auto simp: read_types_def layout_simps)

text \<open>
  For every kernel type the programs read, a member path with indexes inside the
  declared arrays designates a well-formed object at a byte address inside the type, aligned to its
  own alignment unless something is packed, and the size of the type is a multiple of its alignment.
\<close>

theorem kernel_reads_in_bounds:
  assumes "t \<in> set read_types" "resolve t path = Some (off, u)" "in_bounds t path"
  shows "8 dvd off \<and> off + 8 * sizeof u \<le> 8 * sizeof t \<and> ctype_wf u \<and>
    (natural t \<longrightarrow> 8 * alignof u dvd off) \<and> alignof t dvd sizeof t"
  using resolve_sub [OF assms(2,3) read_types_wf [OF assms(1)]]
    alignof_dvd_sizeof [OF read_types_wf [OF assms(1)]]
  by (auto simp: sub_ok_def)

lemma level_offset: "resolve S_pid [Dot ''level''] = Some (32, c_int)"
  by (simp add: S_pid_def layout_simps)

theorem kernel_reads_in_bounds_witness:
  "8 dvd (32 :: nat) \<and> 32 + 8 * sizeof c_int \<le> 8 * sizeof S_pid"
  using kernel_reads_in_bounds [OF _ level_offset]
  by (simp add: read_types_def) (simp add: S_pid_def layout_simps)

section \<open>The translation on memory\<close>

text \<open>
  C31 (refinement): the translation of process ids on kernel memory: when memory holds a PID object
  with its namespaces, in whatever layouts the running kernel has, the chain of reads returns the
  number the PID has at the outermost of its first four levels whose namespace has the given inode,
  and 0 when there is none. Nothing behind the numbers of the object's own levels has to be
  readable. For a task the translation of \<open>handle_fork\<close> computes what it computes on the task.
\<close>

theorem pid_translation_on_memory:
  assumes "pid_at tp tn mem a p" "task_at tt tp tn mem b task"
  shows "pid_nr_core tp tn mem ino a =
      (case find (\<lambda>u. ucast (ns_inum u) = ino) (take 4 (numbers p)) of None \<Rightarrow> 0 | Some u \<Rightarrow> nr u) \<and>
    task_tgid_core tt tp tn mem ino b = task_tgid_in_agent_ns ino task"
proof
  show "pid_nr_core tp tn mem ino a =
      (case find (\<lambda>u. ucast (ns_inum u) = ino) (take 4 (numbers p)) of None \<Rightarrow> 0 | Some u \<Rightarrow> nr u)"
    using pid_nr_core_at [OF assms(1)] by (simp add: nr_in_ns_def)
  obtain q where q: "core_read64 tt mem b [Dot ''thread_pid''] = q"
    "case thread_pid task of None \<Rightarrow> q = 0 | Some p \<Rightarrow> pid_at tp tn mem q p"
    using assms(2) core_read_member(2) unfolding task_at_def by blast
  show "task_tgid_core tt tp tn mem ino b = task_tgid_in_agent_ns ino task"
  proof (cases "thread_pid task")
    case None
    then show ?thesis using q
      by (simp add: task_tgid_core_def task_tgid_in_agent_ns_def pid_nr_core_def pid_nr_in_agent_ns_def)
  next
    case (Some p')
    then have at: "pid_at tp tn mem q p'" using q(2) by simp
    then have "kpid_wf p'" by (simp add: pid_at_def)
    then show ?thesis using q(1) Some pid_nr_core_at [OF at]
      by (simp add: task_tgid_core_def task_tgid_in_agent_ns_def pid_nr_in_agent_ns_eq)
  qed
qed

text \<open>A task in the layouts of \<open>vmlinux.h\<close>, with a PID at level 1, for a concrete run.\<close>

lemma thread_pid_member: "resolve S_task_struct [Dot ''thread_pid''] = Some (8 * 2008, Ptr)"
  by (simp add: S_task_struct_def layout_simps)

lemma pid_members:
  "resolve S_pid (nr_path i) = Some (8 * (128 + 16 * i), c_int)"
  "resolve S_pid (ns_path i) = Some (8 * (136 + 16 * i), Ptr)"
  "resolve S_pid_namespace inum_path = Some (8 * 344, c_int)"
proof -
  show "resolve S_pid (nr_path i) = Some (8 * (128 + 16 * i), c_int)"
    "resolve S_pid (ns_path i) = Some (8 * (136 + 16 * i), Ptr)"
    by (simp_all add: S_pid_def layout_simps) (simp_all add: S_upid_def layout_simps)
  show "resolve S_pid_namespace inum_path = Some (8 * 344, c_int)"
    by (simp add: S_pid_namespace_def layout_simps) (simp add: S_ns_common_def layout_simps)
qed

fun put :: "u64 \<Rightarrow> bytes \<Rightarrow> kmem \<Rightarrow> kmem" where
  "put a [] mem = mem"
| "put a (b # bs) mem = (put (a + 1) bs mem)(a \<mapsto> b)"

lemma mem_bytes_cong: "(\<And>i. i < n \<Longrightarrow> mem (a + of_nat i) = mem' (a + of_nat i)) \<Longrightarrow> mem_bytes mem a n = mem_bytes mem' a n"
proof (induction n arbitrary: a)
  case (Suc n)
  have "mem_bytes mem (a + 1) n = mem_bytes mem' (a + 1) n"
    by (rule Suc.IH) (use Suc.prems [of "Suc _"] in \<open>simp add: add.assoc\<close>)
  moreover have "mem a = mem' a" using Suc.prems [of 0] by simp
  ultimately show ?case by (simp split: option.splits)
qed simp

lemma put_outside: "(\<And>j. j < length bs \<Longrightarrow> x \<noteq> a + of_nat j) \<Longrightarrow> put a bs mem x = mem x"
proof (induction bs arbitrary: a)
  case (Cons b bs)
  have "put (a + 1) bs mem x = mem x"
    by (rule Cons.IH) (use Cons.prems [of "Suc _"] in \<open>simp add: add.assoc\<close>)
  moreover have "x \<noteq> a" using Cons.prems [of 0] by simp
  ultimately show ?case by simp
qed simp

lemma unat_offset: "unat (a :: u64) + n \<le> 2 ^ 64 \<Longrightarrow> i < n \<Longrightarrow> unat (a + of_nat i) = unat a + i"
  by (simp add: unat_word_ariths unat_of_nat)

lemma mem_bytes_put:
  "unat a + length bs \<le> 2 ^ 64 \<Longrightarrow> mem_bytes (put a bs mem) a (length bs) = Some bs"
  "unat a + n \<le> 2 ^ 64 \<Longrightarrow> unat c + length bs \<le> 2 ^ 64 \<Longrightarrow> unat a + n \<le> unat c \<or> unat c + length bs \<le> unat a \<Longrightarrow>
     mem_bytes (put c bs mem) a n = mem_bytes mem a n"
proof -
  show "mem_bytes (put a bs mem) a (length bs) = Some bs" if "unat a + length bs \<le> 2 ^ 64"
    using that
  proof (induction bs arbitrary: a)
    case (Cons b bs)
    show ?case
    proof (cases "bs = []")
      case False
      then have "unat (a + 1) = unat a + 1" using Cons.prems unat_offset [of a "Suc (length bs)" 1] by simp
      then have "mem_bytes (put (a + 1) bs mem) (a + 1) (length bs) = Some bs" using Cons by simp
      moreover have "mem_bytes (put a (b # bs) mem) (a + 1) (length bs) = mem_bytes (put (a + 1) bs mem) (a + 1) (length bs)"
      proof (rule mem_bytes_cong)
        fix i assume "i < length bs"
        then have "unat (a + of_nat (Suc i)) = unat a + Suc i" using Cons.prems by (intro unat_offset) auto
        then have "a + 1 + of_nat i \<noteq> a" by (auto simp: add.assoc)
        then show "put a (b # bs) mem (a + 1 + of_nat i) = put (a + 1) bs mem (a + 1 + of_nat i)" by simp
      qed
      moreover have "put a (b # bs) mem a = Some b" by simp
      ultimately show ?thesis by (simp del: put.simps)
    qed simp
  qed simp
  show "mem_bytes (put c bs mem) a n = mem_bytes mem a n"
    if "unat a + n \<le> 2 ^ 64" "unat c + length bs \<le> 2 ^ 64" "unat a + n \<le> unat c \<or> unat c + length bs \<le> unat a"
  proof (rule mem_bytes_cong)
    fix i assume i: "i < n"
    show "put c bs mem (a + of_nat i) = mem (a + of_nat i)"
    proof (rule put_outside)
      fix j assume "j < length bs"
      then have "unat (a + of_nat i) \<noteq> unat (c + of_nat j)"
        using that i unat_offset [OF that(1) i] unat_offset [OF that(2), of j] by auto
      then show "a + of_nat i \<noteq> c + of_nat j" by auto
    qed
  qed
qed

definition sample_memory :: kmem where
  "sample_memory =
     put (0x1000 + 2008) (to_le 8 (0x2000 :: u64)) (put (0x2000 + 4) (to_le 4 (1 :: u32))
     (put (0x2000 + 128) (to_le 4 (500 :: u32)) (put (0x2000 + 136) (to_le 8 (0x3000 :: u64))
     (put (0x2000 + 144) (to_le 4 (5 :: u32)) (put (0x2000 + 152) (to_le 8 (0x4000 :: u64))
     (put (0x3000 + 344) (to_le 4 (8 :: u32)) (put (0x4000 + 344) (to_le 4 (9 :: u32)) Map.empty)))))))"

definition sample_kpid :: kpid where
  "sample_kpid = \<lparr>level = 1, numbers = [\<lparr>nr = 500, ns_inum = 8\<rparr>, \<lparr>nr = 5, ns_inum = 9\<rparr>]\<rparr>"

lemma sample_bytes:
  "mem_bytes sample_memory 6104 8 = Some (to_le 8 (0x2000 :: u64))"
  "mem_bytes sample_memory 8196 4 = Some (to_le 4 (1 :: u32))"
  "mem_bytes sample_memory 8320 4 = Some (to_le 4 (500 :: u32))"
  "mem_bytes sample_memory 8328 8 = Some (to_le 8 (0x3000 :: u64))"
  "mem_bytes sample_memory 8336 4 = Some (to_le 4 (5 :: u32))"
  "mem_bytes sample_memory 8344 8 = Some (to_le 8 (0x4000 :: u64))"
  "mem_bytes sample_memory 12632 4 = Some (to_le 4 (8 :: u32))"
  "mem_bytes sample_memory 16728 4 = Some (to_le 4 (9 :: u32))"
  unfolding sample_memory_def
  by (simp_all add: mem_bytes_put(2) mem_bytes_put(1) [of _ "to_le 4 _", simplified]
      mem_bytes_put(1) [of _ "to_le 8 _", simplified] del: to_le.simps)

lemma sample_task_at:
  "pid_at S_pid S_pid_namespace sample_memory 0x2000 sample_kpid"
  "task_at S_task_struct S_pid S_pid_namespace sample_memory 0x1000
     \<lparr>t_pid = 500, t_tgid = 500, thread_pid = Some sample_kpid\<rparr>"
proof -
  have ints: "sizeof c_int = 4" "sizeof Ptr = 8" by simp_all
  have two: "i < length (numbers sample_kpid) \<Longrightarrow> i = 0 \<or> i = 1" for i by (auto simp: sample_kpid_def)
  show pid: "pid_at S_pid S_pid_namespace sample_memory 0x2000 sample_kpid"
    unfolding pid_at_def
  proof (intro conjI allI impI)
    show "member_is S_pid sample_memory 0x2000 [Dot ''level''] (to_le 4 (level sample_kpid))"
      by (simp add: member_is_def level_offset sample_kpid_def sample_bytes ints del: to_le.simps resolve.simps)
    fix i assume i: "i < length (numbers sample_kpid)"
    show "member_is S_pid sample_memory 0x2000 (nr_path i) (to_le 4 (nr (numbers sample_kpid ! i)))"
      using two [OF i]
      by (auto simp: member_is_def pid_members sample_kpid_def sample_bytes ints simp del: to_le.simps resolve.simps)
    have "member_is S_pid sample_memory 0x2000 (ns_path i) (to_le 8 (0x3000 + of_nat i * 0x1000 :: u64)) \<and>
        member_is S_pid_namespace sample_memory (0x3000 + of_nat i * 0x1000) inum_path
          (to_le 4 (ns_inum (numbers sample_kpid ! i)))"
      using two [OF i]
      by (auto simp: member_is_def pid_members sample_kpid_def sample_bytes ints simp del: to_le.simps resolve.simps)
    then show "\<exists>ns. member_is S_pid sample_memory 0x2000 (ns_path i) (to_le 8 ns) \<and>
        member_is S_pid_namespace sample_memory ns inum_path (to_le 4 (ns_inum (numbers sample_kpid ! i)))"
      by blast
  qed (simp_all add: sample_kpid_def kpid_wf_def)
  have "member_is S_task_struct sample_memory 0x1000 [Dot ''thread_pid''] (to_le 8 (0x2000 :: u64))"
    by (simp add: member_is_def thread_pid_member sample_bytes ints del: to_le.simps resolve.simps)
  then show "task_at S_task_struct S_pid S_pid_namespace sample_memory 0x1000
     \<lparr>t_pid = 500, t_tgid = 500, thread_pid = Some sample_kpid\<rparr>"
    using pid by (auto simp: task_at_def)
qed

theorem pid_translation_on_memory_witness:
  "pid_nr_core S_pid S_pid_namespace sample_memory 9 0x2000 = 5 \<and>
   task_tgid_core S_task_struct S_pid S_pid_namespace sample_memory 9 0x1000 =
     task_tgid_in_agent_ns 9 \<lparr>t_pid = 500, t_tgid = 500, thread_pid = Some sample_kpid\<rparr>"
  using pid_translation_on_memory [OF sample_task_at, of 9] by (simp add: sample_kpid_def)

end
