(* ===== verification/Tracking.thy ===== *)
theory Tracking
  imports Monitor
begin

text \<open>
  The life of the supervised process tree against \<open>tracked_pids\<close>: a step relation in which
  processes fork, threads are cloned, threads exit and observed system calls happen, each step
  running the tracepoint of \<open>monitor.bpf.c\<close> that the kernel fires. \<open>live\<close> is the set of live
  threads as (thread id, process id) in the agent's namespace; \<open>agents\<close> is the ghost set of the
  launched process and its descendants.
\<close>

record world =
  mon :: monitor
  live :: "(u32 \<times> u32) set"
  agents :: "u32 set"

text \<open>
  Exits are told apart by what they leave behind, forks by whether the map has a free entry.
\<close>

datatype proc_label =
  Spawn | Spawn_full | Clone | Exit_worker | Exit_last | Exit_leader_early | Observe

definition fresh_tid :: "u32 \<Rightarrow> world \<Rightarrow> bool" where
  "fresh_tid c w \<longleftrightarrow> c \<noteq> 0 \<and> (\<forall>t p. (t, p) \<in> live w \<longrightarrow> t \<noteq> c \<and> p \<noteq> c)"

definition mon_full :: "monitor \<Rightarrow> bool" where
  "mon_full m \<longleftrightarrow> 8192 \<le> length (m_tracked_pids m)"

inductive proc_step :: "proc_label \<Rightarrow> world \<Rightarrow> world \<Rightarrow> bool" where
  spawn: "\<lbrakk>(t, p) \<in> live w; mon_current_nspids (k :: unit kernel) (mon w) = Some (t, p);
     t_pid child = t_tgid child; task_tgid_in_agent_ns (m_pidns_ino (mon w)) child = c;
     fresh_tid c w; lab = (if mon_full (mon w) then Spawn_full else Spawn)\<rbrakk>
   \<Longrightarrow> proc_step lab w
     \<lparr>mon = handle_fork k slot parent child (mon w), live = insert (c, c) (live w),
      agents = (if p \<in> agents w then insert c (agents w) else agents w - {c})\<rparr>"
| clone: "\<lbrakk>(t, p) \<in> live w; mon_current_nspids (k :: unit kernel) (mon w) = Some (t, p);
     t_pid child \<noteq> t_tgid child; fresh_tid c w\<rbrakk>
   \<Longrightarrow> proc_step Clone w
     \<lparr>mon = handle_fork k slot parent child (mon w), live = insert (c, p) (live w),
      agents = agents w\<rparr>"
| exit: "\<lbrakk>(t, p) \<in> live w; mon_current_nspids (k :: unit kernel) (mon w) = Some (t, p);
     lab = (if t \<noteq> p then Exit_worker
            else if \<exists>t'. t' \<noteq> t \<and> (t', p) \<in> live w then Exit_leader_early else Exit_last)\<rbrakk>
   \<Longrightarrow> proc_step lab w
     \<lparr>mon = handle_exit k (mon w), live = live w - {(t, p)}, agents = agents w\<rparr>"
| openat: "proc_step Observe w (w\<lparr>mon := handle_openat (k :: unit kernel) slot path (mon w)\<rparr>)"
| connect: "proc_step Observe w (w\<lparr>mon := handle_connect (k :: unit kernel) slot a (mon w)\<rparr>)"
| execve: "proc_step Observe w (w\<lparr>mon := handle_execve (k :: unit kernel) slot path av (mon w)\<rparr>)"

inductive_cases proc_stepE: "proc_step lab w w'"

text \<open>Runs that use only the given kinds of steps.\<close>

inductive proc_run :: "proc_label set \<Rightarrow> world \<Rightarrow> world \<Rightarrow> bool" for L where
  none: "proc_run L w w"
| snoc: "\<lbrakk>proc_run L w w'; proc_step lab w' w''; lab \<in> L\<rbrakk> \<Longrightarrow> proc_run L w w''"

text \<open>
  The launch: \<open>main.go\<close> puts the PID of the started agent, stopped under ptrace, into the map
  before it lets it run.
\<close>

definition launched :: "u64 \<Rightarrow> u64 \<Rightarrow> u32 \<Rightarrow> event list \<Rightarrow> (u32 \<times> u32) set \<Rightarrow> world" where
  "launched dev ino root evs others =
     \<lparr>mon = \<lparr>m_pidns_dev = dev, m_pidns_ino = ino,
             m_tracked_pids = snd (hash_update 8192 [] root 1), events = evs\<rparr>,
      live = insert (root, root) others, agents = {root}\<rparr>"

section \<open>The invariant\<close>

text \<open>
  Thread ids are unique, every live process has its leader, and the map holds exactly the live
  processes of the agent's tree.
\<close>

definition tids_ok :: "(u32 \<times> u32) set \<Rightarrow> bool" where
  "tids_ok ts \<longleftrightarrow> (\<forall>t p. (t, p) \<in> ts \<longrightarrow> (p, p) \<in> ts \<and> (\<forall>p'. (t, p') \<in> ts \<longrightarrow> p' = p))"

definition tracking_exact :: "world \<Rightarrow> bool" where
  "tracking_exact w \<longleftrightarrow>
     (\<forall>p. mon_tracked (mon w) p \<longleftrightarrow> (p, p) \<in> live w \<and> p \<in> agents w)"

definition orderly :: "proc_label set" where
  "orderly = {Spawn, Clone, Exit_worker, Exit_last, Observe}"

definition world_inv :: "world \<Rightarrow> bool" where
  "world_inv w \<longleftrightarrow> tids_ok (live w) \<and> tracking_exact w"

lemma fork_tracked_iff:
  assumes "mon_current_nspids k m = Some (t, p)" "t_pid child = t_tgid child" "\<not> mon_full m"
    "task_tgid_in_agent_ns (m_pidns_ino m) child = c" "c \<noteq> 0"
  shows "mon_tracked (handle_fork k slot parent child m) q \<longleftrightarrow> mon_tracked m q \<or> mon_tracked m p \<and> q = c"
  using assms hm.lookup_update [of 8192 "m_tracked_pids m" c 1]
  by (auto simp: mon_tracked_def track_simps mon_full_def split: if_splits)

lemma clone_tracked_iff:
  "t_pid child \<noteq> t_tgid child \<Longrightarrow> mon_tracked (handle_fork k slot parent child m) q = mon_tracked m q"
  by (simp add: handle_fork_def)

lemma exit_tracked_iff:
  "mon_current_nspids k m = Some (t, p) \<Longrightarrow>
   mon_tracked (handle_exit k m) q \<longleftrightarrow> mon_tracked m q \<and> q \<noteq> t"
  by (auto simp: mon_tracked_def track_simps hm.lookup_delete)

lemma observe_tracked_iff:
  "mon_tracked (handle_openat k slot path m) q = mon_tracked m q"
  "mon_tracked (handle_connect k slot a m) q = mon_tracked m q"
  "mon_tracked (handle_execve k slot path av m) q = mon_tracked m q"
  by (simp_all add: mon_tracked_def track_simps)

lemma proc_step_inv:
  assumes "proc_step lab w w'" "lab \<in> orderly" "world_inv w"
  shows "world_inv w'"
  using assms
proof (cases rule: proc_step.cases)
  case (spawn t p k child c slot parent)
  have nf: "\<not> mon_full (mon w)" and c0: "c \<noteq> 0"
    and fr: "\<And>t p. (t, p) \<in> live w \<Longrightarrow> t \<noteq> c \<and> p \<noteq> c"
    using spawn assms(2) by (auto simp: orderly_def fresh_tid_def split: if_splits)
  have inv: "tids_ok (live w)" "tracking_exact w" using assms(3) by (auto simp: world_inv_def)
  note trk = fork_tracked_iff [OF spawn(3,4) nf spawn(5) c0, of slot parent]
  have p: "mon_tracked (mon w) p \<longleftrightarrow> p \<in> agents w"
    using inv spawn(2) by (auto simp: tracking_exact_def tids_ok_def)
  have "tids_ok (insert (c, c) (live w))"
    using inv(1) fr unfolding tids_ok_def by blast
  moreover have "tracking_exact w'"
    using inv(2) fr unfolding tracking_exact_def spawn(1) by (auto simp: trk p)
  ultimately show ?thesis by (simp add: world_inv_def spawn(1))
next
  case (clone t p k child c slot parent)
  have fr: "\<And>t p. (t, p) \<in> live w \<Longrightarrow> t \<noteq> c \<and> p \<noteq> c"
    using clone by (auto simp: fresh_tid_def)
  have inv: "tids_ok (live w)" "tracking_exact w" using assms(3) by (auto simp: world_inv_def)
  have "tids_ok (insert (c, p) (live w))"
    using inv(1) fr clone(3) unfolding tids_ok_def by blast
  moreover have "tracking_exact w'"
    using inv(2) fr clone(3) unfolding tracking_exact_def clone(2)
    by (auto simp: clone_tracked_iff [OF clone(5)])
  ultimately show ?thesis by (simp add: world_inv_def clone(2))
next
  case (exit t p k)
  have inv: "tids_ok (live w)" "tracking_exact w" using assms(3) by (auto simp: world_inv_def)
  have last: "t = p \<Longrightarrow> (t', p) \<in> live w \<Longrightarrow> t' = t" for t'
    using exit assms(2) by (auto simp: orderly_def split: if_splits)
  have "tids_ok (live w - {(t, p)})"
    using inv(1) last unfolding tids_ok_def by blast
  moreover have "tracking_exact w'"
    using inv exit(2) last unfolding tracking_exact_def tids_ok_def exit(1)
    by (auto simp: exit_tracked_iff [OF exit(3)])
  ultimately show ?thesis by (simp add: world_inv_def exit(1))
qed (auto simp: world_inv_def tracking_exact_def observe_tracked_iff)

lemma launched_inv:
  assumes "tids_ok (insert (root, root) others)"
  shows "world_inv (launched dev ino root evs others)"
  using assms
  by (auto simp: world_inv_def tracking_exact_def launched_def mon_tracked_def hash_update_def
      hash_lookup_def)

lemma proc_run_inv:
  assumes "proc_run orderly w w'" "world_inv w"
  shows "world_inv w'"
  using assms
proof (induction rule: proc_run.induct)
  case (none w)
  then show ?case .
next
  case (snoc w w' lab w'')
  then show ?case using proc_step_inv by blast
qed

text \<open>Steps never touch the namespace the map's keys belong to.\<close>

lemma proc_step_namespace:
  "proc_step lab w w' \<Longrightarrow>
   m_pidns_dev (mon w') = m_pidns_dev (mon w) \<and> m_pidns_ino (mon w') = m_pidns_ino (mon w)"
  by (erule proc_stepE) (simp_all add: track_simps)

lemma proc_run_namespace:
  "proc_run L w w' \<Longrightarrow>
   m_pidns_dev (mon w') = m_pidns_dev (mon w) \<and> m_pidns_ino (mon w') = m_pidns_ino (mon w)"
  by (induction rule: proc_run.induct) (auto dest: proc_step_namespace)

section \<open>How a process leaves the list early\<close>

text \<open>
  The exit of the leader drops the process whatever other threads are alive; a fork into a full
  map leaves the child off the list.
\<close>

lemma leader_exit_untracks:
  "mon_current_nspids k m = Some (p, p) \<Longrightarrow> \<not> mon_tracked (handle_exit k m) p"
  by (simp add: exit_tracked_iff)

lemma fork_full_untracked:
  assumes "mon_full m" "\<not> mon_tracked m (task_tgid_in_agent_ns (m_pidns_ino m) child)"
  shows "\<not> mon_tracked (handle_fork k slot parent child m)
           (task_tgid_in_agent_ns (m_pidns_ino m) child)"
  using assms
  by (auto simp: mon_tracked_def track_simps mon_full_def hash_update_def split: option.splits)

text \<open>A kernel whose current task has the given ids in every namespace, for concrete runs.\<close>

definition task_kernel :: "u32 \<Rightarrow> u32 \<Rightarrow> unit kernel" where
  "task_kernel t p =
     \<lparr>ns_current_pid_tgid = (\<lambda>_ _. Some (t, p)), ktime_get_ns = 0, current_comm = zeros 16,
      ringbuf_has_room = False, d_path = (\<lambda>_ b. (0, b)), path_d_path = (\<lambda>_ b. (0, b))\<rparr>"

lemma task_kernel_current: "mon_current_nspids (task_kernel t p) m = Some (t, p)"
  by (simp add: mon_current_nspids_def task_kernel_def)

lemma early_exit_run:
  assumes "p \<noteq> 0" "c \<noteq> 0" "c \<noteq> p"
  shows "\<exists>w. proc_run {Clone, Exit_leader_early} (launched dev ino p evs {}) w \<and>
           (c, p) \<in> live w \<and> p \<in> agents w \<and> \<not> mon_tracked (mon w) p"
proof -
  let ?w0 = "launched dev ino p evs {}" and ?k = "task_kernel p p"
  let ?child = "\<lparr>t_pid = 1, t_tgid = 0, thread_pid = None\<rparr>"
  define w1 where "w1 = \<lparr>mon = handle_fork ?k undefined undefined ?child (mon ?w0),
      live = insert (c, p) (live ?w0), agents = agents ?w0\<rparr>"
  define w2 where "w2 = \<lparr>mon = handle_exit ?k (mon w1), live = live w1 - {(p, p)}, agents = agents w1\<rparr>"
  have "proc_step Clone ?w0 w1"
    unfolding w1_def using assms
    by (intro proc_step.clone [where t = p]) (auto simp: launched_def task_kernel_current fresh_tid_def)
  moreover have "proc_step Exit_leader_early w1 w2"
    unfolding w2_def using assms
    by (intro proc_step.exit) (auto simp: w1_def launched_def task_kernel_current)
  ultimately have "proc_run {Clone, Exit_leader_early} ?w0 w2"
    by (meson proc_run.none proc_run.snoc insertI1 insertI2)
  moreover have "\<not> mon_tracked (mon w2) p"
    unfolding w2_def by (simp add: leader_exit_untracks task_kernel_current)
  moreover have "(c, p) \<in> live w2" "p \<in> agents w2"
    using assms by (auto simp: w2_def w1_def launched_def)
  ultimately show ?thesis by blast
qed

section \<open>Properties\<close>

text \<open>
  C9 (invariant): from the launch on, through any sequence of forks, thread creations, thread
  exits and observed calls in which the map has room and no leader exits before its threads, the
  list holds exactly the live processes of the agent's tree, and every live agent thread's process
  is on it.
\<close>

theorem tracking_exact_on_orderly_runs:
  assumes "tids_ok (insert (root, root) others)"
    and "proc_run orderly (launched dev ino root evs others) w"
  shows "(\<forall>p. mon_tracked (mon w) p \<longleftrightarrow> (p, p) \<in> live w \<and> p \<in> agents w) \<and>
    (\<forall>t p. (t, p) \<in> live w \<longrightarrow> (mon_tracked (mon w) p \<longleftrightarrow> p \<in> agents w))"
  using proc_run_inv [OF assms(2) launched_inv [OF assms(1)]]
  by (auto simp: world_inv_def tracking_exact_def tids_ok_def)

theorem tracking_exact_on_orderly_runs_witness:
  "\<exists>w. proc_run orderly (launched 3 9 42 [] {(1, 1)}) w \<and> (50, 50) \<in> live w \<and>
     mon_tracked (mon w) 50 \<and> \<not> mon_tracked (mon w) 1"
proof -
  let ?w0 = "launched 3 9 42 [] {(1, 1)}"
  let ?w1 = "\<lparr>mon = handle_fork (mon_kernel 42 42) sample_slot sample_child sample_child (mon ?w0),
      live = insert (50, 50) (live ?w0), agents = insert 50 (agents ?w0)\<rparr>"
  have "proc_step Spawn ?w0 ?w1"
    using proc_step.spawn [of 42 42 ?w0 "mon_kernel 42 42" sample_child 50 Spawn sample_slot sample_child]
    by (simp add: launched_def sample_child_def task_tgid_in_agent_ns_def pid_nr_in_agent_ns_def
        fresh_tid_def mon_full_def hash_update_def hash_lookup_def)
  then have run: "proc_run orderly ?w0 ?w1"
    by (rule proc_run.snoc [OF proc_run.none]) (simp add: orderly_def)
  have "tids_ok (insert (42, 42) {(1, 1)})" by (auto simp: tids_ok_def)
  from tracking_exact_on_orderly_runs [OF this run] run show ?thesis
    by (intro exI [of _ ?w1]) (auto simp: launched_def)
qed

text \<open>
  C36 (error): a process whose leader thread exits before its other threads leaves the list while
  a thread of it is alive: from the launch there is a run of one thread creation and the leader's
  exit after which a live thread of the agent belongs to a process that is not tracked.
\<close>

theorem leader_exit_escape:
  assumes "p \<noteq> 0" "c \<noteq> 0" "c \<noteq> p"
  shows "\<exists>w. proc_run {Clone, Exit_leader_early} (launched dev ino p evs {}) w \<and>
    (c, p) \<in> live w \<and> p \<in> agents w \<and> \<not> mon_tracked (mon w) p"
  using assms by (rule early_exit_run)

theorem leader_exit_escape_witness:
  "\<exists>w. proc_run {Clone, Exit_leader_early} (launched 3 9 42 [] {}) w \<and>
    (43, 42) \<in> live w \<and> 42 \<in> agents w \<and> \<not> mon_tracked (mon w) 42"
  using leader_exit_escape [of 42 43 3 9 "[]"] by simp

text \<open>
  A fork while the list holds its 8192 entries leaves the child off the list.
\<close>

theorem full_map_escape:
  assumes "8192 \<le> length (m_tracked_pids m)"
    and "\<not> mon_tracked m (task_tgid_in_agent_ns (m_pidns_ino m) child)"
  shows "\<not> mon_tracked (handle_fork k slot parent child m) (task_tgid_in_agent_ns (m_pidns_ino m) child)"
  using assms by (intro fork_full_untracked) (simp_all add: mon_full_def)

theorem full_map_escape_witness:
  "\<not> mon_tracked (handle_fork (mon_kernel 100 100) sample_slot sample_child sample_child
       \<lparr>m_pidns_dev = 3, m_pidns_ino = 9,
        m_tracked_pids = map (\<lambda>i. (of_nat i, 1)) [100..<8292], events = []\<rparr>) 50"
proof -
  define xs :: "nat list" where "xs = [100..<8292]"
  let ?m = "\<lparr>m_pidns_dev = 3, m_pidns_ino = 9, m_tracked_pids = map (\<lambda>i. (of_nat i, 1)) xs, events = []\<rparr>"
  have xs: "\<forall>i \<in> set xs. 100 \<le> i \<and> i < 8292" "length xs = 8192"
    unfolding xs_def by (simp_all only: set_upt atLeastLessThan_iff length_upt) simp_all
  have nr: "task_tgid_in_agent_ns (m_pidns_ino ?m) sample_child = 50"
    by (simp add: task_tgid_in_agent_ns_def sample_child_def pid_nr_in_agent_ns_def)
  have "(of_nat i :: u32) \<noteq> 50" if "i \<in> set xs" for i
    using that xs(1) by (auto simp: word_unat_eq_iff unat_of_nat dest!: bspec)
  then have "map_of (map (\<lambda>i. (of_nat i :: u32, 1 :: u8)) xs) 50 = None"
    by (auto simp: map_of_eq_None_iff)
  then have "\<not> mon_tracked ?m 50" by (simp add: mon_tracked_def hash_lookup_def)
  then show ?thesis
    using full_map_escape [of ?m sample_child "mon_kernel 100 100" sample_slot sample_child] xs(2)
    unfolding nr xs_def [symmetric] by simp
qed

lemma proc_step_capacity:
  "proc_step lab w w' \<Longrightarrow> hash_wf 8192 (m_tracked_pids (mon w)) \<Longrightarrow> hash_wf 8192 (m_tracked_pids (mon w'))"
  by (erule proc_stepE) (auto simp: track_simps hm.wf_update hm.wf_delete split: option.splits)

text \<open>
  On every run, orderly or not, the list has no duplicate process and at most 8192
  entries.
\<close>

theorem tracked_pids_capacity:
  assumes "proc_run L (launched dev ino root evs others) w"
  shows "hash_wf 8192 (m_tracked_pids (mon w))"
  using assms
proof (induction "launched dev ino root evs others" w rule: proc_run.induct)
  case none
  then show ?case by (simp add: launched_def hash_wf_def hash_update_def hash_lookup_def)
next
  case (snoc w' lab w'')
  then show ?case using proc_step_capacity by blast
qed

theorem tracked_pids_capacity_witness:
  "hash_wf 8192 (m_tracked_pids (mon (launched 3 9 42 [] {})))"
  using tracked_pids_capacity [OF proc_run.none] .

end
