(* ===== verification/Policy_Effect.thy ===== *)
theory Policy_Effect
  imports Daemon
begin

text \<open>
  The way of a policy through the program: from the file to the verdict of the kernel hook, and
  from the verdict back to the text the agent reads. The first half composes \<open>loadAllPolicies\<close>,
  the loading of the tables and \<open>check_file_open\<close>; the second composes the report of a denial,
  the violation loop of the daemon and the hook process.
\<close>

section \<open>From the policy file to the verdict\<close>

lemma configured_file_open:
  assumes "enforcer_wf s0" "configure E pf port dev ino net_ok dns_ok s0 = Inr (l, s)"
    and "distinct (map fst pf)" "length pf < 2 ^ 32 - 1"
    and "(name, p) \<in> set pf" "\<not> ap_Confine p" "pat \<in> set (ap_PathPatterns p)"
    and "normalizePathSuffix (TrimPrefix pat (str ''**/'')) = Inr suf" "suffix suf path"
  obtains pol where "file_open_denial s path = Some pol"
proof -
  note c = configured [OF assms(1,2)]
  obtain q where "q \<in> set (pathPatterns l)" "Pattern q = TrimPrefix pat [0x2a, 0x2a, SLASH]"
    using loaded_path_rule(2) [OF c(1) assms(3-7)] by blast
  then have "first_path_policy (pathPatterns l) path \<noteq> None"
    using assms(8,9) by (auto simp: first_path_policy_def find_None_iff)
  then have "credential_rule s path \<noteq> None" using c(3) [of path] by auto
  then have "file_open_denial s path \<noteq> None" by (auto simp: file_open_denial_def)
  then show ?thesis using that by blast
qed

text \<open>A denial under a configured enforcer carries the number of a policy of the file.\<close>

lemma configured_denial_policy:
  assumes "enforcer_wf s0" "configure E pf port dev ino net_ok dns_ok s0 = Inr (l, s)"
    and "distinct (map fst pf)" "length pf < 2 ^ 32 - 1" "file_open_denial s path = Some pol"
  shows "\<exists>r p. policyByID l pol = Some r \<and> rp_ID r = pol \<and> (rp_Name r, p) \<in> set pf \<and>
    rp_Feedback r = ap_Feedback p \<and> (rp_Kind r = KindPath \<or> rp_Kind r = KindWorkspace)"
proof -
  obtain r where r: "policyByID l pol = Some r" "rp_Kind r = KindPath \<or> rp_Kind r = KindWorkspace"
    using file_open_number [OF assms(1,2,4,5)] by (auto simp: resolves_to_def)
  with registry_from_file [OF configured(1) [OF assms(1,2)] assms(3,4) r(1)] show ?thesis by blast
qed

text \<open>
  C5 (safety): from the policy file to the kernel: when the start of the daemon succeeds on a
  policy file, every path pattern of every policy that does not confine is enforced: a tracked
  task's open of a name ending in the pattern's normal form is denied, and the report carries
  the number of a policy of the file, under which the registry holds its name and feedback.
\<close>

theorem policy_file_enforced:
  assumes "enforcer_wf s0" "configure E pf port dev ino net_ok dns_ok s0 = Inr (l, s)"
    and "distinct (map fst pf)" "length pf < 2 ^ 32 - 1"
    and "(name, p) \<in> set pf" "\<not> ap_Confine p" "pat \<in> set (ap_PathPatterns p)"
    and "normalizePathSuffix (TrimPrefix pat (str ''**/'')) = Inr suf" "suffix suf path"
    and "tracked_caller k s = Some pid"
    and "d_path_resolves (d_path k) 256 (f_path fobj) path" "length path < 255"
  shows "\<exists>pol r q. hook_outcome k pid (Some (pol, path)) s (check_file_open k fobj s) \<and>
    policyByID l pol = Some r \<and> rp_ID r = pol \<and> (rp_Name r, q) \<in> set pf \<and>
    rp_Feedback r = ap_Feedback q \<and> (rp_Kind r = KindPath \<or> rp_Kind r = KindWorkspace)"
proof -
  obtain pol where pol: "file_open_denial s path = Some pol"
    using configured_file_open [OF assms(1-9)] by blast
  with file_open_outcome [OF configured(2) [OF assms(1,2)] assms(10-12)]
    configured_denial_policy [OF assms(1-4) pol] show ?thesis by auto
qed

text \<open>The start of the daemon on a policy file with one path pattern.\<close>

lemma sample_suffix:
  "normalizePathSuffix (TrimPrefix (str ''**/.env'') (str ''**/'')) = Inr str_env"
  using normalize_env by (simp add: TrimPrefix_def)

definition sample_loaded :: loaded_policies where
  "sample_loaded = no_policies\<lparr>pathPatterns := [\<lparr>Pattern = [0x2e, 0x65, 0x6e, 0x76], PolicyID = 1\<rparr>],
     policyByID := [1 \<mapsto> resolved (str ''creds'') sample_path_policy 1 KindPath]\<rparr>"

lemma sample_loads: "loadAllPolicies E [(str ''creds'', sample_path_policy)] = Inr sample_loaded"
  by (simp add: loadAllPolicies_def by_name_def load_policy_def sample_path_policy_def empty_policy_def
      no_policies_def resolved_def TrimPrefix_def sample_loaded_def)

lemma sample_loaded_simps [simp]:
  "pathPatterns sample_loaded = [\<lparr>Pattern = [0x2e, 0x65, 0x6e, 0x76], PolicyID = 1\<rparr>]"
  "commandPatterns sample_loaded = []" "workspacePolicy sample_loaded = None" "proxyPolicy sample_loaded = None"
  "policyByID sample_loaded = [1 \<mapsto> resolved (str ''creds'') sample_path_policy 1 KindPath]"
  by (simp_all add: sample_loaded_def no_policies_def)

lemma sample_configure:
  "\<exists>s. configure E [(str ''creds'', sample_path_policy)] 8080 3 4 True True sample = Inr (sample_loaded, s) \<and>
     tracked_caller (string_kernel 42 42) s = Some 42"
proof -
  let ?s1 = "set_switches sample_loaded True True (set_constants sample_loaded 8080 3 4 sample)"
  let ?t = "pattern_ent str_env 1 # replicate 15 empty_ent"
  have wf: "enforcer_wf ?s1" using sample_wf by simp
  then have len: "length (blocked_path_patterns ?s1) = 16" "length (blocked_command_patterns ?s1) = 16"
    by (simp_all add: enforcer_wf_def)
  have path: "applyPathPatterns (blocked_path_patterns ?s1) (pathPatterns sample_loaded) = Inr ?t"
    using sample_path_load [OF len(1)] by simp
  have cmd: "applyCommandPatterns (blocked_command_patterns ?s1) [] = Inr (replicate 16 empty_ent)"
    using store_from_0 [of "blocked_command_patterns ?s1" "replicate 16 empty_ent"] len(2)
    by (simp add: applyCommandPatterns_def slot_limits)
  let ?s2 = "?s1\<lparr>blocked_path_patterns := ?t, blocked_command_patterns := replicate 16 empty_ent\<rparr>"
  have "enforcer_wf ?s2"
    using loaded_commands(1) [OF loaded_paths(1) [OF wf path], of "[]"] cmd by simp
  then obtain s where ws: "applyWorkspacePolicy ?s2 None = Inr s" using unloaded_workspace by blast
  have "tracked_caller (string_kernel 42 42) ?s2 = Some 42"
    by (simp add: tracked_caller_def current_nspids_def set_switches_def set_constants_def sample_def
        string_kernel_def hash_lookup_def)
  then have "tracked_caller (string_kernel 42 42) s = Some 42"
    using applyWorkspacePolicy_caller [OF ws] by metis
  moreover have "configure E [(str ''creds'', sample_path_policy)] 8080 3 4 True True sample = Inr (sample_loaded, s)"
    using path cmd ws
    by (simp add: configure_def apply_loaded_def sample_loads Let_def fatal_def del: str_simps)
  ultimately show ?thesis by blast
qed

theorem policy_file_enforced_witness:
  "\<exists>s pol. hook_outcome (string_kernel 42 42) 42 (Some (pol, str_ws @ str_env)) s
     (check_file_open (string_kernel 42 42) \<lparr>f_path = str_ws @ str_env\<rparr> s) \<and>
     policyByID sample_loaded pol \<noteq> None"
proof -
  obtain s where s: "configure sample_os [(str ''creds'', sample_path_policy)] 8080 3 4 True True sample =
      Inr (sample_loaded, s)" "tracked_caller (string_kernel 42 42) s = Some 42"
    using sample_configure by blast
  have "d_path_resolves (d_path (string_kernel 42 42)) 256 (f_path \<lparr>f_path = str_ws @ str_env\<rparr>) (str_ws @ str_env)"
    by (simp add: string_d_path_resolves)
  moreover have "\<not> ap_Confine sample_path_policy" "str ''**/.env'' \<in> set (ap_PathPatterns sample_path_policy)"
    by (simp_all add: sample_path_policy_def empty_policy_def)
  ultimately obtain pol r where
    "hook_outcome (string_kernel 42 42) 42 (Some (pol, str_ws @ str_env)) s
       (check_file_open (string_kernel 42 42) \<lparr>f_path = str_ws @ str_env\<rparr> s)"
    "policyByID sample_loaded pol = Some r"
    using policy_file_enforced [OF sample_wf s(1) _ _ _ _ _ sample_suffix _ s(2), of "str ''creds''" sample_path_policy
        "str_ws @ str_env" "\<lparr>f_path = str_ws @ str_env\<rparr>"]
    by (auto simp: suffix_def simp del: str_simps sample_loaded_simps)
  then show ?thesis by blast
qed

section \<open>From the verdict to the agent\<close>

text \<open>The report of a denied open: well formed, and of a policy of the file.\<close>

lemma denied_open_report:
  assumes "enforcer_wf s0" "configure E pf port dev ino net_ok dns_ok s0 = Inr (l, s)"
    and "distinct (map fst pf)" "length pf < 2 ^ 32 - 1" "kernel_wf k" "ringbuf_has_room k"
    and "tracked_caller k s = Some pid" "d_path_resolves (d_path k) 256 (f_path fobj) path" "length path < 255"
    and "fst (check_file_open k fobj s) = - EPERM"
  obtains v r where "violations (snd (check_file_open k fobj s)) = violations s @ [v]" "violation_wf v"
    "v_pid v = pid" "cstr (detail v) = path" "policyByID l (policy_type v) = Some r"
    "rp_Kind r = KindPath \<or> rp_Kind r = KindWorkspace"
proof -
  note wf = configured(2) [OF assms(1,2)]
  note out = file_open_outcome [OF wf assms(7-9)]
  obtain pol where pol: "file_open_denial s path = Some pol"
    using out assms(10) by (cases "file_open_denial s path") (auto simp: hook_outcome_def EPERM_def)
  then obtain v where v: "violations (snd (check_file_open k fobj s)) = violations s @ [v]"
      "v_pid v = pid" "policy_type v = pol" "cstr (detail v) = path"
    using out assms(6) by (auto simp: hook_outcome_def)
  have "violation_wf v"
    using file_open.keeps_wf [OF assms(5) wf, of fobj] v(1) by (simp add: enforcer_wf_def)
  then show ?thesis using that [OF v(1) _ v(2,4)] configured_denial_policy [OF assms(1-4) pol] v(3) by auto
qed

text \<open>The row a violation of such a policy leaves.\<close>

lemma file_violation_row:
  assumes "P pol = Some r" "rp_Kind r = KindPath \<or> rp_Kind r = KindWorkspace"
    and "e = table_row n (violation_row P A pid pol comm path reason sid src ts sent)"
  shows "er_AgentPid e = pid" "er_PolicyViolated e = Some (rp_Name r)" "er_Path e = strPtr path"
    "er_FeedbackSent e = sent"
  using assms by (auto simp: table_row_def violation_row_def policyNameForID_def eventTypeForPolicy_def Let_def)

text \<open>
  C6 (liveness): from the kernel's denial to the agent: when an open of the agent is denied
  under a configured policy file, the violation loop turns the report into feedback for the
  active session, the session's next post-tool hook prints the policy's feedback for that
  path, and the newest blocked row of the audit table names the process, the policy and
  the path and is marked as sent. The file system accepts the writes, the codec returns the
  reason it stored, and the feedback text is not blank.
\<close>

theorem feedback_reaches_agent:
  assumes "enforcer_wf s0" "configure E pf port dev ino net_ok dns_ok s0 = Inr (l, s)"
    and "distinct (map fst pf)" "length pf < 2 ^ 32 - 1" "kernel_wf k" "ringbuf_has_room k"
    and "tracked_caller k s = Some pid" "d_path_resolves (d_path k) 256 (f_path fobj) path" "length path < 255"
    and "fst (check_file_open k fobj s) = - EPERM"
    and "dm_policies D = policyByID l" "dm_db D = Some t" "de_db_ok X"
    and "first_hook_id (take 3 reads) = Some sid" "post_event i sid"
    and "\<forall>q. mkdir_ok (de_fs X) q \<and> write_ok (de_fs X) q" "\<forall>q. remove_ok (de_fs X) q"
    and "\<forall>v. unmarshal_reason (de_codec X) (marshal_pending (de_codec X) v) = Some (pv_Reason v)"
    and "\<forall>pol \<in> dom (policyByID l). TrimSpace (formatFeedbackReason (de_verbs X) (policyByID l) pol path) \<noteq> []"
  shows "\<exists>v r D' row. violations (snd (check_file_open k fobj s)) = violations s @ [v] \<and>
    policyByID l (policy_type v) = Some r \<and> D' = handle_violation X reads (raw_violation v) D \<and>
    snd (runHook (de_codec X) (de_fs X) (de_root X) (Some i) (dm_files D')) =
      Some \<lparr>ho_HookEventName = TrimSpace (hi_HookEventName i),
            ho_Message = str ''[SECURITY SYSTEM]: '' @
              TrimSpace (formatFeedbackReason (de_verbs X) (policyByID l) (policy_type v) path)\<rparr> \<and>
    lastBlockedEvent True (dm_db D') = Inr (Some row) \<and> er_AgentPid row = pid \<and>
    er_PolicyViolated row = Some (rp_Name r) \<and> er_Path row = strPtr path \<and> er_FeedbackSent row"
proof -
  obtain v r where v: "violations (snd (check_file_open k fobj s)) = violations s @ [v]" "violation_wf v"
    "v_pid v = pid" "cstr (detail v) = path" and r: "policyByID l (policy_type v) = Some r"
    "rp_Kind r = KindPath \<or> rp_Kind r = KindWorkspace"
    using denied_open_report [OF assms(1-10)] by blast
  let ?reason = "formatFeedbackReason (de_verbs X) (policyByID l) (policy_type v) path"
  let ?D = "handle_violation X reads (raw_violation v) D"
  have blank: "TrimSpace ?reason \<noteq> []" using assms(19) r(1) by blast
  then have "?reason \<noteq> []" by auto
  note w = handle_violation_writes [OF v(2) assms(14) _ this assms(16), of D, unfolded assms(11) v(3,4), OF refl]
  note f = written_files [OF w(1)]
  have out: "snd (runHook (de_codec X) (de_fs X) (de_root X) (Some i) (dm_files ?D)) =
      Some \<lparr>ho_HookEventName = TrimSpace (hi_HookEventName i),
            ho_Message = str ''[SECURITY SYSTEM]: '' @ TrimSpace ?reason\<rparr>"
    using runHook_delivers(1) [where fs = "dm_files ?D" and root = "de_root X", OF assms(15) f(3) assms(17) f(1)] assms(18) blank
    by simp
  have row: "lastBlockedEvent True (dm_db ?D) = Inr (Some (table_row (length t + 1)
      (violation_row (policyByID l) (de_anchor X) pid (policy_type v) (cstr (typed_comm v)) path ?reason sid
        (str ''lsm'') (timestamp_ns v) True)))"
    using w(2) assms(12,13) by (simp add: recorded_is_last del: str_simps)
  note fields_of_row = file_violation_row [where P = "policyByID l" and pol = "policy_type v", OF r refl]
  show ?thesis
    using v(1) r(1) out row
    by (intro exI conjI) (assumption | rule refl fields_of_row | simp add: fields_of_row del: str_simps)+
qed

definition creds_daemon :: daemon where
  "creds_daemon =
     \<lparr>dm_policies = policyByID sample_loaded, dm_sessions = Map.empty, dm_rootPID = 42, dm_files = Map.empty,
      dm_db = Some []\<rparr>"

definition creds_daemon_env :: daemon_env where
  "creds_daemon_env =
     \<lparr>de_codec = reason_codec, de_fs = willing_fs, de_root = str ''/tmp/agentguard'', de_verbs = (\<lambda>_ _ s. s),
      de_anchor = \<lparr>bootTimeAnchor = 0, ktimeAnchorNs = 0\<rparr>, de_db_ok = True\<rparr>"

lemma sample_reason:
  "formatFeedbackReason V (policyByID sample_loaded) 1 (str ''/ws/.env'') = str ''no /ws/.env''"
  by (simp add: formatFeedbackReason_def resolved_def sample_path_policy_def Sprintf1_def extra_arg_def Contains_def)

lemma sample_reason_trim: "TrimSpace (str ''no /ws/.env'') = str ''no /ws/.env''"
  by (simp add: TrimSpace_def trim_left.simps trim_right.simps space_encodings_def suffix_def append_eq_Cons_conv)

lemma sample_session: "first_hook_id [Some (str ''thr_12345'')] = Some (str ''thr_12345'')"
  using TrimSpace_samples(1) by (simp add: isHookSessionID_def id_char_def Let_def)

lemma sample_post_event: "post_event sample_post (str ''thr_12345'')"
  using TrimSpace_samples(1) TrimSpace_events(1) by (simp add: post_event_def sample_post_def)

theorem feedback_reaches_agent_witness:
  "\<exists>v. snd (runHook reason_codec willing_fs (str ''/tmp/agentguard'') (Some sample_post)
      (dm_files (handle_violation creds_daemon_env [Some (str ''thr_12345'')] (raw_violation v) creds_daemon))) =
    Some \<lparr>ho_HookEventName = str ''PostToolUse'', ho_Message = str ''[SECURITY SYSTEM]: no /ws/.env''\<rparr>"
proof -
  let ?path = "str ''/ws/.env''" and ?k = "string_kernel 42 42"
  obtain s where s: "configure sample_os [(str ''creds'', sample_path_policy)] 8080 3 4 True True sample =
      Inr (sample_loaded, s)" "tracked_caller ?k s = Some 42"
    using sample_configure by blast
  have mem: "\<not> ap_Confine sample_path_policy" "str ''**/.env'' \<in> set (ap_PathPatterns sample_path_policy)"
    by (simp_all add: sample_path_policy_def empty_policy_def)
  have path: "d_path_resolves (d_path ?k) 256 (f_path \<lparr>f_path = ?path\<rparr>) ?path" "length ?path < 255"
    by (simp_all add: string_d_path_resolves)
  obtain pol where pol: "file_open_denial s ?path = Some pol"
    using configured_file_open [OF sample_wf s(1) _ _ _ mem sample_suffix, of "str ''creds''" ?path]
    by (auto simp: suffix_def)
  have eperm: "fst (check_file_open ?k \<lparr>f_path = ?path\<rparr> s) = - EPERM"
    using file_open_outcome [OF configured(2) [OF sample_wf s(1)] s(2) path] pol
    by (auto simp: hook_outcome_def simp del: str_simps)
  have wf: "kernel_wf ?k" "ringbuf_has_room ?k" by (rule string_kernel_wf) (simp add: string_kernel_def)
  have env: "dm_policies creds_daemon = policyByID sample_loaded" "dm_db creds_daemon = Some []"
    "de_db_ok creds_daemon_env" "first_hook_id (take 3 [Some (str ''thr_12345'')]) = Some (str ''thr_12345'')"
    "\<forall>q. mkdir_ok (de_fs creds_daemon_env) q \<and> write_ok (de_fs creds_daemon_env) q"
    "\<forall>q. remove_ok (de_fs creds_daemon_env) q"
    "\<forall>v. unmarshal_reason (de_codec creds_daemon_env) (marshal_pending (de_codec creds_daemon_env) v) = Some (pv_Reason v)"
    using sample_session
    by (simp_all add: creds_daemon_def creds_daemon_env_def willing_fs_def reason_codec_def
        del: str_simps sample_loaded_simps first_hook_id.simps)
  have trimmed: "TrimSpace (formatFeedbackReason V (policyByID sample_loaded) n ?path) = str ''no /ws/.env''"
    if "n \<in> dom (policyByID sample_loaded)" for V n
    using that sample_reason [of V] sample_reason_trim by (simp split: if_splits del: str_simps)
  have nonblank: "\<forall>n \<in> dom (policyByID sample_loaded).
      TrimSpace (formatFeedbackReason (de_verbs creds_daemon_env) (policyByID sample_loaded) n ?path) \<noteq> []"
    using trimmed by simp
  note applied = feedback_reaches_agent [OF sample_wf s(1) _ _ wf s(2) path eperm env(1-4) sample_post_event env(5-7) nonblank]
  obtain v where "policy_type v \<in> dom (policyByID sample_loaded)"
    "snd (runHook (de_codec creds_daemon_env) (de_fs creds_daemon_env) (de_root creds_daemon_env) (Some sample_post)
        (dm_files (handle_violation creds_daemon_env [Some (str ''thr_12345'')] (raw_violation v) creds_daemon))) =
      Some \<lparr>ho_HookEventName = TrimSpace (hi_HookEventName sample_post),
        ho_Message = str ''[SECURITY SYSTEM]: '' @
          TrimSpace (formatFeedbackReason (de_verbs creds_daemon_env) (policyByID sample_loaded) (policy_type v) ?path)\<rparr>"
    using applied by (auto simp del: str_simps sample_loaded_simps)
  then show ?thesis
    using trimmed TrimSpace_events(1)
    by (intro exI [of _ v]) (simp add: creds_daemon_env_def sample_post_def)
qed

section \<open>Two denials before the hook runs\<close>

definition reason_of :: "daemon_env \<Rightarrow> daemon \<Rightarrow> violation_event \<Rightarrow> bytes" where
  "reason_of X D v = formatFeedbackReason (de_verbs X) (dm_policies D) (policy_type v) (cstr (detail v))"

lemma violation_recorded:
  assumes "violation_wf v" "first_hook_id (take 3 reads) = Some sid" "reason_of X D v \<noteq> []"
    and "\<forall>p. mkdir_ok (de_fs X) p \<and> write_ok (de_fs X) p" "de_db_ok X" "dm_db D = Some t"
  shows "\<exists>row. dm_db (handle_violation X reads (raw_violation v) D) = Some (t @ [row]) \<and>
    er_AgentPid row = v_pid v \<and> er_FeedbackSent row"
  using handle_violation_writes(2) [OF assms(1,2) _ _ assms(4), of "reason_of X D v" D] assms(3,5,6)
  by (simp add: reason_of_def recordViolation_def inserted_last table_row_def violation_row_def Let_def del: str_simps)

text \<open>
  C39 (error): a second denial replaces the first: when two reports of the same session are handled
  before its hook runs, the hook prints the reason of the second only and the next one prints
  nothing, while the audit table has a row for both and marks both as sent.
\<close>

theorem second_violation_replaces_first:
  assumes "violation_wf v1" "violation_wf v2"
    and "first_hook_id (take 3 reads1) = Some sid" "first_hook_id (take 3 reads2) = Some sid"
    and "TrimSpace (reason_of X D v1) \<noteq> []" "TrimSpace (reason_of X D v2) \<noteq> []"
    and "\<forall>p. mkdir_ok (de_fs X) p \<and> write_ok (de_fs X) p" "\<forall>p. remove_ok (de_fs X) p"
    and "\<forall>v. unmarshal_reason (de_codec X) (marshal_pending (de_codec X) v) = Some (pv_Reason v)"
    and "post_event i sid" "post_event i' sid" "dm_db D = Some t" "de_db_ok X"
    and "D2 = handle_violation X reads2 (raw_violation v2) (handle_violation X reads1 (raw_violation v1) D)"
  shows "\<exists>fs row1 row2. runHook (de_codec X) (de_fs X) (de_root X) (Some i) (dm_files D2) =
      (fs, Some \<lparr>ho_HookEventName = TrimSpace (hi_HookEventName i),
                 ho_Message = str ''[SECURITY SYSTEM]: '' @ TrimSpace (reason_of X D v2)\<rparr>) \<and>
    snd (runHook (de_codec X) (de_fs X) (de_root X) (Some i') fs) = None \<and>
    dm_db D2 = Some (t @ [row1, row2]) \<and> er_AgentPid row1 = v_pid v1 \<and> er_FeedbackSent row1 \<and>
    er_AgentPid row2 = v_pid v2 \<and> er_FeedbackSent row2"
proof -
  let ?D1 = "handle_violation X reads1 (raw_violation v1) D"
  have ne: "reason_of X D v1 \<noteq> []" "reason_of X D v2 \<noteq> []" using assms(5,6) by auto
  have same: "reason_of X ?D1 v2 = reason_of X D v2"
    using reports.keeps(1) [of X "(reads1, raw_violation v1)" D] by (simp add: reason_of_def)
  obtain row1 where r1: "dm_db ?D1 = Some (t @ [row1])" "er_AgentPid row1 = v_pid v1" "er_FeedbackSent row1"
    using violation_recorded [OF assms(1,3) ne(1) assms(7,13,12)] by blast
  obtain row2 where r2: "dm_db D2 = Some ((t @ [row1]) @ [row2])" "er_AgentPid row2 = v_pid v2" "er_FeedbackSent row2"
    using violation_recorded [OF assms(2,4) ne(2) [folded same] assms(7,13) r1(1)] unfolding assms(14) by blast
  let ?pv = "\<lparr>pv_Reason = reason_of X D v2, pv_PolicyType = ucast (policy_type v2), pv_Path = cstr (detail v2),
       pv_TimestampNs = timestamp_ns v2\<rparr>"
  have w: "writePendingViolation (de_codec X) (de_fs X) (de_root X) sid ?pv (dm_files ?D1) = (dm_files D2, True)"
    unfolding assms(14) using same ne(2)
    by (intro handle_violation_writes(1) [OF assms(2,4) _ _ assms(7)]) (simp_all add: reason_of_def)
  note f = written_files [OF w]
  note d = runHook_delivers [where fs = "dm_files D2" and root = "de_root X" and J = "de_codec X",
      OF assms(10) f(3) assms(8) f(1), of "reason_of X D v2"]
  let ?fs = "fst (runHook (de_codec X) (de_fs X) (de_root X) (Some i) (dm_files D2))"
  have out: "runHook (de_codec X) (de_fs X) (de_root X) (Some i) (dm_files D2) =
      (?fs, Some \<lparr>ho_HookEventName = TrimSpace (hi_HookEventName i),
                 ho_Message = str ''[SECURITY SYSTEM]: '' @ TrimSpace (reason_of X D v2)\<rparr>)"
    using d(1) assms(6,9) by (simp add: prod_eq_iff del: str_simps)
  have gone: "?fs (violation_file (de_root X) sid) = None" "?fs (latest_file (de_root X)) = None"
    using d(2) assms(6,9) by simp_all
  have "snd (runHook (de_codec X) (de_fs X) (de_root X) (Some i') ?fs) = None"
    by (simp add: runHook_silent [OF assms(11) gone])
  with out r1(2,3) r2 show ?thesis by (intro exI conjI) (assumption | simp)+
qed

text \<open>Two reports of the same policy for different files.\<close>

definition report_on :: "bytes \<Rightarrow> violation_event" where
  "report_on path = \<lparr>timestamp_ns = 0, v_pid = 42, policy_type = 1, typed_comm = zeros 16, canonical_path = zeros 256,
     detail = path @ zeros (256 - length path)\<rparr>"

lemma report_on_wf: "length path \<le> 256 \<Longrightarrow> violation_wf (report_on path)"
  by (simp add: report_on_def violation_wf_def)

lemma report_on_reason:
  assumes "0 \<notin> set path" "length path < 256"
  shows "reason_of creds_daemon_env creds_daemon (report_on path) = str ''no '' @ path"
proof -
  have "zeros (256 - length path) = 0 # zeros (255 - length path)"
    using assms(2) by (simp add: zeros_def Suc_diff_Suc flip: replicate_Suc)
  then have "cstr (path @ zeros (256 - length path)) = path" using assms(1) by (simp add: cstr_append_NUL)
  then show ?thesis
    by (simp add: reason_of_def report_on_def creds_daemon_def formatFeedbackReason_def resolved_def
        sample_path_policy_def Sprintf1_def extra_arg_def Contains_def)
qed

theorem second_violation_replaces_first_witness:
  "\<exists>fs. runHook reason_codec willing_fs (str ''/tmp/agentguard'') (Some sample_post)
     (dm_files (handle_violation creds_daemon_env [Some (str ''thr_12345'')] (raw_violation (report_on (str ''/b/.env'')))
        (handle_violation creds_daemon_env [Some (str ''thr_12345'')] (raw_violation (report_on (str ''/a/.env'')))
          creds_daemon))) =
     (fs, Some \<lparr>ho_HookEventName = str ''PostToolUse'', ho_Message = str ''[SECURITY SYSTEM]: no /b/.env''\<rparr>)"
proof -
  let ?X = creds_daemon_env and ?D = creds_daemon and ?r = "[Some (str ''thr_12345'')]"
  have wf: "violation_wf (report_on (str ''/a/.env''))" "violation_wf (report_on (str ''/b/.env''))"
    by (simp_all add: report_on_wf)
  have reason: "reason_of ?X ?D (report_on (str ''/a/.env'')) = str ''no /a/.env''"
    "reason_of ?X ?D (report_on (str ''/b/.env'')) = str ''no /b/.env''"
    using report_on_reason [of "str ''/a/.env''"] report_on_reason [of "str ''/b/.env''"] by simp_all
  have trim: "TrimSpace (str ''no /a/.env'') = str ''no /a/.env''" "TrimSpace (str ''no /b/.env'') = str ''no /b/.env''"
    by (rule TrimSpace_graphic; simp add: graphic_def)+
  have ids: "first_hook_id (take 3 ?r) = Some (str ''thr_12345'')" using sample_session by simp
  have env: "\<forall>p. mkdir_ok (de_fs ?X) p \<and> write_ok (de_fs ?X) p" "\<forall>p. remove_ok (de_fs ?X) p"
    "\<forall>v. unmarshal_reason (de_codec ?X) (marshal_pending (de_codec ?X) v) = Some (pv_Reason v)"
    "dm_db ?D = Some []" "de_db_ok ?X"
    by (simp_all add: creds_daemon_env_def creds_daemon_def willing_fs_def reason_codec_def)
  have ne: "TrimSpace (reason_of ?X ?D (report_on (str ''/a/.env''))) \<noteq> []" "TrimSpace (reason_of ?X ?D (report_on (str ''/b/.env''))) \<noteq> []"
    unfolding reason trim by simp_all
  have msg: "str ''[SECURITY SYSTEM]: '' @ str ''no /b/.env'' = str ''[SECURITY SYSTEM]: no /b/.env''" by simp
  from second_violation_replaces_first [OF wf ids ids ne env(1-3) sample_post_event sample_post_event env(4,5) refl]
  show ?thesis
    unfolding reason trim msg using TrimSpace_events(1)
    by (auto simp: creds_daemon_env_def sample_post_def simp del: str_simps)
qed

end
