(* ===== verification/Guard.thy ===== *)
theory Guard
  imports Enforcer Tracking Policy_Effect
begin

text \<open>
  What monitor and enforcer promise together, as an abstract machine, and the proof that the
  programs implement it. The abstract machine knows the policy as the Go program holds it after
  loading, the agent's processes and the log; it has no tables, no list of process ids and no
  buffers. The concrete system runs the tracepoints of \<open>monitor.bpf.c\<close> and the hooks of
  \<open>enforcer.bpf.c\<close> in any order on the shared map.
\<close>

section \<open>The promise\<close>

text \<open>
  What a task asks for, with names as the kernel resolved them (\<open>None\<close> for a name it could not
  resolve into the buffer).
\<close>

datatype guard_request =
  Open "bytes option"
| Change_dir "bytes option"
| Move "bytes option" "bytes option"
| Execute "bytes option" bytes
| Send sockaddr_in
| Raw_socket
| Harmless

record promise =
  pr_paths :: "NamedPattern list"
  pr_commands :: "NamedPattern list"
  pr_workspace :: "WorkspacePolicy option"
  pr_network :: bool
  pr_network_id :: u32
  pr_destinations :: "(u32 \<times> u16) list"

text \<open>A finding: the policy number and the text, which is open for a name that was not resolved.\<close>

type_synonym finding = "u32 \<times> bytes option"

definition inside :: "WorkspacePolicy \<Rightarrow> bytes \<Rightarrow> bool" where
  "inside w p \<longleftrightarrow> pathStartsWith p (wp_Root w) \<or> list_ex (pathStartsWith p) (wp_AllowPrefixes w)"

definition outside :: "promise \<Rightarrow> bytes option \<Rightarrow> finding option" where
  "outside pr name =
     (case pr_workspace pr of
        None \<Rightarrow> None
      | Some w \<Rightarrow>
          (case name of
             None \<Rightarrow> Some (wp_PolicyID w, None)
           | Some p \<Rightarrow> if inside w p then None else Some (wp_PolicyID w, Some p)))"

definition secret :: "promise \<Rightarrow> bytes \<Rightarrow> finding option" where
  "secret pr p = map_option (\<lambda>pol. (pol, Some p)) (first_path_policy (pr_paths pr) p)"

definition forbidden_command :: "promise \<Rightarrow> bytes \<Rightarrow> finding option" where
  "forbidden_command pr p = map_option (\<lambda>pol. (pol, Some p)) (first_command_policy (pr_commands pr) p)"

definition or_else :: "'a option \<Rightarrow> 'a option \<Rightarrow> 'a option" where
  "or_else x y = (case x of None \<Rightarrow> y | Some _ \<Rightarrow> x)"

definition destination_ok :: "promise \<Rightarrow> sockaddr_in \<Rightarrow> bool" where
  "destination_ok pr a \<longleftrightarrow> sin_family a \<noteq> AF_INET6 \<and>
     (sin_family a = AF_INET \<longrightarrow> (bpf_ntohl (s_addr a), bpf_ntohs (sin_port a)) \<in> set (pr_destinations pr))"

fun judge :: "promise \<Rightarrow> guard_request \<Rightarrow> finding option" where
  "judge pr (Open name) =
     or_else (outside pr name) (case name of None \<Rightarrow> None | Some p \<Rightarrow> secret pr p)"
| "judge pr (Change_dir name) = outside pr name"
| "judge pr (Move from to) = or_else (outside pr from) (outside pr to)"
| "judge pr (Execute file arg) =
     or_else (case file of None \<Rightarrow> None | Some p \<Rightarrow> forbidden_command pr p)
       (forbidden_command pr (take 255 arg))"
| "judge pr (Send a) =
     (if destination_ok pr a then None else Some (pr_network_id pr, Some (egress_text a)))"
| "judge pr Raw_socket = Some (pr_network_id pr, Some (snprintf_pi4_port 0 0))"
| "judge pr Harmless = None"

text \<open>File and exec findings always deny; network findings deny while the switch is on.\<close>

fun denies :: "promise \<Rightarrow> guard_request \<Rightarrow> bool" where
  "denies pr (Send a) = pr_network pr"
| "denies pr Raw_socket = pr_network pr"
| "denies pr _ = True"

section \<open>The abstract machine\<close>

record guard =
  g_live :: "(u32 \<times> u32) set"
  g_agents :: "u32 set"
  g_log :: "(u32 \<times> u32 \<times> bytes) list"

text \<open>
  \<open>Ask t p r room ok\<close>: thread \<open>t\<close> of process \<open>p\<close> asks for \<open>r\<close> while the log has room or not, and is
  allowed or refused.
\<close>

datatype guard_event =
  Ask u32 u32 guard_request bool bool
| Life proc_label

definition log_entry :: "bool \<Rightarrow> u32 \<Rightarrow> finding \<Rightarrow> (u32 \<times> u32 \<times> bytes) list \<Rightarrow> bool" where
  "log_entry room p f es \<longleftrightarrow>
     (if room then \<exists>x. es = [(p, fst f, x)] \<and> (\<forall>y. snd f = Some y \<longrightarrow> x = y) else es = [])"

inductive guard_step :: "promise \<Rightarrow> guard_event \<Rightarrow> guard \<Rightarrow> guard \<Rightarrow> bool" for pr where
  unwatched: "\<lbrakk>(t, p) \<in> g_live g; p \<notin> g_agents g\<rbrakk> \<Longrightarrow> guard_step pr (Ask t p r room True) g g"
| allowed: "\<lbrakk>(t, p) \<in> g_live g; p \<in> g_agents g; judge pr r = None\<rbrakk>
   \<Longrightarrow> guard_step pr (Ask t p r room True) g g"
| judged: "\<lbrakk>(t, p) \<in> g_live g; p \<in> g_agents g; judge pr r = Some f; log_entry room p f es\<rbrakk>
   \<Longrightarrow> guard_step pr (Ask t p r room (\<not> denies pr r)) g (g\<lparr>g_log := g_log g @ es\<rparr>)"
| spawn: "\<lbrakk>(t, p) \<in> g_live g; \<forall>t' p'. (t', p') \<in> g_live g \<longrightarrow> t' \<noteq> c \<and> p' \<noteq> c\<rbrakk>
   \<Longrightarrow> guard_step pr (Life Spawn) g
     (g\<lparr>g_live := insert (c, c) (g_live g),
        g_agents := if p \<in> g_agents g then insert c (g_agents g) else g_agents g - {c}\<rparr>)"
| clone: "\<lbrakk>(t, p) \<in> g_live g; \<forall>t' p'. (t', p') \<in> g_live g \<longrightarrow> t' \<noteq> c \<and> p' \<noteq> c\<rbrakk>
   \<Longrightarrow> guard_step pr (Life Clone) g (g\<lparr>g_live := insert (c, p) (g_live g)\<rparr>)"
| exit: "\<lbrakk>(t, p) \<in> g_live g; lab = Exit_worker \<or> lab = Exit_last\<rbrakk>
   \<Longrightarrow> guard_step pr (Life lab) g (g\<lparr>g_live := g_live g - {(t, p)}\<rparr>)"
| observe: "guard_step pr (Life Observe) g g"

section \<open>The programs together\<close>

text \<open>
  Both objects are loaded with the same map for \<open>tracked_pids\<close> and the same namespace constants.
\<close>

definition shares_map :: "enforcer \<Rightarrow> monitor \<Rightarrow> bool" where
  "shares_map s m \<longleftrightarrow> tracked_pids s = m_tracked_pids m \<and>
     pidns_dev s = m_pidns_dev m \<and> pidns_ino s = m_pidns_ino m"

record system =
  sys_world :: world
  sys_enf :: enforcer

text \<open>A hook call with the kernel's answers for the task that makes it, or a step of the process tree.\<close>

datatype ('p, 'd) sys_label =
  Kernel_call u32 u32 "'p kernel" "('p, 'd) lsm_call" int
| Tree proc_label

text \<open>
  The kernel resolves a path into the buffer or reports an error, and an executed name is a C
  string.
\<close>

definition answers :: "('p \<Rightarrow> bytes \<Rightarrow> int \<times> bytes) \<Rightarrow> 'p \<Rightarrow> bool" where
  "answers dp obj \<longleftrightarrow> fst (dp obj (zeros 256)) \<le> 0 \<or> (\<exists>p. d_path_resolves dp 256 obj p)"

fun call_answered :: "'p kernel \<Rightarrow> ('p, 'd) lsm_call \<Rightarrow> bool" where
  "call_answered k (File_open f) = answers (d_path k) (f_path f)"
| "call_answered k (Path_unlink d e) = answers (d_path k) d"
| "call_answered k (Path_rename d e d' e' fl) \<longleftrightarrow> answers (d_path k) d \<and> answers (d_path k) d'"
| "call_answered k (Path_mknod d e m dev) = answers (path_d_path k) d"
| "call_answered k (Path_mkdir d e m) = answers (d_path k) d"
| "call_answered k (Path_symlink d e n) = answers (d_path k) d"
| "call_answered k (Path_link e d e') = answers (d_path k) d"
| "call_answered k (Path_rmdir d e) = answers (d_path k) d"
| "call_answered k (Bprm_check_security b) \<longleftrightarrow> answers (d_path k) (f_path (bprm_file b)) \<and> 0 \<in> set (filename b)"
| "call_answered k _ = True"

inductive sys_step :: "('p, 'd) sys_label \<Rightarrow> system \<Rightarrow> system \<Rightarrow> bool" where
  hook: "\<lbrakk>(t, p) \<in> live (sys_world y);
     ns_current_pid_tgid k (pidns_dev (sys_enf y)) (pidns_ino (sys_enf y)) = Some (t, p);
     kernel_wf k; call_answered k c; lsm_dispatch k c (sys_enf y) = (r, s')\<rbrakk>
   \<Longrightarrow> sys_step (Kernel_call t p k c r) y (y\<lparr>sys_enf := s'\<rparr>)"
| tree: "\<lbrakk>proc_step lab (sys_world y) w'; lab \<in> orderly\<rbrakk>
   \<Longrightarrow> sys_step (Tree lab) y
     \<lparr>sys_world = w', sys_enf = (sys_enf y)\<lparr>tracked_pids := m_tracked_pids (mon w')\<rparr>\<rparr>"

section \<open>Abstraction\<close>

definition report :: "violation_event \<Rightarrow> u32 \<times> u32 \<times> bytes" where
  "report v = (v_pid v, policy_type v, cstr (detail v))"

definition guard_of :: "system \<Rightarrow> guard" where
  "guard_of y = \<lparr>g_live = live (sys_world y), g_agents = agents (sys_world y),
     g_log = map report (violations (sys_enf y))\<rparr>"

text \<open>The name a hook sees: names of 255 bytes count as unresolved, except for the exec hook.\<close>

definition name_of :: "('p \<Rightarrow> bytes \<Rightarrow> int \<times> bytes) \<Rightarrow> 'p \<Rightarrow> bytes option" where
  "name_of dp obj = (let (n, buf) = dp obj (zeros 256) in if n \<le> 0 \<or> 256 \<le> n then None else Some (cstr buf))"

definition exec_name_of :: "('p \<Rightarrow> bytes \<Rightarrow> int \<times> bytes) \<Rightarrow> 'p \<Rightarrow> bytes option" where
  "exec_name_of dp obj = (let (n, buf) = dp obj (zeros 256) in if n \<le> 0 then None else Some (cstr buf))"

fun request_of :: "'p kernel \<Rightarrow> ('p, 'd) lsm_call \<Rightarrow> guard_request" where
  "request_of k (File_open f) = Open (name_of (d_path k) (f_path f))"
| "request_of k (Path_unlink d e) = Change_dir (name_of (d_path k) d)"
| "request_of k (Path_rename d e d' e' fl) = Move (name_of (d_path k) d) (name_of (d_path k) d')"
| "request_of k (Path_mknod d e m dev) = Change_dir (name_of (path_d_path k) d)"
| "request_of k (Path_mkdir d e m) = Change_dir (name_of (d_path k) d)"
| "request_of k (Path_symlink d e n) = Change_dir (name_of (d_path k) d)"
| "request_of k (Path_link e d e') = Change_dir (name_of (d_path k) d)"
| "request_of k (Path_rmdir d e) = Change_dir (name_of (d_path k) d)"
| "request_of k (Socket_connect a) = Send a"
| "request_of k (Socket_sendmsg m) =
     (case msg_name m of Some (Some a) \<Rightarrow> Send a | _ \<Rightarrow> Harmless)"
| "request_of k (Socket_create f t p kn) =
     (if f = AF_PACKET \<or> unat t mod 256 = 3 then Raw_socket else Harmless)"
| "request_of k (Bprm_check_security b) =
     Execute (exec_name_of (d_path k) (f_path (bprm_file b))) (cstr (filename b))"

fun event_of :: "('p, 'd) sys_label \<Rightarrow> guard_event" where
  "event_of (Kernel_call t p k c r) = Ask t p (request_of k c) (ringbuf_has_room k) (r = 0)"
| "event_of (Tree lab) = Life lab"

section \<open>Agreement of tables and promise\<close>

definition agrees :: "promise \<Rightarrow> enforcer \<Rightarrow> bool" where
  "agrees pr s \<longleftrightarrow>
     (\<forall>p. map_option policy_id (credential_rule s p) = first_path_policy (pr_paths pr) p) \<and>
     (\<forall>p. map_option policy_id (command_rule s p) = first_command_policy (pr_commands pr) p \<and>
          first_command_policy (pr_commands pr) p \<noteq> Some 0) \<and>
     (case pr_workspace pr of
        None \<Rightarrow> enforce_workspace s = 0
      | Some w \<Rightarrow> enforce_workspace s \<noteq> 0 \<and> workspace_policy_id s = wp_PolicyID w \<and>
          (\<forall>p. in_workspace s p = inside w p)) \<and>
     (pr_network pr \<longleftrightarrow> enforce_network s \<noteq> 0) \<and> pr_network_id pr = network_policy_id s \<and>
     (\<forall>a. egress_allowed s a = destination_ok pr a)"

lemma agrees_config: "agrees pr (config s) = agrees pr s"
  by (cases "pr_workspace pr")
    (simp_all add: agrees_def config_def credential_rule_def command_rule_def in_workspace_def
      workspace_policy_id_def egress_allowed_def)

lemma agrees_tracked: "agrees pr (s\<lparr>tracked_pids := m\<rparr>) = agrees pr s"
  by (cases "pr_workspace pr")
    (simp_all add: agrees_def credential_rule_def command_rule_def in_workspace_def
      workspace_policy_id_def egress_allowed_def)

lemma agrees_frame: "config s' = config s \<Longrightarrow> agrees pr s' = agrees pr s"
  by (metis agrees_config)

section \<open>Each hook against the promise\<close>

definition meets :: "'p kernel \<Rightarrow> u32 \<Rightarrow> finding option \<Rightarrow> bool \<Rightarrow> enforcer \<Rightarrow> int \<times> enforcer \<Rightarrow> bool" where
  "meets k pid j d s r \<longleftrightarrow>
     (case j of
        None \<Rightarrow> fst r = 0 \<and> violations (snd r) = violations s
      | Some f \<Rightarrow> (fst r = 0 \<longleftrightarrow> \<not> d) \<and>
          (\<exists>vs. violations (snd r) = violations s @ vs \<and> log_entry (ringbuf_has_room k) pid f (map report vs)))"

lemma meets_hook_outcome:
  "hook_outcome k pid (map_option (\<lambda>(pol, x). (pol, the x)) j) s r \<Longrightarrow> \<forall>pol. j \<noteq> Some (pol, None) \<Longrightarrow> meets k pid j True s r"
  by (cases j) (auto simp: meets_def hook_outcome_def log_entry_def report_def EPERM_def split: if_splits)

lemma meets_denied_with: "denied_with k pid pol s r \<Longrightarrow> meets k pid (Some (pol, None)) True s r"
  by (auto simp: meets_def denied_with_def log_entry_def report_def EPERM_def split: if_splits)

lemma meets_report:
  "meets k pid (Some (network_policy_id s, Some (snprintf_pi4_port a p))) (enforce_network s \<noteq> 0) s
     (report_and_deny k pid a p s)"
  by (auto simp: meets_def hook_simps log_entry_def report_def net_report_text EPERM_def)

lemma meets_pass: "meets k pid None d s (0, s)"
  by (simp add: meets_def)

lemma meets_None: "meets k pid None d s r \<Longrightarrow> meets k pid None d' s r"
  by (simp add: meets_def)

lemma meets_kernel: "meets (k\<lparr>d_path := dp\<rparr>) = meets k"
  by (simp add: meets_def fun_eq_iff split: option.split)

text \<open>A path the kernel answered for, as the directory and open hooks and as the exec hook see it.\<close>

lemma name_of_cases:
  assumes "answers dp obj"
  obtains (failed) "name_of dp obj = None" "fst (dp obj (zeros 256)) \<le> 0 \<or> 256 \<le> fst (dp obj (zeros 256))"
  | (found) p where "name_of dp obj = Some p" "d_path_resolves dp 256 obj p" "length p < 255"
proof (cases "fst (dp obj (zeros 256)) \<le> 0 \<or> 256 \<le> fst (dp obj (zeros 256))")
  case True
  then show ?thesis using failed by (auto simp: name_of_def case_prod_beta Let_def)
next
  case False
  with assms obtain p where p: "d_path_resolves dp 256 obj p" by (auto simp: answers_def)
  obtain n buf where dp: "dp obj (zeros 256) = (n, buf)" by fastforce
  from resolved_path [OF p dp] False dp show ?thesis using found [OF _ p] by (simp add: name_of_def)
qed

lemma exec_name_of_cases:
  assumes "answers dp obj"
  obtains (failed) "exec_name_of dp obj = None" "fst (dp obj (zeros 256)) \<le> 0"
  | (found) p where "exec_name_of dp obj = Some p" "d_path_resolves dp 256 obj p"
proof (cases "fst (dp obj (zeros 256)) \<le> 0")
  case True
  then show ?thesis using failed by (auto simp: exec_name_of_def case_prod_beta Let_def)
next
  case False
  with assms obtain p where p: "d_path_resolves dp 256 obj p" by (auto simp: answers_def)
  obtain n buf where dp: "dp obj (zeros 256) = (n, buf)" by fastforce
  from resolved_path [OF p dp] False dp show ?thesis using found [OF _ p] by (simp add: exec_name_of_def)
qed

lemma agrees_workspace:
  assumes "agrees pr s"
  shows "outside pr (Some p) = map_option (\<lambda>pol. (pol, Some p)) (confine_denial s p)"
    and "outside pr None = (if enforce_workspace s \<noteq> 0 then Some (workspace_policy_id s, None) else None)"
  using assms by (auto simp: agrees_def outside_def confine_denial_def split: option.splits)

lemma confine_meets:
  assumes "enforcer_wf s" "agrees pr s" "tracked_caller k s = Some pid" "answers (d_path k) dir"
  shows "meets k pid (outside pr (name_of (d_path k) dir)) True s (confine_path_struct k dir s)"
  using assms(4)
proof (cases rule: name_of_cases)
  case failed
  have off: "confine_path_struct k dir s = (0, s)" if "enforce_workspace s = 0"
    using that assms(3) by (auto simp: confine_path_struct_def elim!: tracked_callerE)
  show ?thesis
    using confine_unresolved [OF assms(1,3) _ failed(2)] off
    by (auto simp: failed(1) agrees_workspace [OF assms(2)] meets_pass intro: meets_denied_with)
next
  case (found p)
  from confine_outcome [OF assms(1,3) found(2,3)] show ?thesis
    by (auto simp: found(1) agrees_workspace [OF assms(2)] option.map_comp comp_def intro!: meets_hook_outcome)
qed

lemma mknod_meets:
  assumes "enforcer_wf s" "agrees pr s" "tracked_caller k s = Some pid" "answers (path_d_path k) dir"
  shows "meets k pid (outside pr (name_of (path_d_path k) dir)) True s (check_path_mknod k dir dentry mode dev s)"
  using confine_meets [of s pr "k\<lparr>d_path := path_d_path k\<rparr>" pid dir] assms
  by (simp add: check_path_mknod_confine mknod_kernel meets_kernel)

lemma rename_meets:
  assumes "kernel_wf k" "enforcer_wf s" "agrees pr s" "tracked_caller k s = Some pid"
    and "answers (d_path k) dir" "answers (d_path k) dir'"
  shows "meets k pid (or_else (outside pr (name_of (d_path k) dir)) (outside pr (name_of (d_path k) dir'))) True s
    (check_path_rename k dir dentry dir' dentry' flags s)"
proof -
  let ?s1 = "snd (confine_path_struct k dir s)"
  have old: "meets k pid (outside pr (name_of (d_path k) dir)) True s (confine_path_struct k dir s)"
    using assms(2-5) by (rule confine_meets)
  have "enforcer_wf ?s1" using assms(1,2) by (rule confine.keeps_wf)
  moreover have "agrees pr ?s1" using assms(3) by (simp add: agrees_frame [OF confine.frame])
  moreover have "tracked_caller k ?s1 = Some pid" using assms(4) by (simp add: confine.caller_unchanged)
  ultimately have new: "meets k pid (outside pr (name_of (d_path k) dir')) True ?s1 (confine_path_struct k dir' ?s1)"
    using assms(6) by (rule confine_meets)
  show ?thesis
    using old new
    by (cases "outside pr (name_of (d_path k) dir)")
      (auto simp: or_else_def meets_def check_path_rename_def Let_def case_prod_beta split: option.splits)
qed

lemma file_open_meets:
  assumes "enforcer_wf s" "agrees pr s" "tracked_caller k s = Some pid" "answers (d_path k) (f_path f)"
  shows "meets k pid (judge pr (Open (name_of (d_path k) (f_path f)))) True s (check_file_open k f s)"
  using assms(4)
proof (cases rule: name_of_cases)
  case failed
  have "meets k pid None True s (check_file_open k f s)" if "enforce_workspace s = 0"
    using file_open_unresolved [OF assms(1,3) failed(2)] that by (simp add: meets_def)
  then show ?thesis
    using file_open_unresolved [OF assms(1,3) failed(2)]
    by (auto simp: failed(1) agrees_workspace [OF assms(2)] or_else_def intro: meets_denied_with)
next
  case (found p)
  have "judge pr (Open (Some p)) = map_option (\<lambda>pol. (pol, Some p)) (file_open_denial s p)"
    using assms(2) by (auto simp: agrees_workspace [OF assms(2)] or_else_def secret_def file_open_denial_def
        confine_denial_def agrees_def)
  with file_open_outcome [OF assms(1,3) found(2,3)] show ?thesis
    by (auto simp: found(1) option.map_comp comp_def simp del: judge.simps intro!: meets_hook_outcome)
qed

lemma agrees_command:
  assumes "agrees pr s"
  shows "forbidden_command pr p =
    (let pol = rule_policy (command_rule s p) in if pol \<noteq> 0 then Some (pol, Some p) else None)"
proof -
  have "first_command_policy (pr_commands pr) p = map_option policy_id (command_rule s p)"
    "first_command_policy (pr_commands pr) p \<noteq> Some 0"
    using assms by (auto simp: agrees_def)
  then show ?thesis
    by (cases "command_rule s p") (auto simp: forbidden_command_def rule_policy_def)
qed

lemma exec_meets:
  assumes "enforcer_wf s" "agrees pr s" "tracked_caller k s = Some pid"
    and "answers (d_path k) (f_path (bprm_file b))" "0 \<in> set (filename b)"
  shows "meets k pid (judge pr (Execute (exec_name_of (d_path k) (f_path (bprm_file b))) (cstr (filename b)))) True s
    (check_exec k b s)"
proof -
  obtain arg rest where arg: "0 \<notin> set arg" "filename b = arg @ 0 # rest"
    using split_list_first [OF assms(5)] by blast
  then have cs: "cstr (filename b) = arg" by (simp add: cstr_append_NUL)
  note cmd = agrees_command [OF assms(2)]
  from assms(4) show ?thesis
  proof (cases rule: exec_name_of_cases)
    case failed
    from exec_outcome_unresolved [OF assms(1,3) failed(2) arg] show ?thesis
      by (intro meets_hook_outcome) (auto simp: failed(1) cs or_else_def cmd name_denial_def Let_def)
  next
    case (found p)
    from exec_outcome [OF assms(1,3) found(2) arg] show ?thesis
      by (intro meets_hook_outcome)
        (auto simp: found(1) cs or_else_def cmd exec_denial_def name_denial_def Let_def)
  qed
qed

lemma connect_meets:
  assumes "agrees pr s" "tracked_caller k s = Some pid"
  shows "meets k pid (judge pr (Send a)) (pr_network pr) s (check_socket_connect k a s)"
  using assms(1) meets_report [of k pid s]
  by (auto simp: connect_cases [OF assms(2)] agrees_def egress_text_def meets_pass)

lemma create_meets:
  assumes "agrees pr s" "tracked_caller k s = Some pid"
  shows "meets k pid (if f = AF_PACKET \<or> unat t mod 256 = 3 then judge pr Raw_socket else None) (pr_network pr) s
    (check_socket_create k f t proto kern s)"
proof -
  have "t AND 0xFF = SOCK_RAW \<longleftrightarrow> unat t mod 256 = 3"
    by (simp add: word_unat_eq_iff unat_and_mask8 families)
  with assms meets_report [of k pid s] show ?thesis
    by (auto simp: check_socket_create_def Let_def meets_pass agrees_def elim!: tracked_callerE)
qed

lemma dispatch_meets:
  assumes "kernel_wf k" "enforcer_wf s" "agrees pr s" "tracked_caller k s = Some pid" "call_answered k c"
  shows "meets k pid (judge pr (request_of k c)) (denies pr (request_of k c)) s (lsm_dispatch k c s)"
proof (cases c)
  case (Socket_sendmsg m)
  then obtain mn where m: "m = \<lparr>msg_name = mn\<rparr>" by (cases m)
  have "check_socket_sendmsg k \<lparr>msg_name = None\<rparr> s = (0, s)" "check_socket_sendmsg k \<lparr>msg_name = Some None\<rparr> s = (0, s)"
    by (auto simp: check_socket_sendmsg_def zero_sin_def families split: option.splits)
  then show ?thesis
    using connect_meets [OF assms(3,4)] meets_pass
    by (auto simp: Socket_sendmsg m sendmsg_connect split: option.splits simp del: judge.simps(5))
next
  case (Socket_create f t p kn)
  then show ?thesis
    using create_meets [OF assms(3,4), of f t p kn]
    by (auto simp del: judge.simps(6) split: if_splits intro: meets_None)
next
  case (Path_rename d e d' e' fl)
  then show ?thesis
    using rename_meets [OF assms(1-4), of d d' e e' fl] assms(5) by simp
next
  case (Bprm_check_security b)
  then show ?thesis
    using exec_meets [OF assms(2-4)] assms(5) by (simp del: judge.simps)
qed (use assms confine_meets [OF assms(2-4)] mknod_meets [OF assms(2-4)]
    file_open_meets [OF assms(2-4)] connect_meets [OF assms(3,4)] in \<open>simp_all add: confine_hooks\<close>)

section \<open>Simulation\<close>

text \<open>Runs of a step relation with the labels they show.\<close>

inductive steps :: "('e \<Rightarrow> 's \<Rightarrow> 's \<Rightarrow> bool) \<Rightarrow> 'e list \<Rightarrow> 's \<Rightarrow> 's \<Rightarrow> bool" for R where
  stay: "steps R [] s s"
| step: "\<lbrakk>steps R es s s'; R e s' s''\<rbrakk> \<Longrightarrow> steps R (es @ [e]) s s''"

text \<open>
  The interface between an implementation and its promise: an invariant every concrete step
  keeps, and for every concrete step an abstract step with the abstracted label and states.
\<close>

locale implements =
  fixes cstep :: "'l \<Rightarrow> 'c \<Rightarrow> 'c \<Rightarrow> bool"
    and astep :: "'e \<Rightarrow> 'a \<Rightarrow> 'a \<Rightarrow> bool"
    and ev :: "'l \<Rightarrow> 'e" and abs :: "'c \<Rightarrow> 'a" and inv :: "'c \<Rightarrow> bool"
  assumes keeps_inv: "\<lbrakk>cstep l c c'; inv c\<rbrakk> \<Longrightarrow> inv c'"
    and simulates: "\<lbrakk>cstep l c c'; inv c\<rbrakk> \<Longrightarrow> astep (ev l) (abs c) (abs c')"
begin

lemma run_inv: "steps cstep ls c c' \<Longrightarrow> inv c \<Longrightarrow> inv c'"
  by (induction rule: steps.induct) (auto intro: keeps_inv)

lemma run_simulates: "steps cstep ls c c' \<Longrightarrow> inv c \<Longrightarrow> steps astep (map ev ls) (abs c) (abs c')"
  by (induction rule: steps.induct) (auto intro!: steps.intros simulates run_inv)

end

text \<open>The invariant of the programs: an exact list, well-formed tables that agree with the promise.\<close>

definition sys_inv :: "promise \<Rightarrow> system \<Rightarrow> bool" where
  "sys_inv pr y \<longleftrightarrow> world_inv (sys_world y) \<and> enforcer_wf (sys_enf y) \<and>
     shares_map (sys_enf y) (mon (sys_world y)) \<and> agrees pr (sys_enf y)"

lemma shared_caller:
  assumes "shares_map s m" "ns_current_pid_tgid k (m_pidns_dev m) (m_pidns_ino m) = Some (t, p)"
  shows "tracked_caller k s = (if mon_tracked m p then Some p else None)"
  using assms by (simp add: shares_map_def tracked_caller_def current_nspids_def mon_tracked_def)

lemma sys_caller:
  assumes "sys_inv pr y" "(t, p) \<in> live (sys_world y)"
    and "ns_current_pid_tgid k (pidns_dev (sys_enf y)) (pidns_ino (sys_enf y)) = Some (t, p)"
  shows "tracked_caller k (sys_enf y) = (if p \<in> agents (sys_world y) then Some p else None)"
proof -
  have "mon_tracked (mon (sys_world y)) p \<longleftrightarrow> p \<in> agents (sys_world y)"
    using assms(1,2) by (auto simp: sys_inv_def world_inv_def tracking_exact_def tids_ok_def)
  with shared_caller [of "sys_enf y" "mon (sys_world y)" k t p] assms(1,3) show ?thesis
    by (simp add: sys_inv_def shares_map_def)
qed

lemma shares_map_frame: "config s' = config s \<Longrightarrow> shares_map s' m = shares_map s m"
  by (cases s; cases s') (auto simp: shares_map_def config_def)

lemma hook_simulated:
  assumes "sys_inv pr y" "(t, p) \<in> live (sys_world y)"
    and "ns_current_pid_tgid k (pidns_dev (sys_enf y)) (pidns_ino (sys_enf y)) = Some (t, p)"
    and "kernel_wf k" "call_answered k c" "lsm_dispatch k c (sys_enf y) = (r, s')"
  shows "sys_inv pr (y\<lparr>sys_enf := s'\<rparr>)"
    and "guard_step pr (event_of (Kernel_call t p k c r)) (guard_of y) (guard_of (y\<lparr>sys_enf := s'\<rparr>))"
proof -
  let ?s = "sys_enf y" and ?q = "request_of k c"
  have cfg: "config s' = config ?s" using lsm.frame [of k c ?s] assms(6) by simp
  have wf: "enforcer_wf s'" using lsm.keeps_wf [OF assms(4), of ?s c] assms(1,6) by (simp add: sys_inv_def)
  show "sys_inv pr (y\<lparr>sys_enf := s'\<rparr>)"
    using assms(1) wf agrees_frame [OF cfg] shares_map_frame [OF cfg] by (simp add: sys_inv_def)
  note caller = sys_caller [OF assms(1-3)]
  have live: "(t, p) \<in> g_live (guard_of y)" using assms(2) by (simp add: guard_of_def)
  show "guard_step pr (event_of (Kernel_call t p k c r)) (guard_of y) (guard_of (y\<lparr>sys_enf := s'\<rparr>))"
  proof (cases "p \<in> agents (sys_world y)")
    case False
    with caller lsm.untracked [of k ?s c] assms(6) have "r = 0" "y\<lparr>sys_enf := s'\<rparr> = y" by auto
    with False live show ?thesis by (auto intro!: guard_step.unwatched simp: guard_of_def)
  next
    case True
    with caller dispatch_meets [OF assms(4) _ _ _ assms(5), of ?s pr p] assms(1,6)
    have m: "meets k p (judge pr ?q) (denies pr ?q) ?s (r, s')" by (simp add: sys_inv_def)
    show ?thesis
    proof (cases "judge pr ?q")
      case None
      with m have "r = 0" "guard_of (y\<lparr>sys_enf := s'\<rparr>) = guard_of y" by (auto simp: meets_def guard_of_def)
      with None live True show ?thesis by (auto intro!: guard_step.allowed simp: guard_of_def)
    next
      case (Some f)
      with m obtain vs where "(r = 0) = (\<not> denies pr ?q)" "violations s' = violations ?s @ vs"
        "log_entry (ringbuf_has_room k) p f (map report vs)" by (auto simp: meets_def)
      with Some live True guard_step.judged [of t p "guard_of y" pr ?q f] show ?thesis
        by (auto simp: guard_of_def)
    qed
  qed
qed

lemma tree_simulated:
  assumes "sys_inv pr y" "proc_step lab (sys_world y) w'" "lab \<in> orderly"
  defines "y' \<equiv> \<lparr>sys_world = w', sys_enf = (sys_enf y)\<lparr>tracked_pids := m_tracked_pids (mon w')\<rparr>\<rparr>"
  shows "sys_inv pr y'" and "guard_step pr (Life lab) (guard_of y) (guard_of y')"
proof -
  have "hash_wf 8192 (m_tracked_pids (mon (sys_world y)))"
    using assms(1) by (auto simp: sys_inv_def shares_map_def enforcer_wf_def)
  from proc_step_capacity [OF assms(2) this] have "hash_wf 8192 (m_tracked_pids (mon w'))" .
  then show "sys_inv pr y'"
    using assms(1) proc_step_inv [OF assms(2,3)] proc_step_namespace [OF assms(2)]
    by (simp add: sys_inv_def y'_def agrees_tracked shares_map_def enforcer_wf_def)
  from assms(2) show "guard_step pr (Life lab) (guard_of y) (guard_of y')"
  proof cases
    case (spawn t p k child c slot parent)
    then show ?thesis
      using assms(3) guard_step.spawn [of t p "guard_of y" c pr]
      by (auto simp: guard_of_def y'_def fresh_tid_def orderly_def split: if_splits)
  next
    case (clone t p k child c slot parent)
    then show ?thesis
      using guard_step.clone [of t p "guard_of y" c pr] by (auto simp: guard_of_def y'_def fresh_tid_def)
  next
    case (exit t p k)
    then show ?thesis
      using assms(3) guard_step.exit [of t p "guard_of y" lab pr]
      by (auto simp: guard_of_def y'_def orderly_def split: if_splits)
  qed (auto simp: guard_of_def y'_def guard_step.observe)
qed

interpretation programs: implements sys_step "guard_step pr" event_of guard_of "sys_inv pr" for pr
proof
  fix l :: "('p, 'd) sys_label" and y y'
  assume "sys_step l y y'" and inv: "sys_inv pr y"
  then show "sys_inv pr y'"
    by cases (auto intro: hook_simulated(1) [OF inv] tree_simulated(1) [OF inv])
  from \<open>sys_step l y y'\<close> show "guard_step pr (event_of l) (guard_of y) (guard_of y')"
    by cases (use hook_simulated(2) [OF inv] tree_simulated(2) [OF inv] in auto)
qed

section \<open>The start\<close>

text \<open>
  The promise of a loaded policy file: with no network policy the address 0.0.0.0 port 0 stands in
  for the proxy.
\<close>

definition promise_of :: "loaded_policies \<Rightarrow> u16 \<Rightarrow> promise" where
  "promise_of l port =
     \<lparr>pr_paths = pathPatterns l, pr_commands = commandPatterns l, pr_workspace = workspacePolicy l,
      pr_network = enforceNetwork l,
      pr_network_id = (case proxyPolicy l of None \<Rightarrow> 0 | Some p \<Rightarrow> pp_PolicyID p),
      pr_destinations =
        (if proxyPolicy l = None then (0, 0) else (0x7f000001, port)) #
        (if allowLocalDNS l then [(0x7f000035, 53)] else [])\<rparr>"

definition started :: "enforcer \<Rightarrow> u32 \<Rightarrow> (u32 \<times> u32) set \<Rightarrow> system" where
  "started s root others =
     (let w = launched (pidns_dev s) (pidns_ino s) root [] others
      in \<lparr>sys_world = w, sys_enf = s\<lparr>tracked_pids := m_tracked_pids (mon w)\<rparr>\<rparr>)"

lemma configured_network:
  assumes "configure E pf port dev ino True True s0 = Inr (l, s)"
  shows "enforce_network s = boolToU8 (enforceNetwork l)"
    "network_policy_id s = (case proxyPolicy l of None \<Rightarrow> 0 | Some p \<Rightarrow> pp_PolicyID p)"
    "egress_allowed s a = destination_ok (promise_of l port) a"
proof -
  from assms obtain s1 where s1: "applyWorkspacePolicy s1 (workspacePolicy l) = Inr s"
    "proxy_addr_host s1 = (if proxyPolicy l = None then 0 else 0x7f000001)"
    "proxy_port_host s1 = (if proxyPolicy l = None then 0 else port)" "dns_addr_host s1 = 0x7f000035"
    "network_policy_id s1 = (case proxyPolicy l of None \<Rightarrow> 0 | Some p \<Rightarrow> pp_PolicyID p)"
    "enforce_network s1 = boolToU8 (enforceNetwork l)" "allow_local_dns s1 = boolToU8 (allowLocalDNS l)"
    by (auto simp: configure_def apply_loaded_def Let_def and_then_Inr_iff set_switches_def set_constants_def)
  from s1(1) have k: "proxy_addr_host s = proxy_addr_host s1" "proxy_port_host s = proxy_port_host s1"
    "dns_addr_host s = dns_addr_host s1" "network_policy_id s = network_policy_id s1"
    "enforce_network s = enforce_network s1" "allow_local_dns s = allow_local_dns s1"
    by (auto simp: applyWorkspacePolicy_def Let_def split: sum.splits)
  show "enforce_network s = boolToU8 (enforceNetwork l)"
    "network_policy_id s = (case proxyPolicy l of None \<Rightarrow> 0 | Some p \<Rightarrow> pp_PolicyID p)"
    by (simp_all add: k s1)
  show "egress_allowed s a = destination_ok (promise_of l port) a"
    by (auto simp: egress_allowed_def destination_ok_def promise_of_def k s1 boolToU8_def)
qed

lemma configured_agrees:
  assumes "enforcer_wf s0" "configure E pf port dev ino True True s0 = Inr (l, s)" "length pf < 2 ^ 32 - 1"
  shows "agrees (promise_of l port) s"
proof -
  note c = configured [OF assms(1,2)] and n = configured_network [OF assms(2)]
  obtain m where "loaded_wf m l" using loadAllPolicies_wf [OF c(1) assms(3)] by blast
  then have "\<forall>q \<in> set (commandPatterns l). PolicyID q \<noteq> 0"
    by (fastforce simp: loaded_wf_def resolves_to_def)
  then have cmd: "first_command_policy (commandPatterns l) p \<noteq> Some 0" for p
    by (auto simp: first_command_policy_def find_Some_iff)
  obtain s1 where s1: "enforcer_wf s1" "applyWorkspacePolicy s1 (workspacePolicy l) = Inr s" using c(5) by blast
  have "case workspacePolicy l of
        None \<Rightarrow> enforce_workspace s = 0
      | Some w \<Rightarrow> enforce_workspace s \<noteq> 0 \<and> workspace_policy_id s = wp_PolicyID w \<and>
          (\<forall>p. in_workspace s p = inside w p)"
    using s1 loaded_workspace [OF s1(1)] unloaded_workspace [OF s1(1)]
    by (cases "workspacePolicy l") (auto simp: inside_def list_ex_iff)
  with c(3,4) cmd n show ?thesis
    by (simp add: agrees_def promise_of_def boolToU8_def)
qed

lemma started_inv:
  assumes "enforcer_wf s" "agrees pr s" "tids_ok (insert (root, root) others)"
  shows "sys_inv pr (started s root others)"
proof -
  have "hash_wf 8192 (m_tracked_pids (mon (launched (pidns_dev s) (pidns_ino s) root [] others)))"
    by (simp add: launched_def hash_wf_def hash_update_def hash_lookup_def)
  then show ?thesis
    using assms launched_inv [OF assms(3), of "pidns_dev s" "pidns_ino s" "[]"]
    by (simp add: sys_inv_def started_def Let_def agrees_tracked shares_map_def enforcer_wf_def)
      (simp add: launched_def)
qed

text \<open>What the abstract machine answers.\<close>

inductive_cases ask_cases: "guard_step pr (Ask t p r room ok) g g'"

lemma guard_verdict:
  "guard_step pr (Ask t p r room ok) g g' \<Longrightarrow>
   ok \<longleftrightarrow> p \<notin> g_agents g \<or> judge pr r = None \<or> \<not> denies pr r"
  by (erule ask_cases) auto

lemma run_verdict:
  assumes "enforcer_wf s0" "configure E pf port dev ino True True s0 = Inr (l, s)" "length pf < 2 ^ 32 - 1"
    and "tids_ok (insert (root, root) others)" "steps sys_step ls (started s root others) y"
    and "sys_step (Kernel_call t p k c r) y y'"
  shows "r = - EPERM \<longleftrightarrow> p \<in> agents (sys_world y) \<and> judge (promise_of l port) (request_of k c) \<noteq> None \<and>
    denies (promise_of l port) (request_of k c)"
proof -
  have inv: "sys_inv (promise_of l port) y"
    using started_inv [OF configured(2) [OF assms(1,2)] configured_agrees [OF assms(1-3)] assms(4)]
    by (rule programs.run_inv [OF assms(5)])
  have "r = 0 \<or> r = - EPERM"
    using assms(6) by cases (metis fst_conv lsm.verdict)
  with guard_verdict [OF programs.simulates [OF assms(6) inv, unfolded event_of.simps]] show ?thesis
    by (auto simp: guard_of_def EPERM_def)
qed

section \<open>Properties\<close>

text \<open>
  The kernel programs implement the promise of the policy file: take any policy
  file the daemon starts with and any run of the monitor's tracepoints and the enforcer's hooks
  from the launch, in any order and by any live threads, in which the list has room and no leader
  exits before its threads. Then the abstract machine, which knows only the policy, the agent's
  processes and the log, has the same run: the same requests with the same verdicts, and a log that
  is the list of reports.
\<close>

theorem programs_implement_promise:
  assumes "enforcer_wf s0" "configure E pf port dev ino True True s0 = Inr (l, s)" "length pf < 2 ^ 32 - 1"
    and "tids_ok (insert (root, root) others)" "steps sys_step ls (started s root others) y"
  shows "steps (guard_step (promise_of l port)) (map event_of ls) (guard_of (started s root others)) (guard_of y)"
  using started_inv [OF configured(2) [OF assms(1,2)] configured_agrees [OF assms(1-3)] assms(4)]
  by (rule programs.run_simulates [OF assms(5)])

text \<open>A start with one credential pattern and the open of a file it names.\<close>

lemma creds_judged:
  "judge (promise_of sample_loaded 8080) (Open (Some (str_ws @ str_env))) = Some (1, Some (str_ws @ str_env))"
  using normalize_env
  by (simp add: promise_of_def outside_def or_else_def secret_def first_path_policy_def suffix_def)

lemma string_name: "0 \<notin> set p \<Longrightarrow> length p < 255 \<Longrightarrow> name_of string_d_path p = Some p"
  by (simp add: name_of_def string_d_path_def cstr_append_NUL)

lemma string_answers: "0 \<notin> set p \<Longrightarrow> length p < 255 \<Longrightarrow> answers string_d_path p"
  using string_d_path_resolves [of p 256] by (auto simp: answers_def)

lemma creds_run:
  obtains s y where "configure sample_os [(str ''creds'', sample_path_policy)] 8080 3 4 True True sample = Inr (sample_loaded, s)"
    "sys_step (Kernel_call 42 42 (string_kernel 42 42) (File_open \<lparr>f_path = str_ws @ str_env\<rparr> :: (bytes, bool) lsm_call) (- EPERM))
      (started s 42 {}) y"
proof -
  let ?k = "string_kernel 42 42" and ?c = "File_open \<lparr>f_path = str_ws @ str_env\<rparr> :: (bytes, bool) lsm_call"
  obtain s where s: "configure sample_os [(str ''creds'', sample_path_policy)] 8080 3 4 True True sample =
      Inr (sample_loaded, s)"
    using sample_configure by blast
  let ?y = "started s 42 {}"
  have inv: "sys_inv (promise_of sample_loaded 8080) ?y"
    by (rule started_inv [OF configured(2) [OF sample_wf s] configured_agrees [OF sample_wf s]])
      (auto simp: tids_ok_def)
  have ns: "pidns_dev (sys_enf ?y) = 3" "pidns_ino (sys_enf ?y) = 4" "(42, 42) \<in> live (sys_world ?y)"
    "42 \<in> agents (sys_world ?y)"
    using configured(7,8) [OF sample_wf s] by (simp_all add: started_def Let_def launched_def)
  then have cur: "ns_current_pid_tgid ?k (pidns_dev (sys_enf ?y)) (pidns_ino (sys_enf ?y)) = Some (42, 42)" by simp
  have res: "answers (d_path ?k) (str_ws @ str_env)" "name_of (d_path ?k) (str_ws @ str_env) = Some (str_ws @ str_env)"
    by (simp_all add: string_name string_answers)
  have "tracked_caller ?k (sys_enf ?y) = Some 42"
    using sys_caller [OF inv ns(3) cur] ns(4) by simp
  then have "meets ?k 42 (judge (promise_of sample_loaded 8080) (request_of ?k ?c))
      (denies (promise_of sample_loaded 8080) (request_of ?k ?c)) (sys_enf ?y) (lsm_dispatch ?k ?c (sys_enf ?y))"
    using inv res(1) by (intro dispatch_meets) (auto simp: sys_inv_def string_kernel_wf simp del: string_kernel_simps)
  then have "fst (lsm_dispatch ?k ?c (sys_enf ?y)) \<noteq> 0"
    using creds_judged res(2) by (simp add: meets_def del: judge.simps lsm_dispatch.simps string_kernel_simps)
  then have v: "fst (lsm_dispatch ?k ?c (sys_enf ?y)) = - EPERM" using lsm.verdict by blast
  have "sys_step (Kernel_call 42 42 ?k ?c (- EPERM)) ?y (?y\<lparr>sys_enf := snd (lsm_dispatch ?k ?c (sys_enf ?y))\<rparr>)"
    by (rule sys_step.hook [OF ns(3) cur string_kernel_wf])
      (use res(1) v in \<open>simp_all add: prod_eq_iff del: lsm_dispatch.simps string_kernel_simps\<close>)
  with s show ?thesis using that by blast
qed

theorem programs_implement_promise_witness:
  "\<exists>g g'. steps (guard_step (promise_of sample_loaded 8080))
     [Ask 42 42 (Open (Some (str_ws @ str_env))) True False] g g'"
proof -
  obtain s y where s: "configure sample_os [(str ''creds'', sample_path_policy)] 8080 3 4 True True sample =
      Inr (sample_loaded, s)"
    and st: "sys_step (Kernel_call 42 42 (string_kernel 42 42) (File_open \<lparr>f_path = str_ws @ str_env\<rparr> :: (bytes, bool) lsm_call)
      (- EPERM)) (started s 42 {}) y"
    by (rule creds_run)
  have "steps sys_step [Kernel_call 42 42 (string_kernel 42 42) (File_open \<lparr>f_path = str_ws @ str_env\<rparr> :: (bytes, bool) lsm_call)
      (- EPERM)] (started s 42 {}) y"
    using steps.step [where R = sys_step and es = "[]", OF steps.stay st] by simp
  from programs_implement_promise [OF sample_wf s _ _ this]
  show ?thesis
    by (auto simp: tids_ok_def string_name EPERM_def simp del: str_simps)
qed

text \<open>
  C3 (safety): the verdict of every hook call of every such run is the promised one: it is denied
  exactly when the thread belongs to the agent's process tree at that moment and the policy refuses
  the request.
\<close>

theorem verdicts_as_promised:
  assumes "enforcer_wf s0" "configure E pf port dev ino True True s0 = Inr (l, s)" "length pf < 2 ^ 32 - 1"
    and "tids_ok (insert (root, root) others)" "steps sys_step ls (started s root others) y"
    and "sys_step (Kernel_call t p k c r) y y'"
  shows "r = - EPERM \<longleftrightarrow> p \<in> agents (sys_world y) \<and> judge (promise_of l port) (request_of k c) \<noteq> None \<and>
    denies (promise_of l port) (request_of k c)"
  using assms by (rule run_verdict)

theorem verdicts_as_promised_witness:
  "judge (promise_of sample_loaded 8080) (Open (Some (str_ws @ str_env))) \<noteq> None"
proof -
  obtain s y where s: "configure sample_os [(str ''creds'', sample_path_policy)] 8080 3 4 True True sample =
      Inr (sample_loaded, s)"
    and st: "sys_step (Kernel_call 42 42 (string_kernel 42 42) (File_open \<lparr>f_path = str_ws @ str_env\<rparr> :: (bytes, bool) lsm_call)
      (- EPERM)) (started s 42 {}) y"
    by (rule creds_run)
  from verdicts_as_promised [OF sample_wf s _ _ steps.stay st] show ?thesis
    by (simp add: tids_ok_def string_name del: judge.simps str_simps)
qed

end
