(* ===== verification/Default_Policy.thy ===== *)
theory Default_Policy
  imports Guard
begin

text \<open>
  The policy the repository ships (\<open>policies/default.yaml.example\<close>, embedded by \<open>policy.go\<close> as the
  starter policy), as the values the YAML decodes to: on which hosts it loads, what it promises,
  and what it leaves open.
\<close>

section \<open>The file\<close>

definition default_path_patterns :: "bytes list" where
  "default_path_patterns = map str [''.env'', ''.aws/credentials'', ''id_rsa'', ''.kube/config'']"

definition default_hosts :: "bytes list" where
  "default_hosts = map str
     [''api.anthropic.com'', ''claude.ai'', ''claude.com'', ''platform.claude.com'', ''mcp-proxy.anthropic.com'',
      ''downloads.claude.ai'', ''storage.googleapis.com'', ''github.com'', ''*.githubusercontent.com'',
      ''*.openai.com'', ''*.chatgpt.com'', ''chatgpt.com'', ''openai.com'']"

definition default_commands :: "bytes list" where
  "default_commands = map str [''rm'', ''rmdir'', ''dd'', ''/usr/bin/rm'', ''/bin/rm'', ''/usr/bin/dd'']"

definition default_prefixes :: "bytes list" where
  "default_prefixes = map str
     [''/usr'', ''/lib'', ''/lib64'', ''/bin'', ''/sbin'', ''/opt'', ''/tmp'', ''/var/tmp'', ''/dev'', ''/run'',
      ''/etc/ssl'', ''/etc/hosts'', ''/etc/resolv.conf'', ''/etc/nsswitch.conf'', ''/etc/passwd'', ''/etc/group'',
      ''/etc/localtime'', ''/etc/ld.so.cache'', ''/proc'']"

definition default_home_suffixes :: "bytes list" where
  "default_home_suffixes = map str
     [''.claude'', ''.claude.json'', ''.local'', ''.config/anthropic'', ''.codex'', ''.config/codex'']"

text \<open>Keys the file leaves out have the zero value of their type (\<open>empty_policy\<close>).\<close>

definition credential_protection :: AgentPolicy where
  "credential_protection = empty_policy\<lparr>
     ap_Description := str ''Prevents the agent from reading sensitive files, API keys, and private SSH keys.'',
     ap_PathPatterns := default_path_patterns,
     ap_Feedback := str ''SYSTEM FEEDBACK: You cannot read credential files. You are not authorized to access production secrets.''\<rparr>"

definition exfiltration_prevention :: AgentPolicy where
  "exfiltration_prevention = empty_policy\<lparr>
     ap_Description := str ''Stops the agent from sending data to unauthorized external IP addresses or domains.'',
     ap_AllowedHosts := default_hosts, ap_AllowedPorts := [str ''443''], ap_Egress := str ''proxy_only'',
     ap_AllowLocalDNS := True, ap_Listen := str ''127.0.0.1:0'', ap_RequireSNIMatch := True,
     ap_Feedback := str ''SYSTEM FEEDBACK: Network connection blocked. You are attempting to exfiltrate data to an unapproved destination.''\<rparr>"

definition destructive_command_prevention :: AgentPolicy where
  "destructive_command_prevention = empty_policy\<lparr>
     ap_Description := str ''Blocks the agent from executing dangerous shell commands that could destroy the system.'',
     ap_CommandPatterns := default_commands,
     ap_Feedback := str ''SYSTEM FEEDBACK: Destructive command blocked. You do not have permission to format drives or wipe root directories.''\<rparr>"

definition workspace_confinement :: AgentPolicy where
  "workspace_confinement = empty_policy\<lparr>ap_Confine := True, ap_AllowPrefixes := default_prefixes,
     ap_AllowHomeSuffixes := default_home_suffixes\<rparr>"

definition default_policy :: PolicyFile where
  "default_policy =
     [(str ''credential_protection'', credential_protection), (str ''exfiltration_prevention'', exfiltration_prevention),
      (str ''destructive_command_prevention'', destructive_command_prevention),
      (str ''workspace_confinement'', workspace_confinement)]"

section \<open>What it loads\<close>

text \<open>The numbers follow the order of the names: credentials 1, commands 2, network 3, workspace 4.\<close>

lemma default_order:
  "by_name default_policy =
     [(str ''credential_protection'', credential_protection),
      (str ''destructive_command_prevention'', destructive_command_prevention),
      (str ''exfiltration_prevention'', exfiltration_prevention),
      (str ''workspace_confinement'', workspace_confinement)]"
  by (simp add: by_name_def default_policy_def)

lemma default_fields [simp]:
  "ap_Confine credential_protection = False" "ap_PathPatterns credential_protection = default_path_patterns"
  "ap_Confine destructive_command_prevention = False" "ap_PathPatterns destructive_command_prevention = []"
  "ap_AllowedHosts destructive_command_prevention = []"
  "ap_CommandPatterns destructive_command_prevention = default_commands"
  "ap_Confine exfiltration_prevention = False" "ap_PathPatterns exfiltration_prevention = []"
  "ap_AllowedHosts exfiltration_prevention = default_hosts" "ap_AllowedPorts exfiltration_prevention = [str ''443'']"
  "ap_Egress exfiltration_prevention = str ''proxy_only''" "ap_AllowLocalDNS exfiltration_prevention"
  "ap_AllowIPLiterals exfiltration_prevention = False"
  "ap_Confine workspace_confinement" "ap_Workspace workspace_confinement = []"
  "ap_AllowPrefixes workspace_confinement = default_prefixes"
  "ap_AllowHomeSuffixes workspace_confinement = default_home_suffixes"
  by (simp_all add: credential_protection_def destructive_command_prevention_def exfiltration_prevention_def
      workspace_confinement_def empty_policy_def del: str_simps)

lemma default_nonempty [simp]:
  "default_path_patterns \<noteq> []" "default_commands \<noteq> []" "default_hosts \<noteq> []"
  by (simp_all add: default_path_patterns_def default_commands_def default_hosts_def)

definition default_path_rules :: "NamedPattern list" where
  "default_path_rules = map (\<lambda>pat. \<lparr>Pattern = TrimPrefix pat [0x2a, 0x2a, SLASH], PolicyID = 1\<rparr>) default_path_patterns"

definition default_command_rules :: "NamedPattern list" where
  "default_command_rules = map (\<lambda>pat. \<lparr>Pattern = coarseReduceCommand pat, PolicyID = 2\<rparr>) default_commands"

lemma default_loads_iff:
  "loadAllPolicies E default_policy = Inr l \<Longrightarrow>
   pathPatterns l = default_path_rules \<and> commandPatterns l = default_command_rules \<and> enforceNetwork l \<and> allowLocalDNS l \<and>
   (\<exists>pp. proxyPolicy l = Some pp \<and> pp_PolicyID pp = 3 \<and> AllowedHosts pp = default_hosts) \<and>
   (\<exists>root pfxs. resolveWorkspaceRoot E [] = Inr root \<and>
      resolveAllowPrefixes E default_prefixes default_home_suffixes = Inr pfxs \<and>
      workspacePolicy l = Some \<lparr>wp_PolicyID = 4, wp_Feedback = ap_Feedback workspace_confinement, wp_Root = root,
        wp_AllowPrefixes = pfxs\<rparr>)"
  by (auto simp: loadAllPolicies_def default_order load_policy_def Let_def and_then_Inr_iff no_policies_def
      default_path_rules_def default_command_rules_def simp del: str_simps)

lemma default_loads:
  assumes "resolveWorkspaceRoot E [] = Inr root" "resolveAllowPrefixes E default_prefixes default_home_suffixes = Inr pfxs"
  shows "\<exists>l. loadAllPolicies E default_policy = Inr l"
  using assms
  by (simp add: loadAllPolicies_def default_order load_policy_def Let_def no_policies_def del: str_simps)

text \<open>The normal forms of its patterns.\<close>

lemma normalize_relative:
  assumes "p \<noteq> []" "graphic (hd p)" "graphic (last p)" "hd p \<noteq> SLASH" "hd p \<noteq> 0x2a" "length p < 64"
  shows "normalizePathSuffix p = Inr (SLASH # p)"
proof -
  have "TrimPrefix p [0x2a, 0x2a, SLASH] = p" using assms(1,5) by (cases p) (auto simp: TrimPrefix_def)
  moreover have "\<not> prefix [SLASH] p" using assms(1,4) by (cases p) auto
  ultimately show ?thesis
    using assms(1,6) TrimSpace_graphic [OF assms(1-3)] by (simp add: normalizePathSuffix_def slot_limits)
qed

lemma default_path_rules_normal:
  "list_all2 (\<lambda>q suf. normalizePathSuffix (Pattern q) = Inr suf \<and> PolicyID q = 1) default_path_rules
     (map (\<lambda>p. SLASH # p) default_path_patterns)"
proof -
  have "TrimPrefix p [0x2a, 0x2a, SLASH] = p \<and> normalizePathSuffix p = Inr (SLASH # p)"
    if "p \<in> set default_path_patterns" for p
    using that
    by (auto simp: default_path_patterns_def TrimPrefix_def intro!: normalize_relative) (simp_all add: graphic_def)
  then show ?thesis by (simp add: default_path_rules_def list_all2_conv_all_nth)
qed

lemma normalize_command:
  assumes "list_all graphic c" "b \<noteq> []" "SLASH \<notin> set b" "c = d @ b" "d = [] \<or> last d = SLASH" "hd b \<noteq> 0x2a"
    "length b < 64"
  shows "normalizeCommandSuffix (coarseReduceCommand c) = Inr (SLASH # b)"
proof -
  have gr: "graphic (hd c)" "graphic (last c)" "graphic (hd b)" "graphic (last b)" "c \<noteq> []"
    using assms(1,2,4) by (auto simp: list_all_iff hd_append)
  have "coarseReduceCommand c = c" using Fields_graphic [OF assms(1) gr(5)] by (simp add: coarseReduceCommand_def)
  moreover have "TrimSuffix (TrimSpace c) [SLASH] = c"
    using TrimSpace_graphic [OF gr(5,1,2)] assms(2-4) by (auto simp: TrimSuffix_def suffix_def) (metis last_in_set last_snoc last_appendR)
  moreover have "takeWhile (\<lambda>x. x \<noteq> SLASH) (rev b @ rev d) = rev b"
    using assms(3,5) by (subst takeWhile_append2) (auto simp: takeWhile_eq_Nil_iff hd_rev)
  then have "after_last_slash c = b" unfolding after_last_slash_def assms(4) rev_append by simp
  moreover have "SLASH \<notin> set c \<Longrightarrow> c = b" using assms(4,5) by (cases d rule: rev_cases) auto
  moreover have "normalizePathSuffix b = Inr (SLASH # b)"
    using assms(2,3,6,7) gr(3,4) by (intro normalize_relative) (auto dest: hd_in_set)
  ultimately show ?thesis using assms(2) gr(5) by (auto simp: normalizeCommandSuffix_def Let_def)
qed

definition default_basenames :: "bytes list" where
  "default_basenames = map str [''rm'', ''rmdir'', ''dd'', ''rm'', ''rm'', ''dd'']"

lemma default_commands_normal:
  "map (\<lambda>c. normalizeCommandSuffix (coarseReduceCommand c)) default_commands =
     map (\<lambda>b. Inr (SLASH # b)) default_basenames"
proof -
  have g: "list_all graphic (str ''rm'')" "list_all graphic (str ''rmdir'')" "list_all graphic (str ''dd'')"
    "list_all graphic (str ''/usr/bin/rm'')" "list_all graphic (str ''/bin/rm'')" "list_all graphic (str ''/usr/bin/dd'')"
    by (simp_all add: graphic_def)
  have "normalizeCommandSuffix (coarseReduceCommand (str ''rm'')) = Inr (SLASH # str ''rm'')"
    "normalizeCommandSuffix (coarseReduceCommand (str ''rmdir'')) = Inr (SLASH # str ''rmdir'')"
    "normalizeCommandSuffix (coarseReduceCommand (str ''dd'')) = Inr (SLASH # str ''dd'')"
    "normalizeCommandSuffix (coarseReduceCommand (str ''/usr/bin/rm'')) = Inr (SLASH # str ''rm'')"
    "normalizeCommandSuffix (coarseReduceCommand (str ''/bin/rm'')) = Inr (SLASH # str ''rm'')"
    "normalizeCommandSuffix (coarseReduceCommand (str ''/usr/bin/dd'')) = Inr (SLASH # str ''dd'')"
    using normalize_command [OF g(1), of "str ''rm''" "[]"] normalize_command [OF g(2), of "str ''rmdir''" "[]"]
      normalize_command [OF g(3), of "str ''dd''" "[]"] normalize_command [OF g(4), of "str ''rm''" "str ''/usr/bin/''"]
      normalize_command [OF g(5), of "str ''rm''" "str ''/bin/''"] normalize_command [OF g(6), of "str ''dd''" "str ''/usr/bin/''"]
    by simp_all
  then show ?thesis by (simp add: default_commands_def default_basenames_def del: str_simps)
qed

lemma default_secret:
  "first_path_policy default_path_rules p =
     (if \<exists>s \<in> set default_path_patterns. suffix (SLASH # s) p then Some 1 else None)"
proof -
  have "normalizePathSuffix (TrimPrefix s [0x2a, 0x2a, SLASH]) = Inr (SLASH # s)" if "s \<in> set default_path_patterns" for s
    using default_path_rules_normal that
    by (auto simp: default_path_rules_def list_all2_conv_all_nth in_set_conv_nth)
  then show ?thesis
    unfolding first_path_policy_def by (subst find_const [of _ _ 1]) (auto simp: default_path_rules_def)
qed

lemma default_command:
  "first_command_policy default_command_rules p =
     (if after_last_slash p \<in> set default_basenames then Some 2 else None)"
proof -
  have "(\<lambda>c. normalizeCommandSuffix (coarseReduceCommand c)) ` set default_commands =
      (\<lambda>b. Inr (SLASH # b)) ` set default_basenames"
    using arg_cong [OF default_commands_normal, of set] by simp
  then have "(\<exists>c \<in> set default_commands. normalizeCommandSuffix (coarseReduceCommand c) = Inr (SLASH # after_last_slash p)) \<longleftrightarrow>
      after_last_slash p \<in> set default_basenames"
    by (auto simp: image_iff) (metis (no_types, lifting) image_iff list.inject sum.inject(2))+
  then show ?thesis
    unfolding first_command_policy_def by (subst find_const [of _ _ 2]) (auto simp: default_command_rules_def)
qed

lemma default_rules_load:
  "length default_path_rules \<le> 16" "\<forall>q \<in> set default_path_rules. \<exists>suf. normalizePathSuffix (Pattern q) = Inr suf"
  "length default_command_rules \<le> 16"
  "\<forall>q \<in> set default_command_rules. \<exists>suf. normalizeCommandSuffix (Pattern q) = Inr suf"
proof -
  show "length default_path_rules \<le> 16" by (simp add: default_path_rules_def default_path_patterns_def)
  show "length default_command_rules \<le> 16" by (simp add: default_command_rules_def default_commands_def)
  show "\<forall>q \<in> set default_path_rules. \<exists>suf. normalizePathSuffix (Pattern q) = Inr suf"
    using default_path_rules_normal by (force simp: list_all2_conv_all_nth in_set_conv_nth)
  have "(\<lambda>c. normalizeCommandSuffix (coarseReduceCommand c)) ` set default_commands =
      (\<lambda>b. Inr (SLASH # b)) ` set default_basenames"
    using arg_cong [OF default_commands_normal, of set] by simp
  then show "\<forall>q \<in> set default_command_rules. \<exists>suf. normalizeCommandSuffix (Pattern q) = Inr suf"
    by (auto simp: default_command_rules_def)
qed

section \<open>On which hosts it loads\<close>

lemma add_prefixes_total:
  assumes "\<forall>raw \<in> set raws. \<exists>p. resolveOnePrefix E raw = Inr p \<and> \<not> isDangerousAllowPrefix p home"
  shows "\<exists>out'. add_prefixes E home raws out = Inr out' \<and> length out' \<le> length out + length raws \<and>
    set out' = set out \<union> {p. \<exists>raw \<in> set raws. resolveOnePrefix E raw = Inr p}"
  using assms
proof (induction raws arbitrary: out)
  case (Cons raw raws)
  then obtain p where p: "resolveOnePrefix E raw = Inr p" "\<not> isDangerousAllowPrefix p home" by auto
  define o1 where "o1 = (if p \<in> set out then out else out @ [p])"
  have o1: "add_prefix home p out = Inr o1" "length o1 \<le> length out + 1" "set o1 = insert p (set out)"
    using p(2) by (auto simp: add_prefix_def o1_def)
  obtain out' where "add_prefixes E home raws o1 = Inr out'" "length out' \<le> length o1 + length raws"
    "set out' = set o1 \<union> {p. \<exists>raw \<in> set raws. resolveOnePrefix E raw = Inr p}"
    using Cons by force
  with p(1) o1 show ?case by auto
qed simp

text \<open>A relative home suffix of plain elements resolves like the prefix it names.\<close>

definition home_suffix_ok :: "bytes \<Rightarrow> bool" where
  "home_suffix_ok suf \<longleftrightarrow> TrimSpace suf = suf \<and> suf \<noteq> [] \<and> hd suf \<noteq> SLASH"

lemma add_home_suffixes_as_prefixes:
  "list_all home_suffix_ok sufs \<Longrightarrow> add_home_suffixes E home sufs out = add_prefixes E home (map (Join2 home) sufs) out"
proof (induction sufs arbitrary: out)
  case (Cons suf sufs)
  then have s: "TrimSpace suf = suf" "suf \<noteq> []" "hd suf \<noteq> SLASH" by (auto simp: home_suffix_ok_def)
  then have "\<not> prefix [SLASH] suf" by (cases suf) auto
  then have "TrimPrefix suf [SLASH] = suf" "\<not> IsAbs suf" by (auto simp: TrimPrefix_def IsAbs_def)
  moreover have "add_home_suffixes E home sufs = add_prefixes E home (map (Join2 home) sufs)"
    using Cons by (simp add: fun_eq_iff)
  ultimately show ?case using s by simp
qed simp

lemma add_prefixes_fails:
  "add_prefixes E home raws out = Inr out' \<Longrightarrow> raw \<in> set raws \<Longrightarrow> \<exists>p. resolveOnePrefix E raw = Inr p"
  by (induction raws arbitrary: out) (auto simp: and_then_Inr_iff)

lemma add_prefixes_holds:
  "add_prefixes E home raws out = Inr out' \<Longrightarrow>
   set out \<subseteq> set out' \<and> (\<forall>raw \<in> set raws. \<forall>p. resolveOnePrefix E raw = Inr p \<longrightarrow> p \<in> set out')"
proof (induction raws arbitrary: out)
  case (Cons raw raws)
  then obtain p o1 where p: "resolveOnePrefix E raw = Inr p" "add_prefix home p out = Inr o1"
    "add_prefixes E home raws o1 = Inr out'" by (auto simp: and_then_Inr_iff)
  moreover have "set o1 = insert p (set out)" using p(2) by (auto simp: add_prefix_def split: if_splits)
  ultimately show ?case using Cons.IH [OF p(3)] by auto
qed simp

text \<open>The elements of the home suffixes.\<close>

definition home_elems :: "bytes list list" where
  "home_elems = map (map str)
     [[''.claude''], [''.claude.json''], [''.local''], [''.config'', ''anthropic''], [''.codex''], [''.config'', ''codex'']]"

lemma home_elems:
  "default_home_suffixes = map (join_with SLASH) home_elems"
  "\<forall>xs \<in> set home_elems. list_all plain xs \<and> xs \<noteq> [] \<and> last xs \<noteq> str ''home'' \<and> length (join_with SLASH xs) \<le> 17 \<and>
     graphic (last (join_with SLASH xs))"
  "map str [''.config'', ''anthropic''] \<in> set home_elems"
  "list_all home_suffix_ok default_home_suffixes"
proof -
  show "default_home_suffixes = map (join_with SLASH) home_elems"
    by (simp add: default_home_suffixes_def home_elems_def)
  show "\<forall>xs \<in> set home_elems. list_all plain xs \<and> xs \<noteq> [] \<and> last xs \<noteq> str ''home'' \<and>
      length (join_with SLASH xs) \<le> 17 \<and> graphic (last (join_with SLASH xs))"
    by (simp add: home_elems_def plain_def graphic_def)
  show "map str [''.config'', ''anthropic''] \<in> set home_elems"
    by (simp add: home_elems_def)
  have "home_suffix_ok s" if "s \<noteq> []" "graphic (hd s)" "graphic (last s)" "hd s \<noteq> SLASH" for s
    using that TrimSpace_graphic by (simp add: home_suffix_ok_def)
  then show "list_all home_suffix_ok default_home_suffixes"
    by (simp add: default_home_suffixes_def graphic_def)
qed

lemma default_prefixes_plain:
  "raw \<in> set default_prefixes \<Longrightarrow> TrimSpace raw = raw \<and> IsAbs raw \<and> Clean raw = raw"
proof -
  have "\<forall>raw \<in> set default_prefixes. raw \<noteq> [] \<and> graphic (hd raw) \<and> graphic (last raw) \<and> IsAbs raw \<and> Clean raw = raw"
    by (simp add: default_prefixes_def graphic_def IsAbs_def Clean_def render_def)
  then show "raw \<in> set default_prefixes \<Longrightarrow> ?thesis" using TrimSpace_graphic by blast
qed

lemma resolve_default_prefix:
  assumes "raw \<in> set default_prefixes" "length (real_path E raw) \<le> 64"
  shows "resolveOnePrefix E raw = Inr (real_path E raw)"
  using default_prefixes_plain [OF assms(1)] assms(2)
  by (auto simp: resolveOnePrefix_def abs_in_def Let_def slot_limits IsAbs_iff)

text \<open>A host the policy is meant for: a clean home directory below which no name is a symbolic link.\<close>

definition plain_home :: "os_env \<Rightarrow> bytes list \<Rightarrow> bool" where
  "plain_home E hs \<longleftrightarrow> agentHomeDir E = Some (abs_of hs) \<and> list_all plain hs \<and> hs \<noteq> [] \<and>
     (\<forall>xs. xs \<noteq> [] \<longrightarrow> EvalSymlinks E (abs_of (hs @ xs)) \<in> {None, Some (abs_of (hs @ xs))})"

lemma length_abs_of: "hs \<noteq> [] \<Longrightarrow> xs \<noteq> [] \<Longrightarrow> length (abs_of (hs @ xs)) = length (abs_of hs) + 1 + length (join_with SLASH xs)"
  by (simp add: abs_of_def join_with_append)

lemma resolve_home_suffix:
  assumes "plain_home E hs" "xs \<in> set home_elems"
  shows "resolveOnePrefix E (Join2 (abs_of hs) (join_with SLASH xs)) =
      (if 63 < length (abs_of hs) + length (join_with SLASH xs) then Inl (Allow_prefix_too_long (abs_of (hs @ xs)))
       else Inr (abs_of (hs @ xs)))"
    and "\<not> isDangerousAllowPrefix (abs_of (hs @ xs)) (abs_of hs)"
proof -
  have hs: "list_all plain hs" "hs \<noteq> []" using assms(1) by (auto simp: plain_home_def)
  have xs: "list_all plain xs" "xs \<noteq> []" "last xs \<noteq> str ''home''" "graphic (last (join_with SLASH xs))"
    using home_elems(2) assms(2) by auto
  have all: "list_all plain (hs @ xs)" using hs xs by simp
  have ne: "join_with SLASH xs \<noteq> []" using xs(1,2) by (cases "(SLASH, xs)" rule: join_with.cases) (auto simp: plain_def)
  have trim: "TrimSpace (abs_of (hs @ xs)) = abs_of (hs @ xs)"
  proof (rule TrimSpace_graphic)
    show "graphic (hd (abs_of (hs @ xs)))" by (simp add: abs_of_def graphic_def)
    show "graphic (last (abs_of (hs @ xs)))"
      using xs(2,4) hs(2) ne by (simp add: abs_of_def join_with_append)
  qed (simp add: abs_of_def)
  have real: "real_path E (abs_of (hs @ xs)) = abs_of (hs @ xs)"
    using assms(1) xs(2) Clean_abs_of [OF all] by (auto simp: plain_home_def real_path_def)
  show "resolveOnePrefix E (Join2 (abs_of hs) (join_with SLASH xs)) =
      (if 63 < length (abs_of hs) + length (join_with SLASH xs) then Inl (Allow_prefix_too_long (abs_of (hs @ xs)))
       else Inr (abs_of (hs @ xs)))"
    using length_abs_of [OF hs(2) xs(2)] Clean_abs_of [OF all] trim real
    by (simp add: Join2_abs_of_rel [OF hs(1) xs(1,2)] resolveOnePrefix_def abs_in_def Let_def slot_limits)
      (simp add: abs_of_def)
  have "abs_of (hs @ xs) \<noteq> abs_of []" "abs_of (hs @ xs) \<noteq> abs_of [str ''home'']" "abs_of (hs @ xs) \<noteq> abs_of hs"
    using abs_of_inj [OF all, of "[]"] abs_of_inj [OF all, of "[str ''home'']"] abs_of_inj [OF all hs(1)] xs(2,3)
    by (auto simp: plain_def append_eq_Cons_conv)
  then show "\<not> isDangerousAllowPrefix (abs_of (hs @ xs)) (abs_of hs)"
    by (simp add: isDangerousAllowPrefix_def Clean_abs_of [OF hs(1)]) (simp add: abs_of_def)
qed

lemma default_prefixes_resolve_iff:
  assumes "plain_home E hs"
    and "\<forall>raw \<in> set default_prefixes. length (real_path E raw) \<le> 64 \<and>
      \<not> isDangerousAllowPrefix (real_path E raw) (abs_of hs)"
  shows "(\<exists>pfxs. resolveAllowPrefixes E default_prefixes default_home_suffixes = Inr pfxs) \<longleftrightarrow> length (abs_of hs) \<le> 46"
proof -
  let ?home = "abs_of hs"
  have home: "agentHomeDir E = Some ?home" using assms(1) by (simp add: plain_home_def)
  obtain o1 where o1: "add_prefixes E ?home default_prefixes [] = Inr o1" "length o1 \<le> length default_prefixes"
    using add_prefixes_total [of default_prefixes E ?home "[]"] assms(2) resolve_default_prefix by fastforce
  note r = resolve_home_suffix [OF assms(1)]
  note as = add_home_suffixes_as_prefixes [OF home_elems(4), of E ?home o1]
  show ?thesis
  proof
    assume "\<exists>pfxs. resolveAllowPrefixes E default_prefixes default_home_suffixes = Inr pfxs"
    then obtain out where "add_prefixes E ?home (map (Join2 ?home) default_home_suffixes) o1 = Inr out"
      using o1(1) as by (auto simp: resolveAllowPrefixes_def home and_then_Inr_iff)
    then have "\<exists>p. resolveOnePrefix E (Join2 ?home (join_with SLASH (map str [''.config'', ''anthropic'']))) = Inr p"
      by (rule add_prefixes_fails) (unfold home_elems(1) set_map, intro imageI, rule home_elems(3))
    then show "length ?home \<le> 46"
      unfolding r(1) [OF home_elems(3)] by (auto split: if_splits)
  next
    assume len: "length ?home \<le> 46"
    have "\<forall>raw \<in> set (map (Join2 ?home) default_home_suffixes).
        \<exists>p. resolveOnePrefix E raw = Inr p \<and> \<not> isDangerousAllowPrefix p ?home"
      unfolding home_elems(1) using r home_elems(2) len by fastforce
    from add_prefixes_total [OF this, of o1] obtain out where
      out: "add_prefixes E ?home (map (Join2 ?home) default_home_suffixes) o1 = Inr out"
        "length out \<le> length o1 + length default_home_suffixes" by auto
    have "length out \<le> 25" using out(2) o1(2) by (simp add: default_prefixes_def default_home_suffixes_def)
    then show "\<exists>pfxs. resolveAllowPrefixes E default_prefixes default_home_suffixes = Inr pfxs"
      using o1(1) out(1) as by (simp add: resolveAllowPrefixes_def home maxAllowPrefixSlots_def)
  qed
qed

section \<open>Properties\<close>

text \<open>
  C12 (bounds): the shipped policy on a host: when the working directory can be a workspace and the
  fixed prefixes resolve to names that fit, the configuration under the shipped policy succeeds
  exactly when the agent's home directory has at most 46 bytes; with a longer home
  \<open>.config/anthropic\<close> does not fit a slot of 64 bytes and the daemon refuses to start.
\<close>

theorem default_policy_starts_iff:
  assumes "enforcer_wf s" "plain_home E hs" "resolveWorkspaceRoot E [] = Inr root"
    and "\<forall>raw \<in> set default_prefixes. length (real_path E raw) \<le> 64 \<and>
      \<not> isDangerousAllowPrefix (real_path E raw) (abs_of hs)"
  shows "(\<exists>l s'. configure E default_policy port dev ino net_ok dns_ok s = Inr (l, s')) \<longleftrightarrow> length (abs_of hs) \<le> 46"
proof -
  note iff = default_prefixes_resolve_iff [OF assms(2,4)]
  have ok: "\<exists>s'. apply_loaded l port dev ino net_ok dns_ok s = Inr s'" if l: "loadAllPolicies E default_policy = Inr l" for l
  proof -
    obtain pfxs where w: "workspacePolicy l = Some \<lparr>wp_PolicyID = 4, wp_Feedback = ap_Feedback workspace_confinement,
        wp_Root = root, wp_AllowPrefixes = pfxs\<rparr>"
      "resolveAllowPrefixes E default_prefixes default_home_suffixes = Inr pfxs"
      "pathPatterns l = default_path_rules" "commandPatterns l = default_command_rules"
      using default_loads_iff [OF l] assms(3) by auto
    have "length pfxs \<le> 25" "\<forall>p \<in> set pfxs. length p \<le> 64"
      using resolveAllowPrefixes_ok [OF w(2)] by (auto simp: prefixes_ok_def)
    then have ws: "\<exists>s'. applyWorkspacePolicy t (workspacePolicy l) = Inr s'" if "enforcer_wf t" for t
      using applyWorkspacePolicy_ok [OF that] resolveWorkspaceRoot_props [OF assms(3)] by (simp add: w(1))
    show ?thesis using apply_loaded_ok [OF assms(1), of l] default_rules_load ws w(3,4) by simp
  qed
  show ?thesis
  proof
    assume "\<exists>l s'. configure E default_policy port dev ino net_ok dns_ok s = Inr (l, s')"
    then obtain l where "loadAllPolicies E default_policy = Inr l" by (auto simp: configure_def and_then_Inr_iff)
    from default_loads_iff [OF this] show "length (abs_of hs) \<le> 46" using iff by blast
  next
    assume "length (abs_of hs) \<le> 46"
    then obtain l where l: "loadAllPolicies E default_policy = Inr l" using iff default_loads [OF assms(3)] by blast
    with ok [OF l] show "\<exists>l s'. configure E default_policy port dev ino net_ok dns_ok s = Inr (l, s')"
      by (auto simp: configure_def and_then_Inr_iff)
  qed
qed

lemma sample_default_home: "plain_home sample_os [str ''home'', str ''a'']"
  using sample_home by (simp add: plain_home_def plain_def abs_of_def sample_os_def)

lemma sample_default_root: "resolveWorkspaceRoot sample_os [] = Inr (str ''/ws'')"
  by (simp add: resolveWorkspaceRoot_def sample_os_def abs_in_def IsAbs_def Clean_def render_def real_path_def
      maxWorkspaceRootLen_def)

lemma sample_default_prefixes:
  "\<forall>raw \<in> set default_prefixes. real_path sample_os raw = raw \<and> length raw \<le> 64 \<and>
     \<not> isDangerousAllowPrefix raw (abs_of [str ''home'', str ''a''])"
proof
  fix raw
  assume raw: "raw \<in> set default_prefixes"
  have "real_path sample_os raw = raw"
    using default_prefixes_plain [OF raw] by (simp add: real_path_def sample_os_def)
  moreover have "length raw \<le> 64 \<and> raw \<noteq> [SLASH] \<and> raw \<noteq> str ''/home'' \<and> raw \<noteq> abs_of [str ''home'', str ''a'']"
    using raw unfolding default_prefixes_def by (auto simp: abs_of_def)
  moreover have "Clean (abs_of [str ''home'', str ''a'']) = abs_of [str ''home'', str ''a'']"
    by (rule Clean_abs_of) (simp add: plain_def)
  ultimately show "real_path sample_os raw = raw \<and> length raw \<le> 64 \<and>
     \<not> isDangerousAllowPrefix raw (abs_of [str ''home'', str ''a''])"
    by (simp add: isDangerousAllowPrefix_def del: str_simps)
qed

theorem default_policy_starts_iff_witness:
  "\<exists>l s'. configure sample_os default_policy 8080 3 4 True True sample = Inr (l, s')"
proof -
  have "length (abs_of [str ''home'', str ''a'']) \<le> 46" by (simp add: abs_of_def)
  then show ?thesis
    using default_policy_starts_iff [OF sample_wf sample_default_home sample_default_root, of 8080 3 4 True True]
      sample_default_prefixes
    by (auto simp del: str_simps)
qed

text \<open>
  C11 (functional): what the shipped policy promises, request by request: opens outside the
  workspace and the prefixes are refused under number 4, opens inside under number 1 exactly for
  names ending in one of the four credential suffixes; changes of a directory outside are
  refused; programs whose basename is \<open>rm\<close>, \<open>rmdir\<close> or \<open>dd\<close> are refused under number 2; the only IPv4
  destinations are the proxy and the local resolver, and network findings deny.
\<close>

theorem default_policy_judgement:
  assumes "loadAllPolicies E default_policy = Inr l"
  shows "\<exists>root pfxs. resolveWorkspaceRoot E [] = Inr root \<and>
    resolveAllowPrefixes E default_prefixes default_home_suffixes = Inr pfxs \<and>
    (\<forall>p. judge (promise_of l port) (Open (Some p)) =
       (if \<not> list_ex (pathStartsWith p) (root # pfxs) then Some (4, Some p)
        else if \<exists>s \<in> set default_path_patterns. suffix (SLASH # s) p then Some (1, Some p) else None)) \<and>
    (\<forall>p. judge (promise_of l port) (Change_dir (Some p)) =
       (if list_ex (pathStartsWith p) (root # pfxs) then None else Some (4, Some p))) \<and>
    (\<forall>p arg. judge (promise_of l port) (Execute (Some p) arg) =
       (if after_last_slash p \<in> {str ''rm'', str ''rmdir'', str ''dd''} then Some (2, Some p)
        else if after_last_slash (take 255 arg) \<in> {str ''rm'', str ''rmdir'', str ''dd''} then Some (2, Some (take 255 arg))
        else None)) \<and>
    (\<forall>a. sin_family a = AF_INET \<longrightarrow> judge (promise_of l port) (Send a) =
       (if (bpf_ntohl (s_addr a), bpf_ntohs (sin_port a)) \<in> {(0x7f000001, port), (0x7f000035, 53)} then None
        else Some (3, Some (egress_text a))) \<and> denies (promise_of l port) (Send a))"
proof -
  let ?pr = "promise_of l port"
  obtain root pfxs pp where l: "pathPatterns l = default_path_rules" "commandPatterns l = default_command_rules"
    "enforceNetwork l" "allowLocalDNS l" "proxyPolicy l = Some pp" "pp_PolicyID pp = 3"
    "resolveWorkspaceRoot E [] = Inr root" "resolveAllowPrefixes E default_prefixes default_home_suffixes = Inr pfxs"
    "workspacePolicy l = Some \<lparr>wp_PolicyID = 4, wp_Feedback = ap_Feedback workspace_confinement, wp_Root = root,
       wp_AllowPrefixes = pfxs\<rparr>"
    using default_loads_iff [OF assms] by blast
  have out: "outside ?pr (Some p) = (if list_ex (pathStartsWith p) (root # pfxs) then None else Some (4, Some p))" for p
    by (simp add: outside_def promise_of_def l inside_def)
  have sec: "secret ?pr p = (if \<exists>s \<in> set default_path_patterns. suffix (SLASH # s) p then Some (1, Some p) else None)" for p
    by (simp add: secret_def promise_of_def l default_secret)
  have "set default_basenames = {str ''rm'', str ''rmdir'', str ''dd''}" by (auto simp: default_basenames_def)
  then have cmd: "forbidden_command ?pr p =
      (if after_last_slash p \<in> {str ''rm'', str ''rmdir'', str ''dd''} then Some (2, Some p) else None)" for p
    by (simp add: forbidden_command_def promise_of_def l default_command del: str_simps)
  have net: "pr_destinations ?pr = [(0x7f000001, port), (0x7f000035, 53)]" "pr_network_id ?pr = 3" "pr_network ?pr"
    by (simp_all add: promise_of_def l)
  show ?thesis
  proof (intro exI conjI allI impI)
    show "resolveWorkspaceRoot E [] = Inr root"
      "resolveAllowPrefixes E default_prefixes default_home_suffixes = Inr pfxs" by (fact l)+
  qed (simp_all add: out sec cmd net or_else_def destination_ok_def families del: str_simps)
qed

theorem default_policy_judgement_witness:
  "\<exists>l. loadAllPolicies sample_os default_policy = Inr l \<and>
     judge (promise_of l 8080) (Change_dir (Some (str ''/ws''))) = None"
proof -
  have "\<exists>pfxs. resolveAllowPrefixes sample_os default_prefixes default_home_suffixes = Inr pfxs"
    using default_prefixes_resolve_iff [OF sample_default_home] sample_default_prefixes
    by (simp add: abs_of_def)
  then obtain l where l: "loadAllPolicies sample_os default_policy = Inr l"
    using default_loads [OF sample_default_root] by blast
  have "pathStartsWith (str ''/ws'') (str ''/ws'')" by (simp add: pathStartsWith_def)
  with default_policy_judgement [OF l, of 8080] l sample_default_root show ?thesis
    by (auto simp del: str_simps judge.simps)
qed

text \<open>
  C38 (error): what the shipped policy leaves open: with \<open>/tmp\<close> no link, the agent may create, remove,
  rename and link names in the default state directory of the daemon and open every file there
  whose name has no credential suffix: the audit database, the log, the active session and the
  pending violations.
\<close>

theorem default_policy_leaves_state_open:
  assumes "loadAllPolicies E default_policy = Inr l" "real_path E (str ''/tmp'') = str ''/tmp''"
    and "pathStartsWith p (state_root [])" "\<not> (\<exists>s \<in> set default_path_patterns. suffix (SLASH # s) p)"
  shows "judge (promise_of l port) (Change_dir (Some p)) = None \<and> judge (promise_of l port) (Open (Some p)) = None \<and>
    judge (promise_of l port) (Move (Some p) (Some (state_root []))) = None"
proof -
  obtain root pfxs where l: "pathPatterns l = default_path_rules"
    "resolveAllowPrefixes E default_prefixes default_home_suffixes = Inr pfxs"
    "workspacePolicy l = Some \<lparr>wp_PolicyID = 4, wp_Feedback = ap_Feedback workspace_confinement, wp_Root = root,
       wp_AllowPrefixes = pfxs\<rparr>"
    using default_loads_iff [OF assms(1)] by blast
  from l(2) obtain home o1 where o1: "add_prefixes E home default_prefixes [] = Inr o1"
    "add_home_suffixes E home default_home_suffixes o1 = Inr pfxs"
    by (auto simp: resolveAllowPrefixes_def and_then_Inr_iff split: option.splits if_splits)
  have tmp: "str ''/tmp'' \<in> set default_prefixes" by (simp add: default_prefixes_def)
  have "resolveOnePrefix E (str ''/tmp'') = Inr (str ''/tmp'')"
    using resolve_default_prefix [OF tmp, of E] assms(2) by simp
  then have mem: "str ''/tmp'' \<in> set pfxs"
    using add_prefixes_holds [OF o1(1)] tmp
      add_prefixes_holds [OF o1(2) [unfolded add_home_suffixes_as_prefixes [OF home_elems(4)]]] by blast
  have root: "state_root [] = str ''/tmp'' @ str ''/agentguard''"
    by (simp add: state_root_def defaultStateDir_def Clean_def IsAbs_def render_def)
  have under: "pathStartsWith q (str ''/tmp'')" if "pathStartsWith q (state_root [])" for q
    using that unfolding root pathStartsWith_iff by (auto simp: path_under_def prefix_def)
  have free: "outside (promise_of l port) (Some q) = None" if "pathStartsWith q (state_root [])" for q
    using under [OF that] mem by (auto simp: outside_def promise_of_def l(3) inside_def list_ex_iff simp del: str_simps)
  have self: "pathStartsWith (state_root []) (state_root [])" by (simp add: root pathStartsWith_def)
  show ?thesis
    using free [OF assms(3)] free [OF self] assms(4)
    by (simp add: or_else_def secret_def promise_of_def [of l] l(1) default_secret)
qed

theorem default_policy_leaves_state_open_witness:
  "\<exists>l. loadAllPolicies sample_os default_policy = Inr l \<and>
     judge (promise_of l 8080) (Open (Some (str ''/tmp/agentguard/agentguard.db''))) = None"
proof -
  have "\<exists>pfxs. resolveAllowPrefixes sample_os default_prefixes default_home_suffixes = Inr pfxs"
    using default_prefixes_resolve_iff [OF sample_default_home] sample_default_prefixes
    by (simp add: abs_of_def)
  then obtain l where l: "loadAllPolicies sample_os default_policy = Inr l"
    using default_loads [OF sample_default_root] by blast
  have "str ''/tmp'' \<in> set default_prefixes" by (simp add: default_prefixes_def)
  then have tmp: "real_path sample_os (str ''/tmp'') = str ''/tmp''" using sample_default_prefixes by blast
  have "pathStartsWith (str ''/tmp/agentguard/agentguard.db'') (state_root [])"
    by (simp add: pathStartsWith_def state_root_def defaultStateDir_def Clean_def IsAbs_def render_def)
  moreover have "\<not> (\<exists>s \<in> set default_path_patterns. suffix (SLASH # s) (str ''/tmp/agentguard/agentguard.db''))"
    by (simp add: default_path_patterns_def suffix_def append_eq_Cons_conv Cons_eq_append_conv)
  ultimately show ?thesis using default_policy_leaves_state_open [OF l tmp] l by (auto simp del: str_simps judge.simps)
qed

end
