(* ===== verification/Client_Hello.thy ===== *)
theory Client_Hello
  imports Go_Strings
begin

text \<open>
  \<open>peekSNI\<close> and \<open>parseClientHelloSNI\<close> of \<open>proxy.go\<close>. Every index and slice expression of the
  source is checked against the length of what it reads: out of range it gives
  \<open>Index_out_of_range\<close>, the panic of the Go runtime, and the lemmas show that the panic does
  not happen. Lengths come from at most two bytes and the buffer has at most 16389 bytes, so
  natural numbers stand for Go's 64-bit \<open>int\<close>.
\<close>

section \<open>Results\<close>

datatype sni_error =
  Index_out_of_range
| Short_peek
| Buffer_full
| Not_tls
| Bad_record_length
| Not_client_hello
| Truncated_hello
| Truncated_session_id
| Truncated_cipher_suites
| No_extensions
| Malformed_server_name
| No_host_name
| No_sni_extension

section \<open>Reading the message\<close>

definition byte_at :: "bytes \<Rightarrow> nat \<Rightarrow> sni_error + nat" where
  "byte_at b i = (if i < length b then Inr (unat (b ! i)) else Inl Index_out_of_range)"

text \<open>\<open>int(b[i])<<8 | int(b[i+1])\<close>\<close>

definition u16_at :: "bytes \<Rightarrow> nat \<Rightarrow> sni_error + nat" where
  "u16_at b i =
     and_then (byte_at b i) (\<lambda>hi. and_then (byte_at b (i + 1)) (\<lambda>lo. Inr (hi * 256 + lo)))"

definition slice :: "bytes \<Rightarrow> nat \<Rightarrow> nat \<Rightarrow> sni_error + bytes" where
  "slice b lo hi =
     (if lo \<le> hi \<and> hi \<le> length b then Inr (take (hi - lo) (drop lo b)) else Inl Index_out_of_range)"

text \<open>The entries of a \<open>server_name\<close> extension.\<close>

function name_loop :: "bytes \<Rightarrow> nat \<Rightarrow> nat \<Rightarrow> sni_error + bytes" where
  "name_loop extData listLen p =
     (if p + 3 \<le> length extData \<and> p + 3 \<le> 2 + listLen then
        and_then (byte_at extData p) (\<lambda>nameType.
        and_then (u16_at extData (p + 1)) (\<lambda>nameLen.
          if length extData < p + 3 + nameLen then Inl No_host_name
          else if nameType = 0 then slice extData (p + 3) (p + 3 + nameLen)
          else name_loop extData listLen (p + 3 + nameLen)))
      else Inl No_host_name)"
  by pat_completeness auto
termination
  by (relation "measure (\<lambda>(d, l, p). length d - p)") auto

definition server_name :: "bytes \<Rightarrow> sni_error + bytes" where
  "server_name extData =
     (if length extData < 2 then Inl Malformed_server_name
      else and_then (u16_at extData 0) (\<lambda>listLen. name_loop extData listLen 2))"

text \<open>The extensions up to position \<open>lim\<close>.\<close>

function ext_loop :: "bytes \<Rightarrow> nat \<Rightarrow> nat \<Rightarrow> sni_error + bytes" where
  "ext_loop body lim pos =
     (if pos + 4 \<le> lim then
        and_then (u16_at body pos) (\<lambda>extType.
        and_then (u16_at body (pos + 2)) (\<lambda>extLen.
          if length body < pos + 4 + extLen then Inl No_sni_extension
          else if extType = 0 then
            and_then (slice body (pos + 4) (pos + 4 + extLen)) server_name
          else ext_loop body lim (pos + 4 + extLen)))
      else Inl No_sni_extension)"
  by pat_completeness auto
termination
  by (relation "measure (\<lambda>(b, l, p). l - p)") auto

declare name_loop.simps [simp del] ext_loop.simps [simp del]

definition parseClientHelloSNI :: "bytes \<Rightarrow> sni_error + bytes" where
  "parseClientHelloSNI body =
     (if length body < 4 \<or> body ! 0 \<noteq> 1 then Inl Not_client_hello
      else
        let pos = 4 in
        if length body < pos + 2 + 32 + 1 then Inl Truncated_hello
        else
          let pos = pos + 2 + 32 in
          and_then (byte_at body pos) (\<lambda>sidLen.
            let pos = pos + 1 + sidLen in
            if length body < pos + 2 then Inl Truncated_session_id
            else and_then (u16_at body pos) (\<lambda>csLen.
              let pos = pos + 2 + csLen in
              if length body < pos + 1 then Inl Truncated_cipher_suites
              else and_then (byte_at body pos) (\<lambda>cmLen.
                let pos = pos + 1 + cmLen in
                if length body < pos + 2 then Inl No_extensions
                else and_then (u16_at body pos) (\<lambda>extTotalLen.
                  let pos = pos + 2;
                      lim = (if length body < pos + extTotalLen then length body else pos + extTotalLen)
                  in ext_loop body lim pos)))))"

text \<open>
  \<open>bufio.Reader.Peek\<close> on a reader of the default size: \<open>inp\<close> is what the connection delivers
  before its deadline.
\<close>

definition defaultBufSize :: nat where "defaultBufSize = 4096"

definition Peek :: "bytes \<Rightarrow> nat \<Rightarrow> sni_error + bytes" where
  "Peek inp n =
     (if defaultBufSize < n then Inl Buffer_full
      else if length inp < n then Inl Short_peek
      else Inr (take n inp))"

definition peekSNI :: "bytes \<Rightarrow> sni_error + bytes" where
  "peekSNI br =
     and_then (Peek br 5) (\<lambda>hdr.
       if hdr ! 0 \<noteq> 0x16 then Inl Not_tls
       else
         let recLen = unat (hdr ! 3) * 256 + unat (hdr ! 4) in
         if recLen \<le> 0 \<or> 16384 < recLen then Inl Bad_record_length
         else and_then (Peek br (5 + recLen)) (\<lambda>buf. parseClientHelloSNI (drop 5 buf)))"

section \<open>No read out of range\<close>

lemma byte_at_ok: "i < length b \<Longrightarrow> byte_at b i = Inr (unat (b ! i))"
  by (simp add: byte_at_def)

lemma u16_at_ok: "i + 1 < length b \<Longrightarrow> u16_at b i = Inr (unat (b ! i) * 256 + unat (b ! (i + 1)))"
  by (simp add: u16_at_def byte_at_def)

lemma slice_ok: "lo \<le> hi \<Longrightarrow> hi \<le> length b \<Longrightarrow> slice b lo hi = Inr (take (hi - lo) (drop lo b))"
  by (simp add: slice_def)

lemma name_loop_safe: "name_loop d l p \<noteq> Inl Index_out_of_range"
proof (induction d l p rule: name_loop.induct)
  case (1 d l p)
  then show ?case
    by (subst name_loop.simps) (auto simp: byte_at_ok u16_at_ok slice_ok)
qed

lemma server_name_safe: "server_name d \<noteq> Inl Index_out_of_range"
  by (simp add: server_name_def u16_at_ok name_loop_safe)

lemma ext_loop_safe: "lim \<le> length body \<Longrightarrow> ext_loop body lim pos \<noteq> Inl Index_out_of_range"
proof (induction body lim pos rule: ext_loop.induct)
  case (1 body lim pos)
  then show ?case
    by (subst ext_loop.simps) (auto simp: byte_at_ok u16_at_ok slice_ok server_name_safe)
qed

lemma parseClientHelloSNI_safe: "parseClientHelloSNI body \<noteq> Inl Index_out_of_range"
  by (auto simp: parseClientHelloSNI_def byte_at_ok u16_at_ok Let_def ext_loop_safe)

lemma peekSNI_safe: "peekSNI br \<noteq> Inl Index_out_of_range"
  by (auto simp: peekSNI_def Peek_def and_then_def Let_def parseClientHelloSNI_safe split: sum.splits)

section \<open>The name is part of the message\<close>

lemma slice_sublist: "slice b lo hi = Inr r \<Longrightarrow> sublist r b"
  by (auto simp: slice_def split: if_splits)
     (meson sublist_drop sublist_order.order.trans sublist_take)

lemma name_loop_sublist: "name_loop d l p = Inr r \<Longrightarrow> sublist r d"
proof (induction d l p rule: name_loop.induct)
  case (1 d l p)
  from "1.prems" obtain t n where
    read: "p + 3 \<le> length d \<and> p + 3 \<le> 2 + l" "byte_at d p = Inr t" "u16_at d (p + 1) = Inr n"
      "\<not> length d < p + 3 + n"
    and rest: "if t = 0 then slice d (p + 3) (p + 3 + n) = Inr r else name_loop d l (p + 3 + n) = Inr r"
    by (subst (asm) name_loop.simps) (fastforce simp: and_then_Inr_iff split: if_splits)
  show ?case
    using rest "1.IH" [OF read] slice_sublist by (cases "t = 0") auto
qed

lemma server_name_sublist: "server_name d = Inr r \<Longrightarrow> sublist r d"
  by (auto simp: server_name_def and_then_Inr_iff split: if_splits dest: name_loop_sublist)

lemma ext_loop_sublist: "ext_loop b l p = Inr r \<Longrightarrow> sublist r b"
proof (induction b l p rule: ext_loop.induct)
  case (1 b l p)
  from "1.prems" show ?case
    by (subst (asm) ext_loop.simps)
       (auto simp: and_then_Inr_iff split: if_splits
         dest!: slice_sublist server_name_sublist intro: sublist_order.order.trans "1.IH")
qed

lemma parseClientHelloSNI_sublist: "parseClientHelloSNI b = Inr r \<Longrightarrow> sublist r b"
  by (auto simp: parseClientHelloSNI_def and_then_Inr_iff Let_def split: if_splits dest: ext_loop_sublist)

section \<open>Well-formed messages\<close>

text \<open>The encoding of a \<open>ClientHello\<close> by RFC 8446 and of its server name by RFC 6066.\<close>

definition be16 :: "nat \<Rightarrow> bytes" where
  "be16 n = [of_nat (n div 256), of_nat n]"

definition extension :: "nat \<times> bytes \<Rightarrow> bytes" where
  "extension e = be16 (fst e) @ be16 (length (snd e)) @ snd e"

definition host_name_list :: "bytes \<Rightarrow> bytes" where
  "host_name_list name = be16 (length name + 3) @ [0] @ be16 (length name) @ name"

definition client_hello ::
  "bytes \<Rightarrow> bytes \<Rightarrow> bytes \<Rightarrow> bytes \<Rightarrow> bytes \<Rightarrow> bytes \<Rightarrow> (nat \<times> bytes) list \<Rightarrow> bytes" where
  "client_hello len version random sid suites comprs exts =
     [1] @ len @ version @ random @ [of_nat (length sid)] @ sid @
     be16 (length suites) @ suites @ [of_nat (length comprs)] @ comprs @
     be16 (length (concat (map extension exts))) @ concat (map extension exts)"

lemma length_be16 [simp]: "length (be16 n) = 2"
  by (simp add: be16_def)

lemma length_extension: "length (extension e) = 4 + length (snd e)"
  by (simp add: extension_def)

lemma byte_at_append: "n < 256 \<Longrightarrow> i = length p \<Longrightarrow> byte_at (p @ of_nat n # q) i = Inr n"
  by (simp add: byte_at_def unat_of_nat)

lemma of_nat_u8_mod: "(of_nat (n mod 256) :: u8) = of_nat n"
  by (simp add: word_unat_eq_iff unat_of_nat)

lemma u16_at_append: "n < 65536 \<Longrightarrow> i = length p \<Longrightarrow> u16_at (p @ be16 n @ q) i = Inr n"
  using byte_at_append [of "n div 256" i p "of_nat n # q"]
    byte_at_append [of "n mod 256" "i + 1" "p @ [of_nat (n div 256)]" q]
  by (simp add: u16_at_def be16_def less_mult_imp_div_less of_nat_u8_mod)

lemma name_loop_first:
  assumes "length name < 65000"
  shows "server_name (host_name_list name) = Inr name"
proof -
  let ?d = "host_name_list name"
  have a: "u16_at ?d 0 = Inr (length name + 3)"
    using u16_at_append [of "length name + 3" 0 "[]"] assms by (simp add: host_name_list_def)
  have b: "u16_at ?d 3 = Inr (length name)"
    using u16_at_append [of "length name" 3 "be16 (length name + 3) @ [0]" name] assms
    by (simp add: host_name_list_def)
  have c: "byte_at ?d 2 = Inr 0"
    using byte_at_append [of 0 2 "be16 (length name + 3)"] by (simp add: host_name_list_def)
  have len: "length ?d = 5 + length name" by (simp add: host_name_list_def)
  have "slice ?d 5 (5 + length name) = Inr name"
    by (simp add: slice_def host_name_list_def be16_def)
  then show ?thesis
    using a b c len by (simp add: server_name_def name_loop.simps numeral_eq_Suc)
qed

lemma ext_header:
  assumes "fst e < 65536" "length (snd e) < 65536"
  shows "u16_at (p @ extension e @ q) (length p) = Inr (fst e)"
    and "u16_at (p @ extension e @ q) (length p + 2) = Inr (length (snd e))"
  using assms u16_at_append [of "fst e" "length p" p]
    u16_at_append [of "length (snd e)" "length p + 2" "p @ be16 (fst e)" "snd e @ q"]
  by (simp_all add: extension_def)

lemma ext_loop_skip:
  assumes "list_all (\<lambda>e. 0 < fst e \<and> fst e < 65536 \<and> length (snd e) < 65536) pre"
    and "length p + length (concat (map extension pre)) \<le> lim"
  shows "ext_loop (p @ concat (map extension pre) @ q) lim (length p) =
    ext_loop (p @ concat (map extension pre) @ q) lim (length p + length (concat (map extension pre)))"
  using assms
proof (induction pre arbitrary: p)
  case (Cons e pre)
  let ?b = "p @ concat (map extension (e # pre)) @ q"
  have h: "u16_at ?b (length p) = Inr (fst e)" "u16_at ?b (length p + 2) = Inr (length (snd e))"
    using Cons.prems(1) ext_header [of e p "concat (map extension pre) @ q"] by simp_all
  have "ext_loop ?b lim (length p) = ext_loop ?b lim (length (p @ extension e))"
    using Cons.prems h by (subst ext_loop.simps) (simp add: length_extension add.assoc)
  also have "\<dots> = ext_loop ?b lim (length p + length (concat (map extension (e # pre))))"
    using Cons.IH [of "p @ extension e"] Cons.prems by (simp add: add.assoc)
  finally show ?case .
qed simp

lemma ext_loop_server_name:
  assumes "length p + 4 \<le> lim" "length d < 65536"
  shows "ext_loop (p @ extension (0, d) @ q) lim (length p) = server_name d"
proof -
  let ?b = "p @ extension (0, d) @ q"
  have h: "u16_at ?b (length p) = Inr 0" "u16_at ?b (length p + 2) = Inr (length d)"
    using assms(2) ext_header [of "(0, d)" p q] by simp_all
  have "slice ?b (length p + 4) (length p + 4 + length d) = Inr d"
    by (simp add: slice_def extension_def)
  then show ?thesis
    using assms h by (subst ext_loop.simps) (simp add: length_extension)
qed

lemma ext_loop_find:
  assumes "list_all (\<lambda>e. 0 < fst e \<and> fst e < 65536 \<and> length (snd e) < 65536) pre"
    and "length d < 65536" and "lim = length (p @ concat (map extension (pre @ (0, d) # post)))"
  shows "ext_loop (p @ concat (map extension (pre @ (0, d) # post))) lim (length p) = server_name d"
proof -
  let ?E = "concat (map extension pre)" and ?q = "extension (0, d) @ concat (map extension post)"
  have "ext_loop (p @ ?E @ ?q) lim (length p) = ext_loop ((p @ ?E) @ ?q) lim (length (p @ ?E))"
    using ext_loop_skip [OF assms(1), of p lim ?q] assms(3) by simp
  also have "\<dots> = server_name d"
    using assms by (intro ext_loop_server_name) (simp_all add: length_extension)
  finally show ?thesis by simp
qed

text \<open>
  A well-formed message gives the name of its first \<open>server_name\<close> extension, whatever other
  extensions stand before and after it.
\<close>

lemma parseClientHelloSNI_client_hello:
  assumes "length len = 3" "length version = 2" "length random = 32"
    and "length sid < 256" "length suites < 65536" "length comprs < 256"
    and "list_all (\<lambda>e. 0 < fst e \<and> fst e < 65536 \<and> length (snd e) < 65536) pre"
    and "length name < 65000"
    and "length (concat (map extension (pre @ (0, host_name_list name) # post))) < 65536"
  shows "parseClientHelloSNI
    (client_hello len version random sid suites comprs (pre @ (0, host_name_list name) # post)) =
    Inr name"
proof -
  define E where "E = concat (map extension (pre @ (0, host_name_list name) # post))"
  define A1 where "A1 = [1] @ len @ version @ random"
  define A2 where "A2 = A1 @ [of_nat (length sid)] @ sid"
  define A3 where "A3 = A2 @ be16 (length suites) @ suites"
  define A4 where "A4 = A3 @ [of_nat (length comprs)] @ comprs"
  define A where "A = A4 @ be16 (length E)"
  let ?b = "client_hello len version random sid suites comprs (pre @ (0, host_name_list name) # post)"
  have b: "?b = A @ E"
    unfolding client_hello_def A_def A4_def A3_def A2_def A1_def E_def by simp
  have l1: "length A1 = 38" and l2: "length A2 = 39 + length sid"
    and l3: "length A3 = 41 + length sid + length suites"
    and l4: "length A4 = 42 + length sid + length suites + length comprs"
    using assms by (simp_all add: A4_def A3_def A2_def A1_def)
  have r1: "byte_at (A @ E) 38 = Inr (length sid)"
    using assms l1 byte_at_append [of "length sid" 38 A1] by (simp add: A_def A4_def A3_def A2_def)
  have r2: "u16_at (A @ E) (39 + length sid) = Inr (length suites)"
    using assms l2 u16_at_append [of "length suites" "39 + length sid" A2] by (simp add: A_def A4_def A3_def)
  have r3: "byte_at (A @ E) (41 + length sid + length suites) = Inr (length comprs)"
    using assms l3 byte_at_append [of "length comprs" "41 + length sid + length suites" A3]
    by (simp add: A_def A4_def)
  have r4: "u16_at (A @ E) (42 + length sid + length suites + length comprs) = Inr (length E)"
    using assms(9) l4 u16_at_append [of "length E" "42 + length sid + length suites + length comprs" A4 E]
    by (simp add: A_def E_def)
  have hd: "(A @ E) ! 0 = 1" by (simp add: A_def A4_def A3_def A2_def A1_def)
  have lA: "length A = 44 + length sid + length suites + length comprs" by (simp add: A_def l4)
  have "parseClientHelloSNI (A @ E) = ext_loop (A @ E) (length (A @ E)) (length A)"
    using hd r1 r2 r3 r4 lA by (simp add: parseClientHelloSNI_def Let_def add.assoc)
  also have "\<dots> = Inr name"
    using ext_loop_find [OF assms(7), of "host_name_list name"] assms(8) name_loop_first [OF assms(8)]
    by (simp add: E_def host_name_list_def)
  finally show ?thesis unfolding b .
qed

section \<open>Records\<close>

definition tls_record :: "bytes \<Rightarrow> bytes \<Rightarrow> bytes" where
  "tls_record version body = [0x16] @ version @ be16 (length body) @ body"

lemma record_header:
  assumes "length version = 2" "length body < 65536"
  shows "take 5 (tls_record version body @ rest) = [0x16] @ version @ be16 (length body)"
    and "unat (take 5 (tls_record version body @ rest) ! 3) * 256 +
         unat (take 5 (tls_record version body @ rest) ! 4) = length body"
proof -
  show t: "take 5 (tls_record version body @ rest) = [0x16] @ version @ be16 (length body)"
    using assms(1) by (simp add: tls_record_def)
  have "u16_at ([0x16] @ version @ be16 (length body) @ []) 3 = Inr (length body)"
    using u16_at_append [of "length body" 3 "[0x16] @ version" "[]"] assms by simp
  then show "unat (take 5 (tls_record version body @ rest) ! 3) * 256 +
         unat (take 5 (tls_record version body @ rest) ! 4) = length body"
    using u16_at_ok [of 3 "[0x16] @ version @ be16 (length body)"] assms unfolding t by simp
qed

lemma Peek_Inr: "Peek inp n = Inr b \<Longrightarrow> b = take n inp \<and> n \<le> 4096"
  by (auto simp: Peek_def defaultBufSize_def split: if_splits)

lemma peekSNI_record:
  assumes "length version = 2" "body \<noteq> []" "length body \<le> 4091"
  shows "peekSNI (tls_record version body @ rest) = parseClientHelloSNI body"
proof -
  let ?br = "tls_record version body @ rest"
  have lt: "length body < 65536" using assms(3) by simp
  have len: "length (tls_record version body) = 5 + length body"
    using assms(1) by (simp add: tls_record_def)
  have "Peek ?br 5 = Inr (take 5 ?br)" "Peek ?br (5 + length body) = Inr (tls_record version body)"
    using assms(3) len by (simp_all add: Peek_def defaultBufSize_def)
  moreover have "take 5 ?br ! 0 = 0x16" "drop 5 (tls_record version body) = body"
    using assms(1) by (simp_all add: tls_record_def)
  ultimately show ?thesis
    using record_header(2) [OF assms(1) lt, of rest] assms(2,3) by (simp add: peekSNI_def Let_def)
qed

section \<open>Properties\<close>

text \<open>
  C13 (roundtrip): from a TLS record that holds a well-formed \<open>ClientHello\<close> of at most 4091 bytes
  \<open>peekSNI\<close> returns the host name of its server-name extension, wherever the extension stands and
  whatever follows on the connection.
\<close>

theorem sni_roundtrip:
  assumes "length rv = 2" "length len = 3" "length version = 2" "length random = 32"
    and "length sid < 256" "length suites < 65536" "length comprs < 256"
    and "list_all (\<lambda>e. 0 < fst e \<and> fst e < 65536 \<and> length (snd e) < 65536) pre"
    and "hello = client_hello len version random sid suites comprs (pre @ (0, host_name_list name) # post)"
    and "length hello \<le> 4091"
  shows "peekSNI (tls_record rv hello @ rest) = Inr name"
proof -
  let ?E = "concat (map extension (pre @ (0, host_name_list name) # post))"
  have "length ?E \<le> length hello" unfolding assms(9) client_hello_def by simp
  then have E: "length ?E < 65536" using assms(10) by linarith
  have "length (extension (0, host_name_list name)) \<le> length ?E" by simp
  then have "length name < 65000" using E \<open>length ?E \<le> length hello\<close> assms(10)
    by (simp add: length_extension host_name_list_def)
  then have "parseClientHelloSNI hello = Inr name"
    unfolding assms(9) using assms(2-8) E by (intro parseClientHelloSNI_client_hello) auto
  moreover have "hello \<noteq> []" unfolding assms(9) by (simp add: client_hello_def)
  ultimately show ?thesis using peekSNI_record [OF assms(1) _ assms(10)] by simp
qed

text \<open>A short message with one other extension before the server name.\<close>

definition sample_hello :: "bytes \<Rightarrow> bytes" where
  "sample_hello name =
     client_hello (zeros 3) [3, 3] (zeros 32) [] [0x13, 1] [0] [(43, [2, 3, 4]), (0, host_name_list name)]"

lemma sample_sni:
  assumes "length name \<le> 200"
  shows "peekSNI (tls_record [3, 1] (sample_hello name) @ rest) = Inr name"
proof -
  have "parseClientHelloSNI (sample_hello name) = Inr name"
    using parseClientHelloSNI_client_hello [of "zeros 3" "[3, 3]" "zeros 32" "[]" "[0x13, 1]" "[0]"
        "[(43, [2, 3, 4])]" name "[]"] assms
    by (simp add: sample_hello_def length_extension host_name_list_def)
  moreover have "sample_hello name \<noteq> []" "length (sample_hello name) \<le> 4091"
    using assms by (simp_all add: sample_hello_def client_hello_def length_extension host_name_list_def)
  ultimately show ?thesis by (simp add: peekSNI_record)
qed

theorem sni_roundtrip_witness:
  "peekSNI (tls_record [3, 1] (sample_hello (str ''api.example.com'')) @ [0, 0]) = Inr (str ''api.example.com'')"
  using sni_roundtrip [of "[3, 1]" "zeros 3" "[3, 3]" "zeros 32" "[]" "[0x13, 1]" "[0]" "[(43, [2, 3, 4])]"
      "sample_hello (str ''api.example.com'')" "str ''api.example.com''" "[]" "[0, 0]"]
  by (simp add: sample_hello_def client_hello_def extension_def host_name_list_def be16_def zeros_def)

text \<open>
  C14 (bounds): the parser is safe on every input: whatever a client sends, no index or slice of
  \<open>peekSNI\<close> is out of range, and the name it returns is a contiguous part of the first 4096 bytes.
\<close>

theorem sni_parser_safe:
  "peekSNI br \<noteq> Inl Index_out_of_range \<and> (\<forall>name. peekSNI br = Inr name \<longrightarrow> sublist name (take 4096 br))"
proof (intro conjI allI impI)
  show "peekSNI br \<noteq> Inl Index_out_of_range" by (rule peekSNI_safe)
  fix name assume "peekSNI br = Inr name"
  then obtain m buf where "Peek br m = Inr buf" and buf: "parseClientHelloSNI (drop 5 buf) = Inr name"
    by (auto simp: peekSNI_def and_then_Inr_iff Let_def split: if_splits)
  then obtain n where n: "n \<le> 4096" "parseClientHelloSNI (drop 5 (take n br)) = Inr name"
    using Peek_Inr by blast
  have "sublist name (drop 5 (take n br))" using parseClientHelloSNI_sublist [OF n(2)] .
  moreover have "take n br = take n (take 4096 br)" using n(1) by simp
  ultimately show "sublist name (take 4096 br)"
    by (metis sublist_drop sublist_order.order.trans sublist_take)
qed

theorem sni_parser_safe_witness:
  "sublist (str ''a.b'') (take 4096 (tls_record [3, 1] (sample_hello (str ''a.b''))))"
  using sni_parser_safe [of "tls_record [3, 1] (sample_hello (str ''a.b''))"] sample_sni [of "str ''a.b''" "[]"]
  by simp

text \<open>
  The record length is checked against 16384 bytes, but the reader holds 4096: a TLS
  handshake record of more than 4091 bytes is refused although its length passes the check.
\<close>

theorem long_hello_refused:
  assumes "length rv = 2" "4091 < length body" "length body \<le> 16384"
  shows "peekSNI (tls_record rv body @ rest) = Inl Buffer_full"
proof -
  let ?br = "tls_record rv body @ rest"
  have lt: "length body < 65536" using assms(3) by simp
  have "Peek ?br 5 = Inr (take 5 ?br)" "take 5 ?br ! 0 = 0x16"
    using assms(1,2) by (simp_all add: Peek_def defaultBufSize_def tls_record_def)
  then show ?thesis
    using record_header(2) [OF assms(1) lt, of rest] assms(2,3)
    by (auto simp: peekSNI_def Let_def) (auto simp: Peek_def defaultBufSize_def)
qed

theorem long_hello_refused_witness:
  "peekSNI (tls_record [3, 1] (replicate 5000 1)) = Inl Buffer_full"
  using long_hello_refused [of "[3, 1]" "replicate 5000 1" "[]"] by simp

end
