(* ===== verification/Proxy.thy ===== *)
theory Proxy
  imports Daemon Client_Hello
begin

text \<open>
  The connection handler of the egress proxy (\<open>proxy.go\<close>): \<open>authOK\<close>, \<open>isTelemetryHost\<close>,
  \<open>deny\<close>, \<open>handle\<close>, and the identification of the client through \<open>/proc\<close>. The HTTP request
  that \<open>http.ReadRequest\<close> returned, what the client sends after it, the resolver and the
  contents of \<open>/proc\<close> are arguments.
\<close>

section \<open>Authentication\<close>

definition authOK :: "bytes \<Rightarrow> bytes \<Rightarrow> bool" where
  "authOK token header =
     (if header = [] then False
      else if \<not> prefix (str ''Basic '') header then False
      else
        (case b64_decode (drop (length ''Basic '') header) of
           None \<Rightarrow> False
         | Some decoded \<Rightarrow>
             (case SplitN2 decoded COLON of [_, pass] \<Rightarrow> pass = token | _ \<Rightarrow> False)))"

section \<open>Clients\<close>

text \<open>\<open>%04X\<close> of a port.\<close>

definition hex_digit :: "nat \<Rightarrow> u8" where
  "hex_digit n = (if n < 10 then 0x30 + of_nat n else 0x41 + of_nat (n - 10))"

definition hex4 :: "u16 \<Rightarrow> bytes" where
  "hex4 p = map (\<lambda>i. hex_digit (unat p div 16 ^ i mod 16)) [3, 2, 1, 0]"

text \<open>The lines of \<open>/proc/net/tcp\<close> after its header, \<open>None\<close> when the file could not be read.\<close>

definition findSocketInode :: "bytes list option \<Rightarrow> u16 \<Rightarrow> u16 \<Rightarrow> bytes option" where
  "findSocketInode lines localPort remotePort =
     (case lines of
        None \<Rightarrow> None
      | Some ls \<Rightarrow>
          map_option (\<lambda>l. Fields l ! 9)
            (find (\<lambda>l. let fs = Fields l in
               10 \<le> length fs \<and> suffix (COLON # hex4 localPort) (fs ! 1) \<and>
               suffix (COLON # hex4 remotePort) (fs ! 2)) ls))"

text \<open>The entries of \<open>/proc\<close> with the link targets of their open files; unreadable ones have none.\<close>

definition findPidOwningInode :: "(bytes \<times> bytes list) list \<Rightarrow> bytes \<Rightarrow> u32 option" where
  "findPidOwningInode procs inode =
     (let target = str ''socket:['' @ inode @ str '']'' in
      case find (\<lambda>(name, links). Atoi name \<noteq> None \<and> target \<in> set links) procs of
        None \<Rightarrow> None
      | Some (name, links) \<Rightarrow> map_option of_int (Atoi name))"

definition identify ::
  "bytes list option \<Rightarrow> (bytes \<times> bytes list) list \<Rightarrow> u16 \<Rightarrow> u16 \<Rightarrow> u32" where
  "identify lines procs clientPort proxyPort =
     (case findSocketInode lines clientPort proxyPort of
        None \<Rightarrow> 0
      | Some inode \<Rightarrow> (case findPidOwningInode procs inode of None \<Rightarrow> 0 | Some pid \<Rightarrow> pid))"

section \<open>Denials\<close>

definition isTelemetryHost :: "unicode_tables \<Rightarrow> bytes \<Rightarrow> bool" where
  "isTelemetryHost U target =
     (let h = ToLower U target in
      Contains h (str ''datadoghq.com'') \<or> Contains h (str ''sentry.io'') \<or>
      Contains h (str ''statsig'') \<or> Contains h (str ''segment.io'') \<or>
      Contains h (str ''api.event_logging''))"

text \<open>The connection a handler runs on; \<open>cn_now\<close> and \<open>cn_later\<close> are the two readings of the clock in \<open>deny\<close>.\<close>

record request =
  rq_Method :: bytes
  rq_Host :: bytes
  rq_ProxyAuth :: bytes

record conn =
  cn_request :: "request option"
  cn_rest :: bytes
  cn_client :: u32
  cn_reads :: "bytes option list"
  cn_now :: u64
  cn_later :: u64

record proxy =
  px_policy :: ProxyPolicy
  px_token :: bytes

definition denial_reason :: "proxy \<Rightarrow> bytes \<Rightarrow> bytes" where
  "denial_reason px target = pp_Feedback (px_policy px) @ str '' (destination: '' @ target @ str '')''"

definition deny :: "unicode_tables \<Rightarrow> daemon_env \<Rightarrow> proxy \<Rightarrow> conn \<Rightarrow> bytes \<Rightarrow> daemon \<Rightarrow> daemon" where
  "deny U X px C target D =
     (if isTelemetryHost U target then D
      else
        let sessionID = resolveSessionID (cn_reads C) (dm_sessions D) (dm_rootPID D) (cn_client C);
            reason = denial_reason px target;
            (fs, feedbackSent) =
              (if sessionID = [] then (dm_files D, False)
               else writePendingViolation (de_codec X) (de_fs X) (de_root X) sessionID
                 \<lparr>pv_Reason = reason, pv_PolicyType = ucast (pp_PolicyID (px_policy px)), pv_Path = target,
                  pv_TimestampNs = cn_now C\<rparr> (dm_files D)) in
        D\<lparr>dm_files := fs,
          dm_db := recordViolation (dm_policies D) (de_anchor X) (de_db_ok X) (cn_client C)
            (pp_PolicyID (px_policy px)) [] target reason sessionID (str ''proxy'') (cn_later C) feedbackSent
            (dm_db D)\<rparr>)"

section \<open>The handler\<close>

text \<open>What the handler does on the connection; the replies are named by their status.\<close>

datatype proxy_action = Reply nat | Splice bytes int

definition handle ::
  "unicode_tables \<Rightarrow> net_env \<Rightarrow> daemon_env \<Rightarrow> proxy \<Rightarrow> conn \<Rightarrow> daemon \<Rightarrow> daemon \<times> proxy_action list" where
  "handle U N X px C D =
     (case cn_request C of
        None \<Rightarrow> (D, [])
      | Some req \<Rightarrow>
          if \<not> authOK (px_token px) (rq_ProxyAuth req) then (D, [Reply 407])
          else if rq_Method req \<noteq> str ''CONNECT'' then (deny U X px C (rq_Host req) D, [Reply 403])
          else
            (case SplitHostPort (rq_Host req) of
               None \<Rightarrow> (D, [Reply 400])
             | Some (host, portStr) \<Rightarrow>
                 (case Atoi portStr of
                    None \<Rightarrow> (D, [Reply 400])
                  | Some port \<Rightarrow>
                      if permit U (px_policy px) host port \<noteq> None
                      then (deny U X px C (rq_Host req) D, [Reply 403])
                      else
                        (case Dial N host port of
                           None \<Rightarrow> (deny U X px C (rq_Host req) D, [Reply 502])
                         | Some upStream \<Rightarrow>
                             if port = 443 \<and>
                               (case peekSNI (cn_rest C) of
                                  Inl _ \<Rightarrow> True
                                | Inr sni \<Rightarrow> \<not> EqualFold U (TrimSuffix sni [DOT]) (TrimSuffix host [DOT]))
                             then (deny U X px C (rq_Host req) D, [Reply 200])
                             else (D, [Reply 200, Splice upStream port])))))"

text \<open>
  The accept loop on what the listener returns: an error is logged and the loop goes on, a closed
  listener ends it. Each connection has its own goroutine; here each runs to its end in the order of
  acceptance. The result lists the actions of every connection.
\<close>

datatype accept_result = Accepted conn | Accept_error | Listener_closed

fun Serve ::
  "unicode_tables \<Rightarrow> net_env \<Rightarrow> daemon_env \<Rightarrow> proxy \<Rightarrow> accept_result list \<Rightarrow> daemon \<Rightarrow>
   daemon \<times> (conn \<times> proxy_action list) list" where
  "Serve U N X px [] D = (D, [])"
| "Serve U N X px (Listener_closed # rs) D = (D, [])"
| "Serve U N X px (Accept_error # rs) D = Serve U N X px rs D"
| "Serve U N X px (Accepted C # rs) D =
     (let (D1, acts) = handle U N X px C D; (D2, served) = Serve U N X px rs D1 in (D2, (C, acts) # served))"

section \<open>Lemmas\<close>

lemma authOK_iff:
  "authOK token header \<longleftrightarrow>
   (\<exists>enc user. header = str ''Basic '' @ enc \<and> b64_decode enc = Some (user @ COLON # token) \<and> COLON \<notin> set user)"
proof -
  have two: "(case SplitN2 d COLON of [_, pass] \<Rightarrow> pass = token | _ \<Rightarrow> False) \<longleftrightarrow>
      (\<exists>user. d = user @ COLON # token \<and> COLON \<notin> set user)" for d
  proof
    assume "case SplitN2 d COLON of [_, pass] \<Rightarrow> pass = token | _ \<Rightarrow> False"
    then obtain u where "SplitN2 d COLON = [u, token]" by (auto split: list.splits)
    then show "\<exists>user. d = user @ COLON # token \<and> COLON \<notin> set user" using SplitN2_two by blast
  next
    assume "\<exists>user. d = user @ COLON # token \<and> COLON \<notin> set user"
    then show "case SplitN2 d COLON of [_, pass] \<Rightarrow> pass = token | _ \<Rightarrow> False"
      by (auto simp: SplitN2_join)
  qed
  have len: "length (str ''Basic '') = length ''Basic ''" by simp
  show ?thesis
  proof (cases "prefix (str ''Basic '') header")
    case True
    then obtain enc where enc: "header = str ''Basic '' @ enc" by (auto simp: prefix_def)
    then have "drop (length ''Basic '') header = enc" "header \<noteq> []" by simp_all
    then show ?thesis
      using True enc by (simp only: authOK_def) (auto simp: two split: option.splits simp del: str_simps)
  next
    case False
    then show ?thesis by (auto simp: authOK_def)
  qed
qed

text \<open>When the handler connects the client to a destination.\<close>

definition tunnels :: "unicode_tables \<Rightarrow> net_env \<Rightarrow> proxy \<Rightarrow> conn \<Rightarrow> bytes \<Rightarrow> int \<Rightarrow> bytes \<Rightarrow> bool" where
  "tunnels U N px C host port ip \<longleftrightarrow>
     (\<exists>req portStr. cn_request C = Some req \<and> authOK (px_token px) (rq_ProxyAuth req) \<and>
        rq_Method req = str ''CONNECT'' \<and> SplitHostPort (rq_Host req) = Some (host, portStr) \<and>
        Atoi portStr = Some port) \<and>
     permit U (px_policy px) host port = None \<and> Dial N host port = Some ip \<and>
     (port = 443 \<longrightarrow> (\<exists>sni. peekSNI (cn_rest C) = Inr sni \<and>
        EqualFold U (TrimSuffix sni [DOT]) (TrimSuffix host [DOT])))"

lemma handle_splice:
  "Splice ip port \<in> set (snd (handle U N X px C D)) \<longleftrightarrow> (\<exists>host. tunnels U N px C host port ip)"
  by (auto simp: handle_def tunnels_def split: option.splits sum.splits if_splits simp del: str_simps)

lemma permit_allows:
  assumes "permit U pol host port = None"
  shows "AllowedPorts pol port = Some True" "ParseIP host = None \<or> AllowIPLiteral pol"
    "\<exists>pat \<in> set (AllowedHosts pol). hostMatches U pat host"
  using assms by (auto simp: permit_def list_ex_iff split: if_splits)

lemma Dial_public:
  assumes "Dial N host port = Some ip" "list_all (\<lambda>ip. length ip = 4) (lookup_ip N host)"
  shows "ip \<in> set (lookup_ip N host) \<and> public_v4 ip"
  using assms dial_serial_public by (auto simp: Dial_def split: if_splits)

text \<open>What a denial leaves behind.\<close>

lemma deny_records:
  assumes "\<not> isTelemetryHost U target" "dm_db D = Some t" "de_db_ok X"
  obtains sid sent where
    "dm_db (deny U X px C target D) =
       Some (t @ [table_row (length t + 1) (violation_row (dm_policies D) (de_anchor X) (cn_client C)
         (pp_PolicyID (px_policy px)) [] target (denial_reason px target) sid (str ''proxy'') (cn_later C) sent)])"
proof -
  define sid where "sid = resolveSessionID (cn_reads C) (dm_sessions D) (dm_rootPID D) (cn_client C)"
  define w where "w = (if sid = [] then (dm_files D, False)
               else writePendingViolation (de_codec X) (de_fs X) (de_root X) sid
                 \<lparr>pv_Reason = denial_reason px target, pv_PolicyType = ucast (pp_PolicyID (px_policy px)),
                  pv_Path = target, pv_TimestampNs = cn_now C\<rparr> (dm_files D))"
  have "dm_db (deny U X px C target D) = recordViolation (dm_policies D) (de_anchor X) True (cn_client C)
      (pp_PolicyID (px_policy px)) [] target (denial_reason px target) sid (str ''proxy'') (cn_later C) (snd w)
      (Some t)"
    using assms unfolding deny_def sid_def [symmetric] Let_def w_def [symmetric]
    by (cases w) simp
  then have "dm_db (deny U X px C target D) =
       Some (t @ [table_row (length t + 1) (violation_row (dm_policies D) (de_anchor X) (cn_client C)
         (pp_PolicyID (px_policy px)) [] target (denial_reason px target) sid (str ''proxy'') (cn_later C) (snd w))])"
    by (simp add: recordViolation_def inserted_last)
  then show thesis by (rule that)
qed

text \<open>A request that is authenticated and well formed, with its destination.\<close>

definition good_request :: "proxy \<Rightarrow> conn \<Rightarrow> request \<Rightarrow> bytes \<Rightarrow> int \<Rightarrow> bool" where
  "good_request px C req host port \<longleftrightarrow>
     cn_request C = Some req \<and> authOK (px_token px) (rq_ProxyAuth req) \<and> rq_Method req = str ''CONNECT'' \<and>
     (\<exists>portStr. SplitHostPort (rq_Host req) = Some (host, portStr) \<and> Atoi portStr = Some port)"

lemma handle_good:
  assumes "good_request px C req host port"
  shows "(\<exists>ip. handle U N X px C D = (D, [Reply 200, Splice ip port]) \<and> tunnels U N px C host port ip) \<or>
    (\<exists>code. handle U N X px C D = (deny U X px C (rq_Host req) D, [Reply code]))"
  using assms
  by (auto simp: good_request_def handle_def tunnels_def split: option.splits sum.splits simp del: str_simps)

lemma Serve_handled:
  "(C, acts) \<in> set (snd (Serve U N X px rs D)) \<Longrightarrow> Accepted C \<in> set rs \<and> (\<exists>D'. acts = snd (handle U N X px C D'))"
proof (induction U N X px rs D rule: Serve.induct)
  case (4 U N X px C' rs D)
  have "(C, acts) = (C', snd (handle U N X px C' D)) \<or> (C, acts) \<in> set (snd (Serve U N X px rs (fst (handle U N X px C' D))))"
    using "4.prems" by (auto simp: case_prod_beta Let_def)
  then show ?case
  proof
    assume "(C, acts) \<in> set (snd (Serve U N X px rs (fst (handle U N X px C' D))))"
    from "4.IH" [OF refl prod.collapse this] show ?thesis by auto
  qed auto
qed simp_all

section \<open>Reports and connections together\<close>

lemma deny_keeps:
  "dm_policies (deny U X px C target D) = dm_policies D" "dm_sessions (deny U X px C target D) = dm_sessions D"
  "dm_rootPID (deny U X px C target D) = dm_rootPID D" "dm_db D = None \<Longrightarrow> dm_db (deny U X px C target D) = None"
  by (simp_all add: deny_def Let_def case_prod_beta recordViolation_def)

lemma deny_appends:
  assumes "dm_db D = Some t" "table_wf t"
  shows "\<exists>rows. dm_db (deny U X px C target D) = Some (t @ rows) \<and> length rows \<le> 1 \<and> table_wf (t @ rows)"
proof (cases "isTelemetryHost U target")
  case True
  then show ?thesis using assms by (intro exI [of _ "[]"]) (simp add: deny_def)
next
  case False
  with assms recordViolation_appends [OF assms(2)] show ?thesis
    by (simp add: deny_def Let_def case_prod_beta del: str_simps)
qed

lemma handle_denies:
  "fst (handle U N X px C D) = D \<or> (\<exists>target. fst (handle U N X px C D) = deny U X px C target D)"
  by (auto simp: handle_def split: option.splits simp del: str_simps)

interpretation connections: denial_source "\<lambda>C D. fst (handle U N X px C D)" for U N X px
proof
  fix C D t
  show "dm_policies (fst (handle U N X px C D)) = dm_policies D"
    "dm_sessions (fst (handle U N X px C D)) = dm_sessions D"
    "dm_rootPID (fst (handle U N X px C D)) = dm_rootPID D"
    "dm_db D = None \<Longrightarrow> dm_db (fst (handle U N X px C D)) = None"
    using handle_denies [of U N X px C D] by (auto simp: deny_keeps)
  show "dm_db D = Some t \<Longrightarrow> table_wf t \<Longrightarrow>
      \<exists>rows. dm_db (fst (handle U N X px C D)) = Some (t @ rows) \<and> length rows \<le> 1 \<and> table_wf (t @ rows)"
    using handle_denies [of U N X px C D] deny_appends [of D t U X px C] by fastforce
qed

text \<open>One iteration of the violation loop, or one connection of the proxy.\<close>

datatype activity = Report "bytes option list" bytes | Connection conn

definition act :: "unicode_tables \<Rightarrow> net_env \<Rightarrow> daemon_env \<Rightarrow> proxy \<Rightarrow> activity \<Rightarrow> daemon \<Rightarrow> daemon" where
  "act U N X px a D =
     (case a of
        Report reads raw \<Rightarrow> handle_violation X reads raw D
      | Connection C \<Rightarrow> fst (handle U N X px C D))"

interpretation activities: denial_source "act U N X px" for U N X px
  using reports.keeps [of X "(reads, raw)" for reads raw] reports.no_table [of _ X "(reads, raw)" for reads raw]
    reports.appends [of _ _ X "(reads, raw)" for reads raw] connections.keeps connections.no_table
    connections.appends
  by unfold_locales (auto simp: act_def split: activity.splits)

section \<open>Properties\<close>

text \<open>
  C35 (invariant): the audit table is append-only: whatever order reports of the kernel and
  connections of the proxy come in, the rows already there stay as they are, each activity adds
  at most one, the ids keep counting from 1, and the loaded policies do not change.
\<close>

theorem audit_append_only:
  assumes "dm_db D = Some t" "table_wf t"
  shows "\<exists>rows. dm_db (foldl (\<lambda>D a. act U N X px a D) D as) = Some (t @ rows) \<and> length rows \<le> length as \<and>
    map er_ID (t @ rows) = [1..<length (t @ rows) + 1] \<and>
    dm_policies (foldl (\<lambda>D a. act U N X px a D) D as) = dm_policies D"
  using activities.run_appends [OF assms] activities.run_keeps(1) unfolding table_wf_def by blast

text \<open>
  C7 (safety): the proxy connects a client only where the policy lets it: whenever the handler
  splices a connection, the request was a \<open>CONNECT\<close> with the token of this run, the port is allowed,
  the host matches the allowlist and is no forbidden IP literal, the address is one the resolver
  gave for that host and lies outside the loopback, private, link-local, carrier, unspecified and
  multicast networks, and on port 443 the client's TLS server name equals the requested host.
\<close>

theorem proxy_tunnel_guarded:
  assumes "\<forall>h. list_all (\<lambda>ip. length ip = 4) (lookup_ip N h)"
    and "Splice ip port \<in> set (snd (handle U N X px C D))"
  shows "\<exists>req host portStr enc user.
    cn_request C = Some req \<and> rq_Method req = str ''CONNECT'' \<and>
    rq_ProxyAuth req = str ''Basic '' @ enc \<and> b64_decode enc = Some (user @ COLON # px_token px) \<and>
    SplitHostPort (rq_Host req) = Some (host, portStr) \<and> Atoi portStr = Some port \<and>
    AllowedPorts (px_policy px) port = Some True \<and> (ParseIP host = None \<or> AllowIPLiteral (px_policy px)) \<and>
    (\<exists>pat \<in> set (AllowedHosts (px_policy px)). hostMatches U pat host) \<and>
    ip \<in> set (lookup_ip N host) \<and> public_v4 ip \<and>
    (port = 443 \<longrightarrow> (\<exists>sni. peekSNI (cn_rest C) = Inr sni \<and>
       EqualFold U (TrimSuffix sni [DOT]) (TrimSuffix host [DOT])))"
proof -
  from assms(2) obtain host where t: "tunnels U N px C host port ip" by (auto simp: handle_splice)
  then obtain req portStr where r: "cn_request C = Some req" "authOK (px_token px) (rq_ProxyAuth req)"
    "rq_Method req = str ''CONNECT''" "SplitHostPort (rq_Host req) = Some (host, portStr)" "Atoi portStr = Some port"
    and d: "permit U (px_policy px) host port = None" "Dial N host port = Some ip"
    and s: "port = 443 \<longrightarrow> (\<exists>sni. peekSNI (cn_rest C) = Inr sni \<and>
       EqualFold U (TrimSuffix sni [DOT]) (TrimSuffix host [DOT]))"
    unfolding tunnels_def by blast
  obtain enc user where "rq_ProxyAuth req = str ''Basic '' @ enc" "b64_decode enc = Some (user @ COLON # px_token px)"
    using r(2) unfolding authOK_iff by blast
  moreover note permit_allows [OF d(1)]
  moreover have "ip \<in> set (lookup_ip N host) \<and> public_v4 ip"
    using Dial_public [OF d(2)] assms(1) by blast
  ultimately show ?thesis using r s by blast
qed

definition sample_net :: net_env where
  "sample_net = \<lparr>lookup_ip = (\<lambda>_. [[10, 0, 0, 7], [93, 184, 216, 34]]), connects = (\<lambda>_ _. True)\<rparr>"

definition sample_proxy :: proxy where
  "sample_proxy = \<lparr>px_policy = sample_proxy_policy, px_token = str ''tok''\<rparr>"

definition sample_request :: request where
  "sample_request = \<lparr>rq_Method = str ''CONNECT'', rq_Host = str ''api.example.com:443'',
     rq_ProxyAuth = str ''Basic '' @ b64_encode (str ''user:tok'')\<rparr>"

definition sample_conn :: conn where
  "sample_conn = \<lparr>cn_request = Some sample_request,
     cn_rest = tls_record [3, 1] (sample_hello (str ''API.example.com'')) @ [],
     cn_client = 50, cn_reads = [], cn_now = 0, cn_later = 1\<rparr>"

definition sample_env :: daemon_env where
  "sample_env = \<lparr>de_codec = reason_codec, de_fs = willing_fs, de_root = str ''/tmp/agentguard'',
     de_verbs = (\<lambda>_ _ s. s), de_anchor = \<lparr>bootTimeAnchor = 0, ktimeAnchorNs = 0\<rparr>, de_db_ok = True\<rparr>"

definition sample_daemon :: daemon where
  "sample_daemon = \<lparr>dm_policies = Map.empty, dm_sessions = Map.empty, dm_rootPID = 42, dm_files = Map.empty,
     dm_db = Some []\<rparr>"

theorem audit_append_only_witness:
  "\<exists>rows. dm_db (foldl (\<lambda>D a. act plain_tables sample_net sample_env sample_proxy a D) sample_daemon
     [Connection (sample_conn\<lparr>cn_rest := []\<rparr>), Report [] []]) = Some rows \<and> length rows \<le> 2"
proof -
  have "dm_db sample_daemon = Some []" "table_wf []" by (simp_all add: sample_daemon_def table_wf_def)
  from audit_append_only [OF this, of plain_tables sample_net sample_env sample_proxy
      "[Connection (sample_conn\<lparr>cn_rest := []\<rparr>), Report [] []]"] show ?thesis by auto
qed

lemma sample_auth: "authOK (str ''tok'') (str ''Basic '' @ b64_encode (str ''user:tok''))"
proof -
  have "str ''user:tok'' = str ''user'' @ COLON # str ''tok''" "COLON \<notin> set (str ''user'')" by simp_all
  then show ?thesis unfolding authOK_iff using b64_decode_encode by metis
qed

lemma sample_good: "good_request sample_proxy sample_conn sample_request (str ''api.example.com'') 443"
proof -
  have "SplitHostPort (str ''api.example.com'' @ COLON # str ''443'') = Some (str ''api.example.com'', str ''443'')"
    by (rule SplitHostPort_plain) auto
  moreover have "str ''api.example.com'' @ COLON # str ''443'' = str ''api.example.com:443''" by simp
  moreover have "Atoi (str ''443'') = Some 443"
    by (simp add: Atoi_def decimal_def is_digit_def digit_val_def)
  ultimately show ?thesis
    using sample_auth
    by (simp add: good_request_def sample_conn_def sample_request_def sample_proxy_def del: str_simps)
qed

lemma sample_permit: "permit plain_tables sample_proxy_policy (str ''api.example.com'') 443 = None"
proof -
  have "ParseIP (str ''api.example.com'') = None" by (simp add: ParseIP_def parseIPv4_def is_digit_def)
  then show ?thesis
    by (simp add: permit_def sample_proxy_policy_def hostMatches_def ToLower_def TrimSuffix_def suffix_def
        append_eq_Cons_conv lower_byte_def)
qed

lemma sample_dial: "Dial sample_net h 443 = Some [93, 184, 216, 34]"
  by (simp add: Dial_def sample_net_def dial_control_v4 del: dotted.simps)

lemma sample_tunnels: "tunnels plain_tables sample_net sample_proxy sample_conn (str ''api.example.com'') 443 [93, 184, 216, 34]"
proof -
  have "peekSNI (cn_rest sample_conn) = Inr (str ''API.example.com'')"
    unfolding sample_conn_def conn.simps by (rule sample_sni) simp
  moreover have "EqualFold plain_tables (TrimSuffix (str ''API.example.com'') [DOT]) (TrimSuffix (str ''api.example.com'') [DOT])"
    by (simp add: TrimSuffix_def suffix_def append_eq_Cons_conv fold_byte_def)
  moreover have "px_policy sample_proxy = sample_proxy_policy" by (simp add: sample_proxy_def)
  ultimately show ?thesis
    using sample_good sample_permit sample_dial unfolding tunnels_def good_request_def by metis
qed

theorem proxy_tunnel_guarded_witness:
  "Splice [93, 184, 216, 34] 443 \<in> set (snd (handle plain_tables sample_net sample_env sample_proxy sample_conn sample_daemon)) \<and>
   public_v4 [93, 184, 216, 34]"
proof
  show sp: "Splice [93, 184, 216, 34] 443 \<in>
      set (snd (handle plain_tables sample_net sample_env sample_proxy sample_conn sample_daemon))"
    using sample_tunnels unfolding handle_splice by blast
  show "public_v4 [93, 184, 216, 34]"
    using proxy_tunnel_guarded [OF _ sp] by (auto simp: sample_net_def)
qed

text \<open>
  C19 (functional): a well-formed authenticated request is either served or refused with a record:
  the handler splices exactly when the conditions hold, and otherwise sends one reply, splices
  nothing and, unless the target is a telemetry host, adds one row to the audit table with the
  client, the requested target, the network policy and the source \<open>proxy\<close>.
\<close>

theorem proxy_serves_or_records:
  assumes "good_request px C req host port" "\<not> isTelemetryHost U (rq_Host req)"
    and "dm_db D = Some t" "de_db_ok X"
  shows "(\<exists>ip. tunnels U N px C host port ip \<and> handle U N X px C D = (D, [Reply 200, Splice ip port])) \<or>
    (\<exists>code row D'. handle U N X px C D = (D', [Reply code]) \<and> dm_db D' = Some (t @ [row]) \<and>
       er_ID row = length t + 1 \<and> er_AgentPid row = cn_client C \<and> er_Action row = str ''blocked'' \<and>
       pl_PolicyID (er_Payload row) = pp_PolicyID (px_policy px) \<and> pl_Source (er_Payload row) = str ''proxy'' \<and>
       pl_Reason (er_Payload row) = denial_reason px (rq_Host req) \<and>
       (\<forall>ip. \<not> tunnels U N px C host port ip))"
proof -
  from handle_good [OF assms(1)] consider
      ip where "handle U N X px C D = (D, [Reply 200, Splice ip port])" "tunnels U N px C host port ip"
    | code where "handle U N X px C D = (deny U X px C (rq_Host req) D, [Reply code])"
    by blast
  then show ?thesis
  proof cases
    case 1
    then show ?thesis by blast
  next
    case 2
    have "\<not> tunnels U N px C host port ip" for ip
      using handle_splice [of ip port U N X px C D] unfolding 2 by auto
    moreover obtain sid sent where "dm_db (deny U X px C (rq_Host req) D) =
       Some (t @ [table_row (length t + 1) (violation_row (dm_policies D) (de_anchor X) (cn_client C)
         (pp_PolicyID (px_policy px)) [] (rq_Host req) (denial_reason px (rq_Host req)) sid (str ''proxy'')
         (cn_later C) sent)])"
      using deny_records [OF assms(2-4)] by blast
    ultimately show ?thesis
      using 2 by (intro disjI2 exI conjI) (auto simp: violation_row_def table_row_def Let_def simp del: str_simps)
  qed
qed

theorem proxy_serves_or_records_witness:
  "snd (handle plain_tables (sample_net\<lparr>connects := \<lambda>_ _. False\<rparr>) sample_env sample_proxy sample_conn sample_daemon) =
     [Reply 502] \<and>
   (\<exists>row D'. fst (handle plain_tables (sample_net\<lparr>connects := \<lambda>_ _. False\<rparr>) sample_env sample_proxy sample_conn
       sample_daemon) = D' \<and> dm_db D' = Some [row] \<and> er_AgentPid row = 50)"
proof -
  let ?N = "sample_net\<lparr>connects := \<lambda>_ _. False\<rparr>"
  have tele: "\<not> isTelemetryHost plain_tables (rq_Host sample_request)"
    by (simp add: isTelemetryHost_def Contains_def ToLower_def sample_request_def lower_byte_def)
  have no: "\<not> tunnels plain_tables ?N sample_proxy sample_conn host port ip" for host port ip
    by (auto simp: tunnels_def Dial_def sample_net_def split: if_splits)
  have "snd (handle plain_tables ?N sample_env sample_proxy sample_conn sample_daemon) = [Reply 502]"
    using sample_good sample_permit
    by (auto simp: good_request_def handle_def sample_proxy_def Dial_def sample_net_def simp del: str_simps)
  moreover have "dm_db sample_daemon = Some []" "de_db_ok sample_env" "cn_client sample_conn = 50"
    by (simp_all add: sample_daemon_def sample_env_def sample_conn_def)
  ultimately show ?thesis
    using proxy_serves_or_records [OF sample_good tele, of sample_daemon "[]" sample_env ?N] no by force
qed

text \<open>
  The authentication of the proxy: a header is accepted exactly when it is
  \<open>Basic\<close> followed by a base64 text of some user name without colon, a colon and the token; and the
  header a client builds for the proxy URL of the launch is accepted.
\<close>

theorem proxy_authentication:
  "(authOK token header \<longleftrightarrow>
     (\<exists>enc user. header = str ''Basic '' @ enc \<and> b64_decode enc = Some (user @ COLON # token) \<and>
        COLON \<notin> set user)) \<and>
   authOK token (str ''Basic '' @ b64_encode (str ''user'' @ COLON # token))"
proof
  show "authOK token header \<longleftrightarrow>
     (\<exists>enc user. header = str ''Basic '' @ enc \<and> b64_decode enc = Some (user @ COLON # token) \<and> COLON \<notin> set user)"
    by (rule authOK_iff)
  have "COLON \<notin> set (str ''user'')" by simp
  then show "authOK token (str ''Basic '' @ b64_encode (str ''user'' @ COLON # token))"
    unfolding authOK_iff using b64_decode_encode by metis
qed

end
