(* ===== verification/Launch.thy ===== *)
theory Launch
  imports Tracking Identity
begin

text \<open>
  The start of the agent: the wait for its ptrace stop (\<open>launch_linux.go\<close>) and the part of
  \<open>runEnforcer\<close> that starts it, puts it on the list and lets it run. The answers of the system
  calls are arguments.
\<close>

section \<open>Starting the agent\<close>

datatype wait_result = Wait_error | Stopped | Exited | Signaled | Continued

text \<open>The results of \<open>wait4\<close> in order; \<open>None\<close> while the child has done nothing decisive.\<close>

fun waitChildPtraceStop :: "wait_result list \<Rightarrow> bool option" where
  "waitChildPtraceStop [] = None"
| "waitChildPtraceStop (w # ws) =
     (case w of
        Wait_error \<Rightarrow> Some False
      | Stopped \<Rightarrow> Some True
      | Exited \<Rightarrow> Some False
      | Signaled \<Rightarrow> Some False
      | Continued \<Rightarrow> waitChildPtraceStop ws)"

text \<open>
  The calls of the launch in order. The child starts stopped under ptrace; \<open>Detach\<close> lets it run
  when it succeeds, and \<open>Fatal\<close> ends the daemon.
\<close>

datatype launch_step = Start u32 | Track u32 | Detach bool | Kill | Fatal

record launch_calls =
  lc_start :: "u32 option"
  lc_waits :: "wait_result list"
  lc_detach_ok :: bool

definition launch_agent :: "launch_calls \<Rightarrow> monitor \<Rightarrow> monitor \<times> launch_step list" where
  "launch_agent L m =
     (case lc_start L of
        None \<Rightarrow> (m, [Fatal])
      | Some pid \<Rightarrow>
          (case waitChildPtraceStop (lc_waits L) of
             None \<Rightarrow> (m, [Start pid])
           | Some False \<Rightarrow> (m, [Start pid, Kill, Fatal])
           | Some True \<Rightarrow>
               let (r, tab) = hash_update 8192 (m_tracked_pids m) pid 1 in
               if r \<noteq> 0 then (m, [Start pid, Kill, Fatal])
               else
                 let m' = m\<lparr>m_tracked_pids := tab\<rparr> in
                 if \<not> lc_detach_ok L then (m', [Start pid, Track pid, Detach False, Kill, Fatal])
                 else (m', [Start pid, Track pid, Detach True])))"

text \<open>Attaching to a running process: only its own id goes on the list.\<close>

definition attach_agent :: "u32 \<Rightarrow> monitor \<Rightarrow> monitor \<times> launch_step list" where
  "attach_agent pid m =
     (let (r, tab) = hash_update 8192 (m_tracked_pids m) pid 1 in
      if r \<noteq> 0 then (m, [Fatal]) else (m\<lparr>m_tracked_pids := tab\<rparr>, [Track pid]))"

section \<open>Properties\<close>

text \<open>The three ways a launch can end.\<close>

lemma launch_agent_cases:
  assumes "launch_agent L m = (m', steps)"
  obtains (run) pid where "steps = [Start pid, Track pid, Detach True]" "lc_start L = Some pid"
      "hash_update 8192 (m_tracked_pids m) pid 1 = (0, m_tracked_pids m')" "m' = m\<lparr>m_tracked_pids := m_tracked_pids m'\<rparr>"
    | (wait) pid where "steps = [Start pid]" "m' = m" "waitChildPtraceStop (lc_waits L) = None"
    | (fail) "last steps = Fatal" "Detach True \<notin> set steps" "\<forall>pid. Start pid \<in> set steps \<longrightarrow> Kill \<in> set steps"
  using assms
  by (cases "lc_start L"; cases "waitChildPtraceStop (lc_waits L)"; cases "lc_detach_ok L")
     (auto simp: launch_agent_def Let_def split: bool.splits prod.splits if_splits)

text \<open>
  C8 (safety): the agent never runs untracked: the launch lets the child run only after its
  process id is on the list, with the state of the process tracking that the run starts from; in
  every other case the child stays stopped or is killed and the daemon ends.
\<close>

theorem launch_tracks_first:
  assumes "launch_agent L \<lparr>m_pidns_dev = dev, m_pidns_ino = ino, m_tracked_pids = [], events = evs\<rparr> = (m', steps)"
  shows "if Detach True \<in> set steps
    then \<exists>pid. steps = [Start pid, Track pid, Detach True] \<and> hash_lookup (m_tracked_pids m') pid = Some 1 \<and>
      m' = mon (launched dev ino pid evs others)
    else (\<exists>pid. steps = [Start pid]) \<or>
      last steps = Fatal \<and> (\<forall>pid. Start pid \<in> set steps \<longrightarrow> Kill \<in> set steps)"
  using assms
proof (cases rule: launch_agent_cases)
  case (run pid)
  then have "m_tracked_pids m' = [(pid, 1)]" by (auto simp: hash_update_def hash_lookup_def split: if_splits)
  moreover from this have "m' = mon (launched dev ino pid evs others)"
    using run(4) by (simp add: launched_def hash_update_def hash_lookup_def)
  ultimately show ?thesis using run by (simp add: hash_lookup_def)
qed simp_all

theorem launch_tracks_first_witness:
  "hash_lookup (m_tracked_pids (fst (launch_agent \<lparr>lc_start = Some 42, lc_waits = [Continued, Stopped], lc_detach_ok = True\<rparr>
     \<lparr>m_pidns_dev = 3, m_pidns_ino = 4, m_tracked_pids = [], events = []\<rparr>))) 42 = Some 1"
proof -
  let ?m = "\<lparr>m_pidns_dev = 3, m_pidns_ino = 4, m_tracked_pids = [], events = []\<rparr>"
  let ?L = "\<lparr>lc_start = Some 42, lc_waits = [Continued, Stopped], lc_detach_ok = True\<rparr>"
  have steps: "snd (launch_agent ?L ?m) = [Start 42, Track 42, Detach True]"
    by (simp add: launch_agent_def hash_update_def hash_lookup_def)
  then have "launch_agent ?L ?m = (fst (launch_agent ?L ?m), [Start 42, Track 42, Detach True])"
    by (metis prod.collapse)
  from launch_tracks_first [OF this] show ?thesis by auto
qed

end
