(* ===== verification/Commands.thy ===== *)
theory Commands
  imports Go_Path
begin

text \<open>
  The command line (\<open>cli.go\<close>), the installation of the feedback hook (\<open>init_hooks.go\<close>), its check
  (\<open>doctor.go\<close>) and the reading of the LSM list (\<open>lsm_list.go\<close>). A hooks object of a settings file
  is the map from event names to matchers it decodes to; reading, parsing and writing the file
  are not part of the model.
\<close>

section \<open>Global flags\<close>

record cli_flags =
  cf_verbose :: bool
  cf_policy :: bytes

datatype cli_error = Policy_needs_path

fun parse_args :: "cli_flags \<Rightarrow> bytes list \<Rightarrow> bytes list \<Rightarrow> cli_error + (cli_flags \<times> bytes list)" where
  "parse_args f out [] = Inr (f, out)"
| "parse_args f out (a # args) =
     (if a = str ''--verbose'' \<or> a = str ''-v'' then parse_args (f\<lparr>cf_verbose := True\<rparr>) out args
      else if a = str ''--policy'' then
        (case args of
           [] \<Rightarrow> Inl Policy_needs_path
         | p # args' \<Rightarrow> parse_args (f\<lparr>cf_policy := p\<rparr>) out args')
      else if prefix (str ''--policy='') a then
        (let p = TrimPrefix a (str ''--policy='') in
         if p = [] then Inl Policy_needs_path else parse_args (f\<lparr>cf_policy := p\<rparr>) out args)
      else if a = str ''-h'' \<or> a = str ''--help'' then parse_args f (out @ [str ''help'']) args
      else parse_args f (out @ [a]) args)"

text \<open>The first argument is the name of the program.\<close>

definition parseAgentGuardArgs :: "bytes \<Rightarrow> bytes list \<Rightarrow> cli_error + (cli_flags \<times> bytes list)" where
  "parseAgentGuardArgs prog args = parse_args \<lparr>cf_verbose = False, cf_policy = []\<rparr> [prog] args"

section \<open>Commands\<close>

datatype command =
  Enforce "bytes list"
| Help
| Version
| Init "bytes list"
| Doctor "bytes list"
| Hook
| Login "bytes list"
| Up "bytes list"
| Unknown bytes

text \<open>What \<open>main\<close> does with the arguments: \<open>Enforce\<close> is the call of \<open>runEnforcer\<close>.\<close>

definition dispatchCLI :: "bytes list \<Rightarrow> command" where
  "dispatchCLI args =
     (case args of
        prog # cmd # rest \<Rightarrow>
          if cmd = str ''help'' then Help
          else if cmd = str ''version'' then Version
          else if cmd = str ''init'' then Init rest
          else if cmd = str ''doctor'' then Doctor rest
          else if cmd = str ''hook'' then Hook
          else if cmd = str ''login'' then Login rest
          else if cmd = str ''up'' then Up rest
          else if cmd = str ''run'' then Enforce (prog # rest)
          else if cmd = str ''--'' then Enforce args
          else if Atoi cmd \<noteq> None then Enforce args
          else Unknown cmd
      | _ \<Rightarrow> Enforce args)"

datatype enforcer_mode = Launch_mode bytes "bytes list" | Attach_mode int | Needs_proxy | Invalid_pid | Usage

definition run_mode :: "bool \<Rightarrow> bytes list \<Rightarrow> enforcer_mode" where
  "run_mode has_proxy args =
     (case args of
        prog # a # b # rest \<Rightarrow>
          if a = str ''--'' then if has_proxy then Launch_mode b rest else Needs_proxy
          else (case Atoi a of None \<Rightarrow> Invalid_pid | Some pid \<Rightarrow> Attach_mode pid)
      | [prog, a] \<Rightarrow> (case Atoi a of None \<Rightarrow> Invalid_pid | Some pid \<Rightarrow> Attach_mode pid)
      | _ \<Rightarrow> Usage)"

fun parseInitFlags :: "bytes list \<Rightarrow> bytes + (bool \<times> bool)" where
  "parseInitFlags [] = Inr (False, False)"
| "parseInitFlags (a # rest) =
     (if a = str ''--claude'' then map_sum id (\<lambda>(_, codex). (True, codex)) (parseInitFlags rest)
      else if a = str ''--codex'' then map_sum id (\<lambda>(claude, _). (claude, True)) (parseInitFlags rest)
      else Inl a)"

section \<open>Hook settings\<close>

record hookEntry =
  he_Type :: bytes
  he_Command :: bytes

record hookMatcher =
  hm_Matcher :: bytes
  hm_Hooks :: "hookEntry list"

definition isAgentGuardHookCmd :: "bytes \<Rightarrow> bool" where
  "isAgentGuardHookCmd cmd =
     (let s = TrimSpace cmd in
      Contains s (str ''agentguard-hook'') \<or> suffix (str ''agentguard hook'') s \<or>
      Contains s (str ''/agentguard hook''))"

definition STAR :: bytes where "STAR = str ''*''"

text \<open>One matcher of the loop: its new value, and whether an entry of it was replaced.\<close>

definition upsert_matcher :: "hookEntry \<Rightarrow> hookMatcher \<Rightarrow> hookMatcher \<times> bool" where
  "upsert_matcher entry m =
     (if hm_Matcher m \<noteq> STAR \<and> hm_Matcher m \<noteq> [] then (m, False)
      else
        (m\<lparr>hm_Hooks := map (\<lambda>h. if isAgentGuardHookCmd (he_Command h) then entry else h) (hm_Hooks m),
           hm_Matcher := STAR\<rparr>,
         list_ex (\<lambda>h. isAgentGuardHookCmd (he_Command h)) (hm_Hooks m)))"

definition upsertAgentGuardHook :: "hookMatcher list \<Rightarrow> hookEntry \<Rightarrow> hookMatcher list" where
  "upsertAgentGuardHook existing entry =
     (let rs = map (upsert_matcher entry) existing; existing' = map fst rs in
      if list_ex snd rs then existing'
      else existing' @ [\<lparr>hm_Matcher = STAR, hm_Hooks = [entry]\<rparr>])"

type_synonym hooks = "bytes \<rightharpoonup> hookMatcher list"

definition claudeHookEvents :: "bytes list" where
  "claudeHookEvents = [str ''PreToolUse'', str ''PostToolUse'', str ''PostToolUseFailure'']"

definition codexHookEvents :: "bytes list" where
  "codexHookEvents = [str ''PreToolUse'', str ''PostToolUse'']"

definition event_hooks :: "hooks \<Rightarrow> bytes \<Rightarrow> hookMatcher list" where
  "event_hooks hs ev = (case hs ev of None \<Rightarrow> [] | Some ms \<Rightarrow> ms)"

definition merge_hooks :: "bytes list \<Rightarrow> bytes \<Rightarrow> hooks \<Rightarrow> hooks" where
  "merge_hooks evs hookCmd hs =
     foldl (\<lambda>hs ev. hs(ev \<mapsto> upsertAgentGuardHook (event_hooks hs ev)
       \<lparr>he_Type = str ''command'', he_Command = hookCmd\<rparr>)) hs evs"

section \<open>Checking the settings\<close>

definition isAgentGuardHookSubcommand :: "bytes \<Rightarrow> bool" where
  "isAgentGuardHookSubcommand cmd =
     (let s = TrimSpace cmd in
      if s = [] \<or> Contains s (str ''agentguard-hook'') then False
      else suffix (str ''agentguard hook'') s \<or> Contains s (str ''/agentguard hook''))"

datatype hookCheckResult = Check_ok bytes | Old_hook | Missing_events "bytes list"

definition commands_of :: "hookMatcher list \<Rightarrow> bytes list" where
  "commands_of ms = concat (map (\<lambda>m. map (\<lambda>h. TrimSpace (he_Command h)) (hm_Hooks m)) ms)"

definition doctorCheckHookSettings :: "hooks \<Rightarrow> bytes list \<Rightarrow> hookCheckResult" where
  "doctorCheckHookSettings hs need =
     (let cs = (\<lambda>ev. commands_of (event_hooks hs ev));
          sawOld = list_ex (\<lambda>ev. list_ex (\<lambda>c. Contains c (str ''agentguard-hook'')) (cs ev)) need;
          hookCmd = (case find isAgentGuardHookSubcommand (concat (map cs need)) of None \<Rightarrow> [] | Some c \<Rightarrow> c);
          missing = filter (\<lambda>ev. \<not> list_ex isAgentGuardHookSubcommand (cs ev)) need in
      if sawOld then Old_hook
      else if missing \<noteq> [] then Missing_events missing
      else Check_ok hookCmd)"

section \<open>The LSM list\<close>

definition lsmListHasBPF :: "bytes \<Rightarrow> bool" where
  "lsmListHasBPF contents = list_ex (\<lambda>tok. TrimSpace tok = str ''bpf'') (split_on 0x2c contents)"

section \<open>Lemmas\<close>

definition global_flag :: "bytes \<Rightarrow> bool" where
  "global_flag a \<longleftrightarrow>
     a \<in> {str ''--verbose'', str ''-v'', str ''--policy'', str ''-h'', str ''--help''} \<or> prefix (str ''--policy='') a"

lemma parse_args_no_flags:
  "parse_args f out args = Inr (f', out') \<Longrightarrow> \<exists>rest. out' = out @ rest \<and> (\<forall>a \<in> set rest. \<not> global_flag a)"
proof (induction f out args rule: parse_args.induct)
  case (2 f out a args)
  have noflag: "\<not> global_flag (str ''help'')" by (simp add: global_flag_def)
  show ?case
  proof (cases "global_flag a")
    case True
    with 2 noflag show ?thesis
      by (auto simp: Let_def global_flag_def split: if_splits list.splits simp del: str_simps)
  next
    case False
    then have "parse_args f (out @ [a]) args = Inr (f', out')"
      using "2.prems" by (auto simp: global_flag_def simp del: str_simps)
    moreover have "a \<noteq> str ''-h'' \<and> a \<noteq> str ''--help''" using False by (auto simp: global_flag_def)
    ultimately show ?thesis using 2(5) False by (fastforce simp: global_flag_def simp del: str_simps)
  qed
qed simp

lemma subcommand_is_hook: "isAgentGuardHookSubcommand c \<Longrightarrow> isAgentGuardHookCmd c"
  by (auto simp: isAgentGuardHookSubcommand_def isAgentGuardHookCmd_def Let_def split: if_splits)

lemma upsert_matcher_twice:
  "isAgentGuardHookCmd (he_Command e) \<Longrightarrow> upsert_matcher e (fst (upsert_matcher e m)) = upsert_matcher e m"
  by (auto simp: upsert_matcher_def list_ex_iff)

lemma upsert_idem:
  assumes "isAgentGuardHookCmd (he_Command e)"
  shows "upsertAgentGuardHook (upsertAgentGuardHook ms e) e = upsertAgentGuardHook ms e"
proof -
  let ?rs = "map (upsert_matcher e) ms"
  have again: "map (upsert_matcher e) (map fst ?rs) = ?rs"
    using upsert_matcher_twice [OF assms] by simp
  show ?thesis
  proof (cases "list_ex snd ?rs")
    case True
    then show ?thesis by (simp only: upsertAgentGuardHook_def Let_def again if_True)
  next
    case False
    let ?n = "\<lparr>hm_Matcher = STAR, hm_Hooks = [e]\<rparr>"
    have "upsert_matcher e ?n = (?n, True)" using assms by (simp add: upsert_matcher_def)
    then show ?thesis using False
      by (simp only: upsertAgentGuardHook_def Let_def if_False map_append again) simp
  qed
qed

lemma merge_hooks_at:
  assumes "distinct evs"
  shows "merge_hooks evs cmd hs ev =
    (if ev \<in> set evs
     then Some (upsertAgentGuardHook (event_hooks hs ev) \<lparr>he_Type = str ''command'', he_Command = cmd\<rparr>)
     else hs ev)"
  using assms
proof (induction evs arbitrary: hs)
  case (Cons e evs)
  have "merge_hooks (e # evs) cmd hs = merge_hooks evs cmd (hs(e \<mapsto> upsertAgentGuardHook (event_hooks hs e)
      \<lparr>he_Type = str ''command'', he_Command = cmd\<rparr>))"
    by (simp add: merge_hooks_def)
  with Cons show ?case by (auto simp: event_hooks_def simp del: str_simps)
qed (simp add: merge_hooks_def)

lemma event_hooks_merge:
  assumes "distinct evs"
  shows "event_hooks (merge_hooks evs cmd hs) ev =
    (if ev \<in> set evs then upsertAgentGuardHook (event_hooks hs ev) \<lparr>he_Type = str ''command'', he_Command = cmd\<rparr>
     else event_hooks hs ev)"
  by (simp add: event_hooks_def [of "merge_hooks evs cmd hs"] merge_hooks_at [OF assms]
      event_hooks_def [of hs] del: str_simps)

lemma merge_hooks_twice:
  assumes "distinct evs" "isAgentGuardHookCmd cmd"
  shows "merge_hooks evs cmd (merge_hooks evs cmd hs) = merge_hooks evs cmd hs"
proof
  fix ev
  have "isAgentGuardHookCmd (he_Command \<lparr>he_Type = str ''command'', he_Command = cmd\<rparr>)" using assms(2) by simp
  from upsert_idem [OF this] show "merge_hooks evs cmd (merge_hooks evs cmd hs) ev = merge_hooks evs cmd hs ev"
    by (simp add: merge_hooks_at [OF assms(1)] event_hooks_merge [OF assms(1)] del: str_simps)
qed

section \<open>Properties\<close>

text \<open>
  Global flags are taken from the agent's own arguments: whatever the command line,
  none of the flags survives in the arguments that are left, also after \<open>--\<close>, so an agent cannot
  be launched with \<open>-v\<close>, \<open>--help\<close> or a policy flag of its own.
\<close>

theorem agent_flags_swallowed:
  assumes "parseAgentGuardArgs prog args = Inr (f, out)"
  shows "\<exists>rest. out = prog # rest \<and> (\<forall>a \<in> set rest. \<not> global_flag a)"
  using parse_args_no_flags [of _ "[prog]" args f out] assms by (auto simp: parseAgentGuardArgs_def)

theorem agent_flags_swallowed_witness:
  "\<exists>f. parseAgentGuardArgs (str ''agentguard'') [str ''--'', str ''claude'', str ''-v''] =
     Inr (f, [str ''agentguard'', str ''--'', str ''claude''])"
proof -
  obtain f out where r: "parseAgentGuardArgs (str ''agentguard'') [str ''--'', str ''claude'', str ''-v''] = Inr (f, out)"
    "out = [str ''agentguard'', str ''--'', str ''claude'']"
    by (simp add: parseAgentGuardArgs_def)
  with agent_flags_swallowed [OF r(1)] show ?thesis by blast
qed

text \<open>What the entries of merged matchers are.\<close>

lemma upsert_entries:
  assumes "m \<in> set (upsertAgentGuardHook ms e)" "h \<in> set (hm_Hooks m)"
  shows "h = e \<or> \<not> isAgentGuardHookCmd (he_Command h) \<or>
    (\<exists>m' \<in> set ms. hm_Matcher m' \<notin> {STAR, []} \<and> h \<in> set (hm_Hooks m'))"
  using assms by (auto simp: upsertAgentGuardHook_def upsert_matcher_def Let_def split: if_splits)

lemma upsert_has_entry: "\<exists>m \<in> set (upsertAgentGuardHook ms e). e \<in> set (hm_Hooks m)"
proof (cases "list_ex snd (map (upsert_matcher e) ms)")
  case True
  then obtain m where m: "m \<in> set ms" "snd (upsert_matcher e m)" by (auto simp: list_ex_iff)
  then have "e \<in> set (hm_Hooks (fst (upsert_matcher e m)))"
    by (auto simp: upsert_matcher_def list_ex_iff split: if_splits)
  with True m show ?thesis by (force simp: upsertAgentGuardHook_def Let_def)
next
  case False
  then show ?thesis by (simp add: upsertAgentGuardHook_def Let_def)
qed

lemma merge_passes_check:
  assumes "distinct evs" "evs \<noteq> []" "isAgentGuardHookSubcommand cmd"
    and "\<forall>ev \<in> set evs. \<forall>m \<in> set (event_hooks hs ev). hm_Matcher m \<notin> {STAR, []} \<longrightarrow>
      (\<forall>h \<in> set (hm_Hooks m). \<not> Contains (TrimSpace (he_Command h)) (str ''agentguard-hook''))"
  shows "(\<exists>c. doctorCheckHookSettings (merge_hooks evs cmd hs) evs = Check_ok c \<and> isAgentGuardHookSubcommand c) \<and>
    (\<forall>ev. event_hooks (merge_hooks evs cmd (merge_hooks evs cmd hs)) ev = event_hooks (merge_hooks evs cmd hs) ev)"
proof
  let ?e = "\<lparr>he_Type = str ''command'', he_Command = cmd\<rparr>" and ?hs = "merge_hooks evs cmd hs"
  have ev: "event_hooks ?hs ev = upsertAgentGuardHook (event_hooks hs ev) ?e" if "ev \<in> set evs" for ev
    using event_hooks_merge [OF assms(1)] that by simp
  have cmd: "isAgentGuardHookSubcommand (TrimSpace cmd)" "\<not> Contains (TrimSpace cmd) (str ''agentguard-hook'')"
    using assms(3) by (auto simp: isAgentGuardHookSubcommand_def Let_def split: if_splits)
  have found: "\<exists>c \<in> set (commands_of (event_hooks ?hs ev)). isAgentGuardHookSubcommand c" if "ev \<in> set evs" for ev
    using upsert_has_entry [of "event_hooks hs ev" ?e] cmd(1) unfolding ev [OF that] commands_of_def by force
  have "\<not> Contains (TrimSpace (he_Command h)) (str ''agentguard-hook'')"
    if "ev \<in> set evs" "m \<in> set (event_hooks ?hs ev)" "h \<in> set (hm_Hooks m)" for ev m h
    using upsert_entries [OF that(2) [unfolded ev [OF that(1)]] that(3)] assms(4) that(1) cmd(2)
    by (auto simp: isAgentGuardHookCmd_def Let_def simp del: str_simps)
  then have no_old: "\<not> list_ex (\<lambda>ev. list_ex (\<lambda>c. Contains c (str ''agentguard-hook'')) (commands_of (event_hooks ?hs ev))) evs"
    by (auto simp: list_ex_iff commands_of_def simp del: str_simps)
  have missing: "filter (\<lambda>ev. \<not> list_ex isAgentGuardHookSubcommand (commands_of (event_hooks ?hs ev))) evs = []"
    using found by (auto simp: filter_empty_conv list_ex_iff)
  obtain c where c: "find isAgentGuardHookSubcommand (concat (map (\<lambda>ev. commands_of (event_hooks ?hs ev)) evs)) = Some c"
    using found assms(2) by (cases evs) (fastforce simp: find_None_iff)+
  then have "isAgentGuardHookSubcommand c" by (auto simp: find_Some_iff)
  then show "\<exists>c. doctorCheckHookSettings ?hs evs = Check_ok c \<and> isAgentGuardHookSubcommand c"
    using no_old missing c by (simp add: doctorCheckHookSettings_def del: str_simps)
  show "\<forall>ev. event_hooks (merge_hooks evs cmd ?hs) ev = event_hooks ?hs ev"
    using upsert_idem [of ?e] subcommand_is_hook [OF assms(3)] by (simp add: event_hooks_merge [OF assms(1)] del: str_simps)
qed

text \<open>
  Installing the hook and checking it agree: when the command is one the check
  accepts and no tool-specific matcher holds an old trampoline, the check passes on the merged
  settings, with an accepted command, and merging again changes nothing.
\<close>

theorem init_passes_doctor:
  assumes "distinct evs" "evs \<noteq> []" "isAgentGuardHookSubcommand cmd"
    and "\<forall>ev \<in> set evs. \<forall>m \<in> set (event_hooks hs ev). hm_Matcher m \<notin> {STAR, []} \<longrightarrow>
      (\<forall>h \<in> set (hm_Hooks m). \<not> Contains (TrimSpace (he_Command h)) (str ''agentguard-hook''))"
  shows "(\<exists>c. doctorCheckHookSettings (merge_hooks evs cmd hs) evs = Check_ok c \<and> isAgentGuardHookSubcommand c) \<and>
    (\<forall>ev. event_hooks (merge_hooks evs cmd (merge_hooks evs cmd hs)) ev = event_hooks (merge_hooks evs cmd hs) ev)"
  using assms by (rule merge_passes_check)

theorem init_passes_doctor_witness:
  "\<exists>c. doctorCheckHookSettings (merge_hooks claudeHookEvents (str ''/usr/local/bin/agentguard hook'') Map.empty)
     claudeHookEvents = Check_ok c"
proof -
  have "TrimSpace (str ''/usr/local/bin/agentguard hook'') = str ''/usr/local/bin/agentguard hook''"
    by (simp add: TrimSpace_def trim_left.simps trim_right.simps space_encodings_def suffix_def append_eq_Cons_conv)
  then have "isAgentGuardHookSubcommand (str ''/usr/local/bin/agentguard hook'')"
    unfolding isAgentGuardHookSubcommand_def Let_def by (simp add: Contains_def suffix_def append_eq_Cons_conv)
  moreover have "distinct claudeHookEvents" "claudeHookEvents \<noteq> []" by (simp_all add: claudeHookEvents_def)
  ultimately show ?thesis
    using init_passes_doctor [of claudeHookEvents "str ''/usr/local/bin/agentguard hook''" Map.empty]
    by (auto simp: event_hooks_def simp del: str_simps)
qed

text \<open>An old trampoline under a tool-specific matcher survives the installation, and the check keeps failing.\<close>

lemma old_hook_survives:
  assumes "distinct evs" "ev \<in> set evs" "m \<in> set (event_hooks hs ev)" "hm_Matcher m \<notin> {STAR, []}"
    and "h \<in> set (hm_Hooks m)" "Contains (TrimSpace (he_Command h)) (str ''agentguard-hook'')"
  shows "doctorCheckHookSettings (merge_hooks evs cmd hs) evs = Old_hook"
proof -
  let ?e = "\<lparr>he_Type = str ''command'', he_Command = cmd\<rparr>"
  have "fst (upsert_matcher ?e m) = m" using assms(4) by (simp add: upsert_matcher_def)
  then have "m \<in> set (upsertAgentGuardHook (event_hooks hs ev) ?e)"
    using assms(3) by (force simp: upsertAgentGuardHook_def Let_def)
  then have "TrimSpace (he_Command h) \<in> set (commands_of (event_hooks (merge_hooks evs cmd hs) ev))"
    using assms(1,2,5) by (force simp: event_hooks_merge commands_of_def)
  then have "list_ex (\<lambda>ev. list_ex (\<lambda>c. Contains c (str ''agentguard-hook''))
      (commands_of (event_hooks (merge_hooks evs cmd hs) ev))) evs"
    using assms(2,6) by (auto simp: list_ex_iff simp del: str_simps)
  then show ?thesis by (simp add: doctorCheckHookSettings_def del: str_simps)
qed

text \<open>
  A command the merge does not recognise is added again by every run, because only recognised
  entries are replaced.
\<close>

lemma unrecognised_command_accumulates:
  assumes "\<not> isAgentGuardHookCmd (he_Command e)" "\<forall>m \<in> set ms. \<forall>h \<in> set (hm_Hooks m). \<not> isAgentGuardHookCmd (he_Command h)"
  shows "length (upsertAgentGuardHook (upsertAgentGuardHook ms e) e) = length ms + 2"
proof -
  have none: "\<not> list_ex snd (map (upsert_matcher e) xs) \<Longrightarrow> length (upsertAgentGuardHook xs e) = length xs + 1" for xs
    by (simp add: upsertAgentGuardHook_def Let_def)
  have quiet: "\<not> list_ex snd (map (upsert_matcher e) ms)"
    using assms(2) by (auto simp: list_ex_iff upsert_matcher_def split: if_splits)
  then have up: "upsertAgentGuardHook ms e = map fst (map (upsert_matcher e) ms) @ [\<lparr>hm_Matcher = STAR, hm_Hooks = [e]\<rparr>]"
    by (simp add: upsertAgentGuardHook_def Let_def)
  have "\<not> list_ex snd (map (upsert_matcher e) (upsertAgentGuardHook ms e))"
    unfolding up using assms by (auto simp: list_ex_iff upsert_matcher_def split: if_splits)
  with none [OF this] none [OF quiet] show ?thesis by simp
qed

end
