(* ===== verification/Run_Enforcer.thy ===== *)
theory Run_Enforcer
  imports Proxy Guard Launch Commands
begin

text \<open>
  \<open>runEnforcer\<close> of \<open>main.go\<close> from its first line to the running agent: the LSM check
  (\<open>securityfs_linux.go\<close>), the policy, the start of the proxy (\<open>NewProxyServer\<close> of \<open>proxy.go\<close>), the
  loading of both BPF objects with the shared map, the mode, the attachment of the programs in
  their order, and the launch. The answers of the operating system, of the object loader and of
  the YAML decoder are arguments.
\<close>

section \<open>The LSM list\<close>

datatype mount_result = Mounted | Mount_busy | Mount_error

record securityfs =
  sf_readable :: bool
  sf_mkdir_ok :: bool
  sf_mount :: mount_result
  sf_readable_after :: bool
  sf_contents :: "bytes option"

text \<open>\<open>ensureSecurityfs\<close>: whether it returns without an error; then the file is readable.\<close>

definition ensureSecurityfs :: "securityfs \<Rightarrow> bool" where
  "ensureSecurityfs S =
     (if sf_readable S then True
      else if \<not> sf_mkdir_ok S then False
      else if sf_mount S = Mount_error then False
      else sf_readable_after S)"

text \<open>The check of \<open>runEnforcer\<close>: only a list that was read and lacks \<open>bpf\<close> ends the program.\<close>

definition lsm_gate :: "securityfs \<Rightarrow> bytes option" where
  "lsm_gate S =
     (if \<not> ensureSecurityfs S then None
      else
        (case sf_contents S of
           None \<Rightarrow> None
         | Some body \<Rightarrow>
             let list = TrimSpace body in if lsmListHasBPF list then None else Some list))"

section \<open>Starting the proxy\<close>

record ProxyServer =
  ps_policy :: ProxyPolicy
  ps_token :: bytes
  ps_addr :: bytes
  ps_port :: int

datatype proxy_error = No_random | Bind_failed bytes | Bad_address bytes

text \<open>
  \<open>random\<close> holds the bytes \<open>rand.Read\<close> filled in; \<open>listen\<close> binds a TCP address and returns the
  text of the listener's address.
\<close>

definition NewProxyServer ::
  "bytes option \<Rightarrow> (bytes \<Rightarrow> bytes option) \<Rightarrow> ProxyPolicy \<Rightarrow> bytes \<Rightarrow> proxy_error + ProxyServer" where
  "NewProxyServer random listen policy addr =
     (case random of
        None \<Rightarrow> Inl No_random
      | Some tokenBytes \<Rightarrow>
          let token = RawURLEncode tokenBytes in
          (case listen addr of
             None \<Rightarrow> Inl (Bind_failed addr)
           | Some a \<Rightarrow>
               (case SplitHostPort a of
                  None \<Rightarrow> Inl (Bad_address a)
                | Some (_, portStr) \<Rightarrow>
                    (case Atoi portStr of
                       None \<Rightarrow> Inl (Bad_address a)
                     | Some port \<Rightarrow> Inr \<lparr>ps_policy = policy, ps_token = token, ps_addr = a, ps_port = port\<rparr>))))"

text \<open>What the connection handler knows of the server.\<close>

definition served :: "ProxyServer \<Rightarrow> proxy" where
  "served ps = \<lparr>px_policy = ps_policy ps, px_token = ps_token ps\<rparr>"

definition proxyURL :: "ProxyServer \<Rightarrow> bytes" where
  "proxyURL ps = str ''http://user:'' @ ps_token ps @ [0x40] @ ps_addr ps"

definition proxy_vars :: "ProxyServer \<Rightarrow> bytes list" where
  "proxy_vars ps =
     [str ''HTTP_PROXY='' @ proxyURL ps, str ''HTTPS_PROXY='' @ proxyURL ps, str ''http_proxy='' @ proxyURL ps,
      str ''https_proxy='' @ proxyURL ps, str ''NO_PROXY=127.0.0.1,localhost,::1'',
      str ''no_proxy=127.0.0.1,localhost,::1'']"

section \<open>The objects as loaded\<close>

definition fresh_monitor :: "u64 \<Rightarrow> u64 \<Rightarrow> monitor" where
  "fresh_monitor dev ino = \<lparr>m_pidns_dev = dev, m_pidns_ino = ino, m_tracked_pids = [], events = []\<rparr>"

text \<open>Arrays and globals start zero; \<open>MapReplacements\<close> puts the monitor's map in for \<open>tracked_pids\<close>.\<close>

definition fresh_enforcer :: "monitor \<Rightarrow> enforcer" where
  "fresh_enforcer m =
     \<lparr>proxy_addr_host = 0, proxy_port_host = 0, dns_addr_host = 0, network_policy_id = 0, pidns_dev = 0,
      pidns_ino = 0, enforce_network = 0, allow_local_dns = 0, enforce_workspace = 0,
      tracked_pids = m_tracked_pids m, blocked_paths_map = [],
      blocked_path_patterns = replicate 16 empty_ent, allowed_path_prefixes = replicate 25 empty_prefix,
      workspace_root = [empty_root], file_open_path = [zeros 256],
      blocked_command_patterns = replicate 16 empty_ent, exec_path = [zeros 256], violations = []\<rparr>"

section \<open>The program\<close>

datatype attachment = Tracepoint bytes | Lsm bytes | Reader bytes

definition attach_order :: "attachment list" where
  "attach_order =
     [Tracepoint (str ''sys_enter_openat''), Tracepoint (str ''sched_process_exit''),
      Tracepoint (str ''sys_enter_connect''), Tracepoint (str ''sched_process_fork''),
      Tracepoint (str ''sys_enter_execve''), Reader (str ''events''),
      Lsm (str ''file_open''), Lsm (str ''socket_connect''), Lsm (str ''socket_sendmsg''),
      Lsm (str ''socket_create''), Lsm (str ''bprm_check_security''), Lsm (str ''path_unlink''),
      Lsm (str ''path_rename''), Lsm (str ''path_mknod''), Lsm (str ''path_mkdir''), Lsm (str ''path_symlink''),
      Lsm (str ''path_link''), Lsm (str ''path_rmdir''), Reader (str ''violations'')]"

record run_env =
  re_log_ok :: bool
  re_db_ok :: bool
  re_memlock_ok :: bool
  re_securityfs :: securityfs
  re_pidns :: "(u64 \<times> u64) option"
  re_monitor_ok :: bool
  re_policy_flag :: bytes
  re_starter :: starter_env
  re_template :: bytes
  re_files :: "bytes \<rightharpoonup> bytes"
  re_decode :: "bytes \<Rightarrow> PolicyFile option"
  re_os :: os_env
  re_random :: "bytes option"
  re_listen :: "bytes \<Rightarrow> bytes option"
  re_enforcer_ok :: bool
  re_net_ok :: bool
  re_dns_ok :: bool
  re_environ :: "bytes list"
  re_executable :: "bytes \<Rightarrow> bool"
  re_attach_ok :: "attachment \<Rightarrow> bool"
  re_launch :: launch_calls

datatype run_error =
  Log_failed | Db_failed | Memlock_failed | No_bpf_lsm bytes | Pidns_failed | Monitor_failed | Policy_path_failed
| Policy_unreadable bytes | Policy_refused policy_error | Proxy_failed proxy_error | Enforcer_failed
| Launch_needs_proxy | Identity_failed launch_error | Bad_pid | Usage_shown | Attach_failed attachment

datatype plan = Launch_plan bytes "bytes list" "bytes list" | Attach_plan u32

datatype run_step = Attached attachment | Agent launch_step

record running =
  ru_policies :: loaded_policies
  ru_enf :: enforcer
  ru_mon :: monitor
  ru_proxy :: "ProxyServer option"
  ru_plan :: plan
  ru_steps :: "run_step list"

definition require :: "bool \<Rightarrow> 'e \<Rightarrow> 'e + unit" where
  "require b e = (if b then Inr () else Inl e)"

definition or_fail :: "'e \<Rightarrow> 'a option \<Rightarrow> 'e + 'a" where
  "or_fail e x = (case x of None \<Rightarrow> Inl e | Some a \<Rightarrow> Inr a)"

text \<open>The policy path, and \<open>loadPolicies\<close>: the file is read after the search, which may have created it.\<close>

definition read_policy :: "run_env \<Rightarrow> run_error + PolicyFile" where
  "read_policy R =
     (let (r, files) = resolvePolicyPath (re_starter R) (re_template R) (Getwd (re_os R))
            (Getenv (re_os R) (str ''AGENTGUARD_POLICY'')) (re_policy_flag R) (re_files R) in
      case r of
        Inr (Inr (path, created)) \<Rightarrow>
          or_fail (Policy_unreadable path) (case files path of None \<Rightarrow> None | Some body \<Rightarrow> re_decode R body)
      | _ \<Rightarrow> Inl Policy_path_failed)"

definition start_proxy :: "run_env \<Rightarrow> loaded_policies \<Rightarrow> run_error + ProxyServer option" where
  "start_proxy R l =
     (case proxyPolicy l of
        None \<Rightarrow> Inr None
      | Some p \<Rightarrow> map_sum Proxy_failed Some (NewProxyServer (re_random R) (re_listen R) p (str ''127.0.0.1:0'')))"

definition proxy_port :: "ProxyServer option \<Rightarrow> u16" where
  "proxy_port px = (case px of None \<Rightarrow> 0 | Some ps \<Rightarrow> of_int (ps_port ps))"

definition choose_mode :: "run_env \<Rightarrow> ProxyServer option \<Rightarrow> bytes list \<Rightarrow> run_error + plan" where
  "choose_mode R px args =
     (case run_mode (px \<noteq> None) args of
        Launch_mode bin rest \<Rightarrow>
          and_then (map_sum Identity_failed id
             (sudoLaunchIdentity (users (re_os R)) (Geteuid_root (re_os R)) (Getenv (re_os R)))) (\<lambda>ident.
          Inr (Launch_plan (resolveAgentPath (re_executable R) bin ident)
            (applyLaunchIdentity (re_environ R) ident (proxy_vars (the px))) rest))
      | Attach_mode pid \<Rightarrow> Inr (Attach_plan (of_int pid))
      | Needs_proxy \<Rightarrow> Inl Launch_needs_proxy
      | Invalid_pid \<Rightarrow> Inl Bad_pid
      | Usage \<Rightarrow> Inl Usage_shown)"

definition attach_all :: "run_env \<Rightarrow> run_error + run_step list" where
  "attach_all R =
     (case find (\<lambda>a. \<not> re_attach_ok R a) attach_order of
        Some a \<Rightarrow> Inl (Attach_failed a)
      | None \<Rightarrow> Inr (map Attached attach_order))"

definition track_agent :: "run_env \<Rightarrow> plan \<Rightarrow> monitor \<Rightarrow> monitor \<times> launch_step list" where
  "track_agent R pl m =
     (case pl of
        Launch_plan path env args \<Rightarrow> launch_agent (re_launch R) m
      | Attach_plan pid \<Rightarrow> attach_agent pid m)"

definition runEnforcer :: "run_env \<Rightarrow> bytes list \<Rightarrow> run_error + running" where
  "runEnforcer R args =
     and_then (require (re_log_ok R) Log_failed) (\<lambda>_.
     and_then (require (re_db_ok R) Db_failed) (\<lambda>_.
     and_then (require (re_memlock_ok R) Memlock_failed) (\<lambda>_.
     and_then (case lsm_gate (re_securityfs R) of None \<Rightarrow> Inr () | Some list \<Rightarrow> Inl (No_bpf_lsm list)) (\<lambda>_.
     and_then (or_fail Pidns_failed (re_pidns R)) (\<lambda>(dev, ino).
     and_then (require (re_monitor_ok R) Monitor_failed) (\<lambda>_.
     and_then (read_policy R) (\<lambda>pf.
     and_then (map_sum Policy_refused id (loadAllPolicies (re_os R) pf)) (\<lambda>l.
     and_then (start_proxy R l) (\<lambda>px.
     and_then (require (re_enforcer_ok R) Enforcer_failed) (\<lambda>_.
     let m = fresh_monitor dev ino in
     and_then (map_sum Policy_refused id
        (apply_loaded l (proxy_port px) dev ino (re_net_ok R) (re_dns_ok R) (fresh_enforcer m))) (\<lambda>s.
     and_then (choose_mode R px args) (\<lambda>pl.
     and_then (attach_all R) (\<lambda>attached.
     let (m', steps) = track_agent R pl m in
     Inr \<lparr>ru_policies = l, ru_enf = s\<lparr>tracked_pids := m_tracked_pids m'\<rparr>, ru_mon = m', ru_proxy = px,
          ru_plan = pl, ru_steps = attached @ map Agent steps\<rparr>)))))))))))))"

section \<open>What a successful start has done\<close>

lemma require_Inr [simp]: "require b e = Inr x \<longleftrightarrow> b"
  by (simp add: require_def)

lemma or_fail_Inr [simp]: "or_fail e x = Inr a \<longleftrightarrow> x = Some a"
  by (cases x) (simp_all add: or_fail_def)

lemma map_sum_Inr [simp]: "map_sum f g r = Inr y \<longleftrightarrow> (\<exists>x. r = Inr x \<and> y = g x)"
  by (cases r) auto

lemma fresh_enforcer_wf: "hash_wf 8192 (m_tracked_pids m) \<Longrightarrow> enforcer_wf (fresh_enforcer m)"
  by (simp add: fresh_enforcer_def enforcer_wf_def entry_wf_def prefix_wf_def root_wf_def empty_ent_def
      empty_prefix_def empty_root_def list_all_iff)

lemma runEnforcer_started:
  assumes "runEnforcer R args = Inr u"
  obtains dev ino pf s where "re_pidns R = Some (dev, ino)" "read_policy R = Inr pf"
    "configure (re_os R) pf (proxy_port (ru_proxy u)) dev ino (re_net_ok R) (re_dns_ok R)
       (fresh_enforcer (fresh_monitor dev ino)) = Inr (ru_policies u, s)"
    "start_proxy R (ru_policies u) = Inr (ru_proxy u)"
    "choose_mode R (ru_proxy u) args = Inr (ru_plan u)" "attach_all R = Inr (map Attached attach_order)"
    "ru_mon u = fst (track_agent R (ru_plan u) (fresh_monitor dev ino))"
    "ru_enf u = s\<lparr>tracked_pids := m_tracked_pids (ru_mon u)\<rparr>"
    "ru_steps u = map Attached attach_order @ map Agent (snd (track_agent R (ru_plan u) (fresh_monitor dev ino)))"
    "lsm_gate (re_securityfs R) = None"
proof -
  have at: "attach_all R = Inr xs \<Longrightarrow> xs = map Attached attach_order" for xs
    by (auto simp: attach_all_def split: option.splits)
  from assms show thesis
    by (auto simp: runEnforcer_def and_then_Inr_iff Let_def case_prod_beta configure_def split: option.splits
        dest: at intro!: that)
qed

text \<open>The agent runs: then it was launched, all programs were attached first, and it is on the list.\<close>

lemma runEnforcer_detached:
  assumes "runEnforcer R args = Inr u" "Agent (Detach True) \<in> set (ru_steps u)"
  obtains root dev ino pf s where
    "ru_steps u = map Attached attach_order @ map Agent [Start root, Track root, Detach True]"
    "read_policy R = Inr pf"
    "configure (re_os R) pf (proxy_port (ru_proxy u)) dev ino (re_net_ok R) (re_dns_ok R)
       (fresh_enforcer (fresh_monitor dev ino)) = Inr (ru_policies u, s)"
    "enforcer_wf (fresh_enforcer (fresh_monitor dev ino))"
    "start_proxy R (ru_policies u) = Inr (ru_proxy u)"
    "\<forall>others. started s root others = started (ru_enf u) root others"
    "\<forall>others. mon (sys_world (started (ru_enf u) root others)) = ru_mon u"
    "\<forall>others. sys_enf (started (ru_enf u) root others) = ru_enf u"
proof -
  obtain dev ino pf s where st: "read_policy R = Inr pf"
    "configure (re_os R) pf (proxy_port (ru_proxy u)) dev ino (re_net_ok R) (re_dns_ok R)
       (fresh_enforcer (fresh_monitor dev ino)) = Inr (ru_policies u, s)"
    "start_proxy R (ru_policies u) = Inr (ru_proxy u)"
    "ru_mon u = fst (track_agent R (ru_plan u) (fresh_monitor dev ino))"
    "ru_enf u = s\<lparr>tracked_pids := m_tracked_pids (ru_mon u)\<rparr>"
    "ru_steps u = map Attached attach_order @ map Agent (snd (track_agent R (ru_plan u) (fresh_monitor dev ino)))"
    using assms(1) by (elim runEnforcer_started)
  let ?m = "fresh_monitor dev ino"
  have det: "Detach True \<in> set (snd (track_agent R (ru_plan u) ?m))" using assms(2) by (auto simp: st(6))
  then have "track_agent R (ru_plan u) ?m = launch_agent (re_launch R) ?m"
    by (cases "ru_plan u") (auto simp: track_agent_def attach_agent_def case_prod_beta split: if_splits)
  then have la: "launch_agent (re_launch R) ?m = (ru_mon u, snd (track_agent R (ru_plan u) ?m))"
    using st(4) by (simp add: prod_eq_iff)
  from la obtain root where root: "snd (track_agent R (ru_plan u) ?m) = [Start root, Track root, Detach True]"
    "hash_update 8192 (m_tracked_pids ?m) root 1 = (0, m_tracked_pids (ru_mon u))"
    "ru_mon u = ?m\<lparr>m_tracked_pids := m_tracked_pids (ru_mon u)\<rparr>"
    by (cases rule: launch_agent_cases) (use det in auto)
  have wf: "enforcer_wf (fresh_enforcer ?m)"
    by (rule fresh_enforcer_wf) (simp add: fresh_monitor_def hash_wf_def)
  have ns: "pidns_dev s = dev" "pidns_ino s = ino" using configured(7,8) [OF wf st(2)] .
  have m: "ru_mon u = mon (launched dev ino root [] others)" for others
    using root(2,3) by (simp add: launched_def fresh_monitor_def)
  show thesis
  proof (rule that)
    show "ru_steps u = map Attached attach_order @ map Agent [Start root, Track root, Detach True]"
      using st(6) root(1) by simp
    show "\<forall>others. started s root others = started (ru_enf u) root others"
      by (simp add: started_def st(5) ns m [symmetric] Let_def)
    show "\<forall>others. mon (sys_world (started (ru_enf u) root others)) = ru_mon u"
      by (simp add: started_def st(5) ns m [symmetric] Let_def)
    show "\<forall>others. sys_enf (started (ru_enf u) root others) = ru_enf u"
      by (simp add: started_def st(5) ns m [symmetric] Let_def)
  qed (fact st(1-3) wf)+
qed

section \<open>Properties\<close>

text \<open>
  C1 (refinement): from the command line to the promise: when \<open>runEnforcer\<close> succeeds and lets the
  agent run, all five tracepoints, all twelve LSM programs and both readers were attached before it
  was started, it was put on the list before it was let run, and from there on every run of the
  kernel programs is a run of the abstract machine with the promise of the policy file.
\<close>

theorem launched_agent_is_guarded:
  assumes "runEnforcer R args = Inr u" "Agent (Detach True) \<in> set (ru_steps u)" "re_net_ok R" "re_dns_ok R"
    and "\<forall>body pf. re_decode R body = Some pf \<longrightarrow> length pf < 2 ^ 32 - 1"
  shows "\<exists>root. ru_steps u = map Attached attach_order @ map Agent [Start root, Track root, Detach True] \<and>
    (\<forall>others. mon (sys_world (started (ru_enf u) root others)) = ru_mon u \<and>
       sys_enf (started (ru_enf u) root others) = ru_enf u) \<and>
    (\<forall>others ls y. tids_ok (insert (root, root) others) \<longrightarrow>
       steps sys_step ls (started (ru_enf u) root others) y \<longrightarrow>
       steps (guard_step (promise_of (ru_policies u) (proxy_port (ru_proxy u)))) (map event_of ls)
         (guard_of (started (ru_enf u) root others)) (guard_of y))"
proof -
  obtain root dev ino pf s where st:
    "ru_steps u = map Attached attach_order @ map Agent [Start root, Track root, Detach True]"
    "read_policy R = Inr pf"
    "configure (re_os R) pf (proxy_port (ru_proxy u)) dev ino (re_net_ok R) (re_dns_ok R)
       (fresh_enforcer (fresh_monitor dev ino)) = Inr (ru_policies u, s)"
    "enforcer_wf (fresh_enforcer (fresh_monitor dev ino))"
    "start_proxy R (ru_policies u) = Inr (ru_proxy u)"
    "\<forall>others. started s root others = started (ru_enf u) root others"
    "\<forall>others. mon (sys_world (started (ru_enf u) root others)) = ru_mon u"
    "\<forall>others. sys_enf (started (ru_enf u) root others) = ru_enf u"
    by (rule runEnforcer_detached [OF assms(1,2)])
  have "length pf < 2 ^ 32 - 1"
    using st(2) assms(5) by (auto simp: read_policy_def case_prod_beta split: sum.splits option.splits)
  note run = programs_implement_promise [OF st(4) st(3) [unfolded assms(3,4) [THEN eqTrueI]] this]
  show ?thesis
  proof (intro exI [of _ root] conjI allI impI)
    fix others and ls :: "('p, 'd) sys_label list" and y
    assume "tids_ok (insert (root, root) others)" "steps sys_step ls (started (ru_enf u) root others) y"
    then show "steps (guard_step (promise_of (ru_policies u) (proxy_port (ru_proxy u)))) (map event_of ls)
        (guard_of (started (ru_enf u) root others)) (guard_of y)"
      using run [of root others ls y] st(6) by simp
  qed (use st in simp_all)
qed

text \<open>A start with a network policy only, for concrete runs.\<close>

definition net_policy :: AgentPolicy where
  "net_policy = empty_policy\<lparr>ap_AllowedHosts := [str ''*.example.com''], ap_AllowedPorts := [str ''443''],
     ap_Egress := str ''proxy_only''\<rparr>"

definition sample_run :: run_env where
  "sample_run =
     \<lparr>re_log_ok = True, re_db_ok = True, re_memlock_ok = True,
      re_securityfs = \<lparr>sf_readable = False, sf_mkdir_ok = False, sf_mount = Mount_error, sf_readable_after = False,
        sf_contents = None\<rparr>,
      re_pidns = Some (3, 4), re_monitor_ok = True, re_policy_flag = str ''/p'',
      re_starter = \<lparr>se_mkdir_ok = False, se_other_entry = (\<lambda>_. False), se_open_ok = False, se_short_write = None,
        se_close_ok = False\<rparr>,
      re_template = [], re_files = [str ''/p'' \<mapsto> []], re_decode = (\<lambda>_. Some [(str ''net'', net_policy)]),
      re_os = sample_os, re_random = Some (replicate 32 7),
      re_listen = (\<lambda>_. Some (str ''127.0.0.1'' @ COLON # Itoa 8080)),
      re_enforcer_ok = True, re_net_ok = True, re_dns_ok = True, re_environ = [], re_executable = (\<lambda>_. True),
      re_attach_ok = (\<lambda>_. True),
      re_launch = \<lparr>lc_start = Some 42, lc_waits = [Stopped], lc_detach_ok = True\<rparr>\<rparr>"

definition sample_server :: ProxyServer where
  "sample_server = \<lparr>ps_policy = \<lparr>pp_PolicyID = 1, pp_Feedback = [], AllowedHosts = [str ''*.example.com''],
       AllowedPorts = port_map [str ''443''], AllowIPLiteral = False\<rparr>,
     ps_token = RawURLEncode (replicate 32 7), ps_addr = str ''127.0.0.1'' @ COLON # Itoa 8080, ps_port = 8080\<rparr>"

lemma sample_policy_read: "read_policy sample_run = Inr [(str ''net'', net_policy)]"
proof -
  have "Clean (str ''/p'') = str ''/p''" "IsAbs (str ''/p'')" "str ''/p'' \<noteq> []"
    by (simp_all add: Clean_def render_def IsAbs_def)
  then show ?thesis
    by (simp add: read_policy_def sample_run_def resolvePolicyPath_def findPolicyPath_def sample_os_def Abs_path_def
        Let_def or_fail_def del: str_simps)
qed

definition sample_net_loaded :: loaded_policies where
  "sample_net_loaded = no_policies\<lparr>proxyPolicy := Some (ps_policy sample_server), enforceNetwork := True,
     policyByID := [1 \<mapsto> resolved (str ''net'') net_policy 1 KindNetwork]\<rparr>"

lemma sample_net_loaded_rules:
  "pathPatterns sample_net_loaded = []" "commandPatterns sample_net_loaded = []" "workspacePolicy sample_net_loaded = None"
  by (simp_all add: sample_net_loaded_def no_policies_def)

lemma sample_net_loads: "loadAllPolicies E [(str ''net'', net_policy)] = Inr sample_net_loaded"
  by (simp add: loadAllPolicies_def by_name_def load_policy_def net_policy_def empty_policy_def
      no_policies_def resolved_def sample_net_loaded_def sample_server_def del: port_map.simps)

lemma sample_proxy_starts: "start_proxy sample_run sample_net_loaded = Inr (Some sample_server)"
proof -
  have "SplitHostPort (str ''127.0.0.1'' @ COLON # Itoa 8080) = Some (str ''127.0.0.1'', Itoa 8080)"
    by (rule SplitHostPort_plain) auto
  then show ?thesis
    using Atoi_Itoa [of 8080]
    by (simp add: start_proxy_def NewProxyServer_def sample_run_def sample_net_loaded_def sample_server_def
        del: str_simps port_map.simps)
qed

text \<open>With no path, command or workspace rule the tables always load.\<close>

lemma apply_loaded_no_rules:
  assumes "enforcer_wf s" "pathPatterns l = []" "commandPatterns l = []" "workspacePolicy l = None"
  shows "\<exists>s'. apply_loaded l port dev ino net_ok dns_ok s = Inr s'"
  using assms unloaded_workspace by (intro apply_loaded_ok) auto

lemma sample_runs:
  "\<exists>u. runEnforcer sample_run [str ''agentguard'', str ''--'', str ''claude''] = Inr u \<and>
     ru_proxy u = Some sample_server \<and> ru_policies u = sample_net_loaded \<and>
     Agent (Detach True) \<in> set (ru_steps u)"
proof -
  have "enforcer_wf (fresh_enforcer (fresh_monitor 3 4))"
    by (rule fresh_enforcer_wf) (simp add: fresh_monitor_def hash_wf_def)
  then obtain s where s: "apply_loaded sample_net_loaded (proxy_port (Some sample_server)) 3 4 True True
      (fresh_enforcer (fresh_monitor 3 4)) = Inr s"
    using apply_loaded_no_rules sample_net_loaded_rules by blast
  have mode: "\<exists>path env. choose_mode sample_run (Some sample_server) [str ''agentguard'', str ''--'', str ''claude''] =
      Inr (Launch_plan path env [])"
    by (simp add: choose_mode_def run_mode_def sudoLaunchIdentity_def sample_run_def sample_os_def)
  have at: "attach_all sample_run = Inr (map Attached attach_order)"
    by (simp add: attach_all_def sample_run_def attach_order_def)
  have gate: "lsm_gate (re_securityfs sample_run) = None"
    by (simp add: lsm_gate_def ensureSecurityfs_def sample_run_def)
  have oks: "re_log_ok sample_run" "re_db_ok sample_run" "re_memlock_ok sample_run" "re_pidns sample_run = Some (3, 4)" "re_monitor_ok sample_run"
    "re_enforcer_ok sample_run" "re_net_ok sample_run" "re_dns_ok sample_run"
    "re_launch sample_run = \<lparr>lc_start = Some 42, lc_waits = [Stopped], lc_detach_ok = True\<rparr>"
    by (simp_all add: sample_run_def)
  have launch: "snd (launch_agent (re_launch sample_run) (fresh_monitor 3 4)) = [Start 42, Track 42, Detach True]"
    by (simp add: oks launch_agent_def fresh_monitor_def hash_update_def hash_lookup_def)
  from mode s launch show ?thesis
    by (auto simp: runEnforcer_def oks gate at sample_policy_read sample_net_loads sample_proxy_starts
        require_def or_fail_def Let_def case_prod_beta track_agent_def simp del: str_simps)
qed

theorem launched_agent_is_guarded_witness:
  "\<exists>u root. runEnforcer sample_run [str ''agentguard'', str ''--'', str ''claude''] = Inr u \<and>
     ru_steps u = map Attached attach_order @ map Agent [Start root, Track root, Detach True]"
proof -
  obtain u where u: "runEnforcer sample_run [str ''agentguard'', str ''--'', str ''claude''] = Inr u"
    "Agent (Detach True) \<in> set (ru_steps u)"
    using sample_runs by blast
  have "re_net_ok sample_run" "re_dns_ok sample_run"
    "\<forall>body pf. re_decode sample_run body = Some pf \<longrightarrow> length pf < 2 ^ 32 - 1"
    by (simp_all add: sample_run_def)
  from launched_agent_is_guarded [OF u this] u(1) show ?thesis by blast
qed

section \<open>Egress\<close>

lemma started_proxy:
  assumes "start_proxy R l = Inr (Some ps)"
  shows "proxyPolicy l = Some (ps_policy ps)"
  using assms
  by (auto simp: start_proxy_def NewProxyServer_def Let_def split: option.splits)

text \<open>What the server of a network policy splices its clients to.\<close>

lemma splices_allowed:
  assumes "network_of l p" "proxyPolicy l = Some (ps_policy ps)"
    and "(C, acts) \<in> set (snd (Serve U N X (served ps) rs D))" "Splice ip port \<in> set acts"
  shows "\<exists>req host portStr. cn_request C = Some req \<and> SplitHostPort (rq_Host req) = Some (host, portStr) \<and>
    Atoi portStr = Some port \<and> port_map (ap_AllowedPorts p) port = Some True \<and>
    (\<exists>pat \<in> set (ap_AllowedHosts p). hostMatches U pat host)"
proof -
  from Serve_handled [OF assms(3)] assms(4) obtain host where t: "tunnels U N (served ps) C host port ip"
    by (auto simp: handle_splice)
  then have "permit U (ps_policy ps) host port = None" by (simp add: tunnels_def served_def)
  note ok = permit_allows [OF this]
  have "AllowedPorts (ps_policy ps) = port_map (ap_AllowedPorts p)" "AllowedHosts (ps_policy ps) = ap_AllowedHosts p"
    using assms(1,2) by (auto simp: network_of_def)
  with ok t show ?thesis by (auto simp: tunnels_def)
qed

text \<open>
  C2 (safety): egress from end to end: take a launch under a policy file whose network policy is
  \<open>proxy_only\<close> without local DNS. Then an IPv4 or IPv6 connect by a thread of the launched agent's tree that the
  kernel lets through goes to 127.0.0.1 and the port of the proxy this run started, and whatever that proxy
  splices a client to, whatever connections it accepts, is a host the client's request named that
  matches the file's allowlist, on an allowed port.
\<close>

theorem egress_only_to_allowed_hosts:
  assumes "runEnforcer R args = Inr u" "Agent (Detach True) \<in> set (ru_steps u)" "re_net_ok R" "re_dns_ok R"
    and "\<forall>body pf. re_decode R body = Some pf \<longrightarrow> length pf < 2 ^ 32 - 1"
    and "read_policy R = Inr pf" "last_network (by_name pf) = Some p"
    and "ap_Egress p = str ''proxy_only''" "\<not> ap_AllowLocalDNS p"
  shows "\<exists>root ps. ru_steps u = map Attached attach_order @ map Agent [Start root, Track root, Detach True] \<and>
    ru_proxy u = Some ps \<and>
    (\<forall>others (ls :: ('p, 'd) sys_label list) y t pid (k :: 'p kernel) a y'. tids_ok (insert (root, root) others) \<longrightarrow>
       steps sys_step ls (started (ru_enf u) root others) y \<longrightarrow>
       sys_step (Kernel_call t pid k (Socket_connect a) 0 :: ('p, 'd) sys_label) y y' \<longrightarrow>
       pid \<in> agents (sys_world y) \<longrightarrow> sin_family a = AF_INET \<or> sin_family a = AF_INET6 \<longrightarrow>
       sin_family a = AF_INET \<and> bpf_ntohl (s_addr a) = 0x7f000001 \<and> bpf_ntohs (sin_port a) = of_int (ps_port ps)) \<and>
    (\<forall>U N X rs D C acts ip port. (C, acts) \<in> set (snd (Serve U N X (served ps) rs D)) \<longrightarrow> Splice ip port \<in> set acts \<longrightarrow>
       (\<exists>req host portStr. cn_request C = Some req \<and> SplitHostPort (rq_Host req) = Some (host, portStr) \<and>
          Atoi portStr = Some port \<and> port_map (ap_AllowedPorts p) port = Some True \<and>
          (\<exists>pat \<in> set (ap_AllowedHosts p). hostMatches U pat host)))"
proof -
  let ?pr = "promise_of (ru_policies u) (proxy_port (ru_proxy u))"
  obtain root dev ino pf' s where st:
    "ru_steps u = map Attached attach_order @ map Agent [Start root, Track root, Detach True]"
    "read_policy R = Inr pf'"
    "configure (re_os R) pf' (proxy_port (ru_proxy u)) dev ino (re_net_ok R) (re_dns_ok R)
       (fresh_enforcer (fresh_monitor dev ino)) = Inr (ru_policies u, s)"
    "enforcer_wf (fresh_enforcer (fresh_monitor dev ino))"
    "start_proxy R (ru_policies u) = Inr (ru_proxy u)"
    "\<forall>others. started s root others = started (ru_enf u) root others"
    "\<forall>others. mon (sys_world (started (ru_enf u) root others)) = ru_mon u"
    "\<forall>others. sys_enf (started (ru_enf u) root others) = ru_enf u"
    by (rule runEnforcer_detached [OF assms(1,2)])
  have pf: "pf' = pf" using st(2) assms(6) by simp
  have len: "length pf < 2 ^ 32 - 1"
    using assms(5,6) by (auto simp: read_policy_def case_prod_beta split: sum.splits option.splits)
  note cfg = st(3) [unfolded assms(3,4) [THEN eqTrueI] pf]
  have "loadAllPolicies (re_os R) pf = Inr (ru_policies u)" by (rule configured(1) [OF st(4) cfg])
  with load_named_network assms(7) have net: "network_of (ru_policies u) p"
    by (fastforce simp: loadAllPolicies_def)
  then have "proxyPolicy (ru_policies u) \<noteq> None" by (auto simp: network_of_def)
  with st(5) obtain ps where ps: "ru_proxy u = Some ps" by (auto simp: start_proxy_def split: option.splits)
  have pol: "proxyPolicy (ru_policies u) = Some (ps_policy ps)" using st(5) ps started_proxy by simp
  have dest: "pr_network ?pr" "pr_destinations ?pr = [(0x7f000001, of_int (ps_port ps))]"
    using net assms(8,9) pol by (simp_all add: promise_of_def network_of_def ps proxy_port_def)
  show ?thesis
  proof (intro exI [of _ root] exI [of _ ps] conjI allI impI ps st(1))
    fix others y t pid k a y' and ls :: "('p, 'd) sys_label list"
    assume a: "tids_ok (insert (root, root) others)" "steps sys_step ls (started (ru_enf u) root others) y"
      "sys_step (Kernel_call t pid k (Socket_connect a) 0 :: ('p, 'd) sys_label) y y'" "pid \<in> agents (sys_world y)"
      "sin_family a = AF_INET \<or> sin_family a = AF_INET6"
    have "steps sys_step ls (started s root others) y" using a(2) st(6) by simp
    then have "judge ?pr (Send a) = None"
      using run_verdict [OF st(4) cfg len a(1) _ a(3), of ls] a(4) dest(1)
      by (cases "judge ?pr (Send a)") (simp_all add: EPERM_def del: judge.simps)
    then show "sin_family a = AF_INET" "bpf_ntohl (s_addr a) = 0x7f000001" "bpf_ntohs (sin_port a) = of_int (ps_port ps)"
      using a(5) dest(2) by (auto simp: destination_ok_def families split: if_splits)
  next
    fix U N X rs D C acts ip port
    assume "(C, acts) \<in> set (snd (Serve U N X (served ps) rs D))" "Splice ip port \<in> set acts"
    from splices_allowed [OF net pol this] show "\<exists>req host portStr. cn_request C = Some req \<and> SplitHostPort (rq_Host req) = Some (host, portStr) \<and>
          Atoi portStr = Some port \<and> port_map (ap_AllowedPorts p) port = Some True \<and>
          (\<exists>pat \<in> set (ap_AllowedHosts p). hostMatches U pat host)" .
  qed
qed

theorem egress_only_to_allowed_hosts_witness:
  "\<exists>u. runEnforcer sample_run [str ''agentguard'', str ''--'', str ''claude''] = Inr u \<and>
     (\<forall>rs D C acts ip port. (C, acts) \<in> set (snd (Serve plain_tables sample_net sample_env (served sample_server) rs D)) \<longrightarrow>
        Splice ip port \<in> set acts \<longrightarrow>
        (\<exists>req host portStr. cn_request C = Some req \<and> SplitHostPort (rq_Host req) = Some (host, portStr) \<and>
           hostMatches plain_tables (str ''*.example.com'') host))"
proof -
  obtain u where u: "runEnforcer sample_run [str ''agentguard'', str ''--'', str ''claude''] = Inr u"
    "ru_proxy u = Some sample_server" "Agent (Detach True) \<in> set (ru_steps u)"
    using sample_runs by blast
  have oks: "re_net_ok sample_run" "re_dns_ok sample_run"
    "\<forall>body pf. re_decode sample_run body = Some pf \<longrightarrow> length pf < 2 ^ 32 - 1"
    by (simp_all add: sample_run_def)
  have net: "last_network (by_name [(str ''net'', net_policy)]) = Some net_policy"
    "ap_Egress net_policy = str ''proxy_only''" "\<not> ap_AllowLocalDNS net_policy"
    "ap_AllowedHosts net_policy = [str ''*.example.com'']"
    by (simp_all add: last_network_def by_name_def policy_kind_def net_policy_def empty_policy_def)
  from egress_only_to_allowed_hosts [OF u(1,3) oks sample_policy_read net(1-3)] u(1,2) net(4)
  show ?thesis by (simp del: str_simps) blast
qed

lemma basic_auth: "authOK t (str ''Basic '' @ b64_encode (str ''user:'' @ t')) \<longleftrightarrow> t = t'"
proof -
  have user: "str ''user:'' @ t' = str ''user'' @ COLON # t'" "COLON \<notin> set (str ''user'')" by simp_all
  have split: "t = t'" if "v @ COLON # t = str ''user'' @ COLON # t'" "COLON \<notin> set v" for v
  proof -
    have "[v, t] = [str ''user'', t']"
      unfolding SplitN2_join [OF that(2), of t, symmetric] SplitN2_join [OF user(2), of t', symmetric]
      by (simp only: that(1))
    then show ?thesis by simp
  qed
  show ?thesis
    unfolding authOK_iff user(1)
  proof
    assume "\<exists>enc v. str ''Basic '' @ b64_encode (str ''user'' @ COLON # t') = str ''Basic '' @ enc \<and>
      b64_decode enc = Some (v @ COLON # t) \<and> COLON \<notin> set v"
    then obtain v where "Some (str ''user'' @ COLON # t') = Some (v @ COLON # t)" "COLON \<notin> set v"
      by (auto simp: b64_decode_encode simp del: str_simps)
    then show "t = t'" using split by simp
  next
    assume "t = t'"
    then show "\<exists>enc v. str ''Basic '' @ b64_encode (str ''user'' @ COLON # t') = str ''Basic '' @ enc \<and>
      b64_decode enc = Some (v @ COLON # t) \<and> COLON \<notin> set v"
      using user(2) b64_decode_encode by blast
  qed
qed

text \<open>
  C20 (roundtrip): the token of a run: 43 characters from 32 random bytes, none of them one that
  ends the user part of the proxy URL; a client that sends the credentials of that URL is let in,
  and one that sends the token of a run with other random bytes is not.
\<close>

theorem token_admits_its_run:
  assumes "NewProxyServer (Some r) listen pol addr = Inr ps" "length r = 32"
  shows "length (ps_token ps) = 43 \<and> set (ps_token ps) \<inter> {COLON, 0x40, SLASH, 0x25} = {} \<and>
    authOK (ps_token ps) (str ''Basic '' @ b64_encode (str ''user:'' @ ps_token ps)) \<and>
    (\<forall>r' listen' pol' addr' ps'. NewProxyServer (Some r') listen' pol' addr' = Inr ps' \<longrightarrow> length r' = 32 \<longrightarrow> r' \<noteq> r \<longrightarrow>
       \<not> authOK (ps_token ps) (str ''Basic '' @ b64_encode (str ''user:'' @ ps_token ps')))"
proof -
  have tok: "ps_token ps = RawURLEncode r" if "NewProxyServer (Some r) listen pol addr = Inr ps" for r listen pol addr ps
    using that by (auto simp: NewProxyServer_def Let_def split: option.splits)
  have chars: "set (RawURLEncode r) \<inter> {COLON, 0x40, SLASH, 0x25} = {}"
    using RawURLEncode_chars by (simp add: disjoint_iff)
  have other: "RawURLEncode r \<noteq> ps_token ps'"
    if "NewProxyServer (Some r') listen' pol' addr' = Inr ps'" "length r' = 32" "r' \<noteq> r" for r' listen' pol' addr' ps'
    using tok [OF that(1)] RawURLEncode_inj [of r r'] that(2,3) assms(2) by metis
  have len: "length (RawURLEncode r) = 43" using assms(2) by (simp add: RawURLEncode_length)
  show ?thesis
    unfolding tok [OF assms(1)] using len chars other by (simp add: basic_auth del: str_simps)
qed

theorem token_admits_its_run_witness:
  "authOK (RawURLEncode (replicate 32 7)) (str ''Basic '' @ b64_encode (str ''user:'' @ RawURLEncode (replicate 32 7))) \<and>
   \<not> authOK (RawURLEncode (replicate 32 7)) (str ''Basic '' @ b64_encode (str ''user:'' @ RawURLEncode (replicate 32 8)))"
proof -
  let ?l = "\<lambda>_. Some (str ''127.0.0.1'' @ COLON # Itoa 8080)" and ?p = "ps_policy sample_server"
  have start: "\<exists>ps. NewProxyServer (Some r) ?l ?p [] = Inr ps \<and> ps_token ps = RawURLEncode r" for r
  proof -
    have "SplitHostPort (str ''127.0.0.1'' @ COLON # Itoa 8080) = Some (str ''127.0.0.1'', Itoa 8080)"
      by (rule SplitHostPort_plain) auto
    then show ?thesis using Atoi_Itoa [of 8080] by (simp add: NewProxyServer_def Let_def del: str_simps)
  qed
  obtain ps ps' where ps: "NewProxyServer (Some (replicate 32 7)) ?l ?p [] = Inr ps" "ps_token ps = RawURLEncode (replicate 32 7)"
    "NewProxyServer (Some (replicate 32 8)) ?l ?p [] = Inr ps'" "ps_token ps' = RawURLEncode (replicate 32 8)"
    using start by blast
  have "replicate 32 (8 :: u8) \<noteq> replicate 32 7" by (simp add: replicate_eq_replicate)
  with token_admits_its_run [OF ps(1)] ps(2-4) show ?thesis by (metis length_replicate)
qed

end
