(* ===== verification/Host_Setup.thy ===== *)
theory Host_Setup
  imports Run_Enforcer
begin

text \<open>
  The commands around the daemon: the stored API key (\<open>hostdir.go\<close>, \<open>login.go\<close>), the container
  (\<open>up.go\<close>), the installation of the hooks in the settings files (\<open>init_hooks.go\<close>, \<open>cmdInit\<close> of
  \<open>cli.go\<close>) and the diagnosis (\<open>doctor.go\<close>). Files are a map from paths to contents; which
  operations succeed, the JSON codec and the other answers of the host are arguments. Printed
  lines are left out, a check of \<open>doctor\<close> is its level.
\<close>

section \<open>Files\<close>

record host_fs =
  hf_unreadable :: "bytes \<Rightarrow> bool"
  hf_mkdir_ok :: "bytes \<Rightarrow> bool"
  hf_write_ok :: "bytes \<Rightarrow> bool"

datatype read_result = Contents bytes | Not_exist | Read_error

definition ReadFile :: "host_fs \<Rightarrow> files \<Rightarrow> bytes \<Rightarrow> read_result" where
  "ReadFile H fs p =
     (if hf_unreadable H p then Read_error else case fs p of None \<Rightarrow> Not_exist | Some b \<Rightarrow> Contents b)"

datatype setup_error =
  No_home | Key_unreadable | Key_file_empty | Key_empty | Mkdir_error bytes | Write_error bytes
| Extra_arguments "bytes list" | Login_as_root | No_key_on_stdin
| No_cwd_dir | Docker_missing | Docker_unusable | Policy_missing bytes
| Settings_invalid bytes | Settings_null bytes | Hooks_invalid bytes | Starter_failed starter_error | Identity_error launch_error
| Init_argument bytes | Executable_unknown

section \<open>The stored key\<close>

definition agentGuardHostDir :: "bytes option \<Rightarrow> setup_error + bytes" where
  "agentGuardHostDir home =
     (case home of None \<Rightarrow> Inl No_home | Some h \<Rightarrow> Inr (Join2 h (str ''.agentguard'')))"

definition anthropicKeyPath :: "bytes option \<Rightarrow> setup_error + bytes" where
  "anthropicKeyPath home = map_sum id (\<lambda>root. Join2 root (str ''anthropic_key'')) (agentGuardHostDir home)"

text \<open>An absent file is no error and no key.\<close>

definition readAnthropicAPIKey :: "host_fs \<Rightarrow> (bytes \<Rightarrow> bytes) \<Rightarrow> bytes option \<Rightarrow> files \<Rightarrow> setup_error + bytes" where
  "readAnthropicAPIKey H getenv home fs =
     (let v = TrimSpace (getenv (str ''ANTHROPIC_API_KEY'')) in
      if v \<noteq> [] then Inr v
      else
        and_then (anthropicKeyPath home) (\<lambda>path.
          case ReadFile H fs path of
            Not_exist \<Rightarrow> Inr []
          | Read_error \<Rightarrow> Inl Key_unreadable
          | Contents b \<Rightarrow> let key = TrimSpace b in if key = [] then Inl Key_file_empty else Inr key))"

definition writeAnthropicAPIKey :: "host_fs \<Rightarrow> bytes option \<Rightarrow> bytes \<Rightarrow> files \<Rightarrow> setup_error + files" where
  "writeAnthropicAPIKey H home key0 fs =
     (let key = TrimSpace key0 in
      if key = [] then Inl Key_empty
      else
        and_then (agentGuardHostDir home) (\<lambda>root.
          if \<not> hf_mkdir_ok H root then Inl (Mkdir_error root)
          else
            let path = Join2 root (str ''anthropic_key'') in
            if \<not> hf_write_ok H path then Inl (Write_error path)
            else Inr (fs(path \<mapsto> key @ [0x0a]))))"

text \<open>\<open>line\<close> is what the scanner read from standard input, \<open>None\<close> for none.\<close>

definition cmdLogin ::
  "host_fs \<Rightarrow> bool \<Rightarrow> bytes option \<Rightarrow> bytes list \<Rightarrow> bytes option \<Rightarrow> files \<Rightarrow> setup_error + files" where
  "cmdLogin H is_root home rest line fs =
     (if rest \<noteq> [] then Inl (Extra_arguments rest)
      else if is_root then Inl Login_as_root
      else
        (case line of
           None \<Rightarrow> Inl No_key_on_stdin
         | Some l \<Rightarrow>
             and_then (writeAnthropicAPIKey H home l fs) (\<lambda>fs'.
             and_then (anthropicKeyPath home) (\<lambda>_. Inr fs'))))"

section \<open>The container\<close>

definition ensureUpRuntimeDirs :: "host_fs \<Rightarrow> bytes option \<Rightarrow> setup_error + (bytes \<times> bytes \<times> bytes)" where
  "ensureUpRuntimeDirs H home =
     and_then (agentGuardHostDir home) (\<lambda>root.
       let sub = (\<lambda>n. Join2 (Join2 root (str ''runtime'')) n);
           dirs = [sub (str ''.local''), sub (str ''.claude''), sub (str ''.codex'')] in
       case find (\<lambda>d. \<not> hf_mkdir_ok H d) dirs of
         Some d \<Rightarrow> Inl (Mkdir_error d)
       | None \<Rightarrow> Inr (sub (str ''.local''), sub (str ''.claude''), sub (str ''.codex'')))"

record up_env =
  ue_fs :: host_fs
  ue_getenv :: "bytes \<Rightarrow> bytes"
  ue_home :: "bytes option"
  ue_cwd :: "bytes option"
  ue_docker :: "bytes option"
  ue_docker_ok :: bool

definition up_args :: "bytes \<Rightarrow> bytes \<times> bytes \<times> bytes \<Rightarrow> bytes \<Rightarrow> bytes \<Rightarrow> bytes list" where
  "up_args cwd dirs key img =
     (case dirs of (localDir, claudeDir, codexDir) \<Rightarrow>
      map str [''run'', ''-it'', ''--rm'', ''--privileged'', ''--cap-add=CAP_BPF'', ''--cap-add=CAP_PERFMON'',
        ''--cap-add=CAP_SYS_ADMIN'', ''--cap-add=CAP_NET_ADMIN''] @
      [str ''-v'', cwd @ str '':/workspace'',
       str ''-v'', str ''/sys/kernel/btf:/sys/kernel/btf:ro'',
       str ''-v'', str ''/sys/kernel/debug:/sys/kernel/debug'',
       str ''-v'', localDir @ str '':/home/ubuntu/.local'',
       str ''-v'', claudeDir @ str '':/home/ubuntu/.claude'',
       str ''-v'', codexDir @ str '':/home/ubuntu/.codex'',
       str ''-w'', str ''/workspace'',
       str ''-e'', str ''AGENTGUARD_POLICY=/workspace/policies/default.yaml''] @
      (if key \<noteq> [] then [str ''-e'', str ''ANTHROPIC_API_KEY='' @ key] else []) @
      [img, str ''bash''])"

text \<open>The command \<open>up\<close> runs: the program and its arguments.\<close>

definition cmdUp :: "up_env \<Rightarrow> bytes list \<Rightarrow> files \<Rightarrow> setup_error + (bytes \<times> bytes list)" where
  "cmdUp U rest fs =
     (if rest \<noteq> [] then Inl (Extra_arguments rest)
      else
        let env_image = ue_getenv U (str ''AGENTGUARD_IMAGE'');
            img = (if env_image = [] then str ''ghcr.io/agentguard-hq/agentguard:latest'' else env_image) in
        and_then (or_fail No_cwd_dir (ue_cwd U)) (\<lambda>cwd.
        and_then (or_fail Docker_missing (ue_docker U)) (\<lambda>docker.
        and_then (require (ue_docker_ok U) Docker_unusable) (\<lambda>_.
        let policy = Join2 (Join2 cwd (str ''policies'')) (str ''default.yaml'') in
        and_then (require (fs policy \<noteq> None) (Policy_missing policy)) (\<lambda>_.
        and_then (ensureUpRuntimeDirs (ue_fs U) (ue_home U)) (\<lambda>dirs.
        and_then (readAnthropicAPIKey (ue_fs U) (ue_getenv U) (ue_home U) fs) (\<lambda>key.
          Inr (docker, up_args cwd dirs key img))))))))"

section \<open>Settings files\<close>

text \<open>
  The codec: a document decodes to a map from keys to values or to the nil map for the text
  \<open>null\<close>, the value of \<open>hooks\<close> decodes to hooks (\<open>null\<close> to no hooks), and \<open>doctor\<close> decodes the whole
  document at once. A value of type \<open>'j\<close> is one up to white space, which the encoder normalises.
\<close>

record 'j json_docs =
  jd_decode_raw :: "bytes \<Rightarrow> (bytes \<rightharpoonup> 'j) option option"
  jd_encode_raw :: "(bytes \<rightharpoonup> 'j) \<Rightarrow> bytes"
  jd_decode_hooks :: "'j \<Rightarrow> hooks option"
  jd_encode_hooks :: "hooks \<Rightarrow> 'j"
  jd_decode_wrap :: "bytes \<Rightarrow> hooks option"
  jd_description :: 'j

definition read_document ::
  "host_fs \<Rightarrow> 'j json_docs \<Rightarrow> files \<Rightarrow> bytes \<Rightarrow> setup_error + (bytes \<rightharpoonup> 'j) option" where
  "read_document H J fs settingsPath =
     (case ReadFile H fs settingsPath of
        Contents b \<Rightarrow>
          if b = [] then Inr (Some Map.empty) else or_fail (Settings_invalid settingsPath) (jd_decode_raw J b)
      | _ \<Rightarrow> Inr (Some Map.empty))"

definition document_hooks :: "'j json_docs \<Rightarrow> bytes \<Rightarrow> (bytes \<rightharpoonup> 'j) \<Rightarrow> setup_error + hooks" where
  "document_hooks J settingsPath raw =
     (case raw (str ''hooks'') of
        None \<Rightarrow> Inr Map.empty
      | Some j \<Rightarrow> or_fail (Hooks_invalid settingsPath) (jd_decode_hooks J j))"

definition with_hooks :: "'j json_docs \<Rightarrow> bool \<Rightarrow> hooks \<Rightarrow> (bytes \<rightharpoonup> 'j) \<Rightarrow> (bytes \<rightharpoonup> 'j)" where
  "with_hooks J describe hs raw =
     (let raw1 = raw(str ''hooks'' \<mapsto> jd_encode_hooks J hs) in
      if describe \<and> raw1 (str ''description'') = None
      then raw1(str ''description'' \<mapsto> jd_description J) else raw1)"

text \<open>
  The two merges differ in the events and in the description. Assigning to the nil map of a
  document \<open>null\<close> panics: \<open>Settings_null\<close>.
\<close>

definition merge_settings ::
  "host_fs \<Rightarrow> 'j json_docs \<Rightarrow> bytes list \<Rightarrow> bool \<Rightarrow> bytes \<Rightarrow> bytes \<Rightarrow> files \<Rightarrow> setup_error + files" where
  "merge_settings H J evs describe settingsPath hookCmd fs =
     (if \<not> hf_mkdir_ok H (Dir settingsPath) then Inl (Mkdir_error (Dir settingsPath))
      else
        and_then (read_document H J fs settingsPath) (\<lambda>doc.
        and_then (or_fail (Settings_null settingsPath) doc) (\<lambda>raw.
        and_then (document_hooks J settingsPath raw) (\<lambda>hs.
          if \<not> hf_write_ok H settingsPath then Inl (Write_error settingsPath)
          else
            Inr (fs(settingsPath \<mapsto>
              jd_encode_raw J (with_hooks J describe (merge_hooks evs hookCmd hs) raw) @ [0x0a]))))))"

definition mergeClaudeHooks :: "host_fs \<Rightarrow> 'j json_docs \<Rightarrow> bytes \<Rightarrow> bytes \<Rightarrow> files \<Rightarrow> setup_error + files" where
  "mergeClaudeHooks H J = merge_settings H J claudeHookEvents False"

definition mergeCodexHooks :: "host_fs \<Rightarrow> 'j json_docs \<Rightarrow> bytes \<Rightarrow> bytes \<Rightarrow> files \<Rightarrow> setup_error + files" where
  "mergeCodexHooks H J = merge_settings H J codexHookEvents True"

definition installedAgentguard :: bytes where
  "installedAgentguard = str ''/usr/local/bin/agentguard''"

text \<open>\<open>executable\<close>: the installed binary is there, \<open>self\<close>: \<open>os.Executable\<close>.\<close>

definition hookCommand :: "bool \<Rightarrow> bytes option \<Rightarrow> (bytes \<Rightarrow> bytes option) \<Rightarrow> setup_error + bytes" where
  "hookCommand executable self evalSymlinks =
     (if executable then Inr (installedAgentguard @ str '' hook'')
      else
        (case self of
           None \<Rightarrow> Inl Executable_unknown
         | Some s \<Rightarrow> Inr ((case evalSymlinks s of None \<Rightarrow> s | Some r \<Rightarrow> r) @ str '' hook'')))"

definition initTargetHome :: "os_env \<Rightarrow> setup_error + bytes" where
  "initTargetHome E =
     and_then (if Geteuid_root E
       then map_sum Identity_error id (sudoLaunchIdentity (users E) (Geteuid_root E) (Getenv E)) else Inr None) (\<lambda>ident.
     case ident of
       Some i \<Rightarrow> Inr (li_Home i)
     | None \<Rightarrow> or_fail No_home (UserHomeDir E))"

record 'j init_env =
  ie_os :: os_env
  ie_fs :: host_fs
  ie_docs :: "'j json_docs"
  ie_starter :: starter_env
  ie_template :: bytes
  ie_installed :: bool
  ie_self :: "bytes option"

definition claude_settings :: "bytes \<Rightarrow> bytes" where
  "claude_settings home = Join2 (Join2 home (str ''.claude'')) (str ''settings.json'')"

definition codex_settings :: "bytes \<Rightarrow> bytes" where
  "codex_settings home = Join2 (Join2 home (str ''.codex'')) (str ''hooks.json'')"

definition cmdInit :: "'j init_env \<Rightarrow> bytes list \<Rightarrow> files \<Rightarrow> (setup_error + unit) \<times> files" where
  "cmdInit I rest fs =
     (case parseInitFlags rest of
        Inl a \<Rightarrow> (Inl (Init_argument a), fs)
      | Inr (claude, codex) \<Rightarrow>
          (case Getwd (ie_os I) of
             None \<Rightarrow> (Inl No_cwd_dir, fs)
           | Some cwd \<Rightarrow>
               (case createStarterPolicy (ie_starter I) (ie_template I) cwd fs of
                  (Inl e, fs1) \<Rightarrow> (Inl (Starter_failed e), fs1)
                | (Inr _, fs1) \<Rightarrow>
                    if \<not> claude \<and> \<not> codex then (Inr (), fs1)
                    else
                      (case and_then (hookCommand (ie_installed I) (ie_self I) (EvalSymlinks (ie_os I))) (\<lambda>cmd.
                          and_then (initTargetHome (ie_os I)) (\<lambda>home. Inr (cmd, home))) of
                         Inl e \<Rightarrow> (Inl e, fs1)
                       | Inr (cmd, home) \<Rightarrow>
                           (case (if claude then mergeClaudeHooks (ie_fs I) (ie_docs I) (claude_settings home) cmd fs1
                                  else Inr fs1) of
                              Inl e \<Rightarrow> (Inl e, fs1)
                            | Inr fs2 \<Rightarrow>
                                (case (if codex then mergeCodexHooks (ie_fs I) (ie_docs I) (codex_settings home) cmd fs2
                                       else Inr fs2) of
                                   Inl e \<Rightarrow> (Inl e, fs2)
                                 | Inr fs3 \<Rightarrow> (Inr (), fs3)))))))"

section \<open>Diagnosis\<close>

datatype settings_check = Settings_missing | Settings_bad | Settings_checked hookCheckResult

definition check_settings :: "host_fs \<Rightarrow> 'j json_docs \<Rightarrow> files \<Rightarrow> bytes \<Rightarrow> bytes list \<Rightarrow> settings_check" where
  "check_settings H J fs settingsPath need =
     (case ReadFile H fs settingsPath of
        Contents b \<Rightarrow>
          (case jd_decode_wrap J b of
             None \<Rightarrow> Settings_bad
           | Some hs \<Rightarrow> Settings_checked (doctorCheckHookSettings hs need))
      | _ \<Rightarrow> Settings_missing)"

datatype level = L_OK | L_INFO | L_WARN | L_FAIL

text \<open>The level of the line on the LSM list; the code returns whether it is not \<open>FAIL\<close>.\<close>

definition doctorReportSecurityfs :: "bool \<Rightarrow> securityfs \<Rightarrow> level" where
  "doctorReportSecurityfs is_root S =
     (if \<not> sf_readable S \<and> (\<not> is_root \<or> \<not> ensureSecurityfs S) then L_WARN
      else
        (case sf_contents S of
           None \<Rightarrow> L_WARN
         | Some body \<Rightarrow> if lsmListHasBPF (TrimSpace body) then L_OK else L_FAIL))"

datatype stat_result = Stat_missing | Stat_error | Stat_mode nat

record 'j doctor_env =
  dc_os :: os_env
  dc_linux :: bool
  dc_policy_flag :: bytes
  dc_fs :: host_fs
  dc_docs :: "'j json_docs"
  dc_state_dir :: stat_result
  dc_btf :: bool
  dc_securityfs :: securityfs
  dc_cmdline :: "bytes option"
  dc_docker :: "bool option"
  dc_installed :: bool
  dc_self :: "bytes option"

text \<open>Whose settings are checked: \<open>None\<close> when the identity or the home is a failure.\<close>

definition doctor_home :: "'j doctor_env \<Rightarrow> level list \<times> bytes option" where
  "doctor_home D =
     (let E = dc_os D in
      if Geteuid_root E then
        (case sudoLaunchIdentity (users E) (Geteuid_root E) (Getenv E) of
           Inl _ \<Rightarrow> ([L_FAIL], None)
         | Inr (Some i) \<Rightarrow> ([L_OK], Some (li_Home i))
         | Inr None \<Rightarrow> ([L_FAIL], None))
      else (case UserHomeDir E of None \<Rightarrow> ([L_INFO, L_FAIL], None) | Some h \<Rightarrow> ([L_INFO], Some h)))"

definition state_dir_level :: "bool \<Rightarrow> stat_result \<Rightarrow> level" where
  "state_dir_level drops st =
     (case st of
        Stat_missing \<Rightarrow> L_INFO
      | Stat_error \<Rightarrow> L_WARN
      | Stat_mode mode \<Rightarrow> if drops \<and> and mode 2 = 0 \<and> and mode 56 = 0 then L_WARN else L_OK)"

definition settings_level :: "settings_check \<Rightarrow> level" where
  "settings_level c =
     (case c of
        Settings_missing \<Rightarrow> L_INFO
      | Settings_bad \<Rightarrow> L_FAIL
      | Settings_checked r \<Rightarrow> (case r of Check_ok _ \<Rightarrow> L_OK | _ \<Rightarrow> L_FAIL))"

text \<open>The last line, on \<open>colima\<close>, is informative.\<close>

definition docker_levels :: "bool \<Rightarrow> bool option \<Rightarrow> level list" where
  "docker_levels linux docker =
     (case docker of
        None \<Rightarrow> [if linux then L_INFO else L_FAIL]
      | Some ok \<Rightarrow> [L_INFO, if ok then L_OK else if linux then L_WARN else L_FAIL]) @ [L_INFO]"

definition resolvePath :: "os_env \<Rightarrow> bytes \<Rightarrow> bytes" where
  "resolvePath E p = (case EvalSymlinks E p of Some r \<Rightarrow> r | None \<Rightarrow> p)"

definition binary_levels :: "os_env \<Rightarrow> bool \<Rightarrow> bytes option \<Rightarrow> level list" where
  "binary_levels E installed self =
     (if installed then L_OK else L_FAIL) #
     (case self of
        None \<Rightarrow> [L_WARN]
      | Some s \<Rightarrow>
          L_OK # (if \<not> installed then []
                  else if resolvePath E s = resolvePath E installedAgentguard then [L_OK] else [L_WARN]))"

definition doctor_checks :: "'j doctor_env \<Rightarrow> files \<Rightarrow> level list" where
  "doctor_checks D fs =
     (let E = dc_os D;
          is_root = Geteuid_root E;
          drops = (is_root \<and> (case sudoLaunchIdentity (users E) is_root (Getenv E) of Inr (Some _) \<Rightarrow> True | _ \<Rightarrow> False)) in
      fst (doctor_home D) @
      [(case findPolicyPath (\<lambda>p. fs p \<noteq> None) (Getwd E) (Getenv E (str ''AGENTGUARD_POLICY'')) (dc_policy_flag D) of
          Inl _ \<Rightarrow> L_FAIL | Inr None \<Rightarrow> L_INFO | Inr (Some _) \<Rightarrow> L_OK),
       state_dir_level drops (dc_state_dir D),
       (if dc_btf D then L_OK else if dc_linux D then L_FAIL else L_INFO),
       (if \<not> dc_linux D then L_INFO
        else doctorReportSecurityfs is_root (dc_securityfs D)),
       (case dc_cmdline D of
          None \<Rightarrow> if dc_linux D then L_WARN else L_INFO
        | Some s \<Rightarrow> if Contains s (str ''bpf'') then L_OK else L_WARN)] @
      docker_levels (dc_linux D) (dc_docker D) @
      (case snd (doctor_home D) of
         None \<Rightarrow> []
       | Some home \<Rightarrow>
           [settings_level (check_settings (dc_fs D) (dc_docs D) fs (claude_settings home) claudeHookEvents),
            settings_level (check_settings (dc_fs D) (dc_docs D) fs (codex_settings home) codexHookEvents)]) @
      binary_levels E (dc_installed D) (dc_self D))"

text \<open>The exit status: failure exactly when a check is at the level \<open>FAIL\<close>.\<close>

definition cmdDoctor :: "'j doctor_env \<Rightarrow> bytes list \<Rightarrow> files \<Rightarrow> setup_error + bool" where
  "cmdDoctor D rest fs =
     (if rest \<noteq> [] then Inl (Extra_arguments rest) else Inr (L_FAIL \<notin> set (doctor_checks D fs)))"

section \<open>Login and the container\<close>

lemma require_True [simp]: "require True e = Inr ()"
  by (simp add: require_def)

lemma or_fail_Some [simp]: "or_fail e (Some x) = Inr x"
  by (simp add: or_fail_def)

lemma cmdLogin_stores:
  assumes "cmdLogin H False home [] (Some line) fs = Inr fs'" "anthropicKeyPath home = Inr path"
  shows "TrimSpace line \<noteq> []" "fs' = fs(path \<mapsto> TrimSpace line @ [0x0a])"
  using assms
  by (auto simp: cmdLogin_def writeAnthropicAPIKey_def anthropicKeyPath_def and_then_Inr_iff Let_def
      simp del: str_simps split: if_splits)

lemma sublist_in_third: "sublist m (a @ b @ m @ c)"
  using sublist_appendI [of m "a @ b" c] by simp

lemma up_args_key:
  "key \<noteq> [] \<Longrightarrow> sublist [str ''-e'', str ''ANTHROPIC_API_KEY='' @ key] (up_args cwd dirs key img)"
  by (cases dirs) (simp only: up_args_def prod.case if_True not_False_eq_True sublist_in_third)

lemma stored_key_read_back:
  assumes "cmdLogin H False home [] (Some line) fs = Inr fs'" "anthropicKeyPath home = Inr path"
    and "\<not> hf_unreadable H path" "TrimSpace (getenv (str ''ANTHROPIC_API_KEY'')) = []"
  shows "readAnthropicAPIKey H getenv home fs' = Inr (TrimSpace line)"
  using cmdLogin_stores [OF assms(1,2)] assms(2-)
  by (auto simp: readAnthropicAPIKey_def ReadFile_def Let_def simp del: str_simps)

text \<open>
  C23 (roundtrip): A key stored by \<open>login\<close> is the key \<open>up\<close> hands to the container: whatever
  white space surrounded it on the line, the arguments of \<open>docker\<close> set \<open>ANTHROPIC_API_KEY\<close> to the
  trimmed line when the environment has no key of its own, and to the trimmed value of the
  environment when it has one. Storing the key changes no other file.
\<close>

theorem login_then_up:
  assumes "cmdLogin H False home [] (Some line) fs = Inr fs'" "anthropicKeyPath home = Inr path"
    and "\<not> hf_unreadable H path" "ue_fs U = H" "ue_home U = home"
    and "ue_cwd U = Some cwd" "ue_docker U = Some docker" "ue_docker_ok U"
    and "fs' (Join2 (Join2 cwd (str ''policies'')) (str ''default.yaml'')) \<noteq> None" "ensureUpRuntimeDirs H home = Inr dirs"
  shows "let own = TrimSpace (ue_getenv U (str ''ANTHROPIC_API_KEY''));
             key = (if own = [] then TrimSpace line else own) in
    (\<exists>args. cmdUp U [] fs' = Inr (docker, args) \<and> key \<noteq> [] \<and>
       sublist [str ''-e'', str ''ANTHROPIC_API_KEY='' @ key] args) \<and>
    (\<forall>p. p \<noteq> path \<longrightarrow> fs' p = fs p)"
proof -
  define own where "own = TrimSpace (ue_getenv U (str ''ANTHROPIC_API_KEY''))"
  define key where "key = (if own = [] then TrimSpace line else own)"
  note stored = cmdLogin_stores [OF assms(1,2)]
  have key: "readAnthropicAPIKey H (ue_getenv U) home fs' = Inr key"
    using stored_key_read_back [OF assms(1-3), of "ue_getenv U"]
    by (auto simp: key_def own_def readAnthropicAPIKey_def Let_def simp del: str_simps)
  have nonempty: "key \<noteq> []" using stored(1) by (simp add: key_def)
  have "\<exists>img. cmdUp U [] fs' = Inr (docker, up_args cwd dirs key img)"
    using assms(4-) key by (auto simp: cmdUp_def Let_def simp del: str_simps)
  moreover have "fs' p = fs p" if "p \<noteq> path" for p using stored(2) that by simp
  ultimately show ?thesis
    unfolding Let_def own_def [symmetric] key_def [symmetric] using nonempty up_args_key [OF nonempty] by blast
qed

theorem login_then_up_witness:
  "let H = \<lparr>hf_unreadable = \<lambda>_. False, hf_mkdir_ok = \<lambda>_. True, hf_write_ok = \<lambda>_. True\<rparr>;
       U = \<lparr>ue_fs = H, ue_getenv = \<lambda>_. [], ue_home = Some (str ''/home/u''), ue_cwd = Some (str ''/w''),
            ue_docker = Some (str ''/usr/bin/docker''), ue_docker_ok = True\<rparr> in
   \<exists>fs' args. cmdLogin H False (Some (str ''/home/u'')) [] (Some (str '' sk-1 '')) (\<lambda>_. Some []) = Inr fs' \<and>
     cmdUp U [] fs' = Inr (str ''/usr/bin/docker'', args) \<and>
     sublist [str ''-e'', str ''ANTHROPIC_API_KEY=sk-1''] args"
proof -
  let ?H = "\<lparr>hf_unreadable = \<lambda>_. False, hf_mkdir_ok = \<lambda>_. True, hf_write_ok = \<lambda>_. True\<rparr>"
  let ?U = "\<lparr>ue_fs = ?H, ue_getenv = \<lambda>_. [], ue_home = Some (str ''/home/u''), ue_cwd = Some (str ''/w''),
            ue_docker = Some (str ''/usr/bin/docker''), ue_docker_ok = True\<rparr>"
  have trim: "TrimSpace (str '' sk-1 '') = str ''sk-1''"
    by (simp add: TrimSpace_def trim_left.simps trim_right.simps space_encodings_def suffix_def append_eq_Cons_conv)
  obtain path where path: "anthropicKeyPath (Some (str ''/home/u'')) = Inr path"
    by (simp add: anthropicKeyPath_def agentGuardHostDir_def del: str_simps)
  have nonempty: "str ''sk-1'' \<noteq> []" by simp
  obtain dirs where dirs: "ensureUpRuntimeDirs ?H (Some (str ''/home/u'')) = Inr dirs"
    by (simp add: ensureUpRuntimeDirs_def agentGuardHostDir_def Let_def del: str_simps)
  obtain fs' where fs': "cmdLogin ?H False (Some (str ''/home/u'')) [] (Some (str '' sk-1 '')) (\<lambda>_. Some []) = Inr fs'"
    using trim nonempty
    by (simp add: cmdLogin_def writeAnthropicAPIKey_def anthropicKeyPath_def agentGuardHostDir_def Let_def del: str_simps)
  then have "fs' p \<noteq> None" for p using cmdLogin_stores(2) [OF fs' path] by simp
  with login_then_up [OF fs' path, of ?U "str ''/w''" "str ''/usr/bin/docker''" dirs] dirs trim fs'
  have "\<exists>args. cmdUp ?U [] fs' = Inr (str ''/usr/bin/docker'', args) \<and>
     sublist [str ''-e'', str ''ANTHROPIC_API_KEY='' @ str ''sk-1''] args"
    by (auto simp: Let_def simp del: str_simps)
  moreover have "str ''ANTHROPIC_API_KEY='' @ str ''sk-1'' = str ''ANTHROPIC_API_KEY=sk-1''" by simp
  ultimately show ?thesis unfolding Let_def using fs' by metis
qed

section \<open>Hooks installed and checked\<close>

lemma merge_settings_writes:
  assumes "merge_settings H J evs describe path cmd fs = Inr fs'"
    and "read_document H J fs path = Inr (Some raw)" "document_hooks J path raw = Inr hs"
  shows "fs' = fs(path \<mapsto> jd_encode_raw J (with_hooks J describe (merge_hooks evs cmd hs) raw) @ [0x0a])"
  using assms by (auto simp: merge_settings_def or_fail_def split: if_splits)

lemma with_hooks_at:
  "with_hooks J describe hs raw (str ''hooks'') = Some (jd_encode_hooks J hs)"
  "k \<notin> {str ''hooks'', str ''description''} \<Longrightarrow> with_hooks J describe hs raw k = raw k"
  "\<not> describe \<Longrightarrow> k \<noteq> str ''hooks'' \<Longrightarrow> with_hooks J describe hs raw k = raw k"
  "raw (str ''description'') = Some d \<Longrightarrow> with_hooks J describe hs raw (str ''description'') = Some d"
  by (simp_all add: with_hooks_def Let_def)

lemma with_hooks_twice: "with_hooks J describe hs (with_hooks J describe hs raw) = with_hooks J describe hs raw"
  by (auto simp: with_hooks_def Let_def)

lemma installed_hook: "isAgentGuardHookSubcommand (installedAgentguard @ str '' hook'')"
proof -
  have "TrimSpace (str ''/usr/local/bin/agentguard hook'') = str ''/usr/local/bin/agentguard hook''"
    by (simp add: TrimSpace_def trim_left.simps trim_right.simps space_encodings_def suffix_def append_eq_Cons_conv)
  then have "isAgentGuardHookSubcommand (str ''/usr/local/bin/agentguard hook'')"
    unfolding isAgentGuardHookSubcommand_def Let_def by (simp add: Contains_def suffix_def append_eq_Cons_conv)
  then show ?thesis by (simp add: installedAgentguard_def)
qed

text \<open>
  What is relied on of the codec, at the document that is written: it decodes to itself, the
  settings check finds its hooks in it, and the hooks decode to themselves.
\<close>

definition codec_keeps :: "'j json_docs \<Rightarrow> (bytes \<rightharpoonup> 'j) \<Rightarrow> hooks \<Rightarrow> bool" where
  "codec_keeps J raw hs \<longleftrightarrow>
     jd_decode_raw J (jd_encode_raw J raw @ [0x0a]) = Some (Some raw) \<and>
     jd_decode_wrap J (jd_encode_raw J raw @ [0x0a]) = Option.bind (raw (str ''hooks'')) (jd_decode_hooks J) \<and>
     jd_decode_hooks J (jd_encode_hooks J hs) = Some hs"

lemma merge_settings_again:
  assumes run: "merge_settings H J evs describe path cmd fs = Inr fs'"
    and doc: "read_document H J fs path = Inr (Some raw)" "document_hooks J path raw = Inr hs"
    and codec: "codec_keeps J (with_hooks J describe (merge_hooks evs cmd hs) raw) (merge_hooks evs cmd hs)"
    and evs: "distinct evs" "isAgentGuardHookCmd cmd" and readable: "\<not> hf_unreadable H path"
  shows "merge_settings H J evs describe path cmd fs' = Inr fs'"
proof -
  let ?hs = "merge_hooks evs cmd hs"
  let ?raw = "with_hooks J describe ?hs raw"
  note fs' = merge_settings_writes [OF run doc]
  have read: "read_document H J fs' path = Inr (Some ?raw)"
    using codec readable by (simp add: fs' read_document_def ReadFile_def codec_keeps_def)
  have hooks: "document_hooks J path ?raw = Inr ?hs"
    using codec by (simp add: document_hooks_def with_hooks_at codec_keeps_def del: str_simps)
  have "hf_mkdir_ok H (Dir path)" "hf_write_ok H path"
    using run doc by (auto simp: merge_settings_def split: if_splits)
  then show ?thesis
    using read hooks by (simp add: merge_settings_def merge_hooks_twice [OF evs] with_hooks_twice) (simp add: fs')
qed

definition agent_settings :: "bytes \<Rightarrow> (bytes \<times> bool \<times> bytes \<times> bytes list) list" where
  "agent_settings home =
     [(str ''--claude'', False, claude_settings home, claudeHookEvents),
      (str ''--codex'', True, codex_settings home, codexHookEvents)]"

lemma cmdInit_one_agent:
  assumes "cmdInit I [flag] fs = (Inr (), fs')" "(flag, describe, path, evs) \<in> set (agent_settings home)"
    and "ie_installed I" "initTargetHome (ie_os I) = Inr home" "Getwd (ie_os I) = Some cwd"
  shows "merge_settings (ie_fs I) (ie_docs I) evs describe path (installedAgentguard @ str '' hook'')
      (snd (createStarterPolicy (ie_starter I) (ie_template I) cwd fs)) = Inr fs'"
proof -
  have differ: "str ''--codex'' \<noteq> str ''--claude''" by simp
  have "parseInitFlags [flag] = Inr (\<not> describe, describe)"
    using assms(2) differ by (auto simp: agent_settings_def simp del: str_simps)
  with assms show ?thesis
    by (auto simp: cmdInit_def agent_settings_def hookCommand_def mergeClaudeHooks_def mergeCodexHooks_def
        simp del: str_simps parseInitFlags.simps split: prod.splits sum.splits)
qed

text \<open>An entry for the old trampoline under a matcher for particular tools, which the merge leaves alone.\<close>

definition old_entry_left :: "bytes list \<Rightarrow> hooks \<Rightarrow> bool" where
  "old_entry_left evs hs =
     list_ex (\<lambda>ev. list_ex (\<lambda>m. hm_Matcher m \<notin> {STAR, []} \<and>
       list_ex (\<lambda>h. Contains (TrimSpace (he_Command h)) (str ''agentguard-hook'')) (hm_Hooks m)) (event_hooks hs ev)) evs"

lemma check_after_merge:
  assumes "distinct evs" "evs \<noteq> []" "isAgentGuardHookSubcommand cmd"
  shows "if old_entry_left evs hs then doctorCheckHookSettings (merge_hooks evs cmd hs) evs = Old_hook
    else \<exists>c. doctorCheckHookSettings (merge_hooks evs cmd hs) evs = Check_ok c \<and> isAgentGuardHookSubcommand c"
proof (cases "old_entry_left evs hs")
  case True
  then obtain ev m h where "ev \<in> set evs" "m \<in> set (event_hooks hs ev)" "hm_Matcher m \<notin> {STAR, []}"
    "h \<in> set (hm_Hooks m)" "Contains (TrimSpace (he_Command h)) (str ''agentguard-hook'')"
    unfolding old_entry_left_def list_ex_iff by blast
  from old_hook_survives [OF assms(1) this] True show ?thesis by simp
next
  case False
  then have "\<forall>ev \<in> set evs. \<forall>m \<in> set (event_hooks hs ev). hm_Matcher m \<notin> {STAR, []} \<longrightarrow>
      (\<forall>h \<in> set (hm_Hooks m). \<not> Contains (TrimSpace (he_Command h)) (str ''agentguard-hook''))"
    unfolding old_entry_left_def list_ex_iff by blast
  from merge_passes_check [OF assms this] False show ?thesis by auto
qed

text \<open>
  C21 (functional): \<open>init\<close> against \<open>doctor\<close>. When \<open>init --claude\<close> or \<open>init --codex\<close> succeeds with the binary
  installed, \<open>doctor\<close> can read the settings file it wrote. The check passes, with the agentguard hook on
  every required event, exactly when the user's file had no entry for the old \<open>agentguard-hook\<close>
  trampoline under a matcher for particular tools on one of these events; with such an entry \<open>doctor\<close>
  reports the old hook. Every top-level key other than \<open>hooks\<close> and \<open>description\<close> keeps its value (under
  \<open>hooks\<close> only matchers, types and commands survive, as \<open>hooks\<close> has no other fields), no other file
  changes after the policy was created, and installing again leaves all files byte for byte as they are.
\<close>

theorem init_then_doctor:
  assumes "cmdInit I [flag] fs = (Inr (), fs')" "(flag, describe, path, evs) \<in> set (agent_settings home)"
    and "ie_installed I" "initTargetHome (ie_os I) = Inr home" "Getwd (ie_os I) = Some cwd"
    and "fs1 = snd (createStarterPolicy (ie_starter I) (ie_template I) cwd fs)" "\<not> hf_unreadable (ie_fs I) path"
    and "read_document (ie_fs I) (ie_docs I) fs1 path = Inr (Some raw)" "document_hooks (ie_docs I) path raw = Inr hs"
    and "hookCmd = installedAgentguard @ str '' hook''"
    and "raw' = with_hooks (ie_docs I) describe (merge_hooks evs hookCmd hs) raw"
    and "codec_keeps (ie_docs I) raw' (merge_hooks evs hookCmd hs)"
  shows "(if old_entry_left evs hs
      then check_settings (ie_fs I) (ie_docs I) fs' path evs = Settings_checked Old_hook
      else \<exists>c. check_settings (ie_fs I) (ie_docs I) fs' path evs = Settings_checked (Check_ok c) \<and>
        isAgentGuardHookSubcommand c) \<and>
    (\<forall>k. k \<notin> {str ''hooks'', str ''description''} \<longrightarrow> raw' k = raw k) \<and>
    (\<forall>p. p \<noteq> path \<longrightarrow> fs' p = fs1 p) \<and>
    merge_settings (ie_fs I) (ie_docs I) evs describe path hookCmd fs' = Inr fs'"
proof (intro conjI)
  have evs: "distinct evs" "evs \<noteq> []"
    using assms(2) by (auto simp: agent_settings_def claudeHookEvents_def codexHookEvents_def)
  have cmd: "isAgentGuardHookSubcommand hookCmd" using installed_hook by (simp add: assms(10) del: str_simps)
  have run: "merge_settings (ie_fs I) (ie_docs I) evs describe path hookCmd fs1 = Inr fs'"
    using cmdInit_one_agent [OF assms(1-5)] unfolding assms(6,10) .
  note written = merge_settings_writes [OF run assms(8,9), folded assms(11)]
  have "check_settings (ie_fs I) (ie_docs I) fs' path evs =
      Settings_checked (doctorCheckHookSettings (merge_hooks evs hookCmd hs) evs)"
    using assms(7,12)
    by (simp add: check_settings_def ReadFile_def written codec_keeps_def assms(11) with_hooks_at(1) del: str_simps)
  then show "if old_entry_left evs hs
      then check_settings (ie_fs I) (ie_docs I) fs' path evs = Settings_checked Old_hook
      else \<exists>c. check_settings (ie_fs I) (ie_docs I) fs' path evs = Settings_checked (Check_ok c) \<and>
        isAgentGuardHookSubcommand c"
    using check_after_merge [OF evs cmd, of hs] by (auto split: if_splits)
  show "\<forall>k. k \<notin> {str ''hooks'', str ''description''} \<longrightarrow> raw' k = raw k"
    unfolding assms(11) by (intro allI impI with_hooks_at(2))
  show "\<forall>p. p \<noteq> path \<longrightarrow> fs' p = fs1 p" by (simp add: written)
  show "merge_settings (ie_fs I) (ie_docs I) evs describe path hookCmd fs' = Inr fs'"
    using merge_settings_again [OF run assms(8,9) assms(12) [unfolded assms(11)] evs(1) subcommand_is_hook [OF cmd] assms(7)] .
qed

theorem init_then_doctor_witness:
  "let hs = merge_hooks claudeHookEvents (installedAgentguard @ str '' hook'') Map.empty;
       J = \<lparr>jd_decode_raw = \<lambda>_. Some (Some [str ''hooks'' \<mapsto> hs]), jd_encode_raw = \<lambda>_. str ''{}'',
            jd_decode_hooks = Some, jd_encode_hooks = \<lambda>h. h, jd_decode_wrap = \<lambda>_. Some hs,
            jd_description = Map.empty\<rparr>;
       E = \<lparr>Getwd = Some (str ''/w''), EvalSymlinks = \<lambda>_. None, UserHomeDir = Some (str ''/home/u''),
            Geteuid_root = False, Getenv = \<lambda>_. [], users = \<lparr>user_Lookup = \<lambda>_. None, user_LookupId = \<lambda>_. None\<rparr>\<rparr>;
       H = \<lparr>hf_unreadable = \<lambda>_. False, hf_mkdir_ok = \<lambda>_. True, hf_write_ok = \<lambda>_. True\<rparr>;
       I = \<lparr>ie_os = E, ie_fs = H, ie_docs = J,
            ie_starter = \<lparr>se_mkdir_ok = True, se_other_entry = \<lambda>_. False, se_open_ok = True,
              se_short_write = None, se_close_ok = True\<rparr>,
            ie_template = [], ie_installed = True, ie_self = None\<rparr> in
   \<exists>fs' c. cmdInit I [str ''--claude''] (\<lambda>_. Some []) = (Inr (), fs') \<and>
     check_settings H J fs' (claude_settings (str ''/home/u'')) claudeHookEvents = Settings_checked (Check_ok c)"
proof -
  let ?hs = "merge_hooks claudeHookEvents (installedAgentguard @ str '' hook'') Map.empty"
  let ?J = "\<lparr>jd_decode_raw = \<lambda>_. Some (Some [str ''hooks'' \<mapsto> ?hs]), jd_encode_raw = \<lambda>_. str ''{}'',
            jd_decode_hooks = Some, jd_encode_hooks = \<lambda>h. h, jd_decode_wrap = \<lambda>_. Some ?hs,
            jd_description = Map.empty\<rparr>"
  let ?E = "\<lparr>Getwd = Some (str ''/w''), EvalSymlinks = \<lambda>_. None, UserHomeDir = Some (str ''/home/u''),
            Geteuid_root = False, Getenv = \<lambda>_. [], users = \<lparr>user_Lookup = \<lambda>_. None, user_LookupId = \<lambda>_. None\<rparr>\<rparr>"
  let ?H = "\<lparr>hf_unreadable = \<lambda>_. False, hf_mkdir_ok = \<lambda>_. True, hf_write_ok = \<lambda>_. True\<rparr>"
  let ?S = "\<lparr>se_mkdir_ok = True, se_other_entry = \<lambda>_. False, se_open_ok = True,
              se_short_write = None, se_close_ok = True\<rparr>"
  let ?I = "\<lparr>ie_os = ?E, ie_fs = ?H, ie_docs = ?J, ie_starter = ?S,
            ie_template = [], ie_installed = True, ie_self = None\<rparr>"
  let ?home = "str ''/home/u''"
  have empty: "createStarterPolicy ?S [] (str ''/w'') (\<lambda>_. Some []) =
      (Inr (Join2 (Join2 (str ''/w'') (str ''policies'')) (str ''default.yaml'')), \<lambda>_. Some [])"
    by (simp add: createStarterPolicy_def Let_def del: str_simps)
  have doc: "read_document ?H ?J (\<lambda>_. Some []) p = Inr (Some Map.empty)"
    "document_hooks ?J p Map.empty = Inr Map.empty" for p
    by (simp_all add: read_document_def ReadFile_def document_hooks_def del: str_simps)
  have flag: "parseInitFlags [str ''--claude''] = Inr (True, False)" by simp
  have home: "initTargetHome ?E = Inr ?home" by (simp add: initTargetHome_def)
  obtain fs' where run: "cmdInit ?I [str ''--claude''] (\<lambda>_. Some []) = (Inr (), fs')"
    using flag home empty
    by (simp add: cmdInit_def hookCommand_def mergeClaudeHooks_def merge_settings_def doc
        del: str_simps parseInitFlags.simps)
  have raw: "with_hooks ?J False ?hs Map.empty = [str ''hooks'' \<mapsto> ?hs]"
    by (simp add: with_hooks_def Let_def del: str_simps)
  have codec: "codec_keeps ?J [str ''hooks'' \<mapsto> ?hs] ?hs" by (simp add: codec_keeps_def del: str_simps)
  have "\<exists>c. check_settings ?H ?J fs' (claude_settings ?home) claudeHookEvents = Settings_checked (Check_ok c)"
    using init_then_doctor [OF run, of False "claude_settings ?home" claudeHookEvents ?home "str ''/w''"
        "\<lambda>_. Some []" Map.empty Map.empty "installedAgentguard @ str '' hook''" "[str ''hooks'' \<mapsto> ?hs]"]
      home empty doc raw codec
    by (auto simp: agent_settings_def event_hooks_def old_entry_left_def list_ex_iff simp del: str_simps)
  with run show ?thesis unfolding Let_def by blast
qed

text \<open>
  A settings file that holds the JSON text \<open>null\<close> makes \<open>init\<close> panic instead of reporting an error
  or starting from an empty document, and the file stays as it was.
\<close>

lemma null_settings_panic:
  assumes "hf_mkdir_ok H (Dir path)" "\<not> hf_unreadable H path"
    and "fs path = Some b" "b \<noteq> []" "jd_decode_raw J b = Some None"
  shows "merge_settings H J evs describe path cmd fs = Inl (Settings_null path)"
  using assms by (simp add: merge_settings_def read_document_def ReadFile_def or_fail_def)

section \<open>What the diagnosis promises\<close>

lemma securityfs_fails_iff: "doctorReportSecurityfs True S = L_FAIL \<longleftrightarrow> lsm_gate S \<noteq> None"
  by (auto simp: doctorReportSecurityfs_def lsm_gate_def ensureSecurityfs_def Let_def split: option.splits if_splits)

lemma and_then_Inl_iff: "and_then m f = Inl e \<longleftrightarrow> m = Inl e \<or> (\<exists>x. m = Inr x \<and> f x = Inl e)"
  by (auto simp: and_then_def split: sum.splits)

lemma map_sum_Inl: "map_sum f g r = Inl e \<longleftrightarrow> (\<exists>x. r = Inl x \<and> e = f x)"
  by (cases r) auto

lemma settings_level_fails_iff:
  "settings_level c = L_FAIL \<longleftrightarrow> c \<noteq> Settings_missing \<and> (\<forall>k. c \<noteq> Settings_checked (Check_ok k))"
  by (auto simp: settings_level_def split: settings_check.splits hookCheckResult.splits)

text \<open>Which errors of a start depend on the LSM list and on the identity.\<close>

lemma step_errors:
  "read_policy R = Inl e \<Longrightarrow> e \<noteq> No_bpf_lsm l \<and> e \<noteq> Identity_failed x"
  "start_proxy R p = Inl e \<Longrightarrow> e \<noteq> No_bpf_lsm l \<and> e \<noteq> Identity_failed x"
  "attach_all R = Inl e \<Longrightarrow> e \<noteq> No_bpf_lsm l \<and> e \<noteq> Identity_failed x"
  "require b e' = Inl e \<Longrightarrow> e = e'" "or_fail e' o1 = Inl e \<Longrightarrow> e = e'"
  "choose_mode R px args = Inl e \<Longrightarrow> e \<noteq> No_bpf_lsm l \<and> (e = Identity_failed x \<longrightarrow>
     sudoLaunchIdentity (users (re_os R)) (Geteuid_root (re_os R)) (Getenv (re_os R)) = Inl x)"
  by (auto simp: read_policy_def start_proxy_def attach_all_def choose_mode_def or_fail_def require_def map_sum_Inl
      and_then_Inl_iff case_prod_beta simp del: str_simps
      split: sum.splits option.splits enforcer_mode.splits if_splits)

lemma start_errors:
  assumes "runEnforcer R args = Inl e"
  shows "e = No_bpf_lsm l \<Longrightarrow> lsm_gate (re_securityfs R) = Some l"
    and "e = Identity_failed x \<Longrightarrow> sudoLaunchIdentity (users (re_os R)) (Geteuid_root (re_os R)) (Getenv (re_os R)) = Inl x"
  using assms
  by (auto simp: runEnforcer_def and_then_Inl_iff map_sum_Inl Let_def case_prod_beta
      dest!: step_errors split: option.splits)

text \<open>
  C22 (safety): a host that passes \<open>doctor\<close> as root on Linux passes the checks of a start that depend
  on the host: \<open>agentguard run\<close> does not end for a missing BPF LSM nor for an unknown launch identity.
  The agent runs as a known user, and the settings checked were those of that user's home: each of
  the two files is absent or has the agentguard hook on every event.
\<close>

theorem doctor_ok_starts:
  assumes "cmdDoctor D [] fs = Inr True" "dc_linux D" "Geteuid_root (dc_os D)"
    and "re_os R = dc_os D" "re_securityfs R = dc_securityfs D"
  shows "\<exists>i. sudoLaunchIdentity (users (dc_os D)) True (Getenv (dc_os D)) = Inr (Some i) \<and>
    (\<forall>args e. runEnforcer R args = Inl e \<longrightarrow> (\<forall>l. e \<noteq> No_bpf_lsm l) \<and> (\<forall>x. e \<noteq> Identity_failed x)) \<and>
    (\<forall>(flag, describe, path, evs) \<in> set (agent_settings (li_Home i)).
       check_settings (dc_fs D) (dc_docs D) fs path evs = Settings_missing \<or>
       (\<exists>c. check_settings (dc_fs D) (dc_docs D) fs path evs = Settings_checked (Check_ok c)))"
proof -
  have ok: "L_FAIL \<notin> set (doctor_checks D fs)" using assms(1) by (simp add: cmdDoctor_def)
  have "L_FAIL \<notin> set (fst (doctor_home D))"
    using ok unfolding doctor_checks_def Let_def by (simp del: str_simps)
  then obtain i where i: "sudoLaunchIdentity (users (dc_os D)) True (Getenv (dc_os D)) = Inr (Some i)"
    "snd (doctor_home D) = Some (li_Home i)"
    using assms(3) by (auto simp: doctor_home_def Let_def split: sum.splits option.splits)
  have "doctorReportSecurityfs True (dc_securityfs D) \<noteq> L_FAIL"
    using ok assms(2,3) unfolding doctor_checks_def Let_def by (auto simp del: str_simps)
  then have gate: "lsm_gate (re_securityfs R) = None" by (simp add: securityfs_fails_iff assms(5))
  have settings: "settings_level (check_settings (dc_fs D) (dc_docs D) fs (claude_settings (li_Home i)) claudeHookEvents) \<noteq> L_FAIL"
    "settings_level (check_settings (dc_fs D) (dc_docs D) fs (codex_settings (li_Home i)) codexHookEvents) \<noteq> L_FAIL"
    using ok i(2) unfolding doctor_checks_def Let_def by (auto simp del: str_simps)
  show ?thesis
  proof (intro exI [of _ i] conjI allI impI)
    fix args e assume e: "runEnforcer R args = Inl e"
    show "e \<noteq> No_bpf_lsm l" for l using start_errors(1) [OF e] gate by fastforce
    show "e \<noteq> Identity_failed x" for x using start_errors(2) [OF e] i(1) assms(3,4) by fastforce
  qed (use i(1) settings in \<open>auto simp: agent_settings_def settings_level_fails_iff simp del: str_simps\<close>)
qed

definition sample_root :: os_env where
  "sample_root =
     \<lparr>Getwd = Some (str ''/w''), EvalSymlinks = \<lambda>_. None, UserHomeDir = None, Geteuid_root = True,
      Getenv = (\<lambda>v. if v = str ''SUDO_USER'' then str ''u''
                   else if v \<in> {str ''SUDO_UID'', str ''SUDO_GID''} then str ''7'' else []),
      users = \<lparr>user_Lookup = \<lambda>_. None, user_LookupId = \<lambda>_. None\<rparr>\<rparr>"

definition sample_diagnosis :: "unit doctor_env" where
  "sample_diagnosis =
     \<lparr>dc_os = sample_root, dc_linux = True, dc_policy_flag = str ''/p'',
      dc_fs = \<lparr>hf_unreadable = \<lambda>_. True, hf_mkdir_ok = \<lambda>_. True, hf_write_ok = \<lambda>_. True\<rparr>,
      dc_docs = \<lparr>jd_decode_raw = \<lambda>_. None, jd_encode_raw = \<lambda>_. [], jd_decode_hooks = \<lambda>_. None,
        jd_encode_hooks = \<lambda>_. (), jd_decode_wrap = \<lambda>_. None, jd_description = ()\<rparr>,
      dc_state_dir = Stat_missing, dc_btf = True,
      dc_securityfs = \<lparr>sf_readable = True, sf_mkdir_ok = True, sf_mount = Mounted, sf_readable_after = True,
        sf_contents = Some (str ''lockdown,bpf'')\<rparr>,
      dc_cmdline = None, dc_docker = None, dc_installed = True, dc_self = None\<rparr>"

lemma sample_root_identity:
  "\<exists>i. sudoLaunchIdentity (users sample_root) (Geteuid_root sample_root) (Getenv sample_root) = Inr (Some i)"
proof -
  have "TrimSpace (str ''u'') = str ''u''"
    by (simp add: TrimSpace_def trim_left.simps trim_right.simps space_encodings_def suffix_def append_eq_Cons_conv)
  moreover have "ParseUint32 (str ''7'') = Some 7" by (simp add: ParseUint32_def decimal_def is_digit_def digit_val_def)
  ultimately show ?thesis by (simp add: sudoLaunchIdentity_def sample_root_def Let_def)
qed

lemma sample_diagnosis_ok: "cmdDoctor sample_diagnosis [] (\<lambda>_. Some []) = Inr True"
proof -
  have trim: "TrimSpace (str ''lockdown,bpf'') = str ''lockdown,bpf''" "TrimSpace (str ''lockdown'') = str ''lockdown''"
      "TrimSpace (str ''bpf'') = str ''bpf''"
    by (simp_all add: TrimSpace_def trim_left.simps trim_right.simps space_encodings_def suffix_def append_eq_Cons_conv)
  have "split_on 0x2c (str ''lockdown,bpf'') = [str ''lockdown'', str ''bpf'']" by simp
  then have lsm: "doctorReportSecurityfs True (dc_securityfs sample_diagnosis) = L_OK"
    using trim by (simp add: doctorReportSecurityfs_def sample_diagnosis_def lsmListHasBPF_def del: str_simps)
  obtain i where id: "sudoLaunchIdentity (users sample_root) (Geteuid_root sample_root) (Getenv sample_root) = Inr (Some i)"
    using sample_root_identity by blast
  have root: "Geteuid_root sample_root" by (simp add: sample_root_def)
  have d: "dc_os sample_diagnosis = sample_root" "dc_linux sample_diagnosis" "dc_policy_flag sample_diagnosis = str ''/p''"
    "dc_state_dir sample_diagnosis = Stat_missing" "dc_btf sample_diagnosis" "dc_cmdline sample_diagnosis = None"
    "dc_docker sample_diagnosis = None" "dc_installed sample_diagnosis" "dc_self sample_diagnosis = None"
    by (simp_all add: sample_diagnosis_def)
  have home: "fst (doctor_home sample_diagnosis) = [L_OK]" "snd (doctor_home sample_diagnosis) = Some (li_Home i)"
    using id root by (simp_all add: doctor_home_def d)
  have settings: "check_settings (dc_fs sample_diagnosis) (dc_docs sample_diagnosis) fs p evs = Settings_missing" for fs p evs
    by (simp add: check_settings_def ReadFile_def sample_diagnosis_def)
  have policy: "findPolicyPath (\<lambda>p. True) (Getwd sample_root) (Getenv sample_root v) (str ''/p'') =
      Inr (Some (Abs_path (the (Getwd sample_root)) (str ''/p'')))" for v
    by (simp add: findPolicyPath_def IsAbs_def)
  show ?thesis
    using root id
    by (simp add: cmdDoctor_def doctor_checks_def home d lsm settings policy settings_level_def state_dir_level_def
        docker_levels_def binary_levels_def del: str_simps)
qed

theorem doctor_ok_starts_witness:
  "\<forall>args l. runEnforcer (sample_run\<lparr>re_os := sample_root, re_securityfs := dc_securityfs sample_diagnosis\<rparr>) args
     \<noteq> Inl (No_bpf_lsm l)"
  using doctor_ok_starts [OF sample_diagnosis_ok,
      of "sample_run\<lparr>re_os := sample_root, re_securityfs := dc_securityfs sample_diagnosis\<rparr>"]
  by (auto simp: sample_diagnosis_def sample_root_def simp del: str_simps)

end
