(* ===== verification/Spec2Isabelle.thy ===== *)
theory Spec2Isabelle
  imports Api Kernel_Access Default_Policy Host_Setup
begin

text \<open>
  AgentGuard confines a coding agent from inside the kernel. Its parts work on shared BPF maps and on files.
  \<open>monitor.bpf.c\<close> follows the agent's process tree: its fork and exit programs keep \<open>tracked_pids\<close>, its
  system-call programs report events. \<open>enforcer.bpf.c\<close> attaches to LSM hooks and, for tasks on that list,
  denies file, directory, exec and socket operations by tables of rules, reporting each denial. The Go
  daemon turns a policy file into those tables (\<open>policy.go\<close>, \<open>main.go\<close>, \<open>workspace.go\<close>), launches the agent
  stopped, puts it on the list and lets it run (\<open>launch.go\<close>), decodes the reports, writes feedback for the
  session and a row of the audit table for each (\<open>main.go\<close>, \<open>db.go\<close>), serves the table over HTTP (\<open>api.go\<close>)
  and runs the egress proxy, the only internet destination the socket hooks leave open (\<open>proxy.go\<close>). The
  hook process that the agent calls after each tool prints the feedback (\<open>hook.go\<close>). \<open>vmlinux.h\<close> declares
  the kernel types both programs are compiled against.

  The kernel side, in dependency order.

  \<^item> \<open>Prelude\<close>: machine words, byte buffers, C strings, the bounded loop \<open>for_u32\<close> with its closed forms,
    sequencing of fallible steps.
  \<^item> \<open>Bpf_Runtime\<close>: BPF maps (interface \<open>bpf_hash\<close>, interpreted on the association-list model), byte order,
    string-copy helpers, \<open>%pi4:%d\<close> formatting, and the record \<open>kernel\<close> of what the running kernel supplies.
    The kernel is an argument of every program; \<open>d_path_resolves\<close> and \<open>kernel_wf\<close> name what is relied on.
  \<^item> \<open>Path_Match\<close>: the matchers; interface \<open>path_matcher\<close>. The masked loops decide relations of byte strings
    and never leave the buffers.
  \<^item> \<open>Enforcer_State\<close>: the structures, globals and maps of \<open>enforcer.bpf.c\<close> as the record \<open>enforcer\<close>; the
    table scans and \<open>deny_path\<close>; the invariant \<open>enforcer_wf\<close>; the scans as first-match searches.
  \<^item> \<open>Lsm_Contract\<close>: the contract \<open>lsm_hook\<close> (verdicts, no effect on untracked tasks, no write to policy,
    reports, well-formedness) and a concrete machine for evaluated instances.
  \<^item> \<open>Enforcer_Files\<close>, \<open>Enforcer_Net\<close>: every LSM program, one definition each, interpreted in the contract
    (\<open>net_hook\<close> is a sublocale); what each decides on every branch.
  \<^item> \<open>Enforcer\<close>: the twelve attached programs as one dispatch, and runs of it.
  \<^item> \<open>Monitor\<close>: the five programs of \<open>monitor.bpf.c\<close>, PID translation, the events and their command line.
  \<^item> \<open>Tracking\<close>: the life of the process tree as the step relation \<open>proc_step\<close> over the tracepoints; the list is
    exact on orderly runs; how a process leaves it too early.
  \<^item> \<open>C_Layout\<close>: sizes, alignments and offsets of C types as the compiler of the programs computes them, with the
    proof that members are disjoint, aligned and inside.
  \<^item> \<open>Kernel_Base\<close>, \<open>Kernel_Task\<close>, \<open>Kernel_Perf\<close>, \<open>Kernel_Fs\<close>, \<open>Kernel_Net\<close>, \<open>Kernel_Trace\<close>: the types of \<open>vmlinux.h\<close>
    the programs reach, with their evaluated sizes.
  \<^item> \<open>Kernel_Access\<close>: \<open>BPF_CORE_READ\<close> on partial memory, what it means that memory holds a PID object or a task,
    and what PID translation computes there; member paths of the read types stay inside them.

  The daemon and its companions.

  \<^item> \<open>Go_Strings\<close>, \<open>Go_Net\<close>, \<open>Go_Path\<close>: what the Go code uses of the packages \<open>strings\<close>, \<open>strconv\<close>, \<open>net\<close>,
    \<open>encoding/base64\<close> and \<open>path/filepath\<close>, with round trips and normal forms. Letter case outside ASCII is
    an argument (\<open>unicode_tables\<close>).
  \<^item> \<open>Loader\<close>: the functions that fill the rule and workspace maps: when they succeed and what the tables mean.
  \<^item> \<open>Identity\<close>, \<open>Launch\<close>: the identity and environment of the agent; the child is tracked before it runs.
  \<^item> \<open>Policy_File\<close>: \<open>loadAllPolicies\<close> and the resolution of workspace paths: numbering, rules and registry
    agree, the order of the map is irrelevant, a resolved workspace fits the tables.
  \<^item> \<open>Startup\<close>: the search for the policy file, which ends, and the configuration of the enforcer.
  \<^item> \<open>Wire\<close>: the packed records, their bytes at the C offsets and the Go program's decoding.
  \<^item> \<open>Session\<close>: session ids, pending violations and the hook process: feedback is delivered once; which ids
    stay in the store and how others leave it.
  \<^item> \<open>Audit_Log\<close>, \<open>Api\<close>: feedback texts, the audit table, its queries and the HTTP handlers.
  \<^item> \<open>Daemon\<close>: one iteration of the violation loop and of the event loop; the process tree.
  \<^item> \<open>Client_Hello\<close>, \<open>Proxy_Policy\<close>, \<open>Proxy\<close>: the TLS server-name parser (safe on every input), the allowlist and
    the blocked networks, the accept loop and the connection handler; what a spliced connection has passed.
  \<^item> \<open>Commands\<close>: the command line, the merge of the hook into decoded settings and its check.
  \<^item> \<open>Policy_Effect\<close>: from the policy file to the verdict, and from the verdict to the text the agent reads.
  \<^item> \<open>Run_Enforcer\<close>: \<open>runEnforcer\<close> from its first line to the running agent: LSM list, policy, proxy with its token,
    both objects on the shared map, mode, attachments in order, launch.
  \<^item> \<open>Default_Policy\<close>: the policy in \<open>policies/default.yaml.example\<close> as data, what it refuses, when it loads and
    what it leaves open.
  \<^item> \<open>Host_Setup\<close>: the stored key, the container, \<open>init\<close> and \<open>doctor\<close> on files, and how they fit together.

  The specification. \<open>Guard\<close> states what AgentGuard promises without tables, buffers or maps: a machine that
  knows the promise of the policy (\<open>promise\<close>), the live threads, the agent's processes and a log, judges each
  request (\<open>judge\<close>) and logs each finding. The interface \<open>implements\<close> is forward simulation; its interpretation
  \<open>programs\<close> on the tracepoints and the twelve hooks together gives the refinement, and \<open>Run_Enforcer\<close> starts it
  from the command line. This theory holds properties of loading, tracking and the hooks together.

  Conventions. A hook is a function from the kernel's answers, its arguments and the state to the
  verdict (0 or \<open>-EPERM\<close>) and the new state; a tracepoint returns the new state. Null pointers and failed
  helpers are \<open>None\<close>; a Go error is \<open>Inl\<close>, and \<open>log.Fatal\<close> is an error value. The kernel loops have the bounds
  of the source (64, 256, 16, 25, 125, 3) and the Go loops run over their data, so the definitions terminate
  and no fuel is used; the one loop that might not end, the upward search of \<open>findPolicyWalkingUp\<close>, is a partial
  function and is shown to return. Per-CPU arrays are those of one CPU, so programs do not interleave on
  them; the ring buffer is the list of submitted records and has room or not as the kernel says. A failed
  load stops the Go program, so the maps after an error are not described. The daemon's goroutines are
  described one iteration at a time, without interleaving inside an iteration, and the connections of the proxy
  one after the other.

  What stands outside, as arguments: path resolution and helpers of the kernel; the working directory, users,
  environment and \<open>EvalSymlinks\<close> (\<open>os_env\<close>); which file operations succeed (\<open>fs_env\<close>, \<open>host_fs\<close>); the JSON and
  YAML codecs; random bytes and the listener's address; what the object loader answers (\<open>run_env\<close>); the
  resolver and the outcome of connections (\<open>net_env\<close>); the parsed HTTP request; the contents of \<open>/proc\<close>; the
  success of database statements; formatting verbs other than \<open>%s\<close>, \<open>%v\<close> and \<open>%%\<close>.

  Bounds of the results. File hooks are described for names of fewer than 255 bytes (a longer name is the
  case of a failed resolution, treated on its own) and the exec hook for every name that fits the buffer.
  Tracking is exact on runs without the steps \<open>Exit_leader_early\<close> and \<open>Spawn_full\<close>, which are shown to break
  it. Policy numbers are exact for fewer than 2^32 - 1 policies. The promise is kept
  when both network switches could be set, whose failure the daemon only logs. Host names are described up to
  ASCII case.
  The shipped policy's start is described for homes without symbolic links below them. Updates of array maps
  and the setting of \<open>enforce_workspace\<close> are taken to succeed; a failure there ends the daemon before the agent
  is started. Row ids count up because no row is ever deleted. \<open>init\<close> keeps the top-level keys of a settings
  file, while under \<open>hooks\<close> only matchers, types and commands survive; old trampolines under matchers for
  particular tools stay, and \<open>doctor\<close> then reports them.
  Layouts are those of the 64-bit little-endian BPF target; a member declaration that only names a structure
  (\<open>struct ns_tree;\<close> in \<open>ns_common\<close>) declares no member there.

  Not modelled: the decoding of YAML, JSON and HTTP text, which library packages do; the copying of
  bytes in a tunnel, which touches no state of the program; the ring buffer readers beyond
  the records they return; SQLite itself; the generated object loaders; printed and logged text; changes of file
  ownership; and the kernel types no program reaches. None of these has logic of its own here that
  the results rest on.
\<close>

section \<open>Policies from file to verdict\<close>

text \<open>
  Credential rules from the policy to the verdict: after \<open>applyPathPatterns\<close>
  has loaded a list of patterns, a tracked task's open of a name (inside the workspace, when
  confinement is on) is denied exactly when a pattern's normal form is a suffix of the name, with
  the policy number of the first such pattern.
\<close>

theorem credential_policy_enforced:
  assumes "enforcer_wf s0" "applyPathPatterns (blocked_path_patterns s0) ps = Inr t"
    and "s = s0\<lparr>blocked_path_patterns := t\<rparr>" "tracked_caller k s = Some pid"
    and "d_path_resolves (d_path k) 256 (f_path fobj) p" "length p < 255"
    and "enforce_workspace s = 0 \<or> in_workspace s p"
  shows "hook_outcome k pid (map_option (\<lambda>pol. (pol, p)) (first_path_policy ps p)) s (check_file_open k fobj s)"
proof -
  have "enforcer_wf s" using loaded_paths(1) [OF assms(1,2)] assms(3) by simp
  from file_open_outcome [OF this assms(4-6)] show ?thesis
    using loaded_paths(2) [OF assms(1,2)] assms(3,7) by (auto simp: file_open_denial_def)
qed

theorem credential_policy_enforced_witness:
  "\<exists>s. hook_outcome (string_kernel 42 42) 42 (Some (1, str_ws @ str_env)) s
     (check_file_open (string_kernel 42 42) \<lparr>f_path = str_ws @ str_env\<rparr> s)"
proof -
  let ?base = "sample\<lparr>enforce_workspace := 0\<rparr>" and ?t = "pattern_ent str_env 1 # replicate 15 empty_ent"
  let ?ps = "[\<lparr>Pattern = [0x2e, 0x65, 0x6e, 0x76], PolicyID = 1\<rparr>]"
  let ?s = "?base\<lparr>blocked_path_patterns := ?t\<rparr>"
  have load: "applyPathPatterns (blocked_path_patterns ?base) ?ps = Inr ?t"
    by (rule sample_path_load) (simp add: sample_def)
  have caller: "tracked_caller (string_kernel 42 42) ?s = Some 42"
    by (simp add: tracked_caller_def current_nspids_def sample_def hash_lookup_def)
  have "first_path_policy ?ps (str_ws @ str_env) = Some 1"
    by (simp add: first_path_policy_def normalize_env suffix_def)
  then have "hook_outcome (string_kernel 42 42) 42 (Some (1, str_ws @ str_env)) ?s
     (check_file_open (string_kernel 42 42) \<lparr>f_path = str_ws @ str_env\<rparr> ?s)"
    using credential_policy_enforced [OF sample_unconfined(1) load refl caller,
        of "\<lparr>f_path = str_ws @ str_env\<rparr>" "str_ws @ str_env"]
    by (simp add: string_d_path_resolves)
  then show ?thesis by blast
qed

text \<open>
  Command rules from the policy to the verdict: after \<open>applyCommandPatterns\<close>, with
  policy numbers other than 0, a tracked task's exec is denied exactly when the basename of the
  resolved executable, or else of the name passed to \<open>execve\<close>, is the basename of a pattern, with the
  number of the first such pattern.
\<close>

theorem command_policy_enforced:
  assumes "enforcer_wf s0" "applyCommandPatterns (blocked_command_patterns s0) ps = Inr t"
    and "\<forall>q \<in> set ps. PolicyID q \<noteq> 0"
    and "s = s0\<lparr>blocked_command_patterns := t\<rparr>" "tracked_caller k s = Some pid"
    and "d_path_resolves (d_path k) 256 (f_path (bprm_file bprm)) p"
    and "0 \<notin> set name" "filename bprm = name @ 0 # rest"
  shows "hook_outcome k pid
     (case first_command_policy ps p of
        Some pol \<Rightarrow> Some (pol, p)
      | None \<Rightarrow> map_option (\<lambda>pol. (pol, take 255 name)) (first_command_policy ps (take 255 name)))
     s (check_exec k bprm s)"
proof -
  have wf: "enforcer_wf s" using loaded_commands(1) [OF assms(1,2)] assms(4) by simp
  have nz: "first_command_policy ps x = Some pol \<Longrightarrow> pol \<noteq> 0" for x pol
    using assms(3) by (auto simp: first_command_policy_def find_Some_iff)
  have rp: "rule_policy (command_rule s x) = (case first_command_policy ps x of None \<Rightarrow> 0 | Some pol \<Rightarrow> pol)" for x
    unfolding loaded_commands(2) [OF assms(1,2), of x, symmetric] assms(4)
    by (simp add: rule_policy_def option.case_eq_if option.map_sel)
  have "exec_denial s p name =
     (case first_command_policy ps p of
        Some pol \<Rightarrow> Some (pol, p)
      | None \<Rightarrow> map_option (\<lambda>pol. (pol, take 255 name)) (first_command_policy ps (take 255 name)))"
    using nz by (auto simp: exec_denial_def name_denial_def rp Let_def split: option.splits)
  with exec_outcome [OF wf assms(5-8)] show ?thesis by simp
qed

theorem command_policy_enforced_witness:
  "\<exists>s. hook_outcome (string_kernel 42 42) 42 (Some (2, str_tmp @ str_rm)) s
     (check_exec (string_kernel 42 42)
        \<lparr>bprm_file = \<lparr>f_path = str_tmp @ str_rm\<rparr>, filename = str_ws @ [0]\<rparr> s)"
proof -
  let ?t = "pattern_ent str_rm 2 # replicate 15 empty_ent"
  let ?ps = "[\<lparr>Pattern = [0x72, 0x6d], PolicyID = 2\<rparr>]"
  let ?b = "\<lparr>bprm_file = \<lparr>f_path = str_tmp @ str_rm\<rparr>, filename = str_ws @ [0]\<rparr>"
  let ?s = "sample\<lparr>blocked_command_patterns := ?t\<rparr>"
  have load: "applyCommandPatterns (blocked_command_patterns sample) ?ps = Inr ?t"
    by (rule sample_command_load) (simp add: sample_def)
  have caller: "tracked_caller (string_kernel 42 42) ?s = Some 42"
    by (simp add: tracked_caller_def current_nspids_def sample_def hash_lookup_def)
  have "first_command_policy ?ps (str_tmp @ str_rm) = Some 2"
    by (simp add: first_command_policy_def normalize_rm after_last_slash_def)
  then have "hook_outcome (string_kernel 42 42) 42 (Some (2, str_tmp @ str_rm)) ?s
     (check_exec (string_kernel 42 42) ?b ?s)"
    using command_policy_enforced [OF sample_wf load _ refl caller, of ?b "str_tmp @ str_rm" str_ws "[]"]
    by (simp add: string_d_path_resolves)
  then show ?thesis by blast
qed

text \<open>
  Confinement from the policy to the verdict: after \<open>applyWorkspacePolicy\<close> with a
  root and prefixes, a tracked task may remove a name in a directory exactly when the Go
  program's own test puts the directory under the root or one of the prefixes.
\<close>

theorem workspace_policy_enforced:
  assumes "enforcer_wf s0" "applyWorkspacePolicy s0 (Some w) = Inr s"
    and "tracked_caller k s = Some pid" "d_path_resolves (d_path k) 256 dir p" "length p < 255"
  shows "hook_outcome k pid
     (if pathStartsWith p (wp_Root w) \<or> (\<exists>a \<in> set (wp_AllowPrefixes w). pathStartsWith p a) then None
      else Some (wp_PolicyID w, p)) s (check_path_unlink k dir dentry s)"
  using confine_outcome [OF loaded_workspace(4) [OF assms(1,2)] assms(3-5)]
    loaded_workspace [OF assms(1,2)]
  by (auto simp: confine_hooks confine_denial_def split: if_splits)

theorem workspace_policy_enforced_witness:
  "\<exists>s. hook_outcome (string_kernel 42 42) 42 (Some (3, str_env)) s
     (check_path_unlink (string_kernel 42 42) str_env True s)"
proof -
  let ?w = "\<lparr>wp_PolicyID = 3, wp_Feedback = [], wp_Root = str_ws, wp_AllowPrefixes = [str_tmp]\<rparr>"
  obtain s where s: "applyWorkspacePolicy sample (Some ?w) = Inr s"
    using applyWorkspacePolicy_ok [OF sample_wf, of ?w] by auto
  have caller: "tracked_caller (string_kernel 42 42) s = Some 42"
    using sample_caller [of 42] by (simp add: applyWorkspacePolicy_caller [OF s])
  show ?thesis
    using workspace_policy_enforced [OF sample_wf s caller, of str_env str_env True]
    by (intro exI [of _ s]) (simp add: string_d_path_resolves pathStartsWith_def)
qed

section \<open>The shared list of processes\<close>

lemma agent_caller:
  assumes "tids_ok (insert (root, root) others)"
    and "proc_run orderly (launched dev ino root evs others) w"
    and "shares_map s (mon w)" "(t, p) \<in> live w"
    and "ns_current_pid_tgid k (m_pidns_dev (mon w)) (m_pidns_ino (mon w)) = Some (t, p)"
  shows "tracked_caller k s = (if p \<in> agents w then Some p else None)"
proof -
  have "world_inv w" using proc_run_inv [OF assms(2) launched_inv [OF assms(1)]] .
  then have "mon_tracked (mon w) p \<longleftrightarrow> p \<in> agents w"
    using assms(4) by (auto simp: world_inv_def tracking_exact_def tids_ok_def)
  with shared_caller [OF assms(3,5)] show ?thesis by simp
qed

text \<open>
  Monitor and enforcer together: after any orderly run from the launch, every hook
  call by a live thread of the agent's process tree is judged, under its process id, and every
  hook call by any other live thread is allowed without effect.
\<close>

theorem agent_tree_is_policed:
  assumes "tids_ok (insert (root, root) others)"
    and "proc_run orderly (launched dev ino root evs others) w"
    and "shares_map s (mon w)" "(t, p) \<in> live w"
    and "ns_current_pid_tgid k (m_pidns_dev (mon w)) (m_pidns_ino (mon w)) = Some (t, p)"
  shows "(p \<in> agents w \<longrightarrow> tracked_caller k s = Some p) \<and>
    (p \<notin> agents w \<longrightarrow> lsm_dispatch k c s = (0, s))"
  using agent_caller [OF assms] by (simp add: lsm.untracked)

text \<open>The launched agent and its first child, for concrete runs.\<close>

definition launched_child :: world where
  "launched_child =
     \<lparr>mon = handle_fork (mon_kernel 42 42) sample_slot sample_child sample_child (mon (launched 3 9 42 [] {(1, 1)})),
      live = {(50, 50), (42, 42), (1, 1)}, agents = {50, 42}\<rparr>"

lemma launched_child_run:
  "proc_run orderly (launched 3 9 42 [] {(1, 1)}) launched_child" "tids_ok (insert (42, 42) {(1, 1)})"
proof -
  have "proc_step Spawn (launched 3 9 42 [] {(1, 1)}) launched_child"
    unfolding launched_child_def
    using proc_step.spawn [of 42 42 "launched 3 9 42 [] {(1, 1)}" "mon_kernel 42 42" sample_child 50 Spawn
        sample_slot sample_child]
    by (simp add: launched_def sample_child_def task_tgid_in_agent_ns_def pid_nr_in_agent_ns_def
        fresh_tid_def mon_full_def hash_update_def hash_lookup_def)
  then show "proc_run orderly (launched 3 9 42 [] {(1, 1)}) launched_child"
    by (rule proc_run.snoc [OF proc_run.none]) (simp add: orderly_def)
  show "tids_ok (insert (42, 42) {(1, 1)})" by (auto simp: tids_ok_def)
qed

definition agent_kernel :: "u32 \<Rightarrow> bytes kernel" where
  "agent_kernel pid = (string_kernel pid pid)\<lparr>ns_current_pid_tgid := (\<lambda>_ _. Some (pid, pid))\<rparr>"

lemma agent_kernel_simps [simp]:
  "ns_current_pid_tgid (agent_kernel pid) dev ino = Some (pid, pid)" "d_path (agent_kernel pid) = string_d_path"
  by (simp_all add: agent_kernel_def)

definition sample_shared :: "monitor \<Rightarrow> enforcer" where
  "sample_shared m = sample\<lparr>tracked_pids := m_tracked_pids m, pidns_dev := m_pidns_dev m, pidns_ino := m_pidns_ino m\<rparr>"

lemma sample_shared_simps: "shares_map (sample_shared m) m"
  by (simp add: shares_map_def sample_shared_def)

theorem agent_tree_is_policed_witness:
  "tracked_caller (agent_kernel 50) (sample_shared (mon launched_child)) = Some 50 \<and>
   lsm_dispatch (agent_kernel 1) (Path_unlink str_env True) (sample_shared (mon launched_child)) =
     (0, sample_shared (mon launched_child))"
  using agent_tree_is_policed [OF launched_child_run(2,1) sample_shared_simps, of 50 50 "agent_kernel 50"
      "Path_unlink str_env True"]
    agent_tree_is_policed [OF launched_child_run(2,1) sample_shared_simps, of 1 1 "agent_kernel 1"
      "Path_unlink str_env True"]
  by (simp add: launched_child_def del: lsm_dispatch.simps)

text \<open>
  C4 (safety): launch, tracking, loading and the file-open hook together: after any orderly run
  from the launch, no live thread of the agent's process tree can open a file whose name
  ends in the normal form of a loaded credential pattern.
\<close>

theorem agent_cannot_open_credentials:
  assumes "tids_ok (insert (root, root) others)"
    and "proc_run orderly (launched dev ino root evs others) w"
    and "enforcer_wf s0" "applyPathPatterns (blocked_path_patterns s0) ps = Inr tab"
    and "s = s0\<lparr>blocked_path_patterns := tab\<rparr>" "shares_map s (mon w)"
    and "(t, p) \<in> live w" "p \<in> agents w"
    and "ns_current_pid_tgid k (m_pidns_dev (mon w)) (m_pidns_ino (mon w)) = Some (t, p)"
    and "d_path_resolves (d_path k) 256 (f_path fobj) name" "length name < 255"
    and "q \<in> set ps" "normalizePathSuffix (Pattern q) = Inr suf" "suffix suf name"
  shows "fst (check_file_open k fobj s) = - EPERM"
proof -
  have caller: "tracked_caller k s = Some p"
    using agent_caller [OF assms(1,2,6,7,9)] assms(8) by simp
  have wf: "enforcer_wf s" using loaded_paths(1) [OF assms(3,4)] assms(5) by simp
  have "first_path_policy ps name \<noteq> None"
    using assms(12-14) by (auto simp: first_path_policy_def find_None_iff)
  then have "credential_rule s name \<noteq> None"
    using loaded_paths(2) [OF assms(3,4), of name] assms(5) by auto
  then have "file_open_denial s name \<noteq> None"
    by (auto simp: file_open_denial_def)
  with file_open_outcome [OF wf caller assms(10,11)] show ?thesis
    by (auto simp: hook_outcome_def split: if_splits)
qed

theorem agent_cannot_open_credentials_witness:
  "\<exists>s. fst (check_file_open (agent_kernel 50) \<lparr>f_path = str_ws @ str_env\<rparr> s) = - EPERM"
proof -
  let ?base = "sample_shared (mon launched_child)" and ?t = "pattern_ent str_env 1 # replicate 15 empty_ent"
  let ?q = "\<lparr>Pattern = [0x2e, 0x65, 0x6e, 0x76], PolicyID = 1\<rparr>"
  let ?s = "?base\<lparr>blocked_path_patterns := ?t\<rparr>"
  have load: "applyPathPatterns (blocked_path_patterns ?base) [?q] = Inr ?t"
    by (rule sample_path_load) (simp add: sample_shared_def sample_def)
  have "hash_wf 8192 (m_tracked_pids (mon launched_child))"
    by (simp add: launched_child_def launched_def track_simps hash_update_def hash_lookup_def hash_wf_def
        mon_current_nspids_def mon_tracked_def split: option.splits)
  then have wf: "enforcer_wf ?base" using sample_wf by (simp add: sample_shared_def enforcer_wf_def)
  have sh: "shares_map ?s (mon launched_child)" by (simp add: shares_map_def sample_shared_def)
  have mem: "(50, 50) \<in> live launched_child" "50 \<in> agents launched_child" by (simp_all add: launched_child_def)
  have "fst (check_file_open (agent_kernel 50) \<lparr>f_path = str_ws @ str_env\<rparr> ?s) = - EPERM"
    using agent_cannot_open_credentials [OF launched_child_run(2,1) wf load refl sh mem, of "agent_kernel 50"
        "\<lparr>f_path = str_ws @ str_env\<rparr>" "str_ws @ str_env" ?q str_env]
    by (simp add: string_d_path_resolves normalize_env suffix_def)
  then show ?thesis by blast
qed

end
